(* ===== verification/Prelude.thy ===== *)
theory Prelude
  imports Main "HOL-Library.Word" "HOL-Library.Sublist" "HOL-Library.Multiset"
begin

text \<open>
  Shared vocabulary of the development: the state-and-error monad in which the
  fallible operations of the program are written, the notion of an invariant
  that an operation keeps whether it succeeds or fails, string and path helpers
  that mirror the parts of the Rust standard library the program uses, and the
  generic list lemmas the components share.
\<close>

named_theorems keeps_rules \<open>invariant preservation of operations, used as introduction rules\<close>
named_theorems run_simps \<open>unfolding of the state-and-error monad\<close>

section \<open>Operations over a state that may fail\<close>

text \<open>
  A fallible operation over a state: it returns either an error or a result,
  and in both cases the state it leaves behind.  Effects that precede an error
  are kept: nothing is rolled back unless the code does so.
\<close>

type_synonym ('s, 'e, 'a) sem = "'s \<Rightarrow> ('e + 'a) \<times> 's"

definition ret :: "'a \<Rightarrow> ('s, 'e, 'a) sem" where
  "ret a = (\<lambda>s. (Inr a, s))"

definition raise :: "'e \<Rightarrow> ('s, 'e, 'a) sem" where
  "raise e = (\<lambda>s. (Inl e, s))"

definition bindS :: "('s, 'e, 'a) sem \<Rightarrow> ('a \<Rightarrow> ('s, 'e, 'b) sem) \<Rightarrow> ('s, 'e, 'b) sem" where
  "bindS m f = (\<lambda>s. case m s of (Inl e, s') \<Rightarrow> (Inl e, s') | (Inr a, s') \<Rightarrow> f a s')"

definition thenS :: "('s, 'e, 'a) sem \<Rightarrow> ('s, 'e, 'b) sem \<Rightarrow> ('s, 'e, 'b) sem" where
  "thenS m n = bindS m (\<lambda>_. n)"

definition query :: "('s \<Rightarrow> 'a) \<Rightarrow> ('s, 'e, 'a) sem" where
  "query f = (\<lambda>s. (Inr (f s), s))"

definition modifyS :: "('s \<Rightarrow> 's) \<Rightarrow> ('s, 'e, unit) sem" where
  "modifyS f = (\<lambda>s. (Inr (), f s))"

text \<open>\<open>let _ = op;\<close> and \<open>if let Err(..) = op\<close>: the error becomes a value and the run goes on.\<close>

definition attempt :: "('s, 'e, 'a) sem \<Rightarrow> ('s, 'f, 'e + 'a) sem" where
  "attempt m = (\<lambda>s. case m s of (r, s') \<Rightarrow> (Inr r, s'))"

fun each :: "('x \<Rightarrow> ('s, 'e, 'a) sem) \<Rightarrow> 'x list \<Rightarrow> ('s, 'e, unit) sem" where
  "each f [] = ret ()"
| "each f (x # xs) = thenS (f x) (each f xs)"

text \<open>A transaction: \<open>BEGIN\<close>, the body, then \<open>COMMIT\<close> on success or \<open>ROLLBACK\<close> on an error.\<close>

definition transaction :: "('s, 'e, 'a) sem \<Rightarrow> ('s, 'e, 'a) sem" where
  "transaction m = (\<lambda>s. case m s of (Inl e, _) \<Rightarrow> (Inl e, s) | (Inr a, s') \<Rightarrow> (Inr a, s'))"

abbreviation state_after :: "('s, 'e, 'a) sem \<Rightarrow> 's \<Rightarrow> 's" where
  "state_after m s \<equiv> snd (m s)"

abbreviation result_of :: "('s, 'e, 'a) sem \<Rightarrow> 's \<Rightarrow> 'e + 'a" where
  "result_of m s \<equiv> fst (m s)"

lemmas sem_defs = ret_def raise_def bindS_def thenS_def query_def modifyS_def attempt_def transaction_def

lemma run_ret [run_simps, simp]: "ret a s = (Inr a, s)"
  by (simp add: ret_def)

lemma run_raise [run_simps, simp]: "raise e s = (Inl e, s)"
  by (simp add: raise_def)

lemma run_query [run_simps, simp]: "query f s = (Inr (f s), s)"
  by (simp add: query_def)

lemma run_modify [run_simps, simp]: "modifyS f s = (Inr (), f s)"
  by (simp add: modifyS_def)

lemma run_attempt [run_simps, simp]: "attempt m s = (Inr (fst (m s)), snd (m s))"
  by (simp add: attempt_def split: prod.split)

lemma run_bind [run_simps]:
  "bindS m f s = (case m s of (Inl e, s') \<Rightarrow> (Inl e, s') | (Inr a, s') \<Rightarrow> f a s')"
  by (simp add: bindS_def)

lemma run_then [run_simps]:
  "thenS m n s = (case m s of (Inl e, s') \<Rightarrow> (Inl e, s') | (Inr a, s') \<Rightarrow> n s')"
  by (simp add: thenS_def bindS_def)

lemma bind_query [simp]: "bindS (query g) f s = f (g s) s"
  by (simp add: run_bind)

lemma bind_query_const [simp]: "bindS (query (\<lambda>_. a)) f = f a"
  by (rule ext) simp

lemma bind_ret [simp]: "bindS (ret a) f = f a"
  by (rule ext) (simp add: run_bind)

lemma bind_raise [simp]: "bindS (raise e) f = raise e"
  by (rule ext) (simp add: run_bind)

lemma then_modify [simp]: "thenS (modifyS g) n s = n (g s)"
  by (simp add: run_then)

lemma bind_assoc: "bindS (bindS m f) g = bindS m (\<lambda>a. bindS (f a) g)"
  by (rule ext) (auto simp: run_bind split: prod.splits sum.splits)

subsection \<open>Kept invariants\<close>

text \<open>
  \<open>keeps I m\<close>: from a state in which \<open>I\<close> holds, \<open>m\<close> ends in one in which \<open>I\<close>
  holds, on the success path and on every error path.
\<close>

definition keeps :: "('s \<Rightarrow> bool) \<Rightarrow> ('s, 'e, 'a) sem \<Rightarrow> bool" where
  "keeps I m \<longleftrightarrow> (\<forall>s. I s \<longrightarrow> I (snd (m s)))"

lemma keepsI: "(\<And>s. I s \<Longrightarrow> I (snd (m s))) \<Longrightarrow> keeps I m"
  by (simp add: keeps_def)

lemma keepsD: "keeps I m \<Longrightarrow> I s \<Longrightarrow> I (snd (m s))"
  by (simp add: keeps_def)

lemma keepsE: "\<lbrakk>keeps I m; m s = (x, s'); I s\<rbrakk> \<Longrightarrow> I s'"
  unfolding keeps_def by (metis snd_conv)

lemma then_Inr: "thenS m n s = (Inr b, s') \<longleftrightarrow> (\<exists>a s1. m s = (Inr a, s1) \<and> n s1 = (Inr b, s'))"
  by (cases "m s") (auto simp: run_then split: sum.splits)

lemma bind_Inr: "bindS m f s = (Inr b, s') \<longleftrightarrow> (\<exists>a s1. m s = (Inr a, s1) \<and> f a s1 = (Inr b, s'))"
  by (cases "m s") (auto simp: run_bind split: sum.splits)

lemma keeps_ret [keeps_rules]: "keeps I (ret a)"
  by (simp add: keeps_def)

lemma keeps_raise [keeps_rules]: "keeps I (raise e)"
  by (simp add: keeps_def)

lemma keeps_query [keeps_rules]: "keeps I (query f)"
  by (simp add: keeps_def)

lemma keeps_modify: "(\<And>s. I s \<Longrightarrow> I (f s)) \<Longrightarrow> keeps I (modifyS f)"
  by (simp add: keeps_def)

lemma keeps_bind [keeps_rules]:
  "\<lbrakk>keeps I m; \<And>a. keeps I (f a)\<rbrakk> \<Longrightarrow> keeps I (bindS m f)"
  unfolding keeps_def run_bind by (fastforce split: prod.splits sum.splits)

lemma keeps_then [keeps_rules]:
  "\<lbrakk>keeps I m; keeps I n\<rbrakk> \<Longrightarrow> keeps I (thenS m n)"
  unfolding thenS_def by (rule keeps_bind)

lemma keeps_attempt [keeps_rules]: "keeps I m \<Longrightarrow> keeps I (attempt m)"
  by (simp add: keeps_def)

lemma keeps_transaction [keeps_rules]: "keeps I m \<Longrightarrow> keeps I (transaction m)"
  unfolding keeps_def transaction_def by (fastforce split: prod.splits sum.splits)

lemma keeps_each [keeps_rules]:
  "(\<And>x. keeps I (f x)) \<Longrightarrow> keeps I (each f xs)"
  by (induction xs) (auto intro: keeps_rules)

lemma keeps_each_in:
  "(\<And>x. x \<in> set xs \<Longrightarrow> keeps I (f x)) \<Longrightarrow> keeps I (each f xs)"
  by (induction xs) (auto intro: keeps_rules)

lemma keeps_if [keeps_rules]:
  "\<lbrakk>b \<Longrightarrow> keeps I m; \<not> b \<Longrightarrow> keeps I n\<rbrakk> \<Longrightarrow> keeps I (if b then m else n)"
  by simp

lemma keeps_option [keeps_rules]:
  "\<lbrakk>x = None \<Longrightarrow> keeps I m; \<And>a. x = Some a \<Longrightarrow> keeps I (f a)\<rbrakk>
   \<Longrightarrow> keeps I (case x of None \<Rightarrow> m | Some a \<Rightarrow> f a)"
  by (cases x) auto

lemma keeps_sum [keeps_rules]:
  "\<lbrakk>\<And>e. x = Inl e \<Longrightarrow> keeps I (f e); \<And>a. x = Inr a \<Longrightarrow> keeps I (g a)\<rbrakk>
   \<Longrightarrow> keeps I (case x of Inl e \<Rightarrow> f e | Inr a \<Rightarrow> g a)"
  by (cases x) auto

lemma keeps_prod [keeps_rules]:
  "(\<And>a b. x = (a, b) \<Longrightarrow> keeps I (f a b)) \<Longrightarrow> keeps I (case x of (a, b) \<Rightarrow> f a b)"
  by (cases x) auto

lemma keepsD_bind:
  "\<lbrakk>I (snd (m w)); \<And>a. keeps I (f a)\<rbrakk> \<Longrightarrow> I (snd (bindS m f w))"
  unfolding keeps_def run_bind by (cases "m w") (auto split: sum.split)

lemma keepsD_then: "\<lbrakk>I (snd (m w)); keeps I n\<rbrakk> \<Longrightarrow> I (snd (thenS m n w))"
  unfolding thenS_def by (rule keepsD_bind)

section \<open>Lists\<close>

lemma in_map_filter: "x \<in> set (List.map_filter f xs) \<longleftrightarrow> (\<exists>y\<in>set xs. f y = Some x)"
  by (induction xs) (auto simp: List.map_filter_simps split: option.splits)

lemma map_filter_append: "List.map_filter f (xs @ ys) = List.map_filter f xs @ List.map_filter f ys"
  by (simp add: List.map_filter_def)

text \<open>\<open>slice::chunks\<close>.\<close>

function chunks :: "nat \<Rightarrow> 'a list \<Rightarrow> 'a list list" where
  "chunks n xs = (if n = 0 \<or> xs = [] then [] else take n xs # chunks n (drop n xs))"
  by pat_completeness auto
termination by (relation "measure (length \<circ> snd)") auto

declare chunks.simps [simp del]

lemma concat_chunks [simp]: "0 < n \<Longrightarrow> concat (chunks n xs) = xs"
proof (induction n xs rule: chunks.induct)
  case (1 n xs)
  then show ?case
    by (cases "xs = []") (simp_all add: chunks.simps [of n])
qed

lemma chunks_short: "\<lbrakk>0 < n; xs \<noteq> []; length xs \<le> n\<rbrakk> \<Longrightarrow> chunks n xs = [xs]"
  by (simp add: chunks.simps [of n] chunks.simps [of n "[]"])

lemma chunks_length_le: "c \<in> set (chunks n xs) \<Longrightarrow> length c \<le> n"
proof (induction n xs rule: chunks.induct)
  case (1 n xs)
  show ?case
  proof (cases "n = 0 \<or> xs = []")
    case True
    then have "chunks n xs = []" by (subst chunks.simps) simp
    with 1(2) show ?thesis by simp
  next
    case False
    with 1(2) have "c = take n xs \<or> c \<in> set (chunks n (drop n xs))"
      by (simp add: chunks.simps [of n xs])
    with 1(1)[OF False] show ?thesis by auto
  qed
qed

lemma distinct_map_filter_key: "distinct (map k xs) \<Longrightarrow> distinct (map k (filter P xs))"
  by (rule distinct_map_filter)

lemma distinct_map_unique:
  "\<lbrakk>distinct (map k xs); x \<in> set xs; y \<in> set xs; k x = k y\<rbrakk> \<Longrightarrow> x = y"
  by (meson distinct_map inj_onD)

lemma find_SomeD: "find P xs = Some x \<Longrightarrow> x \<in> set xs \<and> P x"
  by (auto simp: find_Some_iff)

lemma find_key_Some:
  "distinct (map k xs) \<Longrightarrow> (find (\<lambda>x. k x = v) xs = Some x) \<longleftrightarrow> (x \<in> set xs \<and> k x = v)"
proof
  assume "find (\<lambda>x. k x = v) xs = Some x"
  then show "x \<in> set xs \<and> k x = v" by (rule find_SomeD)
next
  assume d: "distinct (map k xs)" and x: "x \<in> set xs \<and> k x = v"
  from x have "find (\<lambda>x. k x = v) xs \<noteq> None" unfolding find_None_iff by blast
  then obtain y where y: "find (\<lambda>x. k x = v) xs = Some y" by blast
  then have "y \<in> set xs \<and> k y = v" by (rule find_SomeD)
  then have "y = x" using distinct_map_unique [OF d] x by blast
  with y show "find (\<lambda>x. k x = v) xs = Some x" by simp
qed

lemma filter_key_single:
  "\<lbrakk>distinct (map k xs); x \<in> set xs\<rbrakk> \<Longrightarrow> filter (\<lambda>y. k y = k x) xs = [x]"
proof (induction xs)
  case (Cons y ys)
  show ?case
  proof (cases "k y = k x")
    case True
    with Cons.prems have "y = x" using distinct_map_unique [OF Cons.prems(1), of y x] by simp
    moreover have "\<forall>z\<in>set ys. k z \<noteq> k y" using Cons.prems(1) by (simp add: image_iff) metis
    ultimately show ?thesis by (auto simp: filter_empty_conv)
  next
    case False
    with Cons show ?thesis by auto
  qed
qed simp

lemma map_key_same: "(\<And>x. x \<in> set xs \<Longrightarrow> k (f x) = k x) \<Longrightarrow> map k (map f xs) = map k xs"
  by simp

section \<open>Strings and paths\<close>

text \<open>\<open>str::split(c)\<close>: always at least one piece.\<close>

fun split_on :: "'a \<Rightarrow> 'a list \<Rightarrow> 'a list list" where
  "split_on c [] = [[]]"
| "split_on c (x # xs) =
     (if x = c then [] # split_on c xs
      else (case split_on c xs of [] \<Rightarrow> [[x]] | p # ps \<Rightarrow> (x # p) # ps))"

fun join_with :: "'a list \<Rightarrow> 'a list list \<Rightarrow> 'a list" where
  "join_with sep [] = []"
| "join_with sep [p] = p"
| "join_with sep (p # q # ps) = p @ sep @ join_with sep (q # ps)"

lemma split_on_not_Nil [simp]: "split_on c xs \<noteq> []"
  by (cases xs) (auto split: list.splits)

lemma split_on_none: "c \<notin> set e \<Longrightarrow> split_on c e = [e]"
  by (induction e) auto

lemma split_on_append: "split_on c (a @ c # b) = split_on c a @ split_on c b"
  by (induction a) (auto split: list.splits)

lemma join_split_on [simp]: "join_with [c] (split_on c xs) = xs"
proof (induction xs)
  case Nil
  then show ?case by simp
next
  case (Cons x xs)
  obtain p ps where s: "split_on c xs = p # ps"
    by (cases "split_on c xs") auto
  show ?case
  proof (cases "x = c")
    case True
    with Cons s show ?thesis by simp
  next
    case False
    with Cons s show ?thesis by (cases ps) auto
  qed
qed

lemma split_on_free: "p \<in> set (split_on c xs) \<Longrightarrow> c \<notin> set p"
  by (induction xs arbitrary: p) (auto split: if_splits list.splits)

text \<open>\<open>trim_start_matches(c)\<close>, \<open>trim_end_matches(c)\<close> and \<open>trim_matches(c)\<close> for a character.\<close>

definition trim_start_matches :: "'a \<Rightarrow> 'a list \<Rightarrow> 'a list" where
  "trim_start_matches c = dropWhile (\<lambda>x. x = c)"

definition trim_end_matches :: "'a \<Rightarrow> 'a list \<Rightarrow> 'a list" where
  "trim_end_matches c s = rev (dropWhile (\<lambda>x. x = c) (rev s))"

definition trim_matches :: "'a \<Rightarrow> 'a list \<Rightarrow> 'a list" where
  "trim_matches c s = trim_end_matches c (trim_start_matches c s)"

lemma trim_start_idem [simp]: "trim_start_matches c (trim_start_matches c s) = trim_start_matches c s"
  by (simp add: trim_start_matches_def dropWhile_idem)

lemma trim_end_idem [simp]: "trim_end_matches c (trim_end_matches c s) = trim_end_matches c s"
  by (simp add: trim_end_matches_def dropWhile_idem)

text \<open>\<open>str::strip_prefix\<close>.\<close>

definition strip_prefix :: "'a list \<Rightarrow> 'a list \<Rightarrow> 'a list option" where
  "strip_prefix p s = (if prefix p s then Some (drop (length p) s) else None)"

lemma strip_prefix_Some: "strip_prefix p s = Some r \<longleftrightarrow> s = p @ r"
  by (auto simp: strip_prefix_def prefix_def)

lemma strip_prefix_None: "strip_prefix p s = None \<longleftrightarrow> \<not> prefix p s"
  by (simp add: strip_prefix_def)

definition ends_with :: "'a list \<Rightarrow> 'a list \<Rightarrow> bool" where
  "ends_with s p \<longleftrightarrow> suffix p s"

text \<open>\<open>str::contains\<close> for a needle string.\<close>

definition contains_str :: "'a list \<Rightarrow> 'a list \<Rightarrow> bool" where
  "contains_str s p \<longleftrightarrow> sublist p s"

text \<open>
  \<open>rsplit_once(c)\<close>: the text before and after the last occurrence of \<open>c\<close>.
\<close>

definition rsplit_once :: "'a \<Rightarrow> 'a list \<Rightarrow> ('a list \<times> 'a list) option" where
  "rsplit_once c s =
     (if c \<in> set s
      then (let r = takeWhile (\<lambda>x. x \<noteq> c) (rev s)
            in Some (take (length s - length r - 1) s, rev r))
      else None)"

lemma rsplit_once_Some:
  assumes "rsplit_once c s = Some (a, b)"
  shows "s = a @ c # b \<and> c \<notin> set b"
proof -
  from assms have c: "c \<in> set s" by (auto simp: rsplit_once_def split: if_splits)
  define r where "r = takeWhile (\<lambda>x. x \<noteq> c) (rev s)"
  define t where "t = dropWhile (\<lambda>x. x \<noteq> c) (rev s)"
  have rt: "rev s = r @ t" by (simp add: r_def t_def)
  have tne: "t \<noteq> []" using c by (auto simp: t_def dropWhile_eq_Nil_conv)
  then obtain t' where t': "t = c # t'"
    by (metis (mono_tags, lifting) t_def hd_dropWhile list.collapse)
  have s: "s = rev t' @ c # rev r"
    using rt t' by (metis append.assoc append_Cons append_Nil rev_append rev_rev_ident rev.simps(2))
  have "Some (a, b) = Some (take (length s - length r - 1) s, rev r)"
    using assms c by (simp add: rsplit_once_def Let_def r_def)
  then have "a = rev t'" "b = rev r"
    unfolding s by simp_all
  moreover have "c \<notin> set r"
    by (auto simp: r_def dest: set_takeWhileD)
  ultimately show ?thesis using s by simp
qed

lemma rsplit_once_None: "rsplit_once c s = None \<longleftrightarrow> c \<notin> set s"
  by (simp add: rsplit_once_def Let_def)

text \<open>
  \<open>Path::file_name\<close>: the last component, where empty and \<open>.\<close> components are
  skipped; a path that ends in \<open>..\<close> or has no component has none.
\<close>

definition path_file_name :: "string \<Rightarrow> string option" where
  "path_file_name p =
     (let cs = filter (\<lambda>c. c \<noteq> [] \<and> c \<noteq> ''.'') (split_on (CHR ''/'') p)
      in if cs = [] then None else if last cs = ''..'' then None else Some (last cs))"

text \<open>
  \<open>rsplit_file_at_dot\<close> of the standard library: stem and extension of a file
  name; a leading dot does not start an extension.
\<close>

definition split_file_at_dot :: "string \<Rightarrow> string \<times> string option" where
  "split_file_at_dot f =
     (case rsplit_once (CHR ''.'') f of
        None \<Rightarrow> (f, None)
      | Some (stem, ext) \<Rightarrow> if stem = [] then (f, None) else (stem, Some ext))"

definition path_extension :: "string \<Rightarrow> string option" where
  "path_extension p = Option.bind (path_file_name p) (\<lambda>f. snd (split_file_at_dot f))"

definition path_file_stem :: "string \<Rightarrow> string option" where
  "path_file_stem p = map_option (\<lambda>f. fst (split_file_at_dot f)) (path_file_name p)"

text \<open>\<open>Path::join\<close>, \<open>Path::parent\<close>, \<open>Path::components\<close> and \<open>Path::starts_with\<close>.\<close>

definition path_join :: "string \<Rightarrow> string \<Rightarrow> string" where
  "path_join p q = (if q \<noteq> [] \<and> hd q = CHR ''/'' then q
     else if p = [] \<or> last p = CHR ''/'' then p @ q else p @ ''/'' @ q)"

definition path_parent :: "string \<Rightarrow> string option" where
  "path_parent p = (case rsplit_once (CHR ''/'') p of
       Some (a, b) \<Rightarrow> if a = [] \<and> b = [] then None else Some (if a = [] then ''/'' else a)
     | None \<Rightarrow> if p = [] then None else Some [])"

definition path_components :: "string \<Rightarrow> string list" where
  "path_components p = filter (\<lambda>c. c \<noteq> [] \<and> c \<noteq> ''.'') (split_on (CHR ''/'') p)"

definition path_starts_with :: "string \<Rightarrow> string \<Rightarrow> bool" where
  "path_starts_with p q \<longleftrightarrow> prefix (path_components q) (path_components p)
     \<and> ((p \<noteq> [] \<and> hd p = CHR ''/'') = (q \<noteq> [] \<and> hd q = CHR ''/''))"

text \<open>Lower-casing of ASCII letters.\<close>

definition ascii_lower :: "char \<Rightarrow> char" where
  "ascii_lower c = (let n = of_char c :: nat in if 65 \<le> n \<and> n \<le> 90 then char_of (n + 32) else c)"

section \<open>Machine integers\<close>

text \<open>
  The database stores \<open>u64\<close> values as \<open>i64\<close> with \<open>as\<close> casts in both directions;
  the casts reinterpret the bits.
\<close>

definition as_i64 :: "64 word \<Rightarrow> int" where
  "as_i64 w = sint w"

definition as_u64 :: "int \<Rightarrow> 64 word" where
  "as_u64 i = word_of_int i"

lemma as_u64_as_i64 [simp]: "as_u64 (as_i64 w) = w"
  by (simp add: as_u64_def as_i64_def)

text \<open>Decimal text of a natural number, and its parser (\<open>to_string\<close> and \<open>str::parse::<u64>\<close>).\<close>

fun digits_of :: "nat \<Rightarrow> nat list" where
  "digits_of n = (if n < 10 then [n] else digits_of (n div 10) @ [n mod 10])"

declare digits_of.simps [simp del]

definition nat_to_string :: "nat \<Rightarrow> string" where
  "nat_to_string n = map (\<lambda>d. char_of (48 + d)) (digits_of n)"

definition is_digit :: "char \<Rightarrow> bool" where
  "is_digit c \<longleftrightarrow> 48 \<le> (of_char c :: nat) \<and> (of_char c :: nat) \<le> 57"

definition digit_val :: "char \<Rightarrow> nat" where
  "digit_val c = of_char c - 48"

definition digits_val :: "string \<Rightarrow> nat" where
  "digits_val s = foldl (\<lambda>a c. 10 * a + digit_val c) 0 s"

text \<open>\<open>parse::<u64>\<close>: an optional \<open>+\<close>, then at least one digit, and no overflow.\<close>

definition parse_u64 :: "string \<Rightarrow> nat option" where
  "parse_u64 s =
     (let ds = (case s of c # r \<Rightarrow> if c = CHR ''+'' then r else s | [] \<Rightarrow> [])
      in if ds \<noteq> [] \<and> list_all is_digit ds \<and> digits_val ds < 2 ^ 64
         then Some (digits_val ds) else None)"

lemma digits_of_lt: "d \<in> set (digits_of n) \<Longrightarrow> d < 10"
  by (induction n rule: digits_of.induct)
     (subst (asm) digits_of.simps, auto split: if_splits)

lemma digits_of_ne [simp]: "digits_of n \<noteq> []"
  by (subst digits_of.simps) simp

lemma digits_of_val: "foldl (\<lambda>a d. 10 * a + d) 0 (digits_of n) = n"
proof (induction n rule: digits_of.induct)
  case (1 n)
  show ?case
  proof (cases "n < 10")
    case True
    then show ?thesis by (subst digits_of.simps) simp
  next
    case False
    with 1 show ?thesis by (subst digits_of.simps) simp
  qed
qed

lemma of_char_digit: "d < 10 \<Longrightarrow> of_char (char_of (48 + d :: nat)) = (48 + d :: nat)"
  by simp

lemma digit_val_of_digit [simp]: "d < 10 \<Longrightarrow> digit_val (char_of (48 + d)) = d"
  unfolding digit_val_def of_char_digit by simp

lemma is_digit_of_digit [simp]: "d < 10 \<Longrightarrow> is_digit (char_of (48 + d :: nat))"
  unfolding is_digit_def of_char_digit by simp

lemma digits_val_to_string: "digits_val (nat_to_string n) = n"
proof -
  have "foldl (\<lambda>a c. 10 * a + digit_val c) b (map (\<lambda>d. char_of (48 + d)) ds)
        = foldl (\<lambda>a d. 10 * a + d) b ds" if "\<forall>d\<in>set ds. d < 10" for b ds
    using that by (induction ds arbitrary: b) simp_all
  with digits_of_val digits_of_lt show ?thesis
    by (simp add: digits_val_def nat_to_string_def)
qed

lemma nat_to_string_digits: "c \<in> set (nat_to_string n) \<Longrightarrow> is_digit c"
  using digits_of_lt by (auto simp: nat_to_string_def)

lemma parse_nat_to_string: "n < 2 ^ 64 \<Longrightarrow> parse_u64 (nat_to_string n) = Some n"
proof -
  assume n: "n < 2 ^ 64"
  have all: "list_all is_digit (nat_to_string n)"
    using digits_of_lt by (auto simp: nat_to_string_def list_all_iff)
  obtain c r where cr: "nat_to_string n = c # r"
    by (cases "nat_to_string n") (auto simp: nat_to_string_def)
  from all cr have "is_digit c" by simp
  then have "c \<noteq> CHR ''+''" by (auto simp: is_digit_def)
  with cr all n digits_val_to_string [of n] show ?thesis
    by (simp add: parse_u64_def)
qed

end
