(* ===== verification/Sync_Types.thy ===== *)
theory Sync_Types
  imports Prelude
begin

text \<open>
  The domain types of \<open>stratosync-core/src/types/mod.rs\<close>: file kinds, the sync
  status of a file and its text form in the database, the in-memory file entry,
  the metadata a backend returns, remote changes, queue operations and the
  error type of the backends.  Inode numbers, sizes and mount ids are \<open>nat\<close>; a
  \<open>SystemTime\<close> is the number of nanoseconds since the Unix epoch, as an \<open>int\<close>.
\<close>

type_synonym inode = nat
type_synonym mount_id = nat
type_synonym path = string
type_synonym system_time = int

definition FUSE_ROOT_INODE :: inode where
  "FUSE_ROOT_INODE = 1"

definition CONFLICT_PREFIX :: string where
  "CONFLICT_PREFIX = ''.stratosync-conflicts/''"

section \<open>File kind\<close>

datatype file_kind = File | Directory | Symlink

fun kind_as_str :: "file_kind \<Rightarrow> string" where
  "kind_as_str File = ''file''"
| "kind_as_str Directory = ''dir''"
| "kind_as_str Symlink = ''symlink''"

section \<open>Sync status\<close>

datatype sync_status = Remote | Hydrating | Cached | Dirty | Uploading | Stale | Conflict

fun status_as_str :: "sync_status \<Rightarrow> string" where
  "status_as_str Remote = ''remote''"
| "status_as_str Hydrating = ''hydrating''"
| "status_as_str Cached = ''cached''"
| "status_as_str Dirty = ''dirty''"
| "status_as_str Uploading = ''uploading''"
| "status_as_str Stale = ''stale''"
| "status_as_str Conflict = ''conflict''"

definition status_from_str :: "string \<Rightarrow> sync_status option" where
  "status_from_str s =
     (if s = ''remote'' then Some Remote
      else if s = ''hydrating'' then Some Hydrating
      else if s = ''cached'' then Some Cached
      else if s = ''dirty'' then Some Dirty
      else if s = ''uploading'' then Some Uploading
      else if s = ''stale'' then Some Stale
      else if s = ''conflict'' then Some Conflict
      else None)"

fun has_local_data :: "sync_status \<Rightarrow> bool" where
  "has_local_data Cached = True"
| "has_local_data Dirty = True"
| "has_local_data Uploading = True"
| "has_local_data Conflict = True"
| "has_local_data _ = False"

fun needs_hydration :: "sync_status \<Rightarrow> bool" where
  "needs_hydration Remote = True"
| "needs_hydration Stale = True"
| "needs_hydration _ = False"

definition is_hydrating :: "sync_status \<Rightarrow> bool" where
  "is_hydrating s \<longleftrightarrow> s = Hydrating"

text \<open>\<open>status IN ('dirty','uploading')\<close>: the row holds local work the remote does not have.\<close>

definition unsynced :: "sync_status \<Rightarrow> bool" where
  "unsynced s \<longleftrightarrow> s \<in> {Dirty, Uploading}"

lemma unsynced_simps [simp]:
  "unsynced Dirty" "unsynced Uploading" "\<not> unsynced Remote" "\<not> unsynced Hydrating"
  "\<not> unsynced Cached" "\<not> unsynced Stale" "\<not> unsynced Conflict"
  by (simp_all add: unsynced_def)

lemma status_from_as_str: "status_from_str (status_as_str s) = Some s"
  by (cases s) (simp_all add: status_from_str_def)

lemma status_from_str_Some: "status_from_str t = Some s \<Longrightarrow> t = status_as_str s"
  by (auto simp: status_from_str_def split: if_splits)

section \<open>File entries\<close>

record file_entry =
  fe_inode       :: inode
  fe_mount_id    :: mount_id
  fe_parent      :: inode
  fe_name        :: string
  fe_remote_path :: path
  fe_kind        :: file_kind
  fe_size        :: nat
  fe_mtime       :: system_time
  fe_etag        :: "string option"
  fe_status      :: sync_status
  fe_cache_path  :: "path option"
  fe_cache_size  :: "nat option"
  fe_dir_listed  :: "system_time option"

definition fe_extension :: "file_entry \<Rightarrow> string option" where
  "fe_extension e = path_extension (fe_name e)"

definition fe_stem :: "file_entry \<Rightarrow> string" where
  "fe_stem e = (case path_file_stem (fe_name e) of Some s \<Rightarrow> s | None \<Rightarrow> fe_name e)"

section \<open>Remote metadata\<close>

record rclone_ls_json_entry =
  lj_path      :: string
  lj_name      :: string
  lj_size      :: int
  lj_mime_type :: "string option"
  lj_mod_time  :: string
  lj_is_dir    :: bool
  lj_hashes    :: "(string \<times> string) list option"
  lj_id        :: "string option"

record remote_metadata =
  rm_path      :: string
  rm_name      :: string
  rm_size      :: nat
  rm_mtime     :: system_time
  rm_is_dir    :: bool
  rm_etag      :: "string option"
  rm_checksum  :: "string option"
  rm_mime_type :: "string option"
  rm_item_id   :: "string option"

definition or_else :: "'a option \<Rightarrow> 'a option \<Rightarrow> 'a option" where
  "or_else a b = (case a of None \<Rightarrow> b | Some x \<Rightarrow> Some x)"

definition preferred_hash :: "(string \<rightharpoonup> string) \<Rightarrow> string option" where
  "preferred_hash h =
     or_else (h ''sha1'') (or_else (h ''SHA-1'') (or_else (h ''md5'') (or_else (h ''MD5'') (h ''quickxor''))))"

text \<open>
  The conversion of one \<open>lsjson\<close> entry.  The RFC 3339 parser is a third-party
  function and so a parameter; a time that does not parse becomes the epoch.
\<close>

definition remote_metadata_try_from ::
  "(string \<Rightarrow> system_time option) \<Rightarrow> rclone_ls_json_entry \<Rightarrow> remote_metadata" where
  "remote_metadata_try_from parse_rfc3339 e =
     \<lparr> rm_path = lj_path e, rm_name = lj_name e, rm_size = nat (max 0 (lj_size e)),
       rm_mtime = (case parse_rfc3339 (lj_mod_time e) of Some t \<Rightarrow> t | None \<Rightarrow> 0),
       rm_is_dir = lj_is_dir e,
       rm_etag = or_else (Option.bind (lj_hashes e) (\<lambda>h. preferred_hash (map_of h))) (lj_id e),
       rm_checksum = Option.bind (lj_hashes e) (\<lambda>h. or_else (map_of h ''sha256'') (map_of h ''SHA-256'')),
       rm_mime_type = lj_mime_type e, rm_item_id = lj_id e \<rparr>"

datatype remote_change =
    Added remote_metadata
  | Modified remote_metadata "string option"
  | Deleted path "string option"

datatype sync_op = Upload | Delete | Mkdir | Rmdir | Rename | Move

fun op_as_str :: "sync_op \<Rightarrow> string" where
  "op_as_str Upload = ''upload''"
| "op_as_str Delete = ''delete''"
| "op_as_str Mkdir = ''mkdir''"
| "op_as_str Rmdir = ''rmdir''"
| "op_as_str Rename = ''rename''"
| "op_as_str Move = ''move''"

section \<open>Backend errors\<close>

datatype sync_error =
    NotFound string
  | PermissionDenied string
  | EtagConflict "string option" "string option"
  | QuotaExceeded
  | Network string
  | Transient string
  | TokenExpired
  | NotSupported
  | Fatal string
  | IoError string
  | OtherError string

fun is_retryable :: "sync_error \<Rightarrow> bool" where
  "is_retryable (Network _) = True"
| "is_retryable (Transient _) = True"
| "is_retryable QuotaExceeded = True"
| "is_retryable _ = False"

section \<open>Time conversion\<close>

text \<open>
  \<open>to_unix\<close> truncates to whole seconds and maps times before the epoch to zero;
  \<open>from_unix\<close> maps negative seconds to the epoch.
\<close>

definition to_unix :: "system_time \<Rightarrow> int" where
  "to_unix t = (if t < 0 then 0 else t div 1000000000)"

definition from_unix :: "int \<Rightarrow> system_time" where
  "from_unix secs = max 0 secs * 1000000000"

lemma to_unix_from_unix [simp]: "0 \<le> s \<Longrightarrow> to_unix (from_unix s) = s"
  by (simp add: to_unix_def from_unix_def)

lemma to_unix_nonneg [simp]: "0 \<le> to_unix t"
  by (simp add: to_unix_def pos_imp_zdiv_nonneg_iff)

lemma from_to_unix_le: "0 \<le> t \<Longrightarrow> from_unix (to_unix t) \<le> t \<and> t < from_unix (to_unix t) + 1000000000"
  by (auto simp: to_unix_def from_unix_def pos_imp_zdiv_nonneg_iff max_def)

section \<open>Version sources\<close>

datatype version_source = BeforePoll | AfterUpload | Manual

fun source_as_str :: "version_source \<Rightarrow> string" where
  "source_as_str BeforePoll = ''before_poll''"
| "source_as_str AfterUpload = ''after_upload''"
| "source_as_str Manual = ''manual''"

definition source_from_str :: "string \<Rightarrow> version_source" where
  "source_from_str s =
     (if s = ''before_poll'' then BeforePoll
      else if s = ''after_upload'' then AfterUpload else Manual)"

lemma source_from_as_str: "source_from_str (source_as_str s) = s"
  by (cases s) (simp_all add: source_from_str_def)

text \<open>The \<open>kind\<close> column as \<open>row_to_entry\<close> reads it.\<close>

definition kind_of_column :: "string \<Rightarrow> file_kind" where
  "kind_of_column s = (if s = ''dir'' then Directory else if s = ''symlink'' then Symlink else File)"

definition status_of_column :: "string \<Rightarrow> sync_status" where
  "status_of_column s = (case status_from_str s of Some st \<Rightarrow> st | None \<Rightarrow> Remote)"

lemma kind_of_as_str: "kind_of_column (kind_as_str k) = k"
  by (cases k) (simp_all add: kind_of_column_def)

lemma status_of_as_str: "status_of_column (status_as_str s) = s"
  by (simp add: status_of_column_def status_from_as_str)

end
