(* ===== verification/Keyed_Table.thy ===== *)
theory Keyed_Table
  imports Prelude
begin

text \<open>
  Tables of the state database that have a primary key and are written with
  \<open>INSERT .. ON CONFLICT(key) DO UPDATE\<close>.  The locale states what a client of
  such a table relies on; the generic list implementation below is the one all
  the tables of the model use, and each table interprets the locale for its own
  key column.
\<close>

locale keyed_table =
  fixes lookup :: "'k \<Rightarrow> 't \<Rightarrow> 'r option"
    and upsert :: "'k \<Rightarrow> 'r \<Rightarrow> ('r \<Rightarrow> 'r) \<Rightarrow> 't \<Rightarrow> 't"
    and remove :: "'k \<Rightarrow> 't \<Rightarrow> 't"
    and invar :: "'t \<Rightarrow> bool"
    and matches :: "'k \<Rightarrow> 'r \<Rightarrow> bool"
  assumes lookup_upsert:
      "\<lbrakk>invar t; matches k new; \<And>r. matches k r \<Longrightarrow> matches k (upd r)\<rbrakk> \<Longrightarrow>
       lookup k' (upsert k new upd t) =
         (if k' = k then Some (case lookup k t of None \<Rightarrow> new | Some r \<Rightarrow> upd r) else lookup k' t)"
    and invar_upsert:
      "\<lbrakk>invar t; matches k new; \<And>r. matches k r \<Longrightarrow> matches k (upd r)\<rbrakk> \<Longrightarrow> invar (upsert k new upd t)"
    and lookup_remove: "invar t \<Longrightarrow> lookup k' (remove k t) = (if k' = k then None else lookup k' t)"
    and invar_remove: "invar t \<Longrightarrow> invar (remove k t)"
begin

text \<open>A write that overwrites: the row afterwards does not depend on the row before.\<close>

lemma overwrite:
  assumes "invar t" "matches k new" "\<And>r. matches k r \<Longrightarrow> matches k (upd r)"
    and "\<And>r. lookup k t = Some r \<Longrightarrow> upd r = new"
  shows "lookup k (upsert k new upd t) = Some new"
  using assms lookup_upsert [OF assms(1-3)] by (auto split: option.splits)

lemma remove_after_upsert:
  assumes "invar t" "matches k new" "\<And>r. matches k r \<Longrightarrow> matches k (upd r)"
  shows "lookup k' (remove k (upsert k new upd t)) = lookup k' (remove k t)"
  using assms by (simp add: lookup_remove lookup_upsert invar_upsert)

text \<open>
  A counter column: \<open>n\<close> writes that start it at one and add one afterwards leave
  it at \<open>n\<close> more than it was.
\<close>

lemma count_upserts:
  fixes c :: "'r \<Rightarrow> nat"
  assumes inv: "invar t" and new: "matches k new" and upd: "\<And>r. matches k r \<Longrightarrow> matches k (upd r)"
    and c1: "c new = 1" and cs: "\<And>r. c (upd r) = c r + 1"
  shows "invar ((upsert k new upd ^^ n) t) \<and>
         (case lookup k ((upsert k new upd ^^ n) t) of None \<Rightarrow> 0 | Some r \<Rightarrow> c r)
           = (case lookup k t of None \<Rightarrow> 0 | Some r \<Rightarrow> c r) + n"
proof (induction n)
  case 0
  then show ?case using inv by simp
next
  case (Suc n)
  then show ?case
    using invar_upsert [where k = k and new = new and upd = upd]
      lookup_upsert [where k = k and k' = k and new = new and upd = upd and t = "(upsert k new upd ^^ n) t"] new upd
    by (auto simp: c1 cs split: option.splits)
qed

end

section \<open>The list implementation\<close>

definition kt_lookup :: "('r \<Rightarrow> 'k) \<Rightarrow> 'k \<Rightarrow> 'r list \<Rightarrow> 'r option" where
  "kt_lookup key k t = find (\<lambda>r. key r = k) t"

definition kt_upsert :: "('r \<Rightarrow> 'k) \<Rightarrow> 'k \<Rightarrow> 'r \<Rightarrow> ('r \<Rightarrow> 'r) \<Rightarrow> 'r list \<Rightarrow> 'r list" where
  "kt_upsert key k new upd t =
     (if list_ex (\<lambda>r. key r = k) t then map (\<lambda>r. if key r = k then upd r else r) t else t @ [new])"

definition kt_remove :: "('r \<Rightarrow> 'k) \<Rightarrow> 'k \<Rightarrow> 'r list \<Rightarrow> 'r list" where
  "kt_remove key k t = filter (\<lambda>r. key r \<noteq> k) t"

lemma find_append: "find P (xs @ ys) = (case find P xs of None \<Rightarrow> find P ys | Some x \<Rightarrow> Some x)"
  by (induction xs) auto

lemma find_map_update:
  assumes "\<And>r. key r = k \<Longrightarrow> key (upd r) = k"
  shows "find (\<lambda>r. key r = k') (map (\<lambda>r. if key r = k then upd r else r) t) =
         map_option (\<lambda>r. if key r = k then upd r else r) (find (\<lambda>r. key r = k') t)"
  using assms by (induction t) auto

lemma kt_upsert_keys:
  assumes "key new = k" "\<And>r. key r = k \<Longrightarrow> key (upd r) = k"
  shows "map key (kt_upsert key k new upd t) = (if k \<in> key ` set t then map key t else map key t @ [k])"
proof -
  have "list_ex (\<lambda>r. key r = k) t \<longleftrightarrow> k \<in> key ` set t"
    unfolding list_ex_iff by blast
  then show ?thesis using assms by (auto simp: kt_upsert_def)
qed

lemma kt_keyed_table:
  fixes key :: "'r \<Rightarrow> 'k"
  shows "keyed_table (kt_lookup key) (kt_upsert key) (kt_remove key)
     (\<lambda>t. distinct (map key t)) (\<lambda>k r. key r = k)"
proof
  fix t :: "'r list" and k k' new upd
  assume d: "distinct (map key t)" and new: "key new = k" and upd: "\<And>r. key r = k \<Longrightarrow> key (upd r) = k"
  show "kt_lookup key k' (kt_upsert key k new upd t) =
      (if k' = k then Some (case kt_lookup key k t of None \<Rightarrow> new | Some r \<Rightarrow> upd r) else kt_lookup key k' t)"
  proof (cases "list_ex (\<lambda>r. key r = k) t")
    case True
    then have "find (\<lambda>r. key r = k) t \<noteq> None"
      by (auto simp: find_None_iff list_ex_iff)
    then obtain r where r: "find (\<lambda>r. key r = k) t = Some r" by blast
    then have kr: "key r = k" by (auto dest: find_SomeD)
    show ?thesis
    proof (cases "k' = k")
      case True
      with r kr \<open>list_ex _ t\<close> show ?thesis
        by (simp add: kt_lookup_def kt_upsert_def find_map_update upd)
    next
      case False
      then have "map_option (\<lambda>r. if key r = k then upd r else r) (find (\<lambda>r. key r = k') t)
                 = find (\<lambda>r. key r = k') t"
        by (cases "find (\<lambda>r. key r = k') t") (auto dest: find_SomeD)
      with False \<open>list_ex _ t\<close> show ?thesis
        by (simp add: kt_lookup_def kt_upsert_def find_map_update upd)
    qed
  next
    case False
    then have "find (\<lambda>r. key r = k) t = None" by (simp add: find_None_iff list_ex_iff)
    with False new show ?thesis by (auto simp: kt_lookup_def kt_upsert_def find_append split: option.splits)
  qed
next
  fix t :: "'r list" and k new upd
  assume "distinct (map key t)" "key new = k" "\<And>r. key r = k \<Longrightarrow> key (upd r) = k"
  then show "distinct (map key (kt_upsert key k new upd t))"
    by (auto simp: kt_upsert_keys)
next
  fix t :: "'r list" and k k'
  show "kt_lookup key k' (kt_remove key k t) = (if k' = k then None else kt_lookup key k' t)"
    by (induction t) (auto simp: kt_lookup_def kt_remove_def find_None_iff)
next
  fix t :: "'r list" and k
  assume "distinct (map key t)"
  then show "distinct (map key (kt_remove key k t))"
    by (simp add: kt_remove_def distinct_map_filter)
qed

lemma kt_upsert_set:
  "r \<in> set (kt_upsert key k new upd t) \<Longrightarrow> r = new \<or> r \<in> set t \<or> (\<exists>r0\<in>set t. key r0 = k \<and> r = upd r0)"
  by (auto simp: kt_upsert_def split: if_splits)

lemma kt_remove_set [simp]: "set (kt_remove key k t) = {r \<in> set t. key r \<noteq> k}"
  by (auto simp: kt_remove_def)

lemma kt_lookup_Some: "kt_lookup key k t = Some r \<Longrightarrow> r \<in> set t \<and> key r = k"
  by (auto simp: kt_lookup_def dest: find_SomeD)

end
