(* ===== verification/State_Db.thy ===== *)
theory State_Db
  imports Sync_Types Keyed_Table
begin

text \<open>
  The SQLite state database: the tables of
  \<open>stratosync-core/src/state/migrations\<close> as typed rows, the statements the
  program executes on \<open>file_index\<close> with the constraints SQLite enforces on
  them (unique keys, foreign keys with cascading deletes, and the triggers of
  migration 0010), and the well-formedness invariant those constraints
  establish.

  A statement that violates a constraint fails and leaves the database as it
  was; an operation of several statements outside a transaction keeps the
  effects of the statements before the failing one.  Rows are listed in scan
  order; no theorem depends on it.  \<open>clock\<close> is the value of \<open>unixepoch()\<close>.
\<close>

section \<open>Rows and tables\<close>

record mount_row =
  m_id          :: mount_id
  m_name        :: string
  m_remote      :: string
  m_mount_path  :: string
  m_cache_dir   :: string
  m_cache_quota :: nat
  m_poll_secs   :: nat

record file_row =
  r_inode       :: inode
  r_mount_id    :: mount_id
  r_parent      :: "inode option"
  r_name        :: string
  r_remote_path :: path
  r_kind        :: file_kind
  r_size        :: nat
  r_mtime       :: int
  r_etag        :: "string option"
  r_status      :: sync_status
  r_cache_path  :: "path option"
  r_cache_size  :: "nat option"
  r_cache_mtime :: "int option"
  r_dir_listed  :: "int option"
  r_poll_generation :: nat
  r_item_id     :: "string option"

record queue_row =
  q_id           :: nat
  q_inode        :: inode
  q_mount_id     :: mount_id
  q_op           :: sync_op
  q_remote_path  :: path
  q_remote_dest  :: "path option"
  q_known_etag   :: "string option"
  q_priority     :: int
  q_attempt      :: nat
  q_next_attempt :: int
  q_created_at   :: int
  q_error_msg    :: "string option"

record token_row =
  t_mount_id   :: mount_id
  t_token      :: string
  t_updated_at :: int

record lru_row =
  l_inode       :: inode
  l_last_access :: int
  l_pinned      :: bool

record tombstone_row =
  d_mount_id    :: mount_id
  d_remote_path :: path
  d_created_at  :: int
  d_expires_at  :: int

record base_row =
  b_inode       :: inode
  b_mount_id    :: mount_id
  b_object_hash :: string
  b_file_size   :: nat
  b_updated_at  :: int

record version_row =
  v_id          :: nat
  v_inode       :: inode
  v_mount_id    :: mount_id
  v_object_hash :: string
  v_recorded_at :: int
  v_file_size   :: nat
  v_etag        :: "string option"
  v_source      :: version_source

record health_row =
  h_mount_id           :: mount_id
  h_hydration_failures :: nat
  h_hydration_error    :: "string option"
  h_hydration_unix     :: "int option"
  h_upload_failures    :: nat
  h_upload_error       :: "string option"
  h_upload_unix        :: "int option"

record db =
  mounts          :: "mount_row list"
  mount_seq       :: nat
  file_index      :: "file_row list"
  file_seq        :: nat
  sync_queue      :: "queue_row list"
  queue_seq       :: nat
  change_tokens   :: "token_row list"
  cache_lru       :: "lru_row list"
  tombstones      :: "tombstone_row list"
  base_versions   :: "base_row list"
  version_history :: "version_row list"
  version_seq     :: nat
  mount_health    :: "health_row list"
  clock           :: int

definition empty_db :: db where
  "empty_db = \<lparr> mounts = [], mount_seq = 0, file_index = [], file_seq = 0, sync_queue = [],
     queue_seq = 0, change_tokens = [], cache_lru = [], tombstones = [], base_versions = [],
     version_history = [], version_seq = 0, mount_health = [], clock = 0 \<rparr>"

datatype sql_error =
    UniqueViolation
  | ForeignKeyViolation
  | TriggerAbort
  | NoRows
  | InvalidColumnType

type_synonym 'a dbm = "(db, sql_error, 'a) sem"

section \<open>Constraints\<close>

text \<open>The triggers of migration 0010.\<close>

definition trigger_ok :: "file_row \<Rightarrow> bool" where
  "trigger_ok r \<longleftrightarrow>
     \<not> (r_kind r = File \<and> r_status r \<in> {Cached, Dirty, Uploading} \<and> r_cache_path r = None)"

abbreviation path_key :: "file_row \<Rightarrow> mount_id \<times> path" where
  "path_key r \<equiv> (r_mount_id r, r_remote_path r)"

abbreviation name_key :: "file_row \<Rightarrow> mount_id \<times> inode option \<times> string" where
  "name_key r \<equiv> (r_mount_id r, r_parent r, r_name r)"

abbreviation item_key :: "file_row \<Rightarrow> mount_id \<times> string option" where
  "item_key r \<equiv> (r_mount_id r, r_item_id r)"

definition unique_ok :: "file_row list \<Rightarrow> bool" where
  "unique_ok rows \<longleftrightarrow>
     distinct (map r_inode rows) \<and>
     distinct (map path_key rows) \<and>
     distinct (map name_key (filter (\<lambda>r. r_parent r \<noteq> None) rows)) \<and>
     distinct (map item_key (filter (\<lambda>r. r_item_id r \<noteq> None) rows))"

abbreviation inodes :: "db \<Rightarrow> inode set" where
  "inodes s \<equiv> r_inode ` set (file_index s)"

abbreviation mount_ids :: "db \<Rightarrow> mount_id set" where
  "mount_ids s \<equiv> m_id ` set (mounts s)"

definition row_refs_ok :: "db \<Rightarrow> file_row \<Rightarrow> bool" where
  "row_refs_ok s r \<longleftrightarrow>
     (case r_parent r of None \<Rightarrow> True | Some p \<Rightarrow> p \<in> inodes s) \<and> r_mount_id r \<in> mount_ids s"

definition fk_ok :: "db \<Rightarrow> bool" where
  "fk_ok s \<longleftrightarrow> list_all (row_refs_ok s) (file_index s)"

section \<open>Statements on \<open>file_index\<close>\<close>

text \<open>End of a statement: the unique indexes, then the foreign keys; a violation undoes it.\<close>

definition end_statement :: "db \<Rightarrow> 'a \<Rightarrow> 'a dbm" where
  "end_statement s' a s =
     (if \<not> unique_ok (file_index s') then (Inl UniqueViolation, s)
      else if \<not> fk_ok s' then (Inl ForeignKeyViolation, s)
      else (Inr a, s'))"

definition update_rows :: "(file_row \<Rightarrow> bool) \<Rightarrow> (file_row \<Rightarrow> file_row) \<Rightarrow> file_row list \<Rightarrow> file_row list" where
  "update_rows p f rows = map (\<lambda>r. if p r then f r else r) rows"

text \<open>\<open>UPDATE file_index SET f WHERE p\<close>; the result is the number of rows changed.\<close>

definition exec_update :: "(file_row \<Rightarrow> bool) \<Rightarrow> (file_row \<Rightarrow> file_row) \<Rightarrow> nat dbm" where
  "exec_update p f s =
     (if list_ex (\<lambda>r. p r \<and> \<not> trigger_ok (f r)) (file_index s) then (Inl TriggerAbort, s)
      else end_statement (s\<lparr>file_index := update_rows p f (file_index s)\<rparr>)
             (length (filter p (file_index s))) s)"

definition next_inode :: "db \<Rightarrow> inode" where
  "next_inode s = Suc (fold max (map r_inode (file_index s)) (file_seq s))"

text \<open>\<open>INSERT INTO file_index\<close> with the row's inode given.\<close>

definition exec_insert :: "file_row \<Rightarrow> unit dbm" where
  "exec_insert r s =
     (if \<not> trigger_ok r then (Inl TriggerAbort, s)
      else end_statement (s\<lparr>file_index := file_index s @ [r], file_seq := max (file_seq s) (r_inode r)\<rparr>) () s)"

text \<open>With \<open>AUTOINCREMENT\<close>; the result is \<open>last_insert_rowid()\<close>.\<close>

definition exec_insert_auto :: "file_row \<Rightarrow> inode dbm" where
  "exec_insert_auto r s = thenS (exec_insert (r\<lparr>r_inode := next_inode s\<rparr>)) (ret (next_inode s)) s"

text \<open>\<open>ON DELETE CASCADE\<close> of the tables that reference \<open>file_index(inode)\<close>.\<close>

definition cascade :: "inode list \<Rightarrow> db \<Rightarrow> db" where
  "cascade gone s = s\<lparr>
     sync_queue := filter (\<lambda>q. q_inode q \<notin> set gone) (sync_queue s),
     cache_lru := filter (\<lambda>l. l_inode l \<notin> set gone) (cache_lru s),
     base_versions := filter (\<lambda>b. b_inode b \<notin> set gone) (base_versions s),
     version_history := filter (\<lambda>v. v_inode v \<notin> set gone) (version_history s) \<rparr>"

definition delete_rows :: "(file_row \<Rightarrow> bool) \<Rightarrow> db \<Rightarrow> db" where
  "delete_rows p s = cascade (map r_inode (filter p (file_index s)))
     (s\<lparr>file_index := filter (\<lambda>r. \<not> p r) (file_index s)\<rparr>)"

text \<open>\<open>DELETE FROM file_index WHERE p\<close>.\<close>

definition exec_delete :: "(file_row \<Rightarrow> bool) \<Rightarrow> unit dbm" where
  "exec_delete p s = end_statement (delete_rows p s) () s"

text \<open>\<open>INSERT .. ON CONFLICT(mount_id, remote_path) DO UPDATE SET upd\<close>.\<close>

definition exec_upsert_path :: "file_row \<Rightarrow> (file_row \<Rightarrow> file_row) \<Rightarrow> unit dbm" where
  "exec_upsert_path r upd s =
     (if \<not> trigger_ok r then (Inl TriggerAbort, s)
      else if list_ex (\<lambda>x. path_key x = path_key r) (file_index s)
      then thenS (exec_update (\<lambda>x. path_key x = path_key r) upd) (ret ()) s
      else thenS (exec_insert_auto r) (ret ()) s)"

text \<open>
  \<open>INSERT OR REPLACE\<close>: the rows that conflict on a unique key are deleted
  (cascading), the new row is inserted, and the foreign keys are checked at the
  end of the statement.
\<close>

definition exec_replace :: "file_row \<Rightarrow> unit dbm" where
  "exec_replace r s =
     (if \<not> trigger_ok r then (Inl TriggerAbort, s)
      else let clash = (\<lambda>x. r_inode x = r_inode r \<or> path_key x = path_key r
                          \<or> (r_parent r \<noteq> None \<and> name_key x = name_key r)
                          \<or> (r_item_id r \<noteq> None \<and> item_key x = item_key r));
               s' = delete_rows clash s
           in end_statement
                (s'\<lparr>file_index := file_index s' @ [r], file_seq := max (file_seq s') (r_inode r)\<rparr>) () s)"

section \<open>Well-formedness\<close>

definition files_wf :: "db \<Rightarrow> bool" where
  "files_wf s \<longleftrightarrow> unique_ok (file_index s) \<and> fk_ok s
     \<and> (\<forall>r\<in>set (file_index s). trigger_ok r \<and> r_inode r \<le> file_seq s)"

definition queue_wf :: "db \<Rightarrow> bool" where
  "queue_wf s \<longleftrightarrow> distinct (map q_id (sync_queue s))
     \<and> distinct (map (\<lambda>q. (q_inode q, q_op q)) (sync_queue s))
     \<and> (\<forall>q\<in>set (sync_queue s). q_id q \<le> queue_seq s \<and> q_inode q \<in> inodes s \<and> q_mount_id q \<in> mount_ids s)"

definition lru_wf :: "db \<Rightarrow> bool" where
  "lru_wf s \<longleftrightarrow> distinct (map l_inode (cache_lru s)) \<and> (\<forall>l\<in>set (cache_lru s). l_inode l \<in> inodes s)"

definition base_key :: "base_row \<Rightarrow> inode \<times> mount_id" where
  "base_key b = (b_inode b, b_mount_id b)"

definition bases_wf :: "db \<Rightarrow> bool" where
  "bases_wf s \<longleftrightarrow> distinct (map base_key (base_versions s))
     \<and> (\<forall>b\<in>set (base_versions s). b_inode b \<in> inodes s \<and> b_mount_id b \<in> mount_ids s)"

definition versions_wf :: "db \<Rightarrow> bool" where
  "versions_wf s \<longleftrightarrow> distinct (map v_id (version_history s))
     \<and> (\<forall>v\<in>set (version_history s). v_id v \<le> version_seq s \<and> v_inode v \<in> inodes s \<and> v_mount_id v \<in> mount_ids s)"

definition tomb_key :: "tombstone_row \<Rightarrow> mount_id \<times> path" where
  "tomb_key d = (d_mount_id d, d_remote_path d)"

definition mounts_wf :: "db \<Rightarrow> bool" where
  "mounts_wf s \<longleftrightarrow> distinct (map m_id (mounts s)) \<and> distinct (map m_name (mounts s))
     \<and> distinct (map m_mount_path (mounts s)) \<and> (\<forall>m\<in>set (mounts s). m_id m \<le> mount_seq s)"

definition mount_tables_wf :: "db \<Rightarrow> bool" where
  "mount_tables_wf s \<longleftrightarrow>
     distinct (map t_mount_id (change_tokens s)) \<and> distinct (map tomb_key (tombstones s))
     \<and> distinct (map h_mount_id (mount_health s))
     \<and> (\<forall>t\<in>set (change_tokens s). t_mount_id t \<in> mount_ids s)
     \<and> (\<forall>d\<in>set (tombstones s). d_mount_id d \<in> mount_ids s)
     \<and> (\<forall>h\<in>set (mount_health s). h_mount_id h \<in> mount_ids s)"

definition db_wf :: "db \<Rightarrow> bool" where
  "db_wf s \<longleftrightarrow> files_wf s \<and> queue_wf s \<and> lru_wf s \<and> bases_wf s \<and> versions_wf s
     \<and> mounts_wf s \<and> mount_tables_wf s"

lemmas db_wf_defs = db_wf_def files_wf_def queue_wf_def lru_wf_def bases_wf_def versions_wf_def
  mounts_wf_def mount_tables_wf_def

lemmas child_wf_defs = queue_wf_def lru_wf_def bases_wf_def versions_wf_def mounts_wf_def mount_tables_wf_def

lemma empty_db_wf: "db_wf empty_db"
  by (simp add: db_wf_defs empty_db_def unique_ok_def fk_ok_def)

text \<open>Interpretations of the keyed-table interface on the tables of the database.\<close>

interpretation lru_tab: keyed_table "kt_lookup l_inode" "kt_upsert l_inode" "kt_remove l_inode"
    "\<lambda>t. distinct (map l_inode t)" "\<lambda>k r. l_inode r = k"
  by (rule kt_keyed_table)

interpretation token_tab: keyed_table "kt_lookup t_mount_id" "kt_upsert t_mount_id" "kt_remove t_mount_id"
    "\<lambda>t. distinct (map t_mount_id t)" "\<lambda>k r. t_mount_id r = k"
  by (rule kt_keyed_table)

interpretation tomb_tab: keyed_table "kt_lookup tomb_key" "kt_upsert tomb_key" "kt_remove tomb_key"
    "\<lambda>t. distinct (map tomb_key t)" "\<lambda>k r. tomb_key r = k"
  by (rule kt_keyed_table)

interpretation base_tab: keyed_table "kt_lookup base_key" "kt_upsert base_key" "kt_remove base_key"
    "\<lambda>t. distinct (map base_key t)" "\<lambda>k r. base_key r = k"
  by (rule kt_keyed_table)

interpretation health_tab: keyed_table "kt_lookup h_mount_id" "kt_upsert h_mount_id" "kt_remove h_mount_id"
    "\<lambda>t. distinct (map h_mount_id t)" "\<lambda>k r. h_mount_id r = k"
  by (rule kt_keyed_table)

subsection \<open>Statements keep the database well-formed\<close>

lemma end_statement_cases:
  "end_statement s' a s = (Inr a, s') \<and> unique_ok (file_index s') \<and> fk_ok s' \<or> snd (end_statement s' a s) = s"
  by (simp add: end_statement_def)

lemma keeps_end_statement:
  "(\<And>s. I s \<Longrightarrow> unique_ok (file_index (f s)) \<Longrightarrow> fk_ok (f s) \<Longrightarrow> I (f s)) \<Longrightarrow> I s \<Longrightarrow>
   I (snd (end_statement (f s) (a s) s))"
  by (simp add: end_statement_def)

lemma update_rows_inodes:
  "(\<And>r. r_inode (f r) = r_inode r) \<Longrightarrow> map r_inode (update_rows p f rows) = map r_inode rows"
  by (simp add: update_rows_def)

lemma update_rows_set:
  "r \<in> set (update_rows p f rows) \<longleftrightarrow> (\<exists>r0\<in>set rows. r = (if p r0 then f r0 else r0))"
  by (auto simp: update_rows_def)

lemma inodes_update:
  assumes "\<And>r. r_inode (f r) = r_inode r"
  shows "r_inode ` set (update_rows p f rows) = r_inode ` set rows"
  using arg_cong [OF update_rows_inodes [of f p rows, OF assms], of set] by simp

lemma update_db_wf:
  assumes wf: "db_wf s" and f: "\<And>r. r_inode (f r) = r_inode r"
    and "unique_ok (update_rows p f (file_index s))" "fk_ok (s\<lparr>file_index := update_rows p f (file_index s)\<rparr>)"
    and trig: "\<And>r. r \<in> set (file_index s) \<Longrightarrow> p r \<Longrightarrow> trigger_ok (f r)"
  shows "db_wf (s\<lparr>file_index := update_rows p f (file_index s)\<rparr>)"
  using assms by (auto simp: db_wf_defs inodes_update [OF f] update_rows_set f)

lemma keeps_update:
  assumes f: "\<And>r. r_inode (f r) = r_inode r"
  shows "keeps db_wf (exec_update p f)"
proof (rule keepsI)
  fix s assume "db_wf s"
  then show "db_wf (snd (exec_update p f s))"
    using update_db_wf [OF _ f, of s p] by (auto simp: exec_update_def end_statement_def list_ex_iff)
qed

lemma fold_max_ge: "a \<le> fold max xs (a :: nat) \<and> (\<forall>x\<in>set xs. x \<le> fold max xs a)"
proof (induction xs arbitrary: a)
  case (Cons x xs)
  from Cons.IH [of "max x a"] show ?case by (auto simp: max_def split: if_splits)
qed simp

lemma next_inode_fresh: "next_inode s \<notin> inodes s" "file_seq s < next_inode s"
  using fold_max_ge [of "file_seq s" "map r_inode (file_index s)"]
  by (fastforce simp: next_inode_def)+

lemma keeps_insert: "keeps db_wf (exec_insert r)"
proof (rule keepsI)
  fix s assume "db_wf s"
  then show "db_wf (snd (exec_insert r s))"
    by (auto simp: exec_insert_def end_statement_def db_wf_defs)
qed

lemma keeps_insert_auto: "keeps db_wf (exec_insert_auto r)"
  unfolding exec_insert_auto_def [abs_def] keeps_def
  using keepsD [OF keeps_insert] by (auto simp: run_then split: prod.splits sum.splits) (metis snd_conv)+

lemma cascade_fields [simp]:
  "file_index (cascade g s) = file_index s" "mounts (cascade g s) = mounts s"
  "file_seq (cascade g s) = file_seq s" "mount_seq (cascade g s) = mount_seq s"
  "clock (cascade g s) = clock s" "tombstones (cascade g s) = tombstones s"
  "change_tokens (cascade g s) = change_tokens s" "mount_health (cascade g s) = mount_health s"
  by (simp_all add: cascade_def)

lemma file_index_delete_rows [simp]:
  "file_index (delete_rows p s) = filter (\<lambda>r. \<not> p r) (file_index s)"
  by (simp add: delete_rows_def)

lemma filter_swap: "filter p (filter q xs) = filter q (filter p xs)"
  by (induction xs) auto

lemma unique_ok_filter: "unique_ok rows \<Longrightarrow> unique_ok (filter q rows)"
  unfolding unique_ok_def filter_swap [of _ q]
  using distinct_map_filter [of name_key "filter (\<lambda>r. r_parent r \<noteq> None) rows" q]
    distinct_map_filter [of item_key "filter (\<lambda>r. r_item_id r \<noteq> None) rows" q]
  by (auto simp: distinct_map_filter simp del: filter_filter)

lemma child_delete:
  "\<lbrakk>i \<in> r_inode ` set rows; i \<notin> set (map r_inode (filter p rows))\<rbrakk>
   \<Longrightarrow> i \<in> r_inode ` set (filter (\<lambda>r. \<not> p r) rows)"
  by auto

lemma children_wf_delete_rows:
  "queue_wf s \<Longrightarrow> queue_wf (delete_rows p s)" "lru_wf s \<Longrightarrow> lru_wf (delete_rows p s)"
  "bases_wf s \<Longrightarrow> bases_wf (delete_rows p s)" "versions_wf s \<Longrightarrow> versions_wf (delete_rows p s)"
  "mounts_wf s \<Longrightarrow> mounts_wf (delete_rows p s)" "mount_tables_wf s \<Longrightarrow> mount_tables_wf (delete_rows p s)"
  unfolding child_wf_defs delete_rows_def cascade_def
  by (simp_all add: distinct_map_filter) blast+

lemma keeps_delete: "keeps db_wf (exec_delete p)"
proof (rule keepsI)
  fix s assume wf: "db_wf s"
  have "db_wf (delete_rows p s)" if "unique_ok (file_index (delete_rows p s))" "fk_ok (delete_rows p s)"
    using wf that children_wf_delete_rows [of s p]
    by (auto simp: db_wf_def files_wf_def) (simp add: delete_rows_def)
  with wf show "db_wf (snd (exec_delete p s))"
    by (simp add: exec_delete_def end_statement_def)
qed

lemma keeps_upsert_path:
  assumes f: "\<And>r. r_inode (f r) = r_inode r"
  shows "keeps db_wf (exec_upsert_path r f)"
proof (rule keepsI)
  fix s assume wf: "db_wf s"
  have "keeps db_wf (thenS (exec_update (\<lambda>x. path_key x = path_key r) f) (ret ()))"
    and "keeps db_wf (thenS (exec_insert_auto r) (ret ()))"
    by (intro keeps_rules keeps_update f keeps_insert_auto)+
  from this [THEN keepsD, OF wf] wf show "db_wf (snd (exec_upsert_path r f s))"
    by (simp add: exec_upsert_path_def)
qed

lemma keeps_replace: "keeps db_wf (exec_replace r)"
proof (rule keepsI)
  fix s assume wf: "db_wf s"
  define clash where "clash = (\<lambda>x. r_inode x = r_inode r \<or> path_key x = path_key r
    \<or> (r_parent r \<noteq> None \<and> name_key x = name_key r) \<or> (r_item_id r \<noteq> None \<and> item_key x = item_key r))"
  define s' where "s' = delete_rows clash s"
  have c: "queue_wf s'" "lru_wf s'" "bases_wf s'" "versions_wf s'" "mounts_wf s'" "mount_tables_wf s'"
    using wf children_wf_delete_rows [of s clash] by (simp_all add: db_wf_def s'_def)
  have seq: "\<forall>x\<in>set (file_index s'). trigger_ok x \<and> r_inode x \<le> file_seq s'"
    using wf by (auto simp: s'_def db_wf_def files_wf_def) (simp add: delete_rows_def)
  have "db_wf (s'\<lparr>file_index := file_index s' @ [r], file_seq := max (file_seq s') (r_inode r)\<rparr>)"
    if "unique_ok (file_index s' @ [r])" "trigger_ok r"
      "fk_ok (s'\<lparr>file_index := file_index s' @ [r], file_seq := max (file_seq s') (r_inode r)\<rparr>)"
    using c seq that by (auto simp: db_wf_def files_wf_def child_wf_defs)
  with wf show "db_wf (snd (exec_replace r s))"
    unfolding exec_replace_def clash_def [symmetric] Let_def s'_def [symmetric] end_statement_def
    by simp
qed

text \<open>
  Reading and writing tables other than \<open>file_index\<close>: a change that leaves
  \<open>file_index\<close>, its sequence and the mounts alone keeps \<open>files_wf\<close>.
\<close>

lemma files_wf_frame:
  "\<lbrakk>files_wf s; file_index s' = file_index s; file_seq s' = file_seq s; mounts s' = mounts s\<rbrakk> \<Longrightarrow> files_wf s'"
  by (simp add: files_wf_def fk_ok_def row_refs_ok_def [abs_def] cong: option.case_cong)

subsection \<open>Row-level frames\<close>

text \<open>
  \<open>has_row Q\<close>: some row of \<open>file_index\<close> satisfies \<open>Q\<close>.  The rules say which
  statements keep such a row; with \<open>Q\<close> an equation they say that a given row is
  untouched.
\<close>

definition has_row :: "(file_row \<Rightarrow> bool) \<Rightarrow> db \<Rightarrow> bool" where
  "has_row Q s \<longleftrightarrow> (\<exists>r\<in>set (file_index s). Q r)"

lemma has_row_update: "(\<And>r. Q r \<Longrightarrow> p r \<Longrightarrow> Q (f r)) \<Longrightarrow> keeps (has_row Q) (exec_update p f)"
  unfolding keeps_def
  by (auto simp: exec_update_def end_statement_def has_row_def update_rows_def)

lemma has_row_delete: "(\<And>r. Q r \<Longrightarrow> \<not> p r) \<Longrightarrow> keeps (has_row Q) (exec_delete p)"
  unfolding keeps_def
  by (auto simp: exec_delete_def end_statement_def has_row_def)

lemma has_row_insert: "keeps (has_row Q) (exec_insert r)"
  unfolding keeps_def by (auto simp: exec_insert_def end_statement_def has_row_def)

lemma has_row_insert_auto: "keeps (has_row Q) (exec_insert_auto r)"
  unfolding exec_insert_auto_def [abs_def] keeps_def
  using keepsD [OF has_row_insert] by (auto simp: run_then split: prod.splits sum.splits) (metis snd_conv)+

lemma has_row_upsert_path:
  assumes "\<And>x. Q x \<Longrightarrow> path_key x = path_key r \<Longrightarrow> Q (f x)"
  shows "keeps (has_row Q) (exec_upsert_path r f)"
proof (rule keepsI)
  fix s assume h: "has_row Q s"
  have "keeps (has_row Q) (thenS (exec_update (\<lambda>x. path_key x = path_key r) f) (ret ()))"
    and "keeps (has_row Q) (thenS (exec_insert_auto r) (ret ()))"
    by (intro keeps_rules has_row_update has_row_insert_auto assms; simp)+
  from this [THEN keepsD, OF h] h show "has_row Q (snd (exec_upsert_path r f s))"
    by (simp add: exec_upsert_path_def)
qed

lemma has_row_frame: "(\<And>s. file_index (f s) = file_index s) \<Longrightarrow> keeps (has_row Q) (modifyS f)"
  by (simp add: keeps_def has_row_def)

subsection \<open>Statements that cannot fail\<close>

text \<open>The columns the unique indexes and foreign keys are about.\<close>

definition same_keys :: "file_row \<Rightarrow> file_row \<Rightarrow> bool" where
  "same_keys r r' \<longleftrightarrow> r_inode r' = r_inode r \<and> r_mount_id r' = r_mount_id r \<and> r_parent r' = r_parent r
     \<and> r_name r' = r_name r \<and> r_remote_path r' = r_remote_path r \<and> r_item_id r' = r_item_id r"

lemma filter_map_same: "(\<And>x. P (g x) = P x) \<Longrightarrow> filter P (map g xs) = map g (filter P xs)"
  by (induction xs) auto

lemma unique_ok_same_keys:
  assumes "\<And>r. same_keys r (f r)"
  shows "unique_ok (update_rows p f rows) = unique_ok rows"
proof -
  define g where "g = (\<lambda>r. if p r then f r else r)"
  have k: "r_inode (g r) = r_inode r" "r_mount_id (g r) = r_mount_id r" "r_remote_path (g r) = r_remote_path r"
    "r_parent (g r) = r_parent r" "r_name (g r) = r_name r" "r_item_id (g r) = r_item_id r" for r
    using assms [of r] by (auto simp: same_keys_def g_def)
  show ?thesis
    unfolding unique_ok_def update_rows_def g_def [symmetric]
    by (simp add: filter_map_same k comp_def)
qed

lemma fk_ok_same_keys:
  assumes "\<And>r. same_keys r (f r)"
  shows "fk_ok (s\<lparr>file_index := update_rows p f (file_index s)\<rparr>) = fk_ok s"
proof -
  have k: "r_inode (f r) = r_inode r" "r_mount_id (f r) = r_mount_id r" "r_parent (f r) = r_parent r" for r
    using assms [of r] by (auto simp: same_keys_def)
  have "row_refs_ok (s\<lparr>file_index := update_rows p f (file_index s)\<rparr>) (if p r then f r else r) = row_refs_ok s r" for r
    by (simp add: row_refs_ok_def inodes_update k split: option.splits)
  then show ?thesis
    by (simp add: fk_ok_def update_rows_def list.pred_map comp_def)
qed

lemma exec_update_same_keys:
  assumes "db_wf s" "\<And>r. same_keys r (f r)"
  shows "exec_update p f s =
    (if list_ex (\<lambda>r. p r \<and> \<not> trigger_ok (f r)) (file_index s) then (Inl TriggerAbort, s)
     else (Inr (length (filter p (file_index s))), s\<lparr>file_index := update_rows p f (file_index s)\<rparr>))"
  using assms by (simp add: exec_update_def end_statement_def unique_ok_same_keys fk_ok_same_keys
      db_wf_def files_wf_def)

end
