(* ===== verification/State_Files.thy ===== *)
theory State_Files
  imports State_Db "HOL-Library.Char_ord" "HOL-Library.List_Lexorder" "HOL-Library.Product_Lexorder"
begin

text \<open>
  The operations of \<open>StateDb\<close> (\<open>stratosync-core/src/state/mod.rs\<close>) on the
  \<open>file_index\<close> table: inserts, the poller's upserts, reads, status transitions,
  renames and deletions, and the recovery sweeps of a daemon start.  Each
  definition is one method; its statements run in the source's order.
\<close>

section \<open>Inserts\<close>

record new_file_entry =
  n_mount_id    :: mount_id
  n_parent      :: inode
  n_name        :: string
  n_remote_path :: path
  n_kind        :: file_kind
  n_size        :: nat
  n_mtime       :: system_time
  n_etag        :: "string option"
  n_status      :: sync_status
  n_cache_path  :: "path option"
  n_cache_size  :: "nat option"

definition row_of_new :: "inode \<Rightarrow> inode option \<Rightarrow> new_file_entry \<Rightarrow> file_row" where
  "row_of_new i parent e =
     \<lparr> r_inode = i, r_mount_id = n_mount_id e, r_parent = parent, r_name = n_name e,
       r_remote_path = n_remote_path e, r_kind = n_kind e, r_size = n_size e,
       r_mtime = to_unix (n_mtime e), r_etag = n_etag e, r_status = n_status e,
       r_cache_path = n_cache_path e, r_cache_size = n_cache_size e, r_cache_mtime = None,
       r_dir_listed = None, r_poll_generation = 0, r_item_id = None \<rparr>"

definition insert_root :: "new_file_entry \<Rightarrow> inode dbm" where
  "insert_root e = thenS (exec_replace (row_of_new FUSE_ROOT_INODE None e)) (ret FUSE_ROOT_INODE)"

definition insert_file :: "new_file_entry \<Rightarrow> inode dbm" where
  "insert_file e = exec_insert_auto (row_of_new 0 (Some (n_parent e)) e)"

section \<open>Upserts of remote listings\<close>

text \<open>\<open>CASE WHEN status IN ('dirty','uploading') THEN status ELSE 'stale' END\<close>.\<close>

definition upserted_status :: "sync_status \<Rightarrow> sync_status" where
  "upserted_status s = (if unsynced s then s else Stale)"

definition remote_row ::
  "mount_id \<Rightarrow> inode \<Rightarrow> string \<Rightarrow> path \<Rightarrow> file_kind \<Rightarrow> nat \<Rightarrow> system_time \<Rightarrow> string option
   \<Rightarrow> string option \<Rightarrow> nat \<Rightarrow> file_row" where
  "remote_row m parent name rp kind sz mtime etag item_id gen =
     \<lparr> r_inode = 0, r_mount_id = m, r_parent = Some parent, r_name = name, r_remote_path = rp,
       r_kind = kind, r_size = sz, r_mtime = to_unix mtime, r_etag = etag, r_status = Remote,
       r_cache_path = None, r_cache_size = None, r_cache_mtime = None, r_dir_listed = None,
       r_poll_generation = gen, r_item_id = item_id \<rparr>"

text \<open>The \<open>DO UPDATE SET\<close> list shared by the upserts; \<open>excluded\<close> is the row that was not inserted.\<close>

definition upsert_columns :: "file_row \<Rightarrow> file_row \<Rightarrow> file_row" where
  "upsert_columns excluded r = r\<lparr>
     r_parent := r_parent excluded, r_name := r_name excluded, r_kind := r_kind excluded,
     r_size := r_size excluded, r_mtime := r_mtime excluded, r_etag := r_etag excluded,
     r_poll_generation := r_poll_generation excluded,
     r_status := upserted_status (r_status r) \<rparr>"

type_synonym listing_entry =
  "string \<times> path \<times> file_kind \<times> nat \<times> system_time \<times> string option"

definition upsert_listing_entry :: "mount_id \<Rightarrow> inode \<Rightarrow> nat \<Rightarrow> listing_entry \<Rightarrow> unit dbm" where
  "upsert_listing_entry m parent gen e =
     (case e of (name, rp, kind, sz, mtime, etag) \<Rightarrow>
        let x = remote_row m parent name rp kind sz mtime etag None gen
        in exec_upsert_path x (upsert_columns x))"

definition batch_upsert_remote_files_gen :: "mount_id \<Rightarrow> inode \<Rightarrow> listing_entry list \<Rightarrow> nat \<Rightarrow> unit dbm" where
  "batch_upsert_remote_files_gen m parent entries gen =
     each (\<lambda>chunk. transaction (each (upsert_listing_entry m parent gen) chunk)) (chunks 1000 entries)"

definition batch_upsert_remote_files :: "mount_id \<Rightarrow> inode \<Rightarrow> listing_entry list \<Rightarrow> unit dbm" where
  "batch_upsert_remote_files m parent entries = batch_upsert_remote_files_gen m parent entries 0"

definition find_row :: "(file_row \<Rightarrow> bool) \<Rightarrow> db \<Rightarrow> file_row option" where
  "find_row p s = find p (file_index s)"

definition upsert_remote_file_by_id_or_path ::
  "mount_id \<Rightarrow> inode \<Rightarrow> string \<Rightarrow> path \<Rightarrow> file_kind \<Rightarrow> nat \<Rightarrow> system_time \<Rightarrow> string option
   \<Rightarrow> string option \<Rightarrow> nat \<Rightarrow> inode dbm" where
  "upsert_remote_file_by_id_or_path m parent name rp kind sz mtime etag item_id gen =
     (let x = remote_row m parent name rp kind sz mtime etag item_id gen in
      bindS (query (\<lambda>s. case item_id of
                 None \<Rightarrow> None
               | Some i \<Rightarrow> find_row (\<lambda>r. r_mount_id r = m \<and> r_item_id r = Some i) s))
       (\<lambda>existing. case existing of
          Some old \<Rightarrow>
            thenS (if r_remote_path old \<noteq> rp
                   then exec_delete (\<lambda>r. r_mount_id r = m \<and> r_remote_path r = rp \<and> r_inode r \<noteq> r_inode old)
                   else ret ())
             (thenS (exec_update (\<lambda>r. r_inode r = r_inode old)
                       (\<lambda>r. (upsert_columns x r)\<lparr>r_remote_path := rp\<rparr>))
                (ret (r_inode old)))
        | None \<Rightarrow>
            thenS (exec_upsert_path x
                     (\<lambda>r. (upsert_columns x r)\<lparr>r_item_id := or_else (r_item_id r) item_id\<rparr>))
              (bindS (query (find_row (\<lambda>r. r_mount_id r = m \<and> r_remote_path r = rp)))
                 (\<lambda>row. case row of Some r \<Rightarrow> ret (r_inode r) | None \<Rightarrow> raise NoRows))))"

definition upsert_remote_file_gen ::
  "mount_id \<Rightarrow> inode \<Rightarrow> string \<Rightarrow> path \<Rightarrow> file_kind \<Rightarrow> nat \<Rightarrow> system_time \<Rightarrow> string option \<Rightarrow> nat \<Rightarrow> inode dbm" where
  "upsert_remote_file_gen m parent name rp kind sz mtime etag gen =
     upsert_remote_file_by_id_or_path m parent name rp kind sz mtime etag None gen"

definition upsert_remote_file ::
  "mount_id \<Rightarrow> inode \<Rightarrow> string \<Rightarrow> path \<Rightarrow> file_kind \<Rightarrow> nat \<Rightarrow> system_time \<Rightarrow> string option \<Rightarrow> inode dbm" where
  "upsert_remote_file m parent name rp kind sz mtime etag =
     upsert_remote_file_by_id_or_path m parent name rp kind sz mtime etag None 0"

section \<open>Reads\<close>

definition row_to_entry :: "file_row \<Rightarrow> file_entry" where
  "row_to_entry r =
     \<lparr> fe_inode = r_inode r, fe_mount_id = r_mount_id r,
       fe_parent = (case r_parent r of None \<Rightarrow> 0 | Some p \<Rightarrow> p),
       fe_name = r_name r, fe_remote_path = r_remote_path r,
       fe_kind = kind_of_column (kind_as_str (r_kind r)), fe_size = r_size r,
       fe_mtime = from_unix (r_mtime r), fe_etag = r_etag r,
       fe_status = status_of_column (status_as_str (r_status r)),
       fe_cache_path = r_cache_path r, fe_cache_size = r_cache_size r,
       fe_dir_listed = map_option from_unix (r_dir_listed r) \<rparr>"

lemma row_to_entry_simps [simp]:
  "fe_kind (row_to_entry r) = r_kind r" "fe_cache_path (row_to_entry r) = r_cache_path r"
  "fe_status (row_to_entry r) = r_status r" "fe_remote_path (row_to_entry r) = r_remote_path r"
  "fe_etag (row_to_entry r) = r_etag r" "fe_inode (row_to_entry r) = r_inode r" "fe_size (row_to_entry r) = r_size r"
  "fe_mount_id (row_to_entry r) = r_mount_id r" "fe_name (row_to_entry r) = r_name r"
  "fe_cache_size (row_to_entry r) = r_cache_size r" "fe_dir_listed (row_to_entry r) = map_option from_unix (r_dir_listed r)"
  "fe_mtime (row_to_entry r) = from_unix (r_mtime r)"
  by (simp_all add: row_to_entry_def kind_of_as_str status_of_as_str)

definition get_by_inode :: "inode \<Rightarrow> file_entry option dbm" where
  "get_by_inode i = query (\<lambda>s. map_option row_to_entry (find_row (\<lambda>r. r_inode r = i) s))"

lemma get_by_inode_run: "get_by_inode i s = (Inr (map_option row_to_entry (find_row (\<lambda>r. r_inode r = i) s)), s)"
  by (simp add: get_by_inode_def)

definition get_by_parent_name :: "mount_id \<Rightarrow> inode \<Rightarrow> string \<Rightarrow> file_entry option dbm" where
  "get_by_parent_name m parent name =
     query (\<lambda>s. map_option row_to_entry
        (find_row (\<lambda>r. r_mount_id r = m \<and> r_parent r = Some parent \<and> r_name r = name) s))"

definition list_children :: "mount_id \<Rightarrow> inode \<Rightarrow> file_entry list dbm" where
  "list_children m parent =
     query (\<lambda>s. map row_to_entry (sort_key r_inode
        (filter (\<lambda>r. r_mount_id r = m \<and> r_parent r = Some parent) (file_index s))))"

definition get_by_cache_path :: "mount_id \<Rightarrow> path \<Rightarrow> file_entry option dbm" where
  "get_by_cache_path m cp =
     query (\<lambda>s. map_option row_to_entry (find_row (\<lambda>r. r_mount_id r = m \<and> r_cache_path r = Some cp) s))"

definition get_by_remote_path :: "mount_id \<Rightarrow> path \<Rightarrow> file_entry option dbm" where
  "get_by_remote_path m rp =
     query (\<lambda>s. map_option row_to_entry (find_row (\<lambda>r. r_mount_id r = m \<and> r_remote_path r = rp) s))"

definition get_item_id :: "inode \<Rightarrow> string option dbm" where
  "get_item_id i = query (\<lambda>s. Option.bind (find_row (\<lambda>r. r_inode r = i) s) r_item_id)"

definition get_pending_uploads :: "mount_id \<Rightarrow> file_entry list dbm" where
  "get_pending_uploads m = query (\<lambda>s. map row_to_entry (filter (\<lambda>r.
      r_mount_id r = m \<and> unsynced (r_status r) \<and> r_kind r = File \<and> r_cache_path r \<noteq> None) (file_index s)))"

text \<open>SQL \<open>LIKE\<close>: \<open>%\<close> any text, \<open>_\<close> any character, letters compared without case.\<close>

fun sql_like :: "string \<Rightarrow> string \<Rightarrow> bool" where
  "sql_like [] s = (s = [])"
| "sql_like (p # ps) [] = (p = CHR ''%'' \<and> sql_like ps [])"
| "sql_like (p # ps) (c # s) =
     (if p = CHR ''%'' then sql_like ps (c # s) \<or> sql_like (p # ps) s
      else (p = CHR ''_'' \<or> ascii_lower p = ascii_lower c) \<and> sql_like ps s)"

definition list_file_descendants :: "mount_id \<Rightarrow> path \<Rightarrow> file_entry list dbm" where
  "list_file_descendants m pre =
     (let pattern = trim_end_matches (CHR ''/'') pre @ ''/'' @ ''%''
      in query (\<lambda>s. map row_to_entry (sort_key r_remote_path (filter (\<lambda>r.
           r_mount_id r = m \<and> sql_like pattern (r_remote_path r) \<and> r_kind r = File) (file_index s)))))"

definition count_by_status :: "mount_id \<Rightarrow> sync_status \<Rightarrow> nat dbm" where
  "count_by_status m st = query (\<lambda>s. length (filter (\<lambda>r. r_mount_id r = m \<and> r_status r = st) (file_index s)))"

definition count_conflicts :: "mount_id \<Rightarrow> nat dbm" where
  "count_conflicts m = query (\<lambda>s. length (filter (\<lambda>r.
      r_mount_id r = m \<and> (r_status r = Conflict \<or> sql_like ''%.conflict.%'' (r_name r))) (file_index s)))"

record remote_snapshot =
  sn_inode  :: inode
  sn_etag   :: "string option"
  sn_size   :: nat
  sn_status :: sync_status

definition snapshot_of_row :: "file_row \<Rightarrow> remote_snapshot" where
  "snapshot_of_row r = \<lparr> sn_inode = r_inode r, sn_etag = r_etag r, sn_size = r_size r, sn_status = r_status r \<rparr>"

text \<open>A \<open>HashMap\<close> filled by \<open>insert\<close> in row order: the last row of a path wins.\<close>

definition snapshot_remote_index :: "mount_id \<Rightarrow> (path \<rightharpoonup> remote_snapshot) dbm" where
  "snapshot_remote_index m = query (\<lambda>s.
     map_of (rev (map (\<lambda>r. (r_remote_path r, snapshot_of_row r))
       (filter (\<lambda>r. r_mount_id r = m) (file_index s)))))"

section \<open>Status transitions\<close>

text \<open>\<open>INSERT INTO cache_lru .. ON CONFLICT(inode) DO UPDATE\<close>, with the foreign key on the inode.\<close>

definition exec_lru_upsert :: "lru_row \<Rightarrow> (lru_row \<Rightarrow> lru_row) \<Rightarrow> unit dbm" where
  "exec_lru_upsert new upd s =
     (if l_inode new \<notin> inodes s then (Inl ForeignKeyViolation, s)
      else (Inr (), s\<lparr>cache_lru := kt_upsert l_inode (l_inode new) new upd (cache_lru s)\<rparr>))"

definition exec_lru_delete :: "inode \<Rightarrow> unit dbm" where
  "exec_lru_delete i = modifyS (\<lambda>s. s\<lparr>cache_lru := kt_remove l_inode i (cache_lru s)\<rparr>)"

definition touch_lru :: "inode \<Rightarrow> unit dbm" where
  "touch_lru i = bindS (query clock) (\<lambda>now.
     exec_lru_upsert \<lparr> l_inode = i, l_last_access = now, l_pinned = False \<rparr> (\<lambda>l. l\<lparr>l_last_access := now\<rparr>))"

definition set_status :: "inode \<Rightarrow> sync_status \<Rightarrow> unit dbm" where
  "set_status i st = thenS (exec_update (\<lambda>r. r_inode r = i) (\<lambda>r. r\<lparr>r_status := st\<rparr>)) (ret ())"

definition set_dirty_size :: "inode \<Rightarrow> nat \<Rightarrow> unit dbm" where
  "set_dirty_size i sz = thenS
     (exec_update (\<lambda>r. r_inode r = i)
        (\<lambda>r. r\<lparr>r_status := Dirty, r_size := sz, r_cache_size := Some sz\<rparr>)) (ret ())"

definition set_dirty_with_cache_path :: "inode \<Rightarrow> path \<Rightarrow> nat \<Rightarrow> unit dbm" where
  "set_dirty_with_cache_path i cp sz = thenS
     (exec_update (\<lambda>r. r_inode r = i)
        (\<lambda>r. r\<lparr>r_status := Dirty, r_size := sz, r_cache_size := Some sz, r_cache_path := Some cp\<rparr>)) (ret ())"

definition set_cached :: "inode \<Rightarrow> path \<Rightarrow> nat \<Rightarrow> string option \<Rightarrow> system_time \<Rightarrow> nat \<Rightarrow> unit dbm" where
  "set_cached i cp csize etag mtime sz = bindS (query clock) (\<lambda>now.
     thenS (exec_update (\<lambda>r. r_inode r = i)
              (\<lambda>r. r\<lparr>r_status := Cached, r_cache_path := Some cp, r_cache_size := Some csize, r_etag := etag,
                      r_mtime := to_unix mtime, r_size := sz, r_cache_mtime := Some now\<rparr>))
       (touch_lru i))"

definition set_uploaded :: "inode \<Rightarrow> nat \<Rightarrow> string option \<Rightarrow> system_time \<Rightarrow> nat \<Rightarrow> unit dbm" where
  "set_uploaded i csize etag mtime sz = bindS (query clock) (\<lambda>now.
     thenS (exec_update (\<lambda>r. r_inode r = i)
              (\<lambda>r. r\<lparr>r_status := Cached, r_cache_size := Some csize, r_etag := etag,
                      r_mtime := to_unix mtime, r_size := sz, r_cache_mtime := Some now\<rparr>))
       (touch_lru i))"

definition detach_cache :: "file_row \<Rightarrow> file_row" where
  "detach_cache r = r\<lparr>r_status := Remote, r_cache_path := None, r_cache_size := None, r_cache_mtime := None\<rparr>"

definition set_evicted :: "inode \<Rightarrow> unit dbm" where
  "set_evicted i = thenS (exec_update (\<lambda>r. r_inode r = i) detach_cache) (exec_lru_delete i)"

definition revert_dirty_with_missing_cache :: "inode \<Rightarrow> path \<Rightarrow> bool dbm" where
  "revert_dirty_with_missing_cache i expected =
     bindS (exec_update (\<lambda>r. r_inode r = i \<and> r_kind r = File \<and> unsynced (r_status r)
                              \<and> r_cache_path r = Some expected) detach_cache)
       (\<lambda>n. if n > 0 then thenS (exec_lru_delete i) (ret True) else ret False)"

definition mark_dir_listed :: "inode \<Rightarrow> unit dbm" where
  "mark_dir_listed i = bindS (query clock) (\<lambda>now.
     thenS (exec_update (\<lambda>r. r_inode r = i) (\<lambda>r. r\<lparr>r_dir_listed := Some now\<rparr>)) (ret ()))"

definition batch_mark_dirs_listed :: "mount_id \<Rightarrow> nat dbm" where
  "batch_mark_dirs_listed m = bindS (query clock) (\<lambda>now.
     exec_update (\<lambda>r. r_mount_id r = m \<and> r_kind r = Directory \<and> r_dir_listed r = None)
       (\<lambda>r. r\<lparr>r_dir_listed := Some now\<rparr>))"

definition invalidate_dir :: "inode \<Rightarrow> unit dbm" where
  "invalidate_dir i = thenS (exec_update (\<lambda>r. r_inode r = i) (\<lambda>r. r\<lparr>r_dir_listed := None\<rparr>)) (ret ())"

definition set_item_id_if_absent :: "inode \<Rightarrow> string \<Rightarrow> bool dbm" where
  "set_item_id_if_absent i item =
     bindS (exec_update (\<lambda>r. r_inode r = i \<and> r_item_id r = None) (\<lambda>r. r\<lparr>r_item_id := Some item\<rparr>))
       (\<lambda>n. ret (n > 0))"

definition rename_entry :: "inode \<Rightarrow> inode \<Rightarrow> string \<Rightarrow> path \<Rightarrow> path option \<Rightarrow> unit dbm" where
  "rename_entry i new_parent new_name new_remote new_cache = thenS
     (exec_update (\<lambda>r. r_inode r = i)
        (\<lambda>r. r\<lparr>r_parent := Some new_parent, r_name := new_name, r_remote_path := new_remote,
                r_cache_path := new_cache\<rparr>)) (ret ())"

section \<open>Recovery on restart\<close>

definition reset_hydrating :: "nat dbm" where
  "reset_hydrating = exec_update (\<lambda>r. r_status r = Hydrating)
     (\<lambda>r. r\<lparr>r_status := Remote, r_cache_path := None, r_cache_size := None\<rparr>)"

definition reset_uploading :: "nat dbm" where
  "reset_uploading = exec_update (\<lambda>r. r_status r = Uploading) (\<lambda>r. r\<lparr>r_status := Dirty\<rparr>)"

definition reset_stuck_dirty_directories :: "nat dbm" where
  "reset_stuck_dirty_directories = exec_update (\<lambda>r. r_kind r = Directory \<and> unsynced (r_status r))
     (\<lambda>r. r\<lparr>r_status := Cached\<rparr>)"

definition reset_stuck_dirty_files_without_cache_path :: "nat dbm" where
  "reset_stuck_dirty_files_without_cache_path =
     (let stuck = (\<lambda>r. r_kind r = File \<and> unsynced (r_status r) \<and> r_cache_path r = None) in
      thenS (modifyS (\<lambda>s. s\<lparr>mount_health := map (\<lambda>h.
               if list_ex (\<lambda>r. stuck r \<and> r_mount_id r = h_mount_id h) (file_index s)
               then h\<lparr>h_upload_failures := 0, h_upload_error := None, h_upload_unix := None\<rparr> else h)
             (mount_health s)\<rparr>))
        (exec_update stuck (\<lambda>r. r\<lparr>r_status := Remote\<rparr>)))"

section \<open>Deletions\<close>

definition delete_entry :: "inode \<Rightarrow> unit dbm" where
  "delete_entry i = exec_delete (\<lambda>r. r_inode r = i)"

definition batch_mark_generation :: "inode list \<Rightarrow> nat \<Rightarrow> unit dbm" where
  "batch_mark_generation ids gen =
     (if ids = [] then ret () else
      each (\<lambda>chunk. transaction (each
        (\<lambda>i. exec_update (\<lambda>r. r_inode r = i) (\<lambda>r. r\<lparr>r_poll_generation := gen\<rparr>)) chunk)) (chunks 1000 ids))"

definition stale_row :: "mount_id \<Rightarrow> nat \<Rightarrow> file_row \<Rightarrow> bool" where
  "stale_row m gen r \<longleftrightarrow> r_mount_id r = m \<and> r_poll_generation r < gen \<and> \<not> unsynced (r_status r)
     \<and> r_inode r \<noteq> FUSE_ROOT_INODE"

definition delete_stale_entries :: "mount_id \<Rightarrow> nat \<Rightarrow> (inode \<times> path \<times> path option) list dbm" where
  "delete_stale_entries m gen =
     bindS (query (\<lambda>s. map (\<lambda>r. (r_inode r, r_remote_path r, r_cache_path r))
                         (filter (stale_row m gen) (file_index s))))
       (\<lambda>stale. thenS (each (\<lambda>(i, _, _). exec_delete (\<lambda>r. r_inode r = i)) stale) (ret stale))"

definition delete_remote_entry :: "(file_row \<Rightarrow> bool) \<Rightarrow> (inode \<times> path option) option dbm" where
  "delete_remote_entry p =
     bindS (query (find_row (\<lambda>r. p r \<and> \<not> unsynced (r_status r))))
       (\<lambda>row. case row of
          None \<Rightarrow> ret None
        | Some r \<Rightarrow> thenS (exec_delete (\<lambda>x. r_inode x = r_inode r)) (ret (Some (r_inode r, r_cache_path r))))"

definition delete_remote_entry_by_path :: "mount_id \<Rightarrow> path \<Rightarrow> (inode \<times> path option) option dbm" where
  "delete_remote_entry_by_path m rp = delete_remote_entry (\<lambda>r. r_mount_id r = m \<and> r_remote_path r = rp)"

definition delete_remote_entry_by_item_id :: "mount_id \<Rightarrow> string \<Rightarrow> (inode \<times> path option) option dbm" where
  "delete_remote_entry_by_item_id m item = delete_remote_entry (\<lambda>r. r_mount_id r = m \<and> r_item_id r = Some item)"

definition delete_mount_entries :: "mount_id \<Rightarrow> unit dbm" where
  "delete_mount_entries m = thenS (exec_delete (\<lambda>r. r_mount_id r = m))
     (modifyS (\<lambda>s. if file_index s = [] then s\<lparr>file_seq := 0\<rparr> else s))"

end
