(* ===== verification/State_Aux.thy ===== *)
theory State_Aux
  imports State_Files
begin

text \<open>
  The operations of \<open>StateDb\<close> (\<open>stratosync-core/src/state/mod.rs\<close>) on the
  tables beside \<open>file_index\<close>: mounts, the persistent upload queue, cache
  accounting and pins, deletion tombstones, change tokens and poll generations,
  base versions, version history and mount health; and the migration runner.
\<close>

section \<open>Mounts\<close>

definition get_mount_id :: "string \<Rightarrow> mount_id option dbm" where
  "get_mount_id name = query (\<lambda>s. map_option m_id (find (\<lambda>m. m_name m = name) (mounts s)))"

definition upsert_mount :: "string \<Rightarrow> string \<Rightarrow> string \<Rightarrow> string \<Rightarrow> nat \<Rightarrow> nat \<Rightarrow> mount_id dbm" where
  "upsert_mount name remote mount_path cache_dir quota poll s =
     (let new = \<lparr> m_id = Suc (mount_seq s), m_name = name, m_remote = remote, m_mount_path = mount_path,
                  m_cache_dir = cache_dir, m_cache_quota = quota, m_poll_secs = poll \<rparr>;
          known = list_ex (\<lambda>m. m_name m = name) (mounts s);
          ms = (if known
                then map (\<lambda>m. if m_name m = name
                              then m\<lparr>m_remote := remote, m_mount_path := mount_path, m_cache_dir := cache_dir,
                                     m_cache_quota := quota, m_poll_secs := poll\<rparr>
                              else m) (mounts s)
                else mounts s @ [new]);
          s' = s\<lparr>mounts := ms, mount_seq := (if known then mount_seq s else Suc (mount_seq s))\<rparr>
      in if \<not> distinct (map m_mount_path ms) then (Inl UniqueViolation, s)
         else bindS (get_mount_id name)
                (\<lambda>r. case r of Some i \<Rightarrow> ret i | None \<Rightarrow> raise NoRows) s')"

section \<open>Upload queue table\<close>

definition enqueue_upload :: "inode \<Rightarrow> mount_id \<Rightarrow> path \<Rightarrow> string option \<Rightarrow> int \<Rightarrow> unit dbm" where
  "enqueue_upload i m rp etag prio s =
     (if list_ex (\<lambda>q. q_inode q = i \<and> q_op q = Upload) (sync_queue s) then (Inr (), s)
      else if i \<notin> inodes s \<or> m \<notin> mount_ids s then (Inl ForeignKeyViolation, s)
      else (Inr (), s\<lparr>sync_queue := sync_queue s @
              [\<lparr> q_id = Suc (queue_seq s), q_inode = i, q_mount_id = m, q_op = Upload, q_remote_path = rp,
                 q_remote_dest = None, q_known_etag = etag, q_priority = prio, q_attempt = 0,
                 q_next_attempt = 0, q_created_at = clock s, q_error_msg = None \<rparr>],
              queue_seq := Suc (queue_seq s)\<rparr>))"

record sync_queue_job =
  j_id          :: nat
  j_inode       :: inode
  j_op          :: sync_op
  j_remote_path :: path
  j_remote_dest :: "path option"
  j_known_etag  :: "string option"
  j_priority    :: int
  j_attempt     :: nat
  j_cache_path  :: "path option"

definition job_of :: "db \<Rightarrow> queue_row \<Rightarrow> sync_queue_job option" where
  "job_of s q = map_option (\<lambda>f.
     \<lparr> j_id = q_id q, j_inode = q_inode q, j_op = q_op q, j_remote_path = q_remote_path q,
       j_remote_dest = q_remote_dest q, j_known_etag = q_known_etag q, j_priority = q_priority q,
       j_attempt = q_attempt q, j_cache_path = r_cache_path f \<rparr>)
     (find_row (\<lambda>r. r_inode r = q_inode q) s)"

definition due_uploads :: "mount_id \<Rightarrow> db \<Rightarrow> queue_row list" where
  "due_uploads m s = filter (\<lambda>q. q_inode q \<in> inodes s \<and> q_mount_id q = m \<and> q_op q = Upload
                                \<and> q_next_attempt q \<le> clock s) (sync_queue s)"

definition dequeue_next_upload :: "mount_id \<Rightarrow> sync_queue_job option dbm" where
  "dequeue_next_upload m = query (\<lambda>s.
     case sort_key (\<lambda>q. (- q_priority q, q_created_at q)) (due_uploads m s) of
       [] \<Rightarrow> None
     | q # _ \<Rightarrow> job_of s q)"

definition complete_queue_job :: "nat \<Rightarrow> unit dbm" where
  "complete_queue_job j = modifyS (\<lambda>s. s\<lparr>sync_queue := filter (\<lambda>q. q_id q \<noteq> j) (sync_queue s)\<rparr>)"

definition fail_row :: "string \<Rightarrow> nat \<Rightarrow> int \<Rightarrow> queue_row \<Rightarrow> queue_row" where
  "fail_row msg backoff now q =
     q\<lparr>q_attempt := q_attempt q + 1, q_error_msg := Some msg, q_next_attempt := now + int backoff\<rparr>"

definition fail_queue_job :: "nat \<Rightarrow> string \<Rightarrow> nat \<Rightarrow> unit dbm" where
  "fail_queue_job j msg backoff = modifyS (\<lambda>s. s\<lparr>sync_queue :=
     map (\<lambda>q. if q_id q = j then fail_row msg backoff (clock s) q else q) (sync_queue s)\<rparr>)"

definition fail_queue_job_by_inode :: "inode \<Rightarrow> string \<Rightarrow> nat \<Rightarrow> unit dbm" where
  "fail_queue_job_by_inode i msg backoff = thenS
     (modifyS (\<lambda>s. s\<lparr>sync_queue :=
        map (\<lambda>q. if q_inode q = i then fail_row msg backoff (clock s) q else q) (sync_queue s)\<rparr>))
     (thenS (exec_update (\<lambda>r. r_inode r = i) (\<lambda>r. r\<lparr>r_status := Dirty\<rparr>)) (ret ()))"

text \<open>\<open>(base * 2u64.pow(attempt.min(7))).min(600)\<close> with \<open>base = 5\<close>, on 64-bit words.\<close>

definition backoff_secs :: "sync_queue_job \<Rightarrow> 64 word" where
  "backoff_secs j = min (5 * 2 ^ (min (j_attempt j) 7)) 600"

section \<open>Cache accounting\<close>

definition total_cache_bytes :: "mount_id \<Rightarrow> nat dbm" where
  "total_cache_bytes m = query (\<lambda>s. sum_list (map (\<lambda>r. case r_cache_size r of None \<Rightarrow> 0 | Some n \<Rightarrow> n)
     (filter (\<lambda>r. r_mount_id r = m) (file_index s))))"

definition all_cache_paths :: "mount_id \<Rightarrow> path set dbm" where
  "all_cache_paths m = query (\<lambda>s.
     set (List.map_filter r_cache_path (filter (\<lambda>r. r_mount_id r = m) (file_index s))))"

record eviction_candidate =
  ev_inode      :: inode
  ev_cache_path :: path
  ev_cache_size :: nat

definition lru_of :: "db \<Rightarrow> inode \<Rightarrow> lru_row option" where
  "lru_of s i = kt_lookup l_inode i (cache_lru s)"

definition evictable :: "mount_id \<Rightarrow> db \<Rightarrow> file_row \<Rightarrow> bool" where
  "evictable m s r \<longleftrightarrow> r_mount_id r = m \<and> r_status r = Cached
     \<and> (case lru_of s (r_inode r) of None \<Rightarrow> False | Some l \<Rightarrow> \<not> l_pinned l)"

definition last_access_of :: "db \<Rightarrow> file_row \<Rightarrow> int" where
  "last_access_of s r = (case lru_of s (r_inode r) of None \<Rightarrow> 0 | Some l \<Rightarrow> l_last_access l)"

text \<open>A \<open>NULL\<close> cache path or size in one of the selected rows makes the whole query fail.\<close>

definition lru_eviction_candidates :: "mount_id \<Rightarrow> nat \<Rightarrow> eviction_candidate list dbm" where
  "lru_eviction_candidates m limit s =
     (let rows = take limit (sort_key (last_access_of s) (filter (evictable m s) (file_index s)))
      in if list_ex (\<lambda>r. r_cache_path r = None \<or> r_cache_size r = None) rows then (Inl InvalidColumnType, s)
         else (Inr (map (\<lambda>r. \<lparr> ev_inode = r_inode r, ev_cache_path = the (r_cache_path r),
                               ev_cache_size = the (r_cache_size r) \<rparr>) rows), s))"

record cache_clear_report =
  files_cleared :: nat
  bytes_freed   :: nat
  cleared_paths :: "path list"

definition is_pinned_in :: "db \<Rightarrow> inode \<Rightarrow> bool" where
  "is_pinned_in s i \<longleftrightarrow> list_ex (\<lambda>l. l_inode l = i \<and> l_pinned l) (cache_lru s)"

definition clearable :: "mount_id \<Rightarrow> bool \<Rightarrow> db \<Rightarrow> file_row \<Rightarrow> bool" where
  "clearable m include_pinned s r \<longleftrightarrow> r_mount_id r = m \<and> r_kind r = File \<and> r_status r \<in> {Cached, Stale}
     \<and> r_cache_path r \<noteq> None \<and> (include_pinned \<or> \<not> is_pinned_in s (r_inode r))"

definition clear_cache_for_mount :: "mount_id \<Rightarrow> bool \<Rightarrow> cache_clear_report dbm" where
  "clear_cache_for_mount m include_pinned =
     bindS (query (\<lambda>s. (s, filter (clearable m include_pinned s) (file_index s))))
      (\<lambda>(s0, cleared).
        bindS (exec_update (clearable m include_pinned s0) detach_cache)
         (\<lambda>updated. thenS (each exec_lru_delete (map r_inode cleared))
            (ret \<lparr> files_cleared = updated,
                   bytes_freed = sum_list (map (\<lambda>r. case r_cache_size r of None \<Rightarrow> 0 | Some n \<Rightarrow> n) cleared),
                   cleared_paths = List.map_filter r_cache_path cleared \<rparr>)))"

definition set_pinned :: "inode \<Rightarrow> bool \<Rightarrow> unit dbm" where
  "set_pinned i pinned = bindS (query clock) (\<lambda>now.
     exec_lru_upsert \<lparr> l_inode = i, l_last_access = now, l_pinned = pinned \<rparr> (\<lambda>l. l\<lparr>l_pinned := pinned\<rparr>))"

definition is_pinned :: "inode \<Rightarrow> bool dbm" where
  "is_pinned i = query (\<lambda>s. case lru_of s i of None \<Rightarrow> False | Some l \<Rightarrow> l_pinned l)"

definition pinned_count :: "mount_id \<Rightarrow> nat dbm" where
  "pinned_count m = query (\<lambda>s. length (filter (\<lambda>l. l_pinned l
     \<and> list_ex (\<lambda>r. r_inode r = l_inode l \<and> r_mount_id r = m) (file_index s)) (cache_lru s)))"

section \<open>Tombstones\<close>

definition insert_tombstone :: "mount_id \<Rightarrow> path \<Rightarrow> nat \<Rightarrow> unit dbm" where
  "insert_tombstone m rp ttl s =
     (let new = \<lparr> d_mount_id = m, d_remote_path = rp, d_created_at = clock s, d_expires_at = clock s + int ttl \<rparr>
      in if m \<notin> mount_ids s then (Inl ForeignKeyViolation, s)
         else (Inr (), s\<lparr>tombstones := kt_upsert tomb_key (m, rp) new (\<lambda>_. new) (tombstones s)\<rparr>))"

definition remove_tombstone :: "mount_id \<Rightarrow> path \<Rightarrow> unit dbm" where
  "remove_tombstone m rp = modifyS (\<lambda>s. s\<lparr>tombstones := kt_remove tomb_key (m, rp) (tombstones s)\<rparr>)"

definition is_tombstoned :: "mount_id \<Rightarrow> path \<Rightarrow> bool dbm" where
  "is_tombstoned m rp = query (\<lambda>s. list_ex (\<lambda>d. d_mount_id d = m \<and> d_expires_at d > clock s
     \<and> (rp = d_remote_path d \<or> sql_like (d_remote_path d @ ''/%'') rp)) (tombstones s))"

definition active_tombstones :: "mount_id \<Rightarrow> path list dbm" where
  "active_tombstones m = query (\<lambda>s.
     map d_remote_path (filter (\<lambda>d. d_mount_id d = m \<and> d_expires_at d > clock s) (tombstones s)))"

definition cleanup_expired_tombstones :: "nat dbm" where
  "cleanup_expired_tombstones = bindS
     (query (\<lambda>s. length (filter (\<lambda>d. d_expires_at d \<le> clock s) (tombstones s))))
     (\<lambda>n. thenS (modifyS (\<lambda>s. s\<lparr>tombstones := filter (\<lambda>d. \<not> d_expires_at d \<le> clock s) (tombstones s)\<rparr>)) (ret n))"

section \<open>Change tokens and poll generations\<close>

definition get_change_token :: "mount_id \<Rightarrow> string option dbm" where
  "get_change_token m = query (\<lambda>s. map_option t_token (kt_lookup t_mount_id m (change_tokens s)))"

definition set_change_token :: "mount_id \<Rightarrow> string \<Rightarrow> unit dbm" where
  "set_change_token m tok s =
     (let new = \<lparr> t_mount_id = m, t_token = tok, t_updated_at = clock s \<rparr>
      in if m \<notin> mount_ids s then (Inl ForeignKeyViolation, s)
         else (Inr (), s\<lparr>change_tokens := kt_upsert t_mount_id m new
                 (\<lambda>t. t\<lparr>t_token := tok, t_updated_at := clock s\<rparr>) (change_tokens s)\<rparr>))"

definition clear_change_token :: "mount_id \<Rightarrow> unit dbm" where
  "clear_change_token m = modifyS (\<lambda>s. s\<lparr>change_tokens := kt_remove t_mount_id m (change_tokens s)\<rparr>)"

definition get_poll_generation :: "mount_id \<Rightarrow> nat dbm" where
  "get_poll_generation m = bindS (get_change_token m)
     (\<lambda>g. ret (case Option.bind g parse_u64 of None \<Rightarrow> 0 | Some n \<Rightarrow> n))"

definition set_poll_generation :: "mount_id \<Rightarrow> nat \<Rightarrow> unit dbm" where
  "set_poll_generation m gen = set_change_token m (nat_to_string gen)"

section \<open>Base versions\<close>

definition set_base_hash :: "inode \<Rightarrow> mount_id \<Rightarrow> string \<Rightarrow> nat \<Rightarrow> unit dbm" where
  "set_base_hash i m hash sz s =
     (let new = \<lparr> b_inode = i, b_mount_id = m, b_object_hash = hash, b_file_size = sz, b_updated_at = clock s \<rparr>
      in if i \<notin> inodes s \<or> m \<notin> mount_ids s then (Inl ForeignKeyViolation, s)
         else (Inr (), s\<lparr>base_versions := kt_upsert base_key (i, m) new
                 (\<lambda>b. b\<lparr>b_object_hash := hash, b_file_size := sz, b_updated_at := clock s\<rparr>) (base_versions s)\<rparr>))"

definition get_base_hash :: "inode \<Rightarrow> mount_id \<Rightarrow> string option dbm" where
  "get_base_hash i m = query (\<lambda>s. map_option b_object_hash (kt_lookup base_key (i, m) (base_versions s)))"

definition remove_base_hash :: "inode \<Rightarrow> mount_id \<Rightarrow> unit dbm" where
  "remove_base_hash i m = modifyS (\<lambda>s. s\<lparr>base_versions := kt_remove base_key (i, m) (base_versions s)\<rparr>)"

definition base_hash_ref_count :: "string \<Rightarrow> nat dbm" where
  "base_hash_ref_count hash = query (\<lambda>s. length (filter (\<lambda>b. b_object_hash b = hash) (base_versions s)))"

definition stale_base_entries :: "mount_id \<Rightarrow> nat \<Rightarrow> nat \<Rightarrow> (inode \<times> string \<times> nat) list dbm" where
  "stale_base_entries m max_age_days limit = query (\<lambda>s.
     map (\<lambda>b. (b_inode b, b_object_hash b, b_file_size b))
       (take limit (sort_key b_updated_at (filter (\<lambda>b. b_mount_id b = m
          \<and> list_ex (\<lambda>r. r_inode r = b_inode b \<and> r_mount_id r = b_mount_id b \<and> \<not> unsynced (r_status r)) (file_index s)
          \<and> b_updated_at b < clock s - int max_age_days * 86400) (base_versions s)))))"

section \<open>Version history\<close>

definition insert_version_history ::
  "inode \<Rightarrow> mount_id \<Rightarrow> string \<Rightarrow> nat \<Rightarrow> string option \<Rightarrow> version_source \<Rightarrow> nat dbm" where
  "insert_version_history i m hash sz etag src s =
     (if i \<notin> inodes s \<or> m \<notin> mount_ids s then (Inl ForeignKeyViolation, s)
      else (Inr (Suc (version_seq s)), s\<lparr>version_history := version_history s @
              [\<lparr> v_id = Suc (version_seq s), v_inode = i, v_mount_id = m, v_object_hash = hash,
                 v_recorded_at = clock s, v_file_size = sz, v_etag = etag,
                 v_source = source_from_str (source_as_str src) \<rparr>],
              version_seq := Suc (version_seq s)\<rparr>))"

text \<open>\<open>WHERE inode = ?1 ORDER BY recorded_at DESC, id DESC\<close>.\<close>

definition versions_newest_first :: "inode \<Rightarrow> db \<Rightarrow> version_row list" where
  "versions_newest_first i s =
     sort_key (\<lambda>v. (- v_recorded_at v, - int (v_id v))) (filter (\<lambda>v. v_inode v = i) (version_history s))"

definition list_version_history :: "inode \<Rightarrow> version_row list dbm" where
  "list_version_history i = query (versions_newest_first i)"

definition hash_referenced :: "string \<Rightarrow> db \<Rightarrow> bool" where
  "hash_referenced h s \<longleftrightarrow>
     length (filter (\<lambda>v. v_object_hash v = h) (version_history s)) \<noteq> 0
     \<or> length (filter (\<lambda>b. b_object_hash b = h) (base_versions s)) \<noteq> 0"

definition prune_version_history :: "inode \<Rightarrow> nat \<Rightarrow> string list dbm" where
  "prune_version_history i keep =
     bindS (query (\<lambda>s. drop keep (versions_newest_first i s)))
      (\<lambda>stale. if stale = [] then ret []
        else thenS (modifyS (\<lambda>s. s\<lparr>version_history :=
                filter (\<lambda>v. v_id v \<notin> set (map v_id stale)) (version_history s)\<rparr>))
              (query (\<lambda>s. filter (\<lambda>h. \<not> hash_referenced h s) (map v_object_hash stale))))"

section \<open>Mount health\<close>

definition no_health :: "mount_id \<Rightarrow> health_row" where
  "no_health m = \<lparr> h_mount_id = m, h_hydration_failures = 0, h_hydration_error = None, h_hydration_unix = None,
     h_upload_failures = 0, h_upload_error = None, h_upload_unix = None \<rparr>"

definition exec_health_upsert :: "mount_id \<Rightarrow> health_row \<Rightarrow> (health_row \<Rightarrow> health_row) \<Rightarrow> unit dbm" where
  "exec_health_upsert m new upd s =
     (if m \<notin> mount_ids s then (Inl ForeignKeyViolation, s)
      else (Inr (), s\<lparr>mount_health := kt_upsert h_mount_id m new upd (mount_health s)\<rparr>))"

definition record_hydration_failure :: "mount_id \<Rightarrow> string \<Rightarrow> unit dbm" where
  "record_hydration_failure m err = bindS (query clock) (\<lambda>now. exec_health_upsert m
     ((no_health m)\<lparr>h_hydration_failures := 1, h_hydration_error := Some err, h_hydration_unix := Some now\<rparr>)
     (\<lambda>h. h\<lparr>h_hydration_failures := h_hydration_failures h + 1, h_hydration_error := Some err,
             h_hydration_unix := Some now\<rparr>))"

definition record_hydration_success :: "mount_id \<Rightarrow> unit dbm" where
  "record_hydration_success m = exec_health_upsert m (no_health m) (\<lambda>h. h\<lparr>h_hydration_failures := 0\<rparr>)"

definition record_upload_failure :: "mount_id \<Rightarrow> string \<Rightarrow> unit dbm" where
  "record_upload_failure m err = bindS (query clock) (\<lambda>now. exec_health_upsert m
     ((no_health m)\<lparr>h_upload_failures := 1, h_upload_error := Some err, h_upload_unix := Some now\<rparr>)
     (\<lambda>h. h\<lparr>h_upload_failures := h_upload_failures h + 1, h_upload_error := Some err,
             h_upload_unix := Some now\<rparr>))"

definition record_upload_success :: "mount_id \<Rightarrow> unit dbm" where
  "record_upload_success m = exec_health_upsert m (no_health m) (\<lambda>h. h\<lparr>h_upload_failures := 0\<rparr>)"

definition get_mount_health :: "mount_id \<Rightarrow> health_row dbm" where
  "get_mount_health m = query (\<lambda>s. case kt_lookup h_mount_id m (mount_health s) of None \<Rightarrow> no_health m | Some h \<Rightarrow> h)"

section \<open>Migrations\<close>

text \<open>
  The runner over the recorded schema versions.  The scripts themselves are a
  parameter: \<open>run v\<close> executes the script of version \<open>v\<close>.  The state is the
  database and the list of recorded versions.
\<close>

definition MIGRATIONS :: "string list" where
  "MIGRATIONS = [''0001'', ''0002'', ''0003'', ''0004'', ''0005'', ''0006'', ''0007'', ''0008'', ''0009'',
     ''0010'', ''0011'']"

definition run_migration ::
  "(string \<Rightarrow> ('d, 'e, unit) sem) \<Rightarrow> string \<Rightarrow> ('d \<times> string list, 'e, unit) sem" where
  "run_migration run v s =
     (case s of (d, applied) \<Rightarrow>
        if v \<in> set applied then (Inr (), s)
        else (case run v d of (Inl e, d') \<Rightarrow> (Inl e, (d', applied)) | (Inr _, d') \<Rightarrow> (Inr (), (d', applied @ [v]))))"

definition run_migrations :: "(string \<Rightarrow> ('d, 'e, unit) sem) \<Rightarrow> ('d \<times> string list, 'e, unit) sem" where
  "run_migrations run = each (run_migration run) MIGRATIONS"

end
