(* ===== verification/State_Laws.thy ===== *)
theory State_Laws
  imports State_Aux
begin

text \<open>
  Laws of the \<open>StateDb\<close> operations: each keeps the database well-formed on every
  path, errors included, so every database reached from the empty one is.
\<close>

section \<open>Well-formedness is kept by every operation\<close>

lemma db_wf_tables:
  assumes "db_wf s"
  shows "distinct (map t_mount_id (change_tokens s))" "distinct (map tomb_key (tombstones s))"
    "distinct (map h_mount_id (mount_health s))" "distinct (map base_key (base_versions s))"
    "distinct (map l_inode (cache_lru s))"
    "t \<in> set (change_tokens s) \<Longrightarrow> t_mount_id t \<in> mount_ids s"
    "d \<in> set (tombstones s) \<Longrightarrow> d_mount_id d \<in> mount_ids s"
    "h \<in> set (mount_health s) \<Longrightarrow> h_mount_id h \<in> mount_ids s"
    "b \<in> set (base_versions s) \<Longrightarrow> b_inode b \<in> inodes s"
    "b \<in> set (base_versions s) \<Longrightarrow> b_mount_id b \<in> mount_ids s"
    "l \<in> set (cache_lru s) \<Longrightarrow> l_inode l \<in> inodes s"
  using assms by (auto simp: db_wf_def child_wf_defs)

lemmas stmt_wf = keeps_update keeps_insert keeps_insert_auto keeps_delete keeps_upsert_path keeps_replace

lemma upsert_columns_inode [simp]: "r_inode (upsert_columns x r) = r_inode r"
  by (simp add: upsert_columns_def)

lemma detach_cache_inode [simp]: "r_inode (detach_cache r) = r_inode r"
  by (simp add: detach_cache_def)

lemma insert_root_wf [keeps_rules]: "keeps db_wf (insert_root e)"
  unfolding insert_root_def by (intro keeps_rules stmt_wf)

lemma insert_file_wf [keeps_rules]: "keeps db_wf (insert_file e)"
  unfolding insert_file_def by (intro stmt_wf)

lemma upsert_listing_entry_wf [keeps_rules]: "keeps db_wf (upsert_listing_entry m p g e)"
  unfolding upsert_listing_entry_def Let_def by (intro keeps_rules stmt_wf) simp

lemma batch_upsert_gen_wf [keeps_rules]: "keeps db_wf (batch_upsert_remote_files_gen m p es g)"
  unfolding batch_upsert_remote_files_gen_def by (intro keeps_rules)

lemma batch_upsert_wf [keeps_rules]: "keeps db_wf (batch_upsert_remote_files m p es)"
  unfolding batch_upsert_remote_files_def by (intro keeps_rules)

lemma upsert_by_id_or_path_wf [keeps_rules]:
  "keeps db_wf (upsert_remote_file_by_id_or_path m p n rp k sz mt et it g)"
  unfolding upsert_remote_file_by_id_or_path_def Let_def by (intro keeps_rules stmt_wf) simp_all

lemma upsert_remote_file_gen_wf [keeps_rules]: "keeps db_wf (upsert_remote_file_gen m p n rp k sz mt et g)"
  unfolding upsert_remote_file_gen_def by (intro keeps_rules)

lemma upsert_remote_file_wf [keeps_rules]: "keeps db_wf (upsert_remote_file m p n rp k sz mt et)"
  unfolding upsert_remote_file_def by (intro keeps_rules)

lemma lru_upsert_db_wf:
  assumes wf: "db_wf s" and i: "l_inode new \<in> inodes s" and upd: "\<And>l. l_inode (upd l) = l_inode l"
  shows "db_wf (s\<lparr>cache_lru := kt_upsert l_inode (l_inode new) new upd (cache_lru s)\<rparr>)"
proof -
  have "lru_wf (s\<lparr>cache_lru := kt_upsert l_inode (l_inode new) new upd (cache_lru s)\<rparr>)"
    using wf i lru_tab.invar_upsert [of "cache_lru s" new "l_inode new" upd]
    by (auto simp: db_wf_def lru_wf_def upd dest!: kt_upsert_set)
  with wf show ?thesis
    by (simp add: db_wf_def queue_wf_def bases_wf_def versions_wf_def mounts_wf_def mount_tables_wf_def
        files_wf_frame [of s])
qed

lemma exec_lru_upsert_wf [keeps_rules]:
  "(\<And>l. l_inode (upd l) = l_inode l) \<Longrightarrow> keeps db_wf (exec_lru_upsert new upd)"
  by (rule keepsI) (simp add: exec_lru_upsert_def lru_upsert_db_wf)

lemma lru_filter_db_wf: "db_wf s \<Longrightarrow> db_wf (s\<lparr>cache_lru := filter P (cache_lru s)\<rparr>)"
  by (auto simp: db_wf_def child_wf_defs files_wf_frame [of s] distinct_map_filter)

lemma exec_lru_delete_wf [keeps_rules]: "keeps db_wf (exec_lru_delete i)"
  unfolding exec_lru_delete_def kt_remove_def by (rule keeps_modify) (rule lru_filter_db_wf)

lemma touch_lru_wf [keeps_rules]: "keeps db_wf (touch_lru i)"
  unfolding touch_lru_def by (intro keeps_rules) simp

lemma set_status_wf [keeps_rules]: "keeps db_wf (set_status i st)"
  unfolding set_status_def by (intro keeps_rules stmt_wf) simp

lemma set_dirty_size_wf [keeps_rules]: "keeps db_wf (set_dirty_size i sz)"
  unfolding set_dirty_size_def by (intro keeps_rules stmt_wf) simp

lemma set_dirty_with_cache_path_wf [keeps_rules]: "keeps db_wf (set_dirty_with_cache_path i cp sz)"
  unfolding set_dirty_with_cache_path_def by (intro keeps_rules stmt_wf) simp

lemma set_cached_wf [keeps_rules]: "keeps db_wf (set_cached i cp cs et mt sz)"
  unfolding set_cached_def by (intro keeps_rules stmt_wf) simp

lemma set_uploaded_wf [keeps_rules]: "keeps db_wf (set_uploaded i cs et mt sz)"
  unfolding set_uploaded_def by (intro keeps_rules stmt_wf) simp

lemma set_evicted_wf [keeps_rules]: "keeps db_wf (set_evicted i)"
  unfolding set_evicted_def by (intro keeps_rules stmt_wf) simp

lemma revert_dirty_wf [keeps_rules]: "keeps db_wf (revert_dirty_with_missing_cache i cp)"
  unfolding revert_dirty_with_missing_cache_def by (intro keeps_rules stmt_wf) simp

lemma mark_dir_listed_wf [keeps_rules]: "keeps db_wf (mark_dir_listed i)"
  unfolding mark_dir_listed_def by (intro keeps_rules stmt_wf) simp

lemma batch_mark_dirs_listed_wf [keeps_rules]: "keeps db_wf (batch_mark_dirs_listed m)"
  unfolding batch_mark_dirs_listed_def by (intro keeps_rules stmt_wf) simp

lemma invalidate_dir_wf [keeps_rules]: "keeps db_wf (invalidate_dir i)"
  unfolding invalidate_dir_def by (intro keeps_rules stmt_wf) simp

lemma set_item_id_if_absent_wf [keeps_rules]: "keeps db_wf (set_item_id_if_absent i it)"
  unfolding set_item_id_if_absent_def by (intro keeps_rules stmt_wf) simp

lemma rename_entry_wf [keeps_rules]: "keeps db_wf (rename_entry i p n rp cp)"
  unfolding rename_entry_def by (intro keeps_rules stmt_wf) simp

lemma reset_hydrating_wf [keeps_rules]: "keeps db_wf reset_hydrating"
  unfolding reset_hydrating_def by (intro stmt_wf) simp

lemma reset_uploading_wf [keeps_rules]: "keeps db_wf reset_uploading"
  unfolding reset_uploading_def by (intro stmt_wf) simp

lemma reset_stuck_dirs_wf [keeps_rules]: "keeps db_wf reset_stuck_dirty_directories"
  unfolding reset_stuck_dirty_directories_def by (intro stmt_wf) simp

lemma health_map_db_wf:
  assumes wf: "db_wf s" and f: "\<And>h. h_mount_id (f h) = h_mount_id h"
  shows "db_wf (s\<lparr>mount_health := map f (mount_health s)\<rparr>)"
proof -
  have "map h_mount_id (map f (mount_health s)) = map h_mount_id (mount_health s)" by (simp add: f)
  with wf show ?thesis
    by (auto simp: db_wf_def child_wf_defs files_wf_frame [of s] f simp del: map_map)
qed

lemma reset_stuck_files_wf [keeps_rules]: "keeps db_wf reset_stuck_dirty_files_without_cache_path"
  unfolding reset_stuck_dirty_files_without_cache_path_def Let_def
  by (intro keeps_rules stmt_wf keeps_modify health_map_db_wf) simp_all

lemma delete_entry_wf [keeps_rules]: "keeps db_wf (delete_entry i)"
  unfolding delete_entry_def by (intro stmt_wf)

lemma batch_mark_generation_wf [keeps_rules]: "keeps db_wf (batch_mark_generation is g)"
  unfolding batch_mark_generation_def by (intro keeps_rules stmt_wf) simp

lemma delete_stale_entries_wf [keeps_rules]: "keeps db_wf (delete_stale_entries m g)"
  unfolding delete_stale_entries_def by (intro keeps_rules stmt_wf)

lemma delete_remote_entry_wf [keeps_rules]: "keeps db_wf (delete_remote_entry p)"
  unfolding delete_remote_entry_def by (intro keeps_rules stmt_wf)

lemma delete_by_path_wf [keeps_rules]: "keeps db_wf (delete_remote_entry_by_path m rp)"
  unfolding delete_remote_entry_by_path_def by (intro keeps_rules)

lemma delete_by_item_wf [keeps_rules]: "keeps db_wf (delete_remote_entry_by_item_id m it)"
  unfolding delete_remote_entry_by_item_id_def by (intro keeps_rules)

lemma delete_mount_entries_wf [keeps_rules]: "keeps db_wf (delete_mount_entries m)"
  unfolding delete_mount_entries_def
  by (intro keeps_rules stmt_wf keeps_modify)
     (auto simp: db_wf_def files_wf_def child_wf_defs fk_ok_def)

subsection \<open>Operations on the other tables\<close>

lemma mounts_db_wf:
  assumes "db_wf s" and "mounts_wf (s\<lparr>mounts := ms, mount_seq := k\<rparr>)" and "m_id ` set (mounts s) \<subseteq> m_id ` set ms"
  shows "db_wf (s\<lparr>mounts := ms, mount_seq := k\<rparr>)"
proof -
  have "fk_ok (s\<lparr>mounts := ms, mount_seq := k\<rparr>)"
    using assms by (fastforce simp: db_wf_def files_wf_def fk_ok_def row_refs_ok_def list_all_iff split: option.splits)
  then show ?thesis
    using assms by (auto simp: db_wf_def files_wf_def queue_wf_def lru_wf_def bases_wf_def versions_wf_def
        mount_tables_wf_def)
qed

lemma upsert_mount_wf [keeps_rules]: "keeps db_wf (upsert_mount n r mp cd q p)"
proof (rule keepsI)
  fix s assume wf: "db_wf s"
  define upd where "upd = (\<lambda>m :: mount_row. if m_name m = n
     then m\<lparr>m_remote := r, m_mount_path := mp, m_cache_dir := cd, m_cache_quota := q, m_poll_secs := p\<rparr> else m)"
  define new where "new = \<lparr> m_id = Suc (mount_seq s), m_name = n, m_remote = r, m_mount_path = mp,
     m_cache_dir = cd, m_cache_quota = q, m_poll_secs = p \<rparr>"
  define known where "known = list_ex (\<lambda>m. m_name m = n) (mounts s)"
  define ms where "ms = (if known then map upd (mounts s) else mounts s @ [new])"
  define k where "k = (if known then mount_seq s else Suc (mount_seq s))"
  have upd: "m_id (upd m) = m_id m" "m_name (upd m) = m_name m" for m by (simp_all add: upd_def)
  have m: "mounts_wf (s\<lparr>mounts := ms, mount_seq := k\<rparr>)" if "distinct (map m_mount_path ms)"
    using wf that upd by (auto simp: db_wf_def mounts_wf_def ms_def k_def known_def new_def list_ex_iff comp_def)
  have sub: "m_id ` set (mounts s) \<subseteq> m_id ` set ms"
    by (auto simp: ms_def upd image_image)
  show "db_wf (snd (upsert_mount n r mp cd q p s))"
    using wf mounts_db_wf [OF wf m sub]
    unfolding upsert_mount_def Let_def upd_def [symmetric] new_def [symmetric] known_def [symmetric]
      ms_def [symmetric] k_def [symmetric] get_mount_id_def
    by (auto split: option.splits)
qed

lemma queue_db_wf: "\<lbrakk>db_wf s; queue_wf (s\<lparr>sync_queue := q, queue_seq := k\<rparr>)\<rbrakk> \<Longrightarrow> db_wf (s\<lparr>sync_queue := q, queue_seq := k\<rparr>)"
  by (simp add: db_wf_def lru_wf_def bases_wf_def versions_wf_def mounts_wf_def mount_tables_wf_def files_wf_frame [of s])

lemma queue_map_db_wf:
  assumes wf: "db_wf s" and f: "\<And>x. q_id (f x) = q_id x \<and> q_inode (f x) = q_inode x \<and> q_op (f x) = q_op x \<and> q_mount_id (f x) = q_mount_id x"
  shows "db_wf (s\<lparr>sync_queue := map f (sync_queue s)\<rparr>)"
  using wf f by (auto simp: db_wf_def child_wf_defs files_wf_frame [of s] comp_def)

lemma queue_filter_db_wf: "db_wf s \<Longrightarrow> db_wf (s\<lparr>sync_queue := filter P (sync_queue s)\<rparr>)"
  by (auto simp: db_wf_def child_wf_defs files_wf_frame [of s] distinct_map_filter)

lemma enqueue_upload_wf [keeps_rules]: "keeps db_wf (enqueue_upload i m rp et pr)"
proof (rule keepsI)
  fix s assume wf: "db_wf s"
  then show "db_wf (snd (enqueue_upload i m rp et pr s))"
    unfolding enqueue_upload_def
    by (auto intro!: queue_db_wf simp: list_ex_iff) (auto simp: db_wf_def queue_wf_def)
qed

lemma fail_row_fields [simp]:
  "q_id (fail_row a b c q) = q_id q" "q_inode (fail_row a b c q) = q_inode q"
  "q_op (fail_row a b c q) = q_op q" "q_mount_id (fail_row a b c q) = q_mount_id q"
  by (simp_all add: fail_row_def)

lemma complete_queue_job_wf [keeps_rules]: "keeps db_wf (complete_queue_job j)"
  unfolding complete_queue_job_def by (intro keeps_modify queue_filter_db_wf)

lemma fail_queue_job_wf [keeps_rules]: "keeps db_wf (fail_queue_job j msg b)"
  unfolding fail_queue_job_def by (intro keeps_modify queue_map_db_wf) simp_all

lemma fail_queue_job_by_inode_wf [keeps_rules]: "keeps db_wf (fail_queue_job_by_inode i msg b)"
  unfolding fail_queue_job_by_inode_def
  by (intro keeps_rules stmt_wf keeps_modify queue_map_db_wf) simp_all

lemma lru_eviction_candidates_wf [keeps_rules]: "keeps I (lru_eviction_candidates m l)"
  by (simp add: keeps_def lru_eviction_candidates_def Let_def)

lemma clear_cache_for_mount_wf [keeps_rules]: "keeps db_wf (clear_cache_for_mount m b)"
  unfolding clear_cache_for_mount_def by (intro keeps_rules stmt_wf) simp

lemma set_pinned_wf [keeps_rules]: "keeps db_wf (set_pinned i b)"
  unfolding set_pinned_def by (intro keeps_rules) simp

lemma tombstones_db_wf:
  "\<lbrakk>db_wf s; distinct (map tomb_key ts); \<forall>d\<in>set ts. d_mount_id d \<in> mount_ids s\<rbrakk> \<Longrightarrow> db_wf (s\<lparr>tombstones := ts\<rparr>)"
  by (simp add: db_wf_def child_wf_defs files_wf_frame [of s])

lemma insert_tombstone_wf [keeps_rules]: "keeps db_wf (insert_tombstone m rp ttl)"
proof (rule keepsI)
  fix s assume wf: "db_wf s"
  then show "db_wf (snd (insert_tombstone m rp ttl s))"
    unfolding insert_tombstone_def Let_def
    by (auto simp: db_wf_tables intro!: tombstones_db_wf tomb_tab.invar_upsert dest!: kt_upsert_set)
       (simp_all add: tomb_key_def)
qed

lemma tombstones_filter_db_wf: "db_wf s \<Longrightarrow> db_wf (s\<lparr>tombstones := filter P (tombstones s)\<rparr>)"
  by (rule tombstones_db_wf) (auto simp: db_wf_def mount_tables_wf_def distinct_map_filter)

lemma remove_tombstone_wf [keeps_rules]: "keeps db_wf (remove_tombstone m rp)"
  unfolding remove_tombstone_def kt_remove_def by (intro keeps_modify tombstones_filter_db_wf)

lemma cleanup_expired_tombstones_wf [keeps_rules]: "keeps db_wf cleanup_expired_tombstones"
  unfolding cleanup_expired_tombstones_def by (intro keeps_rules keeps_modify tombstones_filter_db_wf)

lemma tokens_db_wf:
  "\<lbrakk>db_wf s; distinct (map t_mount_id ts); \<forall>t\<in>set ts. t_mount_id t \<in> mount_ids s\<rbrakk> \<Longrightarrow> db_wf (s\<lparr>change_tokens := ts\<rparr>)"
  by (simp add: db_wf_def child_wf_defs files_wf_frame [of s])

lemma set_change_token_wf [keeps_rules]: "keeps db_wf (set_change_token m tok)"
proof (rule keepsI)
  fix s assume wf: "db_wf s"
  then show "db_wf (snd (set_change_token m tok s))"
    unfolding set_change_token_def Let_def
    by (auto simp: db_wf_tables  intro!: tokens_db_wf token_tab.invar_upsert dest!: kt_upsert_set)
qed

lemma clear_change_token_wf [keeps_rules]: "keeps db_wf (clear_change_token m)"
  unfolding clear_change_token_def
  by (intro keeps_modify tokens_db_wf) (auto simp: db_wf_def mount_tables_wf_def kt_remove_def distinct_map_filter)

lemma set_poll_generation_wf [keeps_rules]: "keeps db_wf (set_poll_generation m g)"
  unfolding set_poll_generation_def by (intro keeps_rules)

lemma bases_db_wf:
  "\<lbrakk>db_wf s; distinct (map base_key bs); \<forall>b\<in>set bs. b_inode b \<in> inodes s \<and> b_mount_id b \<in> mount_ids s\<rbrakk>
   \<Longrightarrow> db_wf (s\<lparr>base_versions := bs\<rparr>)"
  by (simp add: db_wf_def child_wf_defs files_wf_frame [of s])

lemma set_base_hash_wf [keeps_rules]: "keeps db_wf (set_base_hash i m h sz)"
proof (rule keepsI)
  fix s assume wf: "db_wf s"
  then show "db_wf (snd (set_base_hash i m h sz s))"
    unfolding set_base_hash_def Let_def
    by (auto simp: db_wf_tables intro!: bases_db_wf base_tab.invar_upsert dest!: kt_upsert_set)
       (simp_all add: base_key_def)
qed

lemma remove_base_hash_wf [keeps_rules]: "keeps db_wf (remove_base_hash i m)"
  unfolding remove_base_hash_def
  by (intro keeps_modify bases_db_wf) (auto simp: db_wf_def bases_wf_def kt_remove_def distinct_map_filter)

lemma versions_db_wf:
  "\<lbrakk>db_wf s; versions_wf (s\<lparr>version_history := vs, version_seq := k\<rparr>)\<rbrakk> \<Longrightarrow> db_wf (s\<lparr>version_history := vs, version_seq := k\<rparr>)"
  by (simp add: db_wf_def lru_wf_def bases_wf_def queue_wf_def mounts_wf_def mount_tables_wf_def files_wf_frame [of s])

lemma insert_version_history_wf [keeps_rules]: "keeps db_wf (insert_version_history i m h sz et src)"
proof (rule keepsI)
  fix s assume "db_wf s"
  then show "db_wf (snd (insert_version_history i m h sz et src s))"
    unfolding insert_version_history_def
    by (auto intro!: versions_db_wf) (auto simp: db_wf_def versions_wf_def)
qed

lemma versions_filter_db_wf: "db_wf s \<Longrightarrow> db_wf (s\<lparr>version_history := filter P (version_history s)\<rparr>)"
  by (auto simp: db_wf_def child_wf_defs files_wf_frame [of s] distinct_map_filter)

lemma prune_version_history_wf [keeps_rules]: "keeps db_wf (prune_version_history i k)"
  unfolding prune_version_history_def by (intro keeps_rules keeps_modify versions_filter_db_wf)

lemma health_db_wf:
  "\<lbrakk>db_wf s; distinct (map h_mount_id hs); \<forall>h\<in>set hs. h_mount_id h \<in> mount_ids s\<rbrakk> \<Longrightarrow> db_wf (s\<lparr>mount_health := hs\<rparr>)"
  by (simp add: db_wf_def child_wf_defs files_wf_frame [of s])

lemma exec_health_upsert_wf [keeps_rules]:
  assumes "h_mount_id new = m" "\<And>h. h_mount_id (upd h) = h_mount_id h"
  shows "keeps db_wf (exec_health_upsert m new upd)"
proof (rule keepsI)
  fix s assume "db_wf s"
  then show "db_wf (snd (exec_health_upsert m new upd s))"
    using assms unfolding exec_health_upsert_def
    by (auto simp: db_wf_tables  intro!: health_db_wf health_tab.invar_upsert dest!: kt_upsert_set)
qed

lemma no_health_mount [simp]: "h_mount_id (no_health m) = m"
  by (simp add: no_health_def)

lemma record_hydration_failure_wf [keeps_rules]: "keeps db_wf (record_hydration_failure m e)"
  unfolding record_hydration_failure_def by (intro keeps_rules) simp_all

lemma record_hydration_success_wf [keeps_rules]: "keeps db_wf (record_hydration_success m)"
  unfolding record_hydration_success_def by (intro keeps_rules) simp_all

lemma record_upload_failure_wf [keeps_rules]: "keeps db_wf (record_upload_failure m e)"
  unfolding record_upload_failure_def by (intro keeps_rules) simp_all

lemma record_upload_success_wf [keeps_rules]: "keeps db_wf (record_upload_success m)"
  unfolding record_upload_success_def by (intro keeps_rules) simp_all

section \<open>Reachable databases\<close>

text \<open>
  Every database the program can produce: the empty one after migration, one
  more call of an operation (whatever its arguments, whether it succeeds or
  fails), or the passing of time.  The connection sits behind a mutex, so calls
  do not overlap; any interleaving of clients is a sequence of calls.
\<close>

inductive reachable_db :: "db \<Rightarrow> bool" where
  reach_empty: "reachable_db empty_db"
| reach_tick: "reachable_db s \<Longrightarrow> clock s \<le> t \<Longrightarrow> reachable_db (s\<lparr>clock := t\<rparr>)"
| reach_upsert_mount: "reachable_db s \<Longrightarrow> reachable_db (state_after (upsert_mount n r mp cd q p) s)"
| reach_insert_root: "reachable_db s \<Longrightarrow> reachable_db (state_after (insert_root e) s)"
| reach_insert_file: "reachable_db s \<Longrightarrow> reachable_db (state_after (insert_file e) s)"
| reach_batch_upsert: "reachable_db s \<Longrightarrow> reachable_db (state_after (batch_upsert_remote_files_gen m i es g) s)"
| reach_upsert: "reachable_db s \<Longrightarrow>
    reachable_db (state_after (upsert_remote_file_by_id_or_path m i n rp k sz mt et it g) s)"
| reach_touch_lru: "reachable_db s \<Longrightarrow> reachable_db (state_after (touch_lru i) s)"
| reach_set_status: "reachable_db s \<Longrightarrow> reachable_db (state_after (set_status i st) s)"
| reach_set_dirty_size: "reachable_db s \<Longrightarrow> reachable_db (state_after (set_dirty_size i sz) s)"
| reach_set_dirty_path: "reachable_db s \<Longrightarrow> reachable_db (state_after (set_dirty_with_cache_path i cp sz) s)"
| reach_set_cached: "reachable_db s \<Longrightarrow> reachable_db (state_after (set_cached i cp cs et mt sz) s)"
| reach_set_uploaded: "reachable_db s \<Longrightarrow> reachable_db (state_after (set_uploaded i cs et mt sz) s)"
| reach_set_evicted: "reachable_db s \<Longrightarrow> reachable_db (state_after (set_evicted i) s)"
| reach_revert: "reachable_db s \<Longrightarrow> reachable_db (state_after (revert_dirty_with_missing_cache i cp) s)"
| reach_mark_listed: "reachable_db s \<Longrightarrow> reachable_db (state_after (mark_dir_listed i) s)"
| reach_mark_all_listed: "reachable_db s \<Longrightarrow> reachable_db (state_after (batch_mark_dirs_listed m) s)"
| reach_invalidate: "reachable_db s \<Longrightarrow> reachable_db (state_after (invalidate_dir i) s)"
| reach_set_item_id: "reachable_db s \<Longrightarrow> reachable_db (state_after (set_item_id_if_absent i item) s)"
| reach_rename: "reachable_db s \<Longrightarrow> reachable_db (state_after (rename_entry i pa n rp cpo) s)"
| reach_reset_hydrating: "reachable_db s \<Longrightarrow> reachable_db (state_after reset_hydrating s)"
| reach_reset_uploading: "reachable_db s \<Longrightarrow> reachable_db (state_after reset_uploading s)"
| reach_reset_dirs: "reachable_db s \<Longrightarrow> reachable_db (state_after reset_stuck_dirty_directories s)"
| reach_reset_files: "reachable_db s \<Longrightarrow> reachable_db (state_after reset_stuck_dirty_files_without_cache_path s)"
| reach_delete_entry: "reachable_db s \<Longrightarrow> reachable_db (state_after (delete_entry i) s)"
| reach_mark_generation: "reachable_db s \<Longrightarrow> reachable_db (state_after (batch_mark_generation is g) s)"
| reach_delete_stale: "reachable_db s \<Longrightarrow> reachable_db (state_after (delete_stale_entries m g) s)"
| reach_delete_by_path: "reachable_db s \<Longrightarrow> reachable_db (state_after (delete_remote_entry_by_path m rp) s)"
| reach_delete_by_item: "reachable_db s \<Longrightarrow> reachable_db (state_after (delete_remote_entry_by_item_id m item) s)"
| reach_delete_mount: "reachable_db s \<Longrightarrow> reachable_db (state_after (delete_mount_entries m) s)"
| reach_enqueue: "reachable_db s \<Longrightarrow> reachable_db (state_after (enqueue_upload i m rp et pr) s)"
| reach_complete_job: "reachable_db s \<Longrightarrow> reachable_db (state_after (complete_queue_job j) s)"
| reach_fail_job: "reachable_db s \<Longrightarrow> reachable_db (state_after (fail_queue_job j msg b) s)"
| reach_fail_inode: "reachable_db s \<Longrightarrow> reachable_db (state_after (fail_queue_job_by_inode i msg b) s)"
| reach_clear_cache: "reachable_db s \<Longrightarrow> reachable_db (state_after (clear_cache_for_mount m pin) s)"
| reach_set_pinned: "reachable_db s \<Longrightarrow> reachable_db (state_after (set_pinned i pin) s)"
| reach_insert_tombstone: "reachable_db s \<Longrightarrow> reachable_db (state_after (insert_tombstone m rp ttl) s)"
| reach_remove_tombstone: "reachable_db s \<Longrightarrow> reachable_db (state_after (remove_tombstone m rp) s)"
| reach_cleanup: "reachable_db s \<Longrightarrow> reachable_db (state_after cleanup_expired_tombstones s)"
| reach_set_token: "reachable_db s \<Longrightarrow> reachable_db (state_after (set_change_token m tok) s)"
| reach_clear_token: "reachable_db s \<Longrightarrow> reachable_db (state_after (clear_change_token m) s)"
| reach_set_generation: "reachable_db s \<Longrightarrow> reachable_db (state_after (set_poll_generation m g) s)"
| reach_set_base: "reachable_db s \<Longrightarrow> reachable_db (state_after (set_base_hash i m h sz) s)"
| reach_remove_base: "reachable_db s \<Longrightarrow> reachable_db (state_after (remove_base_hash i m) s)"
| reach_insert_version: "reachable_db s \<Longrightarrow> reachable_db (state_after (insert_version_history i m h sz et src) s)"
| reach_prune: "reachable_db s \<Longrightarrow> reachable_db (state_after (prune_version_history i keep) s)"
| reach_hyd_failure: "reachable_db s \<Longrightarrow> reachable_db (state_after (record_hydration_failure m msg) s)"
| reach_hyd_success: "reachable_db s \<Longrightarrow> reachable_db (state_after (record_hydration_success m) s)"
| reach_up_failure: "reachable_db s \<Longrightarrow> reachable_db (state_after (record_upload_failure m msg) s)"
| reach_up_success: "reachable_db s \<Longrightarrow> reachable_db (state_after (record_upload_success m) s)"

lemma clock_db_wf: "db_wf s \<Longrightarrow> db_wf (s\<lparr>clock := t\<rparr>)"
  by (simp add: db_wf_def child_wf_defs files_wf_frame [of s])

lemma reachable_db_wf: "reachable_db s \<Longrightarrow> db_wf s"
proof (induction rule: reachable_db.induct)
  case reach_empty
  show ?case by (rule empty_db_wf)
next
  case (reach_tick s t)
  then show ?case by (simp add: clock_db_wf)
qed (erule keepsD [rotated], rule keeps_rules)+

end
