(* ===== verification/State_Tables.thy ===== *)
theory State_Tables
  imports State_Safety
begin

text \<open>
  Functional properties of the operations on the tables beside \<open>file_index\<close>,
  and of the transitions that touch several tables.
\<close>

section \<open>Version history\<close>

lemma filter_drop_keys:
  assumes "distinct (map k xs)"
  shows "filter (\<lambda>x. k x \<notin> set (map k (drop n xs))) xs = take n xs"
proof -
  have d: "distinct (map k (take n xs @ drop n xs))" using assms by simp
  have "filter (\<lambda>x. k x \<notin> set (map k (drop n xs))) (take n xs) = take n xs"
    using d unfolding map_append distinct_append by (auto simp: filter_id_conv)
  moreover have "filter (\<lambda>x. k x \<notin> set (map k (drop n xs))) (drop n xs) = []"
    by (auto simp: filter_empty_conv)
  ultimately have "filter (\<lambda>x. k x \<notin> set (map k (drop n xs))) (take n xs @ drop n xs) = take n xs"
    unfolding filter_append by simp
  then show ?thesis by (simp only: append_take_drop_id)
qed

lemma versions_distinct: "db_wf s \<Longrightarrow> distinct (map v_id (versions_newest_first i s))"
  unfolding versions_newest_first_def
  by (metis (no_types, lifting) db_wf_def versions_wf_def distinct_map distinct_map_filter distinct_sort set_sort)

lemma versions_newest_first_filter:
  "versions_newest_first i (s\<lparr>version_history := filter P (version_history s)\<rparr>)
   = filter P (versions_newest_first i s)"
  by (simp add: versions_newest_first_def filter_sort filter_swap [of P] del: filter_filter)

lemma other_version_id:
  assumes "db_wf s" "v \<in> set (version_history s)" "w \<in> set (version_history s)" "v_id v = v_id w"
  shows "v = w"
  using assms by (auto simp: db_wf_def versions_wf_def dest: distinct_map_unique)

text \<open>
  C22: pruning the history of a file to \<open>keep\<close> versions always succeeds, leaves
  exactly the \<open>keep\<close> newest versions of that file in order, leaves the history of
  every other file and all base versions alone, and returns exactly the pruned
  hashes that neither the remaining history nor a base version refers to.
\<close>

theorem prune_version_history_correct:
  assumes wf: "db_wf s"
  shows "\<exists>hs s'. prune_version_history i keep s = (Inr hs, s')
     \<and> versions_newest_first i s' = take keep (versions_newest_first i s)
     \<and> (\<forall>j. j \<noteq> i \<longrightarrow> versions_newest_first j s' = versions_newest_first j s)
     \<and> base_versions s' = base_versions s \<and> file_index s' = file_index s
     \<and> set hs = {v_object_hash v | v. v \<in> set (drop keep (versions_newest_first i s))} - {h. hash_referenced h s'}"
proof -
  let ?vs = "versions_newest_first i s"
  let ?P = "\<lambda>v. v_id v \<notin> set (map v_id (drop keep ?vs))"
  let ?s' = "s\<lparr>version_history := filter ?P (version_history s)\<rparr>"
  have own: "filter ?P ?vs = take keep ?vs"
    by (rule filter_drop_keys [OF versions_distinct [OF wf]])
  have other: "filter ?P (versions_newest_first j s) = versions_newest_first j s" if "j \<noteq> i" for j
  proof -
    have "?P v" if v: "v \<in> set (versions_newest_first j s)" for v
    proof
      assume "v_id v \<in> set (map v_id (drop keep ?vs))"
      then obtain w where w: "w \<in> set ?vs" "v_id v = v_id w" by (auto dest: in_set_dropD)
      with v have "v = w" by (intro other_version_id [OF wf]) (auto simp: versions_newest_first_def)
      with v w \<open>j \<noteq> i\<close> show False by (auto simp: versions_newest_first_def)
    qed
    then show ?thesis by (simp add: filter_id_conv)
  qed
  show ?thesis
  proof (cases "drop keep ?vs = []")
    case True
    then have "prune_version_history i keep s = (Inr [], s)"
      by (simp add: prune_version_history_def)
    with True show ?thesis by auto
  next
    case False
    then have "prune_version_history i keep s =
        (Inr (filter (\<lambda>h. \<not> hash_referenced h ?s') (map v_object_hash (drop keep ?vs))), ?s')"
      by (simp add: prune_version_history_def)
    moreover have "versions_newest_first i ?s' = take keep ?vs"
      "\<forall>j. j \<noteq> i \<longrightarrow> versions_newest_first j ?s' = versions_newest_first j s"
      using own other by (simp_all add: versions_newest_first_filter del: set_map)
    ultimately show ?thesis by (auto simp del: set_map) auto
  qed
qed

definition sample_version :: "nat \<Rightarrow> int \<Rightarrow> string \<Rightarrow> version_row" where
  "sample_version k t h = \<lparr> v_id = k, v_inode = 3, v_mount_id = 1, v_object_hash = h, v_recorded_at = t,
     v_file_size = 1, v_etag = None, v_source = AfterUpload \<rparr>"

definition history_db :: db where
  "history_db = sample_db\<lparr>version_history := [sample_version 1 10 ''aa'', sample_version 2 20 ''bb''], version_seq := 2\<rparr>"

lemma history_db_wf: "db_wf history_db"
  using sample_db_wf unfolding history_db_def
  by (rule versions_db_wf) (simp add: versions_wf_def sample_version_def sample_defs)

theorem prune_version_history_correct_witness:
  "\<exists>hs s'. prune_version_history 3 1 history_db = (Inr hs, s') \<and> versions_newest_first 3 s' = [sample_version 2 20 ''bb'']"
  using prune_version_history_correct [OF history_db_wf, of 3 1]
  by (auto simp: versions_newest_first_def history_db_def sample_version_def)

section \<open>Uploads and renames\<close>

lemma touch_lru_ok:
  "i \<in> inodes s \<Longrightarrow> \<exists>l. touch_lru i s = (Inr (), s\<lparr>cache_lru := l\<rparr>)"
  by (auto simp: touch_lru_def exec_lru_upsert_def)

lemma update_inode_ok:
  assumes wf: "db_wf s" and r: "r \<in> set (file_index s)" "r_inode r = i"
    and f: "\<And>r. same_keys r (f r)" and t: "trigger_ok (f r)"
  shows "exec_update (\<lambda>r. r_inode r = i) f s =
    (Inr (length (filter (\<lambda>r. r_inode r = i) (file_index s))),
     s\<lparr>file_index := update_rows (\<lambda>r. r_inode r = i) f (file_index s)\<rparr>)"
proof -
  have "x = r" if "x \<in> set (file_index s)" "r_inode x = i" for x
    using wf_unique(1) [OF wf that(1) r(1)] that(2) r(2) by simp
  with t show ?thesis by (auto simp: exec_update_same_keys [OF wf f] list_ex_iff)
qed

text \<open>
  C23: an upload that completes after its file was renamed does not undo the
  rename.  If the rename succeeded, marking the upload as done succeeds too, and
  the row then is \<open>cached\<close> at the renamed remote path with the renamed cache path.
\<close>

theorem upload_completion_keeps_rename:
  assumes wf: "db_wf s" and r: "r \<in> set (file_index s)" "r_inode r = i"
    and ren: "rename_entry i parent name rp (Some cp) s = (Inr (), s1)"
  shows "\<exists>s2. set_uploaded i csz etag mtime sz s1 = (Inr (), s2)
    \<and> (\<exists>r'\<in>set (file_index s2). r_inode r' = i \<and> r_status r' = Cached \<and> r_cache_path r' = Some cp
          \<and> r_remote_path r' = rp \<and> r_etag r' = etag \<and> r_size r' = sz)"
proof -
  define g where "g = (\<lambda>r :: file_row. r\<lparr>r_parent := Some parent, r_name := name, r_remote_path := rp, r_cache_path := Some cp\<rparr>)"
  have s1: "s1 = s\<lparr>file_index := update_rows (\<lambda>r. r_inode r = i) g (file_index s)\<rparr>"
    using ren exec_update_Inr [of "\<lambda>r. r_inode r = i" g s]
    by (auto simp: rename_entry_def g_def run_then split: prod.splits sum.splits)
  have wf1: "db_wf s1"
    using keepsD [OF rename_entry_wf wf, of i parent name rp "Some cp"] ren by simp
  have gr: "g r \<in> set (file_index s1)" "r_inode (g r) = i"
    using r by (force simp: s1 update_rows_def, simp add: g_def)
  define f where "f = (\<lambda>r :: file_row. r\<lparr>r_status := Cached, r_cache_size := Some csz, r_etag := etag,
     r_mtime := to_unix mtime, r_size := sz, r_cache_mtime := Some (clock s1)\<rparr>)"
  define s1' where "s1' = s1\<lparr>file_index := update_rows (\<lambda>r. r_inode r = i) f (file_index s1)\<rparr>"
  have upd: "exec_update (\<lambda>r. r_inode r = i) f s1 = (Inr (length (filter (\<lambda>r. r_inode r = i) (file_index s1))), s1')"
    unfolding s1'_def
    by (rule update_inode_ok [OF wf1 gr]) (simp_all add: f_def same_keys_def trigger_ok_def g_def)
  have fgr: "f (g r) \<in> set (file_index s1')"
    using gr by (force simp: s1'_def update_rows_def)
  have "i \<in> inodes s1'" by (rule image_eqI [OF _ fgr]) (use gr(2) in \<open>simp add: f_def\<close>)
  then obtain l where "touch_lru i s1' = (Inr (), s1'\<lparr>cache_lru := l\<rparr>)" using touch_lru_ok by blast
  with upd have "set_uploaded i csz etag mtime sz s1 = (Inr (), s1'\<lparr>cache_lru := l\<rparr>)"
    by (simp add: set_uploaded_def run_then f_def)
  moreover have "\<exists>r'\<in>set (file_index (s1'\<lparr>cache_lru := l\<rparr>)). r_inode r' = i \<and> r_status r' = Cached
     \<and> r_cache_path r' = Some cp \<and> r_remote_path r' = rp \<and> r_etag r' = etag \<and> r_size r' = sz"
    by (rule bexI [of _ "f (g r)"]) (use fgr r in \<open>simp_all add: f_def g_def\<close>)
  ultimately show ?thesis by blast
qed

definition sample_renamed :: "(sql_error + unit) \<times> db" where
  "sample_renamed = rename_entry 4 2 ''z'' ''d/z'' (Some ''/c/d/z'') sample_db"

lemma sample_renamed_ok: "fst sample_renamed = Inr ()"
  by (simp add: sample_renamed_def rename_entry_def run_simps exec_update_def end_statement_def update_rows_def
      trigger_ok_def unique_ok_def fk_ok_def row_refs_ok_def sample_defs)

theorem upload_completion_keeps_rename_witness:
  "\<exists>s2. set_uploaded 4 7 (Some ''n'') 0 7 (snd sample_renamed) = (Inr (), s2)
    \<and> (\<exists>r'\<in>set (file_index s2). r_inode r' = 4 \<and> r_status r' = Cached \<and> r_cache_path r' = Some ''/c/d/z'')"
proof -
  have r: "sample_row 4 (Some 2) ''b'' ''d/b'' File Dirty (Some ''/c/d/b'') None \<in> set (file_index sample_db)"
    "r_inode (sample_row 4 (Some 2) ''b'' ''d/b'' File Dirty (Some ''/c/d/b'') None) = 4"
    by (simp_all add: sample_defs)
  have "rename_entry 4 2 ''z'' ''d/z'' (Some ''/c/d/z'') sample_db = (Inr (), snd sample_renamed)"
    using sample_renamed_ok by (simp add: sample_renamed_def prod_eq_iff)
  from upload_completion_keeps_rename [OF sample_db_wf r this, of 7 "Some ''n''" 0 7] show ?thesis by blast
qed

section \<open>Cache accounting\<close>

definition cached_bytes :: "file_row \<Rightarrow> nat" where
  "cached_bytes r = (case r_cache_size r of None \<Rightarrow> 0 | Some n \<Rightarrow> n)"

definition bytes_of :: "mount_id \<Rightarrow> file_row list \<Rightarrow> nat" where
  "bytes_of m rows = sum_list (map cached_bytes (filter (\<lambda>r. r_mount_id r = m) rows))"

lemma total_cache_bytes_run: "total_cache_bytes m s = (Inr (bytes_of m (file_index s)), s)"
  by (simp add: total_cache_bytes_def bytes_of_def cached_bytes_def [abs_def])

lemma detach_cache_simps [simp]:
  "r_mount_id (detach_cache r) = r_mount_id r" "cached_bytes (detach_cache r) = 0"
  "same_keys r (detach_cache r)" "trigger_ok (detach_cache r)" "r_status (detach_cache r) = Remote"
  "r_cache_path (detach_cache r) = None"
  by (simp_all add: detach_cache_def cached_bytes_def same_keys_def trigger_ok_def)

lemma bytes_of_detach:
  "bytes_of m (update_rows p detach_cache rows) + bytes_of m (filter p rows) = bytes_of m rows"
  by (induction rows) (auto simp: bytes_of_def update_rows_def)

lemma detach_run:
  "db_wf s \<Longrightarrow> exec_update p detach_cache s =
     (Inr (length (filter p (file_index s))), s\<lparr>file_index := update_rows p detach_cache (file_index s)\<rparr>)"
  by (simp add: exec_update_same_keys list_ex_iff)

lemma exec_lru_delete_run:
  "exec_lru_delete i s = (Inr (), s\<lparr>cache_lru := kt_remove l_inode i (cache_lru s)\<rparr>)"
  by (simp add: exec_lru_delete_def)

lemma each_lru_delete_run:
  "\<exists>l. each exec_lru_delete ids s = (Inr (), s\<lparr>cache_lru := l\<rparr>)"
proof (induction ids arbitrary: s)
  case Nil
  show ?case by (rule exI [of _ "cache_lru s"]) simp
next
  case (Cons i ids)
  show ?case
    using Cons [of "s\<lparr>cache_lru := kt_remove l_inode i (cache_lru s)\<rparr>"] by (auto simp: run_then exec_lru_delete_run)
qed

text \<open>
  The operator's cache clear always succeeds; the bytes it reports as freed
  are exactly those the mount's accounting drops by, the number of files and the
  list of paths to unlink are those of the cleared rows, no clearable row is
  left, and every other row is unchanged.
\<close>

theorem clear_cache_accounts_for_bytes:
  assumes wf: "db_wf s"
  shows "\<exists>rep s'. clear_cache_for_mount m pins s = (Inr rep, s')
     \<and> bytes_freed rep + bytes_of m (file_index s') = bytes_of m (file_index s)
     \<and> files_cleared rep = length (filter (clearable m pins s) (file_index s))
     \<and> set (cleared_paths rep) = {p. \<exists>r\<in>set (file_index s). clearable m pins s r \<and> r_cache_path r = Some p}
     \<and> file_index s' = map (\<lambda>r. if clearable m pins s r then detach_cache r else r) (file_index s)"
proof -
  let ?c = "filter (clearable m pins s) (file_index s)"
  let ?s1 = "s\<lparr>file_index := update_rows (clearable m pins s) detach_cache (file_index s)\<rparr>"
  let ?rep = "\<lparr> files_cleared = length ?c, bytes_freed = sum_list (map cached_bytes ?c),
                cleared_paths = List.map_filter r_cache_path ?c \<rparr>"
  obtain l where l: "each exec_lru_delete (map r_inode ?c) ?s1 = (Inr (), ?s1\<lparr>cache_lru := l\<rparr>)"
    using each_lru_delete_run by blast
  have run: "clear_cache_for_mount m pins s = (Inr ?rep, ?s1\<lparr>cache_lru := l\<rparr>)"
    unfolding clear_cache_for_mount_def bind_query prod.case
    by (simp add: run_bind run_then detach_run [OF wf] l cached_bytes_def [abs_def])
  have "filter (\<lambda>r. r_mount_id r = m) ?c = ?c"
    unfolding filter_id_conv by (auto simp: clearable_def)
  then have "bytes_of m ?c = sum_list (map cached_bytes ?c)"
    unfolding bytes_of_def by simp
  then have "bytes_freed ?rep + bytes_of m (file_index (?s1\<lparr>cache_lru := l\<rparr>)) = bytes_of m (file_index s)"
    using bytes_of_detach [of m "clearable m pins s" "file_index s"] by simp
  moreover have "set (cleared_paths ?rep) = {p. \<exists>r\<in>set (file_index s). clearable m pins s r \<and> r_cache_path r = Some p}"
    by (force simp: List.map_filter_def)
  ultimately show ?thesis using run by (auto simp: update_rows_def)
qed

theorem clear_cache_accounts_for_bytes_witness:
  "\<exists>rep s'. clear_cache_for_mount 1 False sample_db = (Inr rep, s') \<and> files_cleared rep = 1"
proof -
  have "length (filter (clearable 1 False sample_db) (file_index sample_db)) = 1"
    by (simp add: clearable_def is_pinned_in_def sample_defs)
  with clear_cache_accounts_for_bytes [OF sample_db_wf, of 1 False] show ?thesis by auto
qed

lemma set_evicted_run:
  assumes "db_wf s"
  shows "set_evicted i s = (Inr (), s\<lparr>file_index := update_rows (\<lambda>r. r_inode r = i) detach_cache (file_index s),
                                       cache_lru := kt_remove l_inode i (cache_lru s)\<rparr>)"
  by (simp add: set_evicted_def run_then detach_run [OF assms] exec_lru_delete_def)

section \<open>Mount health\<close>

lemma health_upsert_run:
  "m \<in> mount_ids s \<Longrightarrow> exec_health_upsert m new upd s =
     (Inr (), s\<lparr>mount_health := kt_upsert h_mount_id m new upd (mount_health s)\<rparr>)"
  by (simp add: exec_health_upsert_def)

definition failures_of :: "mount_id \<Rightarrow> db \<Rightarrow> nat" where
  "failures_of m s = h_upload_failures (case kt_lookup h_mount_id m (mount_health s) of None \<Rightarrow> no_health m | Some h \<Rightarrow> h)"

lemma get_mount_health_failures: "map_sum id h_upload_failures (fst (get_mount_health m s)) = Inr (failures_of m s)"
  by (simp add: get_mount_health_def failures_of_def)

lemma record_upload_failure_run:
  assumes "db_wf s" "m \<in> mount_ids s"
  shows "\<exists>s'. record_upload_failure m e s = (Inr (), s') \<and> failures_of m s' = Suc (failures_of m s)
     \<and> mounts s' = mounts s \<and> (\<forall>m'. m' \<noteq> m \<longrightarrow> failures_of m' s' = failures_of m' s)"
  using assms db_wf_tables(3) [OF assms(1)]
  by (auto simp: record_upload_failure_def health_upsert_run failures_of_def health_tab.lookup_upsert
      no_health_def split: option.splits)

text \<open>
  \<open>n\<close> failed uploads in a row raise the mount's consecutive-failure counter by
  exactly \<open>n\<close> and leave the other mounts' counters alone; one success resets it to
  zero.
\<close>

theorem upload_failures_counted:
  assumes "db_wf s" "m \<in> mount_ids s"
  shows "\<exists>s'. each (record_upload_failure m) errs s = (Inr (), s')
     \<and> failures_of m s' = failures_of m s + length errs
     \<and> (\<forall>m'. m' \<noteq> m \<longrightarrow> failures_of m' s' = failures_of m' s)
     \<and> (\<exists>s''. record_upload_success m s' = (Inr (), s'') \<and> failures_of m s'' = 0)"
  using assms
proof (induction errs arbitrary: s)
  case Nil
  then show ?case using db_wf_tables(3) [OF Nil(1)]
    by (auto simp: record_upload_success_def health_upsert_run failures_of_def health_tab.lookup_upsert
        no_health_def split: option.splits)
next
  case (Cons e errs)
  obtain s1 where s1: "record_upload_failure m e s = (Inr (), s1)" "failures_of m s1 = Suc (failures_of m s)"
    "mounts s1 = mounts s" "\<forall>m'. m' \<noteq> m \<longrightarrow> failures_of m' s1 = failures_of m' s"
    using record_upload_failure_run [OF Cons.prems] by blast
  have "db_wf s1" using keepsD [OF record_upload_failure_wf Cons.prems(1), of m e] s1(1) by simp
  with Cons.IH [of s1] Cons.prems s1 show ?case by (auto simp: run_then)
qed

theorem upload_failures_counted_witness:
  "\<exists>s'. each (record_upload_failure 1) [''a'', ''b''] sample_db = (Inr (), s') \<and> failures_of 1 s' = 2"
proof -
  have "(1::nat) \<in> mount_ids sample_db" "failures_of 1 sample_db = 0"
    by (simp_all add: sample_defs failures_of_def kt_lookup_def no_health_def)
  with upload_failures_counted [OF sample_db_wf, of 1 "[''a'', ''b'']"] show ?thesis by auto
qed

section \<open>Poll generations and change tokens share a column\<close>

lemma set_change_token_run:
  assumes "db_wf s" "m \<in> mount_ids s"
  shows "\<exists>s'. set_change_token m tok s = (Inr (), s') \<and> get_change_token m s' = (Inr (Some tok), s')
     \<and> (\<forall>m'. m' \<noteq> m \<longrightarrow> fst (get_change_token m' s') = fst (get_change_token m' s)) \<and> file_index s' = file_index s"
  using assms(2) db_wf_tables(1) [OF assms(1)]
  by (auto simp: set_change_token_def get_change_token_def token_tab.lookup_upsert split: option.splits)

text \<open>
  A stored poll generation is read back unchanged, the tokens of other mounts
  are untouched; but generations and delta tokens share one column, so storing a
  delta token that is not a decimal number resets the generation to zero.
\<close>

theorem poll_generation_round_trip:
  assumes "db_wf s" "m \<in> mount_ids s" "g < 2 ^ 64"
  shows "\<exists>s1. set_poll_generation m g s = (Inr (), s1) \<and> get_poll_generation m s1 = (Inr g, s1)
     \<and> (\<forall>m'. m' \<noteq> m \<longrightarrow> fst (get_change_token m' s1) = fst (get_change_token m' s))
     \<and> (\<forall>tok. parse_u64 tok = None \<longrightarrow>
          (\<exists>s2. set_change_token m tok s1 = (Inr (), s2) \<and> get_poll_generation m s2 = (Inr 0, s2)))"
proof -
  obtain s1 where s1: "set_change_token m (nat_to_string g) s = (Inr (), s1)"
    "get_change_token m s1 = (Inr (Some (nat_to_string g)), s1)"
    "\<forall>m'. m' \<noteq> m \<longrightarrow> fst (get_change_token m' s1) = fst (get_change_token m' s)"
    using set_change_token_run [OF assms(1,2)] by blast
  have wf1: "db_wf s1" using keepsD [OF set_change_token_wf assms(1), of m "nat_to_string g"] s1(1) by simp
  have m1: "m \<in> mount_ids s1" using s1(1) assms(2) by (auto simp: set_change_token_def Let_def)
  have "\<exists>s2. set_change_token m tok s1 = (Inr (), s2) \<and> get_poll_generation m s2 = (Inr 0, s2)"
    if "parse_u64 tok = None" for tok
    using set_change_token_run [OF wf1 m1, of tok] that by (auto simp: get_poll_generation_def run_bind)
  with s1 parse_nat_to_string [OF assms(3)] show ?thesis
    by (auto simp: set_poll_generation_def get_poll_generation_def run_bind)
qed

theorem poll_generation_round_trip_witness:
  "\<exists>s1. set_poll_generation 1 42 sample_db = (Inr (), s1) \<and> get_poll_generation 1 s1 = (Inr 42, s1)"
  using poll_generation_round_trip [OF sample_db_wf, of 1 42] by (auto simp: sample_defs)

section \<open>Tombstones\<close>

lemma sql_like_percent_suffix: "sql_like ps s \<Longrightarrow> sql_like (CHR ''%'' # ps) s"
  by (cases s) auto

lemma sql_like_percent_end [simp]: "sql_like ''%'' s"
  by (induction s) auto

lemma sql_like_common_prefix: "sql_like q t \<Longrightarrow> sql_like (p @ q) (p @ t)"
proof (induction p)
  case (Cons c p)
  then show ?case using sql_like_percent_suffix [of "p @ q" "p @ t"] by auto
qed simp

lemma insert_tombstone_run:
  assumes "m \<in> mount_ids s"
  shows "insert_tombstone m rp ttl s = (Inr (), s\<lparr>tombstones := kt_upsert tomb_key (m, rp)
     \<lparr> d_mount_id = m, d_remote_path = rp, d_created_at = clock s, d_expires_at = clock s + int ttl \<rparr>
     (\<lambda>_. \<lparr> d_mount_id = m, d_remote_path = rp, d_created_at = clock s, d_expires_at = clock s + int ttl \<rparr>) (tombstones s)\<rparr>)"
  using assms by (simp add: insert_tombstone_def Let_def)

lemma kt_upsert_const_in: "key new = k \<Longrightarrow> new \<in> set (kt_upsert key k new (\<lambda>_. new) t)"
  by (auto simp: kt_upsert_def list_ex_iff image_iff)

lemma kt_upsert_const_only: "key new = k \<Longrightarrow> r \<in> set (kt_upsert key k new (\<lambda>_. new) t) \<Longrightarrow> key r = k \<Longrightarrow> r = new"
  by (auto simp: kt_upsert_def list_ex_iff split: if_splits)

text \<open>
  A fresh tombstone with a positive time to live covers the deleted path and
  every path below it, until it expires; once removed, it no longer lists the path.
\<close>

theorem tombstone_covers_subtree:
  assumes "db_wf s" "m \<in> mount_ids s" "0 < ttl"
  shows "\<exists>s1. insert_tombstone m rp ttl s = (Inr (), s1)
     \<and> fst (is_tombstoned m rp s1) = Inr True
     \<and> (\<forall>x. fst (is_tombstoned m (rp @ ''/'' @ x) s1) = Inr True)
     \<and> (\<forall>t. rp \<in> set (projr (fst (active_tombstones m (s1\<lparr>clock := t\<rparr>)))) \<longleftrightarrow> t < clock s + int ttl)
     \<and> rp \<notin> set (projr (fst (active_tombstones m (state_after (remove_tombstone m rp) s1))))"
proof -
  define new where "new = \<lparr> d_mount_id = m, d_remote_path = rp, d_created_at = clock s, d_expires_at = clock s + int ttl \<rparr>"
  define s1 where "s1 = s\<lparr>tombstones := kt_upsert tomb_key (m, rp) new (\<lambda>_. new) (tombstones s)\<rparr>"
  have run: "insert_tombstone m rp ttl s = (Inr (), s1)"
    using insert_tombstone_run [OF assms(2)] by (simp add: s1_def new_def)
  have key: "tomb_key new = (m, rp)" by (simp add: new_def tomb_key_def)
  have inn: "new \<in> set (tombstones s1)" using kt_upsert_const_in [of tomb_key new, OF key] by (simp add: s1_def)
  have only: "d = new" if "d \<in> set (tombstones s1)" "d_mount_id d = m" "d_remote_path d = rp" for d
    using kt_upsert_const_only [of tomb_key new, OF key] that by (simp add: s1_def tomb_key_def)
  have new: "d_mount_id new = m" "d_remote_path new = rp" "d_expires_at new = clock s + int ttl" by (simp_all add: new_def)
  have c: "clock s1 = clock s" by (simp add: s1_def)
  have "fst (is_tombstoned m rp s1) = Inr True"
    "fst (is_tombstoned m (rp @ ''/'' @ x) s1) = Inr True" for x
    using inn new c assms(3) sql_like_common_prefix [of "''/%''" "''/'' @ x" rp]
    by (auto simp: is_tombstoned_def list_ex_iff intro!: bexI [of _ new])
  moreover have "rp \<in> set (projr (fst (active_tombstones m (s1\<lparr>clock := t\<rparr>)))) \<longleftrightarrow> t < clock s + int ttl" for t
  proof -
    have "rp \<in> set (projr (fst (active_tombstones m (s1\<lparr>clock := t\<rparr>))))
       \<longleftrightarrow> (\<exists>d\<in>set (tombstones s1). d_mount_id d = m \<and> d_remote_path d = rp \<and> t < d_expires_at d)"
      by (force simp: active_tombstones_def)
    also have "\<dots> \<longleftrightarrow> t < clock s + int ttl"
      using inn only new by metis
    finally show ?thesis .
  qed
  moreover have "rp \<notin> set (projr (fst (active_tombstones m (state_after (remove_tombstone m rp) s1))))"
    by (auto simp: active_tombstones_def remove_tombstone_def tomb_key_def)
  ultimately show ?thesis using run by blast
qed

theorem tombstone_covers_subtree_witness:
  "\<exists>s1. insert_tombstone 1 ''d'' 30 sample_db = (Inr (), s1) \<and> fst (is_tombstoned 1 ''d/a'' s1) = Inr True"
proof -
  have m: "(1::nat) \<in> mount_ids sample_db" "(0::nat) < 30" by (simp_all add: sample_defs)
  obtain s1 where s1: "insert_tombstone 1 ''d'' 30 sample_db = (Inr (), s1)"
    and c: "\<forall>x. fst (is_tombstoned 1 (''d'' @ ''/'' @ x) s1) = Inr True"
    using tombstone_covers_subtree [OF sample_db_wf m, of "''d''"] by blast
  from spec [OF c, of "''a''"] have "fst (is_tombstoned 1 ''d/a'' s1) = Inr True" by simp
  with s1 show ?thesis by blast
qed

section \<open>Migrations\<close>

lemma run_migration_ok:
  "run_migration run v (d, applied) = (Inr (), (d', applied')) \<Longrightarrow> v \<in> set applied' \<and> set applied \<subseteq> set applied'"
  by (auto simp: run_migration_def split: if_splits prod.splits sum.splits)

lemma each_migration_ok:
  "each (run_migration run) vs (d, applied) = (Inr (), (d', applied')) \<Longrightarrow>
   set vs \<subseteq> set applied' \<and> set applied \<subseteq> set applied'"
proof (induction vs arbitrary: d applied)
  case (Cons v vs)
  then obtain d1 a1 where "run_migration run v (d, applied) = (Inr (), (d1, a1))"
    "each (run_migration run) vs (d1, a1) = (Inr (), (d', applied'))"
    by (auto simp: run_then split: prod.splits sum.splits)
  with Cons.IH run_migration_ok [of run v d applied d1 a1] show ?case by fastforce
qed simp

lemma each_migration_skip:
  "set vs \<subseteq> set applied \<Longrightarrow> each (run_migration run) vs (d, applied) = (Inr (), (d, applied))"
  by (induction vs) (auto simp: run_then run_migration_def)

text \<open>
  After a successful migration every schema version is recorded, and running
  the migrations again, with whatever scripts, executes none of them and changes
  nothing.
\<close>

theorem migrations_idempotent:
  assumes "run_migrations run (d, applied) = (Inr (), (d', applied'))"
  shows "set MIGRATIONS \<subseteq> set applied' \<and> run_migrations run' (d', applied') = (Inr (), (d', applied'))"
proof -
  have "set MIGRATIONS \<subseteq> set applied'"
    using each_migration_ok [OF assms [unfolded run_migrations_def]] by simp
  then show ?thesis
    unfolding run_migrations_def by (simp add: each_migration_skip)
qed

theorem migrations_idempotent_witness:
  "run_migrations (\<lambda>_ n. (Inl (), n)) (11::nat, MIGRATIONS) = (Inr (), (11, MIGRATIONS))"
proof -
  have "run_migrations (\<lambda>_ n. (Inr () :: unit + unit, Suc n)) (0, []) = (Inr (), (11, MIGRATIONS))"
    by (simp add: run_migrations_def MIGRATIONS_def run_then run_migration_def)
  from migrations_idempotent [OF this] show ?thesis by blast
qed

section \<open>Retry backoff\<close>

lemma backoff_value: "unat (backoff_secs j) = min (5 * 2 ^ min (j_attempt j) 7) 600"
proof -
  have "min (j_attempt j) 7 \<in> {0, 1, 2, 3, 4, 5, 6, 7}" by (auto simp: min_def)
  then show ?thesis unfolding backoff_secs_def by (elim insertE emptyE; simp)
qed

text \<open>
  The retry delay of a queued job is \<open>5 * 2^attempt\<close> seconds capped at 600; it
  never overflows, lies between 5 and 600 seconds and does not shrink as attempts
  accumulate.
\<close>

theorem backoff_bounds:
  "unat (backoff_secs j) = min (5 * 2 ^ j_attempt j) 600 \<and> 5 \<le> unat (backoff_secs j)
   \<and> unat (backoff_secs j) \<le> 600 \<and> backoff_secs j \<le> backoff_secs (j\<lparr>j_attempt := Suc (j_attempt j)\<rparr>)"
proof -
  have big: "600 \<le> (5 * 2 ^ n :: nat)" if "7 \<le> n" for n :: nat
    using power_increasing [OF that, of "2 :: nat"] by simp
  have v: "unat (backoff_secs j) = min (5 * 2 ^ j_attempt j) 600" for j
    using big [of "j_attempt j"] by (cases "j_attempt j \<le> 7") (simp_all add: backoff_value min_def)
  have ge: "5 \<le> (5 * 2 ^ n :: nat)" for n by simp
  from v [of j] ge [of "j_attempt j"] have "5 \<le> unat (backoff_secs j)" by simp
  moreover have "backoff_secs j \<le> backoff_secs (j\<lparr>j_attempt := Suc (j_attempt j)\<rparr>)"
    unfolding word_le_nat_alt v by (simp add: min_def)
  ultimately show ?thesis using v [of j] by simp
qed

end
