(* ===== verification/Reconcile.thy ===== *)
theory Reconcile
  imports State_Tables
begin

text \<open>
  The startup orphan reconciler
  (\<open>stratosync-daemon/src/cache/reconcile.rs\<close>): a walk over the cache directory
  with an explicit stack that unlinks every regular file no row of the database
  names, and the wipe of the hydration temporaries.  The directory tree is a
  finite tree; \<open>fault p\<close> says that unlinking \<open>p\<close> fails.
\<close>

datatype fs_tree =
    FsFile nat
  | FsOther
  | FsUnreadable
  | FsDir "(string \<times> fs_tree) list"

definition child_path :: "path \<Rightarrow> string \<Rightarrow> path" where
  "child_path p n = p @ ''/'' @ n"

record reconcile_stats =
  files_examined  :: nat
  orphans_removed :: nat
  partials_wiped  :: nat
  rc_bytes_freed  :: nat
  remove_errors   :: nat

definition no_stats :: reconcile_stats where
  "no_stats = \<lparr> files_examined = 0, orphans_removed = 0, partials_wiped = 0, rc_bytes_freed = 0, remove_errors = 0 \<rparr>"

text \<open>Only \<open>.bases\<close> and \<open>.meta\<close> directly under the cache root are reserved.\<close>

definition is_reserved_subdir :: "path \<Rightarrow> string \<Rightarrow> path \<Rightarrow> bool" where
  "is_reserved_subdir dir name cache_root \<longleftrightarrow> dir = cache_root \<and> name \<in> {''.bases'', ''.meta''}"

text \<open>The entries of one directory: statistics, removed paths, and the directories pushed on the stack.\<close>

fun walk_entries ::
  "path \<Rightarrow> path set \<Rightarrow> (path \<Rightarrow> bool) \<Rightarrow> path \<Rightarrow> (string \<times> fs_tree) list
   \<Rightarrow> reconcile_stats \<times> path list \<Rightarrow> (path \<times> fs_tree) list \<Rightarrow> (reconcile_stats \<times> path list) \<times> (path \<times> fs_tree) list" where
  "walk_entries root known fault dir [] acc stack = (acc, stack)"
| "walk_entries root known fault dir ((n, t) # es) acc stack =
     (let p = child_path dir n; st = fst acc; gone = snd acc in
      case t of
        FsFile sz \<Rightarrow>
          (let st1 = st\<lparr>files_examined := files_examined st + 1\<rparr> in
           if p \<in> known then walk_entries root known fault dir es (st1, gone) stack
           else if fault p then walk_entries root known fault dir es (st1\<lparr>remove_errors := remove_errors st1 + 1\<rparr>, gone) stack
           else walk_entries root known fault dir es
                  (st1\<lparr>orphans_removed := orphans_removed st1 + 1, rc_bytes_freed := rc_bytes_freed st1 + sz\<rparr>, p # gone) stack)
      | FsOther \<Rightarrow> walk_entries root known fault dir es acc stack
      | FsUnreadable \<Rightarrow>
          (if is_reserved_subdir dir n root then walk_entries root known fault dir es acc stack
           else walk_entries root known fault dir es acc ((p, t) # stack))
      | FsDir _ \<Rightarrow>
          (if is_reserved_subdir dir n root then walk_entries root known fault dir es acc stack
           else walk_entries root known fault dir es acc ((p, t) # stack)))"

fun tree_size :: "fs_tree \<Rightarrow> nat" where
  "tree_size (FsDir es) = Suc (sum_list (map (\<lambda>e. tree_size (snd e)) es))"
| "tree_size _ = 1"

definition stack_size :: "(path \<times> fs_tree) list \<Rightarrow> nat" where
  "stack_size st = sum_list (map (\<lambda>e. tree_size (snd e)) st)"

lemma walk_entries_stack_size:
  "stack_size (snd (walk_entries root known fault dir es acc stack))
     \<le> stack_size stack + sum_list (map (\<lambda>e. tree_size (snd e)) es)"
proof (induction es arbitrary: acc stack)
  case (Cons e es)
  obtain n t where e: "e = (n, t)" by (cases e)
  show ?case
  proof (cases t)
    case (FsFile sz)
    show ?thesis using Cons.IH by (simp add: e FsFile Let_def le_SucI)
  next
    case FsOther
    show ?thesis using Cons.IH [of acc stack] by (simp add: e FsOther)
  next
    case FsUnreadable
    show ?thesis using Cons.IH [of acc stack] Cons.IH [of acc "(child_path dir n, t) # stack"]
      by (auto simp: e FsUnreadable Let_def stack_size_def)
  next
    case (FsDir ds)
    show ?thesis using Cons.IH [of acc stack] Cons.IH [of acc "(child_path dir n, t) # stack"]
      by (auto simp: e FsDir Let_def stack_size_def)
  qed
qed simp

function walk_stack ::
  "path \<Rightarrow> path set \<Rightarrow> (path \<Rightarrow> bool) \<Rightarrow> (path \<times> fs_tree) list \<Rightarrow> reconcile_stats \<times> path list
   \<Rightarrow> reconcile_stats \<times> path list" where
  "walk_stack root known fault [] acc = acc"
| "walk_stack root known fault ((dir, t) # stack) acc =
     (case t of
        FsDir es \<Rightarrow> (case walk_entries root known fault dir es acc stack of
                      (acc', stack') \<Rightarrow> walk_stack root known fault stack' acc')
      | _ \<Rightarrow> walk_stack root known fault stack acc)"
  by pat_completeness auto
termination
proof (relation "measure (\<lambda>(_, _, _, st, _). stack_size st)")
  fix root known fault dir t stack acc es acc' stack'
  assume "t = FsDir es" "(acc', stack') = walk_entries root known fault dir es acc stack"
  with walk_entries_stack_size [of root known fault dir es acc stack]
  show "((root, known, fault, stack', acc'), (root, known, fault, (dir, t) # stack, acc))
      \<in> measure (\<lambda>(_, _, _, st, _). stack_size st)"
    by (cases "walk_entries root known fault dir es acc stack") (auto simp: stack_size_def)
qed (auto simp: stack_size_def)

definition walk_and_remove_orphans ::
  "path \<Rightarrow> path set \<Rightarrow> (path \<Rightarrow> bool) \<Rightarrow> fs_tree \<Rightarrow> reconcile_stats \<times> path list" where
  "walk_and_remove_orphans root known fault t = walk_stack root known fault [(root, t)] (no_stats, [])"

fun wipe_entries ::
  "(path \<Rightarrow> bool) \<Rightarrow> path \<Rightarrow> (string \<times> fs_tree) list \<Rightarrow> reconcile_stats \<times> path list \<Rightarrow> reconcile_stats \<times> path list" where
  "wipe_entries fault dir [] acc = acc"
| "wipe_entries fault dir ((n, t) # es) acc =
     (case t of
        FsFile sz \<Rightarrow>
          (let p = child_path dir n; st = fst acc in
           if fault p then wipe_entries fault dir es (st\<lparr>remove_errors := remove_errors st + 1\<rparr>, snd acc)
           else wipe_entries fault dir es
                  (st\<lparr>partials_wiped := partials_wiped st + 1, rc_bytes_freed := rc_bytes_freed st + sz\<rparr>, p # snd acc))
      | _ \<Rightarrow> wipe_entries fault dir es acc)"

definition wipe_partial_hydrations ::
  "(path \<Rightarrow> bool) \<Rightarrow> path \<Rightarrow> fs_tree option \<Rightarrow> reconcile_stats \<times> path list \<Rightarrow> reconcile_stats \<times> path list" where
  "wipe_partial_hydrations fault dir t acc =
     (case t of Some (FsDir es) \<Rightarrow> wipe_entries fault dir es acc | _ \<Rightarrow> acc)"

definition dir_child :: "string \<Rightarrow> fs_tree option \<Rightarrow> fs_tree option" where
  "dir_child n t = (case t of Some (FsDir es) \<Rightarrow> map_of es n | _ \<Rightarrow> None)"

text \<open>The reconciler: statistics and the unlinked paths; \<open>tree\<close> is \<open>None\<close> when the cache directory does not exist.\<close>

definition reconcile_orphans ::
  "mount_id \<Rightarrow> path \<Rightarrow> (path \<Rightarrow> bool) \<Rightarrow> fs_tree option \<Rightarrow> (reconcile_stats \<times> path list) dbm" where
  "reconcile_orphans m cache_dir fault tree =
     (case tree of
        None \<Rightarrow> ret (no_stats, [])
      | Some t \<Rightarrow> bindS (all_cache_paths m) (\<lambda>known.
          ret (wipe_partial_hydrations fault (child_path (child_path cache_dir ''.meta'') ''partial'')
                 (dir_child ''partial'' (dir_child ''.meta'' (Some t)))
                 (walk_and_remove_orphans cache_dir known fault t))))"

section \<open>What is unlinked\<close>

text \<open>The specification: the regular files the walk visits, by recursion on the tree.\<close>

fun visited :: "path \<Rightarrow> path \<Rightarrow> fs_tree \<Rightarrow> path set" where
  "visited root dir (FsDir es) =
     (\<Union>(n, t)\<in>set es. (case t of
         FsFile _ \<Rightarrow> {child_path dir n}
       | FsDir _ \<Rightarrow> if is_reserved_subdir dir n root then {} else visited root (child_path dir n) t
       | _ \<Rightarrow> {}))"
| "visited root dir _ = {}"

definition pushed :: "path \<Rightarrow> path \<Rightarrow> (string \<times> fs_tree) list \<Rightarrow> (path \<times> fs_tree) set" where
  "pushed root dir es = {(child_path dir n, t) | n t. (n, t) \<in> set es \<and> (case t of FsDir _ \<Rightarrow> True | FsUnreadable \<Rightarrow> True | _ \<Rightarrow> False)
     \<and> \<not> is_reserved_subdir dir n root}"

definition files_in :: "path \<Rightarrow> (string \<times> fs_tree) list \<Rightarrow> path set" where
  "files_in dir es = {child_path dir n | n sz. (n, FsFile sz) \<in> set es}"

lemma pushed_Cons:
  "pushed root dir ((n, t) # es) = pushed root dir es \<union>
     (if (case t of FsDir _ \<Rightarrow> True | FsUnreadable \<Rightarrow> True | _ \<Rightarrow> False) \<and> \<not> is_reserved_subdir dir n root
      then {(child_path dir n, t)} else {})"
  by (auto simp: pushed_def)

lemma files_in_Cons:
  "files_in dir ((n, t) # es) = files_in dir es \<union> (case t of FsFile _ \<Rightarrow> {child_path dir n} | _ \<Rightarrow> {})"
  by (auto simp: files_in_def split: fs_tree.splits)

lemma walk_entries_spec:
  "set (snd (walk_entries root known fault dir es acc stack)) = set stack \<union> pushed root dir es
   \<and> set (snd (fst (walk_entries root known fault dir es acc stack)))
       = set (snd acc) \<union> {p \<in> files_in dir es. p \<notin> known \<and> \<not> fault p}"
proof (induction es arbitrary: acc stack)
  case Nil
  then show ?case by (simp add: pushed_def files_in_def)
next
  case (Cons e es)
  obtain n t where e: "e = (n, t)" by (cases e)
  show ?case by (cases t) (auto simp: e Cons.IH Let_def pushed_Cons files_in_Cons)
qed

lemma in_visited:
  "p \<in> visited root dir (FsDir es) \<longleftrightarrow> (\<exists>n t. (n, t) \<in> set es \<and> (case t of
      FsFile _ \<Rightarrow> p = child_path dir n
    | FsDir _ \<Rightarrow> \<not> is_reserved_subdir dir n root \<and> p \<in> visited root (child_path dir n) t
    | _ \<Rightarrow> False))"
proof -
  let ?F = "\<lambda>n t. case t of FsFile _ \<Rightarrow> {child_path dir n}
       | FsDir _ \<Rightarrow> if is_reserved_subdir dir n root then {} else visited root (child_path dir n) t | _ \<Rightarrow> {}"
  have "p \<in> visited root dir (FsDir es) \<longleftrightarrow> (\<exists>n t. (n, t) \<in> set es \<and> p \<in> ?F n t)"
    unfolding visited.simps(1) by blast
  moreover have "p \<in> ?F n t \<longleftrightarrow> (case t of FsFile _ \<Rightarrow> p = child_path dir n
    | FsDir _ \<Rightarrow> \<not> is_reserved_subdir dir n root \<and> p \<in> visited root (child_path dir n) t | _ \<Rightarrow> False)" for n t
    by (simp del: visited.simps split: fs_tree.split)
  ultimately show ?thesis by simp
qed

declare visited.simps(1) [simp del]

lemma visited_step: "visited root dir (FsDir es) = files_in dir es \<union> (\<Union>(d, t)\<in>pushed root dir es. visited root d t)"
  (is "?l = ?f \<union> ?p")
proof (intro equalityI subsetI)
  fix p assume "p \<in> ?l"
  then obtain n t where nt: "(n, t) \<in> set es" "case t of FsFile _ \<Rightarrow> p = child_path dir n
      | FsDir _ \<Rightarrow> \<not> is_reserved_subdir dir n root \<and> p \<in> visited root (child_path dir n) t | _ \<Rightarrow> False"
    unfolding in_visited by blast
  show "p \<in> ?f \<union> ?p"
  proof (cases t)
    case (FsDir ds)
    with nt have "(child_path dir n, t) \<in> pushed root dir es" "p \<in> visited root (child_path dir n) t"
      by (auto simp: pushed_def)
    then show ?thesis by blast
  qed (use nt in \<open>auto simp: files_in_def\<close>)
next
  fix p assume "p \<in> ?f \<union> ?p"
  then consider n sz where "(n, FsFile sz) \<in> set es" "p = child_path dir n"
    | n t where "(n, t) \<in> set es" "p \<in> visited root (child_path dir n) t" "\<not> is_reserved_subdir dir n root"
    by (auto simp: files_in_def pushed_def)
  then show "p \<in> ?l"
  proof cases
    case 1
    then show ?thesis unfolding in_visited by (intro exI [of _ n] exI [of _ "FsFile sz"]) simp
  next
    case 2
    then show ?thesis unfolding in_visited by (intro exI [of _ n] exI [of _ t]) (cases t; simp)
  qed
qed

lemma walk_stack_spec:
  "set (snd (walk_stack root known fault stack acc)) =
     set (snd acc) \<union> {p \<in> (\<Union>(d, t)\<in>set stack. visited root d t). p \<notin> known \<and> \<not> fault p}"
proof (induction root known fault stack acc rule: walk_stack.induct)
  case (2 root known fault dir t stack acc)
  show ?case
  proof (cases t)
    case (FsDir es)
    obtain acc' stack' where w: "walk_entries root known fault dir es acc stack = (acc', stack')"
      by (cases "walk_entries root known fault dir es acc stack")
    have "set stack' = set stack \<union> pushed root dir es"
      "set (snd acc') = set (snd acc) \<union> {p \<in> files_in dir es. p \<notin> known \<and> \<not> fault p}"
      using walk_entries_spec [of root known fault dir es acc stack] w by simp_all
    with 2(4) [OF FsDir w [symmetric]] show ?thesis
      using visited_step [of root dir es]
      by (simp only: walk_stack.simps FsDir fs_tree.case w prod.case list.set) auto
  qed (use 2 in auto)
qed simp

lemma wipe_entries_gone: "set (snd (wipe_entries fault dir es acc)) = set (snd acc) \<union> {p \<in> files_in dir es. \<not> fault p}"
proof (induction es arbitrary: acc)
  case (Cons e es)
  obtain n t where e: "e = (n, t)" by (cases e)
  show ?case by (cases t) (auto simp: e Cons.IH Let_def files_in_Cons)
qed (simp add: files_in_def)

definition partial_files :: "path \<Rightarrow> fs_tree \<Rightarrow> path set" where
  "partial_files cache_dir t =
     (case dir_child ''partial'' (dir_child ''.meta'' (Some t)) of
        Some (FsDir es) \<Rightarrow> files_in (child_path (child_path cache_dir ''.meta'') ''partial'') es | _ \<Rightarrow> {})"

lemma wipe_gone:
  "set (snd (wipe_partial_hydrations fault (child_path (child_path d ''.meta'') ''partial'')
       (dir_child ''partial'' (dir_child ''.meta'' (Some t))) acc))
   = set (snd acc) \<union> {p \<in> partial_files d t. \<not> fault p}"
  by (auto simp: wipe_partial_hydrations_def partial_files_def wipe_entries_gone split: option.splits fs_tree.splits)

lemma all_cache_paths_run:
  "all_cache_paths m s = (Inr {p. \<exists>r\<in>set (file_index s). r_mount_id r = m \<and> r_cache_path r = Some p}, s)"
  by (force simp: all_cache_paths_def List.map_filter_def)

lemma reconcile_run:
  "\<exists>st gone. reconcile_orphans m d fault (Some t) s = (Inr (st, gone), s)
     \<and> set gone = {p \<in> visited d d t. (\<forall>r\<in>set (file_index s). r_mount_id r = m \<longrightarrow> r_cache_path r \<noteq> Some p) \<and> \<not> fault p}
                  \<union> {p \<in> partial_files d t. \<not> fault p}"
proof -
  let ?known = "{p. \<exists>r\<in>set (file_index s). r_mount_id r = m \<and> r_cache_path r = Some p}"
  let ?res = "wipe_partial_hydrations fault (child_path (child_path d ''.meta'') ''partial'')
     (dir_child ''partial'' (dir_child ''.meta'' (Some t))) (walk_and_remove_orphans d ?known fault t)"
  have "set (snd ?res) = {p \<in> visited d d t. p \<notin> ?known \<and> \<not> fault p} \<union> {p \<in> partial_files d t. \<not> fault p}"
    unfolding wipe_gone walk_and_remove_orphans_def walk_stack_spec by simp
  then show ?thesis
    by (intro exI [of _ "fst ?res"] exI [of _ "snd ?res"])
       (auto simp: reconcile_orphans_def run_bind all_cache_paths_run)
qed

text \<open>
  C26: the reconciler unlinks exactly the regular files below the cache directory,
  outside the reserved \<open>.bases\<close> and \<open>.meta\<close> at its top, that no row of the mount
  names as its cache file, together with the files of \<open>.meta/partial\<close>, apart from
  those whose removal fails; in particular no cache file that a row names is
  unlinked, unless it lies in \<open>.meta/partial\<close>.
\<close>

theorem reconcile_removes_exactly_orphans:
  "\<exists>st gone. reconcile_orphans m d fault (Some t) s = (Inr (st, gone), s)
     \<and> set gone = {p \<in> visited d d t. (\<forall>r\<in>set (file_index s). r_mount_id r = m \<longrightarrow> r_cache_path r \<noteq> Some p) \<and> \<not> fault p}
                  \<union> {p \<in> partial_files d t. \<not> fault p}"
  by (rule reconcile_run)

theorem reconcile_removes_exactly_orphans_witness:
  "\<exists>st gone. reconcile_orphans 1 ''/c'' (\<lambda>_. False) (Some (FsDir [(''d'', FsDir [(''a'', FsFile 2), (''x'', FsFile 5)])])) sample_db
     = (Inr (st, gone), sample_db) \<and> set gone = {''/c/d/x''}"
proof -
  let ?t = "FsDir [(''d'', FsDir [(''a'', FsFile 2), (''x'', FsFile 5)])]"
  obtain st gone where g: "reconcile_orphans 1 ''/c'' (\<lambda>_. False) (Some ?t) sample_db = (Inr (st, gone), sample_db)"
    "set gone = {p \<in> visited ''/c'' ''/c'' ?t. (\<forall>r\<in>set (file_index sample_db). r_mount_id r = 1 \<longrightarrow> r_cache_path r \<noteq> Some p)}
       \<union> {p \<in> partial_files ''/c'' ?t. True}"
    using reconcile_removes_exactly_orphans [of 1 "''/c''" "\<lambda>_. False" ?t sample_db] by auto
  have "visited ''/c'' ''/c'' ?t = {''/c/d/a'', ''/c/d/x''}"
    by (auto simp: visited.simps is_reserved_subdir_def child_path_def)
  moreover have "partial_files ''/c'' ?t = {}" by (simp add: partial_files_def dir_child_def)
  ultimately have "set gone = {''/c/d/x''}" using g(2) by (auto simp: sample_defs)
  with g(1) show ?thesis by blast
qed

end
