(* ===== verification/World.thy ===== *)
theory World
  imports State_Tables
begin

text \<open>
  The state the daemon's components share: the state database, the files of the
  cache directory, and the blobs of the base store.  A file operation on a path
  for which \<open>io_fault\<close> holds fails with an I/O error other than \<open>NotFound\<close>
  (permissions, a full disk); the components below take whatever faults there
  are, and theorems that need their absence say so.
\<close>

type_synonym bytes = "8 word list"

datatype node = Regular bytes | Link bool | Dir

record world =
  wdb      :: db
  disk     :: "path \<rightharpoonup> node"
  objects  :: "path \<rightharpoonup> bytes"
  io_fault :: "path \<Rightarrow> bool"

datatype err = SqlErr sql_error | IoNotFound | IoOther | SyncErr sync_error | Bail string

type_synonym 'a app = "(world, err, 'a) sem"

text \<open>A database call from a component.\<close>

definition db_op :: "'a dbm \<Rightarrow> 'a app" where
  "db_op m w = (case m (wdb w) of (r, s) \<Rightarrow>
     (case r of Inl e \<Rightarrow> Inl (SqlErr e) | Inr a \<Rightarrow> Inr a, w\<lparr>wdb := s\<rparr>))"

lemma db_op_run [run_simps]:
  "db_op m w = (case fst (m (wdb w)) of Inl e \<Rightarrow> Inl (SqlErr e) | Inr a \<Rightarrow> Inr a, w\<lparr>wdb := snd (m (wdb w))\<rparr>)"
  by (simp add: db_op_def split: prod.split)

lemma db_op_Inr: "db_op m w = (Inr a, w') \<longleftrightarrow> (\<exists>s'. m (wdb w) = (Inr a, s') \<and> w' = w\<lparr>wdb := s'\<rparr>)"
  by (cases "m (wdb w)") (auto simp: db_op_run split: sum.splits)

lemma keeps_db_op: "keeps I m \<Longrightarrow> keeps (\<lambda>w. I (wdb w)) (db_op m)"
  by (simp add: keeps_def db_op_run)

text \<open>\<open>Path::exists\<close> follows links: a link is \<open>Link True\<close> when its target exists.\<close>

definition path_exists :: "path \<Rightarrow> world \<Rightarrow> bool" where
  "path_exists p w = (case disk w p of None \<Rightarrow> False | Some (Link b) \<Rightarrow> b | Some _ \<Rightarrow> True)"

definition remove_file :: "path \<Rightarrow> unit app" where
  "remove_file p w =
     (if io_fault w p then (Inl IoOther, w)
      else case disk w p of
        None \<Rightarrow> (Inl IoNotFound, w)
      | Some Dir \<Rightarrow> (Inl IoOther, w)
      | Some _ \<Rightarrow> (Inr (), w\<lparr>disk := (disk w)(p := None)\<rparr>))"

definition read_file :: "path \<Rightarrow> bytes app" where
  "read_file p w =
     (if io_fault w p then (Inl IoOther, w)
      else case disk w p of
        Some (Regular b) \<Rightarrow> (Inr b, w)
      | None \<Rightarrow> (Inl IoNotFound, w)
      | Some _ \<Rightarrow> (Inl IoOther, w))"

definition write_file :: "path \<Rightarrow> bytes \<Rightarrow> unit app" where
  "write_file p b w =
     (if io_fault w p \<or> disk w p = Some Dir then (Inl IoOther, w)
      else (Inr (), w\<lparr>disk := (disk w)(p \<mapsto> Regular b)\<rparr>))"

text \<open>\<open>rename\<close> replaces a destination that is not a directory.\<close>

definition rename_file :: "path \<Rightarrow> path \<Rightarrow> unit app" where
  "rename_file p q w =
     (if io_fault w p \<or> io_fault w q then (Inl IoOther, w)
      else case disk w p of
        None \<Rightarrow> (Inl IoNotFound, w)
      | Some n \<Rightarrow> if disk w q = Some Dir \<and> n \<noteq> Dir then (Inl IoOther, w)
                 else (Inr (), w\<lparr>disk := (disk w)(p := None, q \<mapsto> n)\<rparr>))"

text \<open>\<open>fs::metadata(..).len()\<close>.\<close>

definition file_len :: "path \<Rightarrow> nat app" where
  "file_len p = bindS (read_file p) (\<lambda>b. ret (length b))"

text \<open>\<open>create_dir_all\<close>: the directory exists afterwards, unless something else is in its place.\<close>

definition create_dir_all :: "path \<Rightarrow> unit app" where
  "create_dir_all d w =
     (if io_fault w d then (Inl IoOther, w)
      else case disk w d of
        None \<Rightarrow> (Inr (), w\<lparr>disk := (disk w)(d \<mapsto> Dir)\<rparr>)
      | Some Dir \<Rightarrow> (Inr (), w)
      | Some _ \<Rightarrow> (Inl IoOther, w))"

lemmas io_defs = remove_file_def read_file_def write_file_def rename_file_def

lemma wdb_io [simp]:
  "wdb (snd (remove_file p w)) = wdb w" "wdb (snd (read_file p w)) = wdb w"
  "wdb (snd (write_file p b w)) = wdb w" "wdb (snd (rename_file p q w)) = wdb w"
  by (auto simp: io_defs split: option.splits node.splits)

lemma keeps_io [keeps_rules]:
  "keeps (\<lambda>w. I (wdb w)) (remove_file p)" "keeps (\<lambda>w. I (wdb w)) (read_file p)"
  "keeps (\<lambda>w. I (wdb w)) (write_file p b)" "keeps (\<lambda>w. I (wdb w)) (rename_file p q)"
  by (simp_all add: keeps_def)

abbreviation world_wf :: "world \<Rightarrow> bool" where
  "world_wf w \<equiv> db_wf (wdb w)"

definition empty_world :: world where
  "empty_world = \<lparr> wdb = empty_db, disk = (\<lambda>_. None), objects = (\<lambda>_. None), io_fault = (\<lambda>_. False) \<rparr>"

definition sample_world :: world where
  "sample_world = \<lparr> wdb = sample_db, disk = [''/c/d/a'' \<mapsto> Regular [1, 2], ''/c/d/b'' \<mapsto> Regular [3]],
     objects = (\<lambda>_. None), io_fault = (\<lambda>_. False) \<rparr>"

end
