(* ===== verification/Cache_Manager.thy ===== *)
theory Cache_Manager
  imports World
begin

text \<open>
  The cache quota (\<open>stratosync-daemon/src/cache/mod.rs\<close>): least-recently-used
  eviction in batches until enough bytes are freed.  The thresholds are computed
  in floating point in the code; they are the parameters \<open>high\<close> and \<open>target\<close>,
  the byte counts of the high and the low mark.
\<close>

section \<open>Operations\<close>

text \<open>
  The two halves of one eviction: the status check, and the removal with the
  database update.  They are separate awaits, so other tasks can run in between.
\<close>

definition evict_check :: "eviction_candidate \<Rightarrow> bool app" where
  "evict_check c = bindS (db_op (get_by_inode (ev_inode c)))
     (\<lambda>cur. ret (map_option fe_status cur = Some Cached))"

definition evict_commit :: "eviction_candidate \<Rightarrow> nat option app" where
  "evict_commit c = bindS (attempt (remove_file (ev_cache_path c)))
     (\<lambda>r. case r of
        Inr _ \<Rightarrow> thenS (db_op (set_evicted (ev_inode c))) (ret (Some (ev_cache_size c)))
      | Inl e \<Rightarrow> (if e = IoNotFound
                 then thenS (db_op (set_evicted (ev_inode c))) (ret (Some (ev_cache_size c)))
                 else ret None))"

definition evict_one :: "eviction_candidate \<Rightarrow> nat option app" where
  "evict_one c = bindS (evict_check c) (\<lambda>ok. if ok then evict_commit c else ret None)"

fun evict_pass :: "nat \<Rightarrow> nat \<Rightarrow> eviction_candidate list \<Rightarrow> nat \<Rightarrow> nat \<Rightarrow> (nat \<times> nat) app" where
  "evict_pass to_free freed [] pass_freed pass_skipped = ret (pass_freed, pass_skipped)"
| "evict_pass to_free freed (c # cs) pass_freed pass_skipped =
     (if freed + pass_freed \<ge> to_free then ret (pass_freed, pass_skipped)
      else bindS (evict_one c) (\<lambda>r. case r of
             Some n \<Rightarrow> evict_pass to_free freed cs (pass_freed + n) pass_skipped
           | None \<Rightarrow> evict_pass to_free freed cs pass_freed (Suc pass_skipped)))"

definition BATCH :: nat where
  "BATCH = 1000"

text \<open>
  The loop.  The first argument bounds the number of passes; every pass that is
  followed by another one evicts a row, so \<open>maybe_evict\<close> gives it one more than
  the number of rows and it is never used up (theorem \<open>evict_loop_enough_fuel\<close>).
\<close>

fun evict_loop :: "nat \<Rightarrow> mount_id \<Rightarrow> nat \<Rightarrow> nat \<Rightarrow> nat option app" where
  "evict_loop 0 m to_free freed = ret None"
| "evict_loop (Suc fuel) m to_free freed =
     (if freed \<ge> to_free then ret (Some freed)
      else bindS (db_op (lru_eviction_candidates m BATCH)) (\<lambda>cands.
        if cands = [] then ret (Some freed)
        else bindS (evict_pass to_free freed cands 0 0) (\<lambda>(pass_freed, _).
          if pass_freed = 0 then ret (Some (freed + pass_freed))
          else evict_loop fuel m to_free (freed + pass_freed))))"

definition maybe_evict :: "mount_id \<Rightarrow> nat \<Rightarrow> nat \<Rightarrow> nat option app" where
  "maybe_evict m high target =
     bindS (db_op (total_cache_bytes m)) (\<lambda>used.
       if used \<le> high then ret (Some 0)
       else bindS (query (\<lambda>w. Suc (length (file_index (wdb w))))) (\<lambda>fuel. evict_loop fuel m (used - target) 0))"

definition on_file_cached :: "inode \<Rightarrow> unit app" where
  "on_file_cached i = thenS (attempt (db_op (touch_lru i))) (ret ())"

definition pin :: "inode \<Rightarrow> unit dbm" where
  "pin i = bindS (query clock) (\<lambda>now.
     exec_lru_upsert \<lparr> l_inode = i, l_last_access = now, l_pinned = True \<rparr> (\<lambda>l. l\<lparr>l_pinned := True\<rparr>))"

definition unpin :: "inode \<Rightarrow> unit dbm" where
  "unpin i = modifyS (\<lambda>s. s\<lparr>cache_lru := map (\<lambda>l. if l_inode l = i then l\<lparr>l_pinned := False\<rparr> else l) (cache_lru s)\<rparr>)"

section \<open>One eviction\<close>

lemma evict_check_run:
  "evict_check c w = (Inr (map_option r_status (find_row (\<lambda>r. r_inode r = ev_inode c) (wdb w)) = Some Cached), w)"
  by (cases "find_row (\<lambda>r. r_inode r = ev_inode c) (wdb w)")
     (simp_all add: evict_check_def run_bind db_op_run get_by_inode_run)

definition evicted_db :: "inode \<Rightarrow> db \<Rightarrow> db" where
  "evicted_db i s = s\<lparr>file_index := update_rows (\<lambda>r. r_inode r = i) detach_cache (file_index s),
                      cache_lru := kt_remove l_inode i (cache_lru s)\<rparr>"

lemma evicted_db_wf: "db_wf s \<Longrightarrow> db_wf (evicted_db i s)"
  using keepsD [OF set_evicted_wf, of s i] by (simp add: set_evicted_run evicted_db_def)

lemma evict_commit_cases:
  assumes "world_wf w"
  shows "(evict_commit c w = (Inr None, w)) \<or>
    (\<exists>d'. evict_commit c w = (Inr (Some (ev_cache_size c)), w\<lparr>disk := d', wdb := evicted_db (ev_inode c) (wdb w)\<rparr>)
       \<and> d' (ev_cache_path c) = None \<and> (\<forall>p. p \<noteq> ev_cache_path c \<longrightarrow> d' p = disk w p))"
proof -
  have se: "set_evicted i (wdb w) = (Inr (), evicted_db i (wdb w))" for i
    using set_evicted_run [OF assms] by (simp add: evicted_db_def)
  show ?thesis
  proof (cases "io_fault w (ev_cache_path c) \<or> disk w (ev_cache_path c) = Some Dir")
    case True
    then show ?thesis by (auto simp: evict_commit_def run_bind run_then remove_file_def)
  next
    case False
    show ?thesis
    proof (cases "disk w (ev_cache_path c)")
      case None
      with False se have "evict_commit c w =
          (Inr (Some (ev_cache_size c)), w\<lparr>disk := disk w, wdb := evicted_db (ev_inode c) (wdb w)\<rparr>)"
        by (simp add: evict_commit_def run_bind run_then remove_file_def db_op_run)
      with None show ?thesis by blast
    next
      case (Some n)
      with False se have "evict_commit c w = (Inr (Some (ev_cache_size c)),
          w\<lparr>disk := (disk w)(ev_cache_path c := None), wdb := evicted_db (ev_inode c) (wdb w)\<rparr>)"
        by (cases n) (auto simp: evict_commit_def run_bind run_then remove_file_def db_op_run)
      then show ?thesis by auto
    qed
  qed
qed

text \<open>
  What a candidate of a batch says of the current state: its row, when still
  cached, has the recorded size and is not pinned.
\<close>

definition cand_ok :: "mount_id \<Rightarrow> db \<Rightarrow> eviction_candidate \<Rightarrow> bool" where
  "cand_ok m s c \<longleftrightarrow> (\<forall>r\<in>set (file_index s). r_inode r = ev_inode c \<longrightarrow> r_status r = Cached \<longrightarrow>
      evictable m s r \<and> r_cache_size r = Some (ev_cache_size c) \<and> r_cache_path r = Some (ev_cache_path c))"

lemma candidates_run:
  "lru_eviction_candidates m n s = (r, s') \<Longrightarrow> s' = s"
  by (auto simp: lru_eviction_candidates_def Let_def split: if_splits)

lemma candidates_ok:
  assumes wf: "db_wf s" and run: "lru_eviction_candidates m n s = (Inr cs, s')" and c: "c \<in> set cs"
  shows "cand_ok m s c \<and> (\<exists>r\<in>set (file_index s). r_inode r = ev_inode c \<and> r_status r = Cached)"
proof -
  let ?rows = "take n (sort_key (last_access_of s) (filter (evictable m s) (file_index s)))"
  have noN: "\<not> list_ex (\<lambda>r. r_cache_path r = None \<or> r_cache_size r = None) ?rows"
    and cs: "cs = map (\<lambda>r. \<lparr> ev_inode = r_inode r, ev_cache_path = the (r_cache_path r), ev_cache_size = the (r_cache_size r) \<rparr>) ?rows"
    using run by (auto simp: lru_eviction_candidates_def Let_def split: if_splits)
  from c cs obtain r where r: "r \<in> set ?rows"
    and cr: "c = \<lparr> ev_inode = r_inode r, ev_cache_path = the (r_cache_path r), ev_cache_size = the (r_cache_size r) \<rparr>"
    by auto
  have rf: "r \<in> set (file_index s)" "evictable m s r"
    using in_set_takeD [OF r] by auto
  have some: "r_cache_path r \<noteq> None" "r_cache_size r \<noteq> None" using noN r by (auto simp: list_ex_iff)
  have "x = r" if "x \<in> set (file_index s)" "r_inode x = r_inode r" for x
    using wf_unique(1) [OF wf that(1) rf(1)] that(2) by simp
  then have "cand_ok m s c" using rf some cr by (fastforce simp: cand_ok_def)
  moreover have "r_status r = Cached" using rf(2) by (simp add: evictable_def)
  ultimately show ?thesis using rf(1) cr by auto
qed

section \<open>What a run of evictions does\<close>

text \<open>Rows that are not evictable are untouched, and no row becomes evictable.\<close>

definition evict_frame :: "mount_id \<Rightarrow> db \<Rightarrow> db \<Rightarrow> bool" where
  "evict_frame m s s' \<longleftrightarrow>
     (\<forall>r\<in>set (file_index s). \<not> evictable m s r \<longrightarrow> r \<in> set (file_index s'))
     \<and> (\<forall>r\<in>set (file_index s'). evictable m s' r \<longrightarrow> r \<in> set (file_index s) \<and> evictable m s r)"

lemma evict_frame_refl: "evict_frame m s s"
  by (simp add: evict_frame_def)

lemma evict_frame_trans: "evict_frame m s s' \<Longrightarrow> evict_frame m s' s'' \<Longrightarrow> evict_frame m s s''"
  unfolding evict_frame_def by blast

definition n_cached :: "db \<Rightarrow> nat" where
  "n_cached s = length (filter (\<lambda>r. r_status r = Cached) (file_index s))"

lemma evicted_row:
  "r' \<in> set (file_index (evicted_db i s)) \<Longrightarrow> r_status r' = Cached \<Longrightarrow>
   r' \<in> set (file_index s) \<and> r_inode r' \<noteq> i"
  by (auto simp: evicted_db_def update_rows_def split: if_splits)

lemma lru_of_evicted: "db_wf s \<Longrightarrow> j \<noteq> i \<Longrightarrow> lru_of (evicted_db i s) j = lru_of s j"
  using db_wf_tables(5) by (simp add: lru_of_def evicted_db_def lru_tab.lookup_remove)

lemma evictable_evicted:
  assumes "db_wf s" "r' \<in> set (file_index (evicted_db i s))" "r_status r' = Cached"
  shows "evictable m (evicted_db i s) r' = evictable m s r'"
  using evicted_row [OF assms(2,3)] lru_of_evicted [OF assms(1)] by (simp add: evictable_def)

lemma evicted_frame:
  assumes wf: "db_wf s" and r: "r \<in> set (file_index s)" "r_inode r = i" "evictable m s r"
  shows "evict_frame m s (evicted_db i s)"
proof -
  have "x \<in> set (file_index (evicted_db i s))" if "x \<in> set (file_index s)" "\<not> evictable m s x" for x
  proof -
    have "r_inode x \<noteq> i" using wf_unique(1) [OF wf that(1) r(1)] that(2) r(2,3) by auto
    with that(1) show ?thesis by (force simp: evicted_db_def update_rows_def)
  qed
  moreover have "x \<in> set (file_index s) \<and> evictable m s x"
    if "x \<in> set (file_index (evicted_db i s))" "evictable m (evicted_db i s) x" for x
    using evictable_evicted [OF wf that(1), of m] evicted_row [OF that(1)] that(2) by (auto simp: evictable_def)
  ultimately show ?thesis by (simp add: evict_frame_def)
qed

lemma evicted_cand_ok: "db_wf s \<Longrightarrow> cand_ok m s c \<Longrightarrow> cand_ok m (evicted_db i s) c"
  unfolding cand_ok_def using evicted_row [of _ i s] evictable_evicted by blast

lemma evicted_bytes:
  assumes wf: "db_wf s" and r: "r \<in> set (file_index s)" "r_inode r = i" "r_mount_id r = m" "r_cache_size r = Some n"
  shows "bytes_of m (file_index (evicted_db i s)) + n = bytes_of m (file_index s)"
proof -
  have d: "distinct (map r_inode (file_index s))" using wf by (simp add: db_wf_def files_wf_def unique_ok_def)
  have "filter (\<lambda>x. r_inode x = i) (file_index s) = [r]"
    using filter_key_single [OF d r(1)] r(2) by simp
  with bytes_of_detach [of m "\<lambda>x. r_inode x = i" "file_index s"] r(3,4) show ?thesis
    by (simp add: evicted_db_def bytes_of_def cached_bytes_def)
qed

lemma evicted_n_cached:
  assumes wf: "db_wf s" and r: "r \<in> set (file_index s)" "r_inode r = i" "r_status r = Cached"
  shows "n_cached (evicted_db i s) < n_cached s"
proof -
  have "file_index (evicted_db i s) = map (\<lambda>x. if r_inode x = i then detach_cache x else x) (file_index s)"
    by (simp add: evicted_db_def update_rows_def)
  moreover have "length (filter (\<lambda>x. r_status x = Cached) (map (\<lambda>x. if r_inode x = i then detach_cache x else x) xs))
      < length (filter (\<lambda>x. r_status x = Cached) xs)" if "r \<in> set xs" for xs
  proof -
    have le: "length (filter (\<lambda>x. r_status x = Cached) (map (\<lambda>x. if r_inode x = i then detach_cache x else x) ys))
      \<le> length (filter (\<lambda>x. r_status x = Cached) ys)" for ys
      by (induction ys) auto
    from that r(2,3) le show ?thesis
      by (induction xs) (auto simp: less_Suc_eq_le)
  qed
  ultimately show ?thesis using r(1) by (simp add: n_cached_def)
qed

text \<open>The state after evictions that together freed \<open>n\<close> bytes of the mount.\<close>

definition evict_rel :: "mount_id \<Rightarrow> nat \<Rightarrow> db \<Rightarrow> db \<Rightarrow> bool" where
  "evict_rel m n s s' \<longleftrightarrow> db_wf s' \<and> evict_frame m s s' \<and> bytes_of m (file_index s') + n = bytes_of m (file_index s)
     \<and> n_cached s' \<le> n_cached s \<and> (0 < n \<longrightarrow> n_cached s' < n_cached s)"

lemma evict_rel_refl: "db_wf s \<Longrightarrow> evict_rel m 0 s s"
  by (simp add: evict_rel_def evict_frame_refl)

lemma evict_rel_trans: "evict_rel m n s s' \<Longrightarrow> evict_rel m n' s' s'' \<Longrightarrow> evict_rel m (n + n') s s''"
  unfolding evict_rel_def using evict_frame_trans by (auto; blast)

lemma evict_one_step:
  assumes wf: "world_wf w" and c: "cand_ok m (wdb w) c"
  obtains r w' where "evict_one c w = (Inr r, w')" "evict_rel m (case r of None \<Rightarrow> 0 | Some n \<Rightarrow> n) (wdb w) (wdb w')"
    "\<And>c'. cand_ok m (wdb w) c' \<Longrightarrow> cand_ok m (wdb w') c'"
proof (cases "map_option r_status (find_row (\<lambda>r. r_inode r = ev_inode c) (wdb w)) = Some Cached")
  case False
  then have "evict_one c w = (Inr None, w)"
    by (auto simp: evict_one_def run_bind evict_check_run)
  with that [of None w] wf show ?thesis by (simp add: evict_rel_refl)
next
  case True
  then obtain r where r: "r \<in> set (file_index (wdb w))" "r_inode r = ev_inode c" "r_status r = Cached"
    by (auto dest: find_row_Some)
  have run: "evict_one c w = evict_commit c w" using True by (simp add: evict_one_def run_bind evict_check_run)
  have ev: "evictable m (wdb w) r" "r_cache_size r = Some (ev_cache_size c)" using c r by (auto simp: cand_ok_def)
  have rel: "evict_rel m (ev_cache_size c) (wdb w) (evicted_db (ev_inode c) (wdb w))"
    using evicted_frame [OF wf r(1,2) ev(1)] evicted_bytes [OF wf r(1,2) _ ev(2)] evicted_n_cached [OF wf r]
      evicted_db_wf [OF wf] ev(1)
    by (auto simp: evict_rel_def evictable_def)
  from evict_commit_cases [OF wf, of c] show ?thesis
  proof (elim disjE exE conjE)
    assume "evict_commit c w = (Inr None, w)"
    with run that [of None w] wf show ?thesis by (simp add: evict_rel_refl)
  next
    fix d' assume "evict_commit c w = (Inr (Some (ev_cache_size c)), w\<lparr>disk := d', wdb := evicted_db (ev_inode c) (wdb w)\<rparr>)"
    with run rel that [of "Some (ev_cache_size c)"] evicted_cand_ok [OF wf] show ?thesis by simp
  qed
qed

lemma evict_pass_run:
  assumes "world_wf w" "\<forall>c\<in>set cs. cand_ok m (wdb w) c"
  shows "\<exists>n k w'. evict_pass to_free freed cs p sk w = (Inr (p + n, k), w') \<and> evict_rel m n (wdb w) (wdb w')"
  using assms
proof (induction cs arbitrary: w p sk)
  case Nil
  then show ?case using evict_rel_refl [of "wdb w" m] by (auto intro: exI [of _ 0])
next
  case (Cons c cs)
  show ?case
  proof (cases "freed + p \<ge> to_free")
    case True
    with Cons.prems show ?thesis using evict_rel_refl [of "wdb w" m] by (auto intro: exI [of _ 0])
  next
    case False
    have "cand_ok m (wdb w) c" using Cons.prems(2) by simp
    from evict_one_step [OF Cons.prems(1) this] obtain r w1 where
      one: "evict_one c w = (Inr r, w1)" and rel: "evict_rel m (case r of None \<Rightarrow> 0 | Some n \<Rightarrow> n) (wdb w) (wdb w1)"
      and ok: "\<And>c'. cand_ok m (wdb w) c' \<Longrightarrow> cand_ok m (wdb w1) c'" by blast
    have wf1: "world_wf w1" using rel by (simp add: evict_rel_def)
    have oks: "\<forall>c\<in>set cs. cand_ok m (wdb w1) c" using Cons.prems(2) ok by simp
    show ?thesis
    proof (cases r)
      case None
      obtain n k w' where "evict_pass to_free freed cs p (Suc sk) w1 = (Inr (p + n, k), w')" "evict_rel m n (wdb w1) (wdb w')"
        using Cons.IH [OF wf1 oks] by blast
      with False None one rel evict_rel_trans [of m 0 "wdb w" "wdb w1" n "wdb w'"] show ?thesis
        by (auto simp: run_bind)
    next
      case (Some n0)
      obtain n k w' where "evict_pass to_free freed cs (p + n0) sk w1 = (Inr (p + n0 + n, k), w')" "evict_rel m n (wdb w1) (wdb w')"
        using Cons.IH [OF wf1 oks] by blast
      with False Some one rel evict_rel_trans [of m n0 "wdb w" "wdb w1" n "wdb w'"] show ?thesis
        by (auto simp: run_bind add.assoc)
    qed
  qed
qed

lemma evict_loop_enough_fuel:
  assumes "world_wf w" "n_cached (wdb w) < fuel"
  shows "\<exists>w' n. evict_rel m n (wdb w) (wdb w') \<and>
     (evict_loop fuel m to_free freed w = (Inr (Some (freed + n)), w')
      \<or> evict_loop fuel m to_free freed w = (Inl (SqlErr InvalidColumnType), w'))"
  using assms
proof (induction fuel arbitrary: w freed)
  case (Suc fuel)
  have refl: "evict_rel m 0 (wdb w) (wdb w)" using Suc.prems(1) by (rule evict_rel_refl)
  show ?case
  proof (cases "freed \<ge> to_free")
    case True
    with refl show ?thesis by (auto intro: exI [of _ w] exI [of _ "0::nat"])
  next
    case False
    show ?thesis
    proof (cases "fst (lru_eviction_candidates m BATCH (wdb w))")
      case (Inl e)
      then have "e = InvalidColumnType" "snd (lru_eviction_candidates m BATCH (wdb w)) = wdb w"
        by (auto simp: lru_eviction_candidates_def Let_def split: if_splits)
      with Inl False refl show ?thesis by (auto simp: run_bind db_op_run intro!: exI [of _ w])
    next
      case (Inr cs)
      then have cr: "lru_eviction_candidates m BATCH (wdb w) = (Inr cs, wdb w)"
        using candidates_run by (metis prod.collapse)
      show ?thesis
      proof (cases "cs = []")
        case True
        with False cr refl show ?thesis by (auto simp: run_bind db_op_run intro: exI [of _ w] exI [of _ "0::nat"])
      next
        case ne: False
        have "\<forall>c\<in>set cs. cand_ok m (wdb w) c" using candidates_ok [OF Suc.prems(1) cr] by blast
        from evict_pass_run [OF Suc.prems(1) this, of to_free freed 0 0] obtain n k w1 where
          pass: "evict_pass to_free freed cs 0 0 w = (Inr (n, k), w1)" and rel: "evict_rel m n (wdb w) (wdb w1)" by auto
        have unfold: "evict_loop (Suc fuel) m to_free freed w =
            (if n = 0 then (Inr (Some freed), w1) else evict_loop fuel m to_free (freed + n) w1)"
          using False ne cr pass by (simp add: run_bind db_op_run)
        show ?thesis
        proof (cases "n = 0")
          case True
          with unfold rel show ?thesis by (auto intro!: exI [of _ w1] exI [of _ "0::nat"])
        next
          case n: False
          have "world_wf w1" "n_cached (wdb w1) < fuel" using rel n Suc.prems(2) by (auto simp: evict_rel_def)
          from Suc.IH [OF this, of "freed + n"] obtain w' n' where
            "evict_rel m n' (wdb w1) (wdb w')" and
            "evict_loop fuel m to_free (freed + n) w1 = (Inr (Some (freed + n + n')), w')
             \<or> evict_loop fuel m to_free (freed + n) w1 = (Inl (SqlErr InvalidColumnType), w')" by blast
          with unfold n evict_rel_trans [OF rel] show ?thesis by (metis add.assoc)
        qed
      qed
    qed
  qed
qed simp

lemma n_cached_lt: "n_cached s < Suc (length (file_index s))"
  by (simp add: n_cached_def less_Suc_eq_le)

lemma total_cache_bytes_op: "db_op (total_cache_bytes m) w = (Inr (bytes_of m (file_index (wdb w))), w)"
  by (simp add: db_op_run total_cache_bytes_run)

lemma maybe_evict_run:
  "maybe_evict m high target w =
     (if bytes_of m (file_index (wdb w)) \<le> high then (Inr (Some 0), w)
      else evict_loop (Suc (length (file_index (wdb w)))) m (bytes_of m (file_index (wdb w)) - target) 0 w)"
  by (simp add: maybe_evict_def run_bind total_cache_bytes_op)



section \<open>Enough is freed\<close>

text \<open>
  No file operation fails, and every evictable row has its cache file recorded
  with a positive size.
\<close>

definition evictable_sound :: "mount_id \<Rightarrow> world \<Rightarrow> bool" where
  "evictable_sound m w \<longleftrightarrow> (\<forall>p. \<not> io_fault w p) \<and> (\<forall>p. disk w p \<noteq> Some Dir)
     \<and> (\<forall>r\<in>set (file_index (wdb w)). evictable m (wdb w) r \<longrightarrow>
          r_cache_path r \<noteq> None \<and> (\<exists>n>0. r_cache_size r = Some n))"

lemma evict_one_progress:
  assumes wf: "world_wf w" and snd: "evictable_sound m w" and c: "cand_ok m (wdb w) c"
    and r: "r \<in> set (file_index (wdb w))" "r_inode r = ev_inode c" "r_status r = Cached"
  obtains d' where "evict_one c w = (Inr (Some (ev_cache_size c)), w\<lparr>disk := d', wdb := evicted_db (ev_inode c) (wdb w)\<rparr>)"
    "0 < ev_cache_size c"
proof -
  have "find_row (\<lambda>r. r_inode r = ev_inode c) (wdb w) = Some r" using find_row_inode [OF wf] r by blast
  then have run: "evict_one c w = evict_commit c w" using r(3) by (simp add: evict_one_def run_bind evict_check_run)
  have pos: "0 < ev_cache_size c" using c r snd by (fastforce simp: cand_ok_def evictable_sound_def)
  have ok: "\<not> io_fault w (ev_cache_path c)" "disk w (ev_cache_path c) \<noteq> Some Dir" using snd by (simp_all add: evictable_sound_def)
  have "evict_commit c w \<noteq> (Inr None, w)"
    using ok by (cases "disk w (ev_cache_path c)"; cases "the (disk w (ev_cache_path c))")
      (auto simp: evict_commit_def run_bind run_then remove_file_def db_op_run set_evicted_run [OF wf])
  with evict_commit_cases [OF wf, of c] run pos that show ?thesis by metis
qed

lemma evict_one_eq:
  "evict_one c w = (if map_option r_status (find_row (\<lambda>r. r_inode r = ev_inode c) (wdb w)) = Some Cached
                    then evict_commit c w else (Inr None, w))"
  by (auto simp: evict_one_def run_bind evict_check_run)

lemma evict_one_env:
  assumes wf: "world_wf w" and nd: "\<forall>p. disk w p \<noteq> Some Dir" and run: "evict_one c w = (Inr r, w')"
  shows "(\<forall>p. disk w' p \<noteq> Some Dir) \<and> io_fault w' = io_fault w"
  using evict_commit_cases [OF wf, of c]
proof (elim disjE exE conjE)
  assume "evict_commit c w = (Inr None, w)"
  with run nd show ?thesis by (simp add: evict_one_eq split: if_splits)
next
  fix d' assume c: "evict_commit c w = (Inr (Some (ev_cache_size c)), w\<lparr>disk := d', wdb := evicted_db (ev_inode c) (wdb w)\<rparr>)"
    and d: "d' (ev_cache_path c) = None" "\<forall>p. p \<noteq> ev_cache_path c \<longrightarrow> d' p = disk w p"
  have "d' p \<noteq> Some Dir" for p using d nd by (cases "p = ev_cache_path c") auto
  with run nd c show ?thesis by (auto simp: evict_one_eq split: if_splits)
qed

lemma evictable_sound_step:
  assumes "world_wf w" "evictable_sound m w" "evict_one c w = (Inr r, w')" "evict_frame m (wdb w) (wdb w')"
  shows "evictable_sound m w'"
proof -
  have "(\<forall>p. disk w' p \<noteq> Some Dir) \<and> io_fault w' = io_fault w"
    using evict_one_env [OF assms(1) _ assms(3)] assms(2) by (simp add: evictable_sound_def)
  with assms(2,4) show ?thesis by (simp add: evictable_sound_def evict_frame_def)
qed

lemma evict_pass_sound:
  assumes "world_wf w" "\<forall>c\<in>set cs. cand_ok m (wdb w) c" "evictable_sound m w"
  shows "evictable_sound m (snd (evict_pass to_free freed cs p sk w))"
  using assms
proof (induction cs arbitrary: w p sk)
  case (Cons c cs)
  have "cand_ok m (wdb w) c" using Cons.prems(2) by simp
  from evict_one_step [OF Cons.prems(1) this] obtain r w1 where
    one: "evict_one c w = (Inr r, w1)" and rel: "evict_rel m (case r of None \<Rightarrow> 0 | Some n \<Rightarrow> n) (wdb w) (wdb w1)"
    and ok: "\<And>c'. cand_ok m (wdb w) c' \<Longrightarrow> cand_ok m (wdb w1) c'" by blast
  have "world_wf w1" "evict_frame m (wdb w) (wdb w1)" using rel by (simp_all add: evict_rel_def)
  moreover have "\<forall>c\<in>set cs. cand_ok m (wdb w1) c" using Cons.prems(2) ok by simp
  ultimately show ?case
    using Cons.IH [of w1] evictable_sound_step [OF Cons.prems(1,3) one] one Cons.prems(3)
    by (auto simp: run_bind split: option.splits)
qed simp

lemma evict_pass_progress:
  assumes wf: "world_wf w" and oks: "\<forall>c\<in>set (c # cs). cand_ok m (wdb w) c" and snd: "evictable_sound m w"
    and r: "r \<in> set (file_index (wdb w))" "r_inode r = ev_inode c" "r_status r = Cached" and lt: "freed < to_free"
    and run: "evict_pass to_free freed (c # cs) 0 0 w = (Inr (n, k), w')"
  shows "0 < n"
proof -
  have c: "cand_ok m (wdb w) c" using oks by simp
  from evict_one_progress [OF wf snd c r] obtain d' where
    one: "evict_one c w = (Inr (Some (ev_cache_size c)), w\<lparr>disk := d', wdb := evicted_db (ev_inode c) (wdb w)\<rparr>)" and
    pos: "0 < ev_cache_size c" by blast
  let ?w1 = "w\<lparr>disk := d', wdb := evicted_db (ev_inode c) (wdb w)\<rparr>"
  have wf1: "world_wf ?w1" using evicted_db_wf [OF wf] by simp
  have oks1: "\<forall>c\<in>set cs. cand_ok m (wdb ?w1) c" using oks evicted_cand_ok [OF wf] by simp
  have "evict_pass to_free freed cs (ev_cache_size c) 0 ?w1 = (Inr (n, k), w')"
    using run one lt by (simp add: run_bind)
  with evict_pass_run [OF wf1 oks1, of to_free freed "ev_cache_size c" 0] pos show ?thesis by auto
qed

lemma no_candidates:
  assumes "lru_eviction_candidates m BATCH s = (Inr [], s)"
  shows "\<forall>r\<in>set (file_index s). \<not> evictable m s r"
proof -
  have "take BATCH (sort_key (last_access_of s) (filter (evictable m s) (file_index s))) = []"
    using assms by (simp add: lru_eviction_candidates_def Let_def split: if_splits)
  then have "sort_key (last_access_of s) (filter (evictable m s) (file_index s)) = []" by (simp add: BATCH_def)
  then have "set (filter (evictable m s) (file_index s)) = {}" by (metis set_sort list.set(1))
  then show ?thesis by auto
qed

lemma candidates_succeed:
  assumes "evictable_sound m w"
  obtains cs where "lru_eviction_candidates m BATCH (wdb w) = (Inr cs, wdb w)"
proof -
  have "\<not> list_ex (\<lambda>r. r_cache_path r = None \<or> r_cache_size r = None)
      (take BATCH (sort_key (last_access_of (wdb w)) (filter (evictable m (wdb w)) (file_index (wdb w)))))"
    using assms by (fastforce simp: evictable_sound_def list_ex_iff dest!: in_set_takeD)
  then show ?thesis using that by (simp add: lru_eviction_candidates_def Let_def)
qed

lemma evict_loop_complete:
  assumes "world_wf w" "n_cached (wdb w) < fuel" "evictable_sound m w"
  shows "\<exists>n w'. evict_loop fuel m to_free freed w = (Inr (Some n), w')
     \<and> (to_free \<le> n \<or> (\<forall>r\<in>set (file_index (wdb w')). \<not> evictable m (wdb w') r))"
  using assms
proof (induction fuel arbitrary: w freed)
  case (Suc fuel)
  show ?case
  proof (cases "freed \<ge> to_free")
    case True
    then show ?thesis by simp
  next
    case False
    obtain cs where cr: "lru_eviction_candidates m BATCH (wdb w) = (Inr cs, wdb w)"
      using candidates_succeed [OF Suc.prems(3)] .
    show ?thesis
    proof (cases cs)
      case Nil
      with cr False no_candidates [of m "wdb w"] show ?thesis by (simp add: run_bind db_op_run)
    next
      case (Cons c cs')
      have oks: "\<forall>c\<in>set cs. cand_ok m (wdb w) c" using candidates_ok [OF Suc.prems(1) cr] by blast
      obtain r where r: "r \<in> set (file_index (wdb w))" "r_inode r = ev_inode c" "r_status r = Cached"
        using candidates_ok [OF Suc.prems(1) cr, of c] Cons by auto
      from evict_pass_run [OF Suc.prems(1) oks, of to_free freed 0 0] obtain n1 k w1 where
        pass: "evict_pass to_free freed cs 0 0 w = (Inr (n1, k), w1)" and rel: "evict_rel m n1 (wdb w) (wdb w1)" by auto
      have pos: "0 < n1"
        using evict_pass_progress [OF Suc.prems(1) _ Suc.prems(3) r, of cs' freed to_free n1 k w1] oks pass Cons False by auto
      have snd1: "evictable_sound m w1"
        using evict_pass_sound [OF Suc.prems(1) oks Suc.prems(3), of to_free freed 0 0] pass by simp
      have "evict_loop (Suc fuel) m to_free freed w = evict_loop fuel m to_free (freed + n1) w1"
        using False cr pass pos Cons by (simp add: run_bind [of "db_op _"] run_bind [of "evict_pass _ _ _ _ _"] db_op_run del: evict_pass.simps)
      moreover have "world_wf w1" "n_cached (wdb w1) < fuel" using rel pos Suc.prems(2) by (auto simp: evict_rel_def)
      ultimately show ?thesis using Suc.IH [OF _ _ snd1] by metis
    qed
  qed
qed simp



section \<open>The check and the eviction are two steps\<close>

text \<open>
  A write that lands between an eviction's status check and its commit is
  lost: the check passes, the write marks the row dirty, and the commit still
  unlinks the cache file and turns the row back to \<open>remote\<close> without a cache path.
\<close>

theorem eviction_race_drops_dirty_row:
  assumes wf: "world_wf w" and r: "r \<in> set (file_index (wdb w))" "r_inode r = ev_inode c" "r_status r = Cached"
    and cp: "r_cache_path r = Some (ev_cache_path c)" "disk w (ev_cache_path c) = Some (Regular b)" "\<not> io_fault w (ev_cache_path c)"
  shows "fst (evict_check c w) = Inr True \<and>
    (\<exists>w1 w2. db_op (set_dirty_size (ev_inode c) sz) w = (Inr (), w1)
       \<and> (\<exists>r1\<in>set (file_index (wdb w1)). r_inode r1 = ev_inode c \<and> r_status r1 = Dirty)
       \<and> evict_commit c w1 = (Inr (Some (ev_cache_size c)), w2)
       \<and> disk w2 (ev_cache_path c) = None
       \<and> (\<forall>r2\<in>set (file_index (wdb w2)). r_inode r2 = ev_inode c \<longrightarrow> r_status r2 = Remote \<and> r_cache_path r2 = None))"
proof -
  let ?i = "ev_inode c"
  let ?f = "\<lambda>r :: file_row. r\<lparr>r_status := Dirty, r_size := sz, r_cache_size := Some sz\<rparr>"
  let ?s1 = "(wdb w)\<lparr>file_index := update_rows (\<lambda>r. r_inode r = ?i) ?f (file_index (wdb w))\<rparr>"
  let ?w1 = "w\<lparr>wdb := ?s1\<rparr>"
  have chk: "fst (evict_check c w) = Inr True"
    using find_row_inode [OF wf, of ?i r] r by (simp add: evict_check_run)
  have upd: "exec_update (\<lambda>r. r_inode r = ?i) ?f (wdb w) = (Inr (length (filter (\<lambda>r. r_inode r = ?i) (file_index (wdb w)))), ?s1)"
    by (rule update_inode_ok [OF wf r(1,2)]) (use cp in \<open>simp_all add: same_keys_def trigger_ok_def\<close>)
  have dirty: "db_op (set_dirty_size ?i sz) w = (Inr (), ?w1)"
    by (simp add: db_op_run set_dirty_size_def run_then upd)
  have wf1: "world_wf ?w1"
    using keepsD [OF set_dirty_size_wf wf, of ?i sz] by (simp add: set_dirty_size_def run_then upd)
  have row: "\<exists>r1\<in>set (file_index (wdb ?w1)). r_inode r1 = ?i \<and> r_status r1 = Dirty"
    by (rule bexI [of _ "?f r"]) (use r in \<open>force simp: update_rows_def\<close>)+
  have com: "evict_commit c ?w1 = (Inr (Some (ev_cache_size c)),
      ?w1\<lparr>disk := (disk w)(ev_cache_path c := None), wdb := evicted_db ?i ?s1\<rparr>)"
    using cp set_evicted_run [OF wf1, of ?i]
    by (simp add: evict_commit_def run_bind run_then remove_file_def db_op_run evicted_db_def)
  have "r_status r2 = Remote \<and> r_cache_path r2 = None" if "r2 \<in> set (file_index (evicted_db ?i ?s1))" "r_inode r2 = ?i" for r2
    using that by (auto simp: evicted_db_def update_rows_def split: if_splits)
  with chk dirty row com show ?thesis by auto
qed

theorem eviction_race_drops_dirty_row_witness:
  "\<exists>w1 w2. db_op (set_dirty_size 3 9) sample_world = (Inr (), w1)
     \<and> evict_commit \<lparr> ev_inode = 3, ev_cache_path = ''/c/d/a'', ev_cache_size = 10 \<rparr> w1 = (Inr (Some 10), w2)
     \<and> disk w2 ''/c/d/a'' = None"
proof -
  let ?r = "sample_row 3 (Some 2) ''a'' ''d/a'' File Cached (Some ''/c/d/a'') (Some ''ID3'')"
  let ?c = "\<lparr> ev_inode = 3, ev_cache_path = ''/c/d/a'', ev_cache_size = 10 \<rparr>"
  have wf: "world_wf sample_world" using sample_db_wf by (simp add: sample_world_def)
  have "?r \<in> set (file_index (wdb sample_world))" "r_inode ?r = ev_inode ?c" "r_status ?r = Cached"
    "r_cache_path ?r = Some (ev_cache_path ?c)" "disk sample_world (ev_cache_path ?c) = Some (Regular [1, 2])"
    "\<not> io_fault sample_world (ev_cache_path ?c)"
    by (simp_all add: sample_world_def sample_defs)
  from eviction_race_drops_dirty_row [OF wf this, of 9] show ?thesis by auto
qed

end
