(* ===== verification/Base_Store.thy ===== *)
theory Base_Store
  imports World
begin

text \<open>
  The content-addressed blob store (\<open>stratosync-core/src/base_store.rs\<close>), the
  capture of file versions into it (\<open>stratosync-daemon/src/sync/versioning.rs\<close>)
  and the periodic eviction of stale base versions
  (\<open>stratosync-daemon/src/cache/mod.rs\<close>).  SHA-256 is third-party code: the
  parameter \<open>sha\<close> maps content to its hexadecimal digest.
\<close>

section \<open>Operations\<close>

definition object_path :: "path \<Rightarrow> string \<Rightarrow> path" where
  "object_path base_dir hash = base_dir @ ''/objects/'' @ take 2 hash @ ''/'' @ drop 2 hash"

definition store_base :: "(bytes \<Rightarrow> string) \<Rightarrow> path \<Rightarrow> path \<Rightarrow> string app" where
  "store_base sha base_dir content_path =
     bindS (read_file content_path) (\<lambda>b w.
       let hash = sha b; blob = object_path base_dir hash
       in if objects w blob \<noteq> None then (Inr hash, w)
          else if io_fault w blob then (Inl IoOther, w)
          else (Inr hash, w\<lparr>objects := (objects w)(blob \<mapsto> b)\<rparr>))"

definition remove_object :: "path \<Rightarrow> string \<Rightarrow> unit app" where
  "remove_object base_dir hash w =
     (let p = object_path base_dir hash
      in if objects w p = None then (Inr (), w)
         else if io_fault w p then (Inl IoOther, w)
         else (Inr (), w\<lparr>objects := (objects w)(p := None)\<rparr>))"

definition lower :: "string \<Rightarrow> string" where
  "lower = map ascii_lower"

definition is_text_mergeable :: "path \<Rightarrow> nat \<Rightarrow> nat \<Rightarrow> string list \<Rightarrow> world \<Rightarrow> bool" where
  "is_text_mergeable p sz max_size exts w =
     (if sz > max_size then False
      else let ext = (case path_extension p of
                 Some e \<Rightarrow> Some (lower e)
               | None \<Rightarrow> (let name = lower (case path_file_name p of Some n \<Rightarrow> n | None \<Rightarrow> [])
                          in if list_ex (\<lambda>e. lower e = name) exts then Some name else None))
           in case ext of
                None \<Rightarrow> False
              | Some x \<Rightarrow> list_ex (\<lambda>e. lower e = x) exts
                  \<and> (case fst (read_file p w) of Inr b \<Rightarrow> 0 \<notin> set (take 512 b) | Inl _ \<Rightarrow> True))"

section \<open>Version capture\<close>

definition capture ::
  "(bytes \<Rightarrow> string) \<Rightarrow> path \<Rightarrow> inode \<Rightarrow> mount_id \<Rightarrow> path \<Rightarrow> nat \<Rightarrow> string option \<Rightarrow> version_source
   \<Rightarrow> nat \<Rightarrow> nat \<Rightarrow> unit app" where
  "capture sha base_dir i m cache_path sz etag src max_size retention =
     (if retention = 0 \<or> sz > max_size then ret ()
      else bindS (query (path_exists cache_path)) (\<lambda>ex. if \<not> ex then ret ()
      else bindS (store_base sha base_dir cache_path) (\<lambda>hash.
           bindS (db_op (insert_version_history i m hash sz etag src)) (\<lambda>_.
           bindS (db_op (prune_version_history i retention)) (\<lambda>orphans.
             each (\<lambda>h. attempt (remove_object base_dir h)) orphans)))))"

section \<open>Eviction of stale bases\<close>

definition evict_stale_base :: "path \<Rightarrow> mount_id \<Rightarrow> inode \<times> string \<times> nat \<Rightarrow> unit app" where
  "evict_stale_base base_dir m e =
     (case e of (i, hash, _) \<Rightarrow>
        bindS (db_op (base_hash_ref_count hash)) (\<lambda>refs.
          thenS (db_op (remove_base_hash i m))
            (if refs \<le> 1 then remove_object base_dir hash else ret ())))"

definition evict_stale_bases :: "path \<Rightarrow> mount_id \<Rightarrow> nat \<Rightarrow> unit app" where
  "evict_stale_bases base_dir m retention_days =
     bindS (db_op (stale_base_entries m retention_days 500)) (\<lambda>stale.
       if stale = [] then ret () else each (evict_stale_base base_dir m) stale)"

section \<open>Invariants\<close>

text \<open>
  Every hash a version or a base version refers to is long enough for the
  two-character directory split and has its blob in the store.
\<close>

definition hashes_ok :: "db \<Rightarrow> bool" where
  "hashes_ok s \<longleftrightarrow> (\<forall>v\<in>set (version_history s). 2 \<le> length (v_object_hash v))
     \<and> (\<forall>b\<in>set (base_versions s). 2 \<le> length (b_object_hash b))"

definition blobs_present :: "path \<Rightarrow> world \<Rightarrow> bool" where
  "blobs_present base_dir w \<longleftrightarrow> (\<forall>h. hash_referenced h (wdb w) \<longrightarrow> objects w (object_path base_dir h) \<noteq> None)"

lemma hash_referenced_iff:
  "hash_referenced h s \<longleftrightarrow> (\<exists>v\<in>set (version_history s). v_object_hash v = h) \<or> (\<exists>b\<in>set (base_versions s). b_object_hash b = h)"
  by (auto simp: hash_referenced_def filter_empty_conv)

lemma object_path_inj:
  assumes "2 \<le> length h" "2 \<le> length h'" "object_path b h = object_path b h'"
  shows "h = h'"
proof -
  have "take 2 h @ ''/'' @ drop 2 h = take 2 h' @ ''/'' @ drop 2 h'"
    using assms(3) by (simp add: object_path_def)
  moreover have "length (take 2 h) = length (take 2 h')" using assms(1,2) by simp
  ultimately have "take 2 h = take 2 h'" "drop 2 h = drop 2 h'" by auto
  then show ?thesis by (metis append_take_drop_id)
qed

lemma hashes_ok_referenced: "hashes_ok s \<Longrightarrow> hash_referenced h s \<Longrightarrow> 2 \<le> length h"
  by (auto simp: hash_referenced_iff hashes_ok_def)

lemma store_base_run:
  assumes "disk w p = Some (Regular b)" "\<not> io_fault w p" "\<not> io_fault w (object_path d (sha b))"
  shows "\<exists>o'. store_base sha d p w = (Inr (sha b), w\<lparr>objects := o'\<rparr>) \<and> o' (object_path d (sha b)) \<noteq> None
     \<and> (\<forall>q. objects w q \<noteq> None \<longrightarrow> o' q = objects w q)"
proof (cases "objects w (object_path d (sha b))")
  case None
  with assms have "store_base sha d p w = (Inr (sha b), w\<lparr>objects := (objects w)(object_path d (sha b) \<mapsto> b)\<rparr>)"
    by (simp add: store_base_def run_bind read_file_def Let_def)
  with None show ?thesis by (intro exI conjI) auto
next
  case (Some b')
  with assms have "store_base sha d p w = (Inr (sha b), w\<lparr>objects := objects w\<rparr>)"
    by (simp add: store_base_def run_bind read_file_def Let_def)
  with Some show ?thesis by blast
qed

definition pruned_db :: "inode \<Rightarrow> nat \<Rightarrow> db \<Rightarrow> db" where
  "pruned_db i k s = s\<lparr>version_history :=
     filter (\<lambda>v. v_id v \<notin> set (map v_id (drop k (versions_newest_first i s)))) (version_history s)\<rparr>"

lemma prune_eval:
  "prune_version_history i k s =
     (if drop k (versions_newest_first i s) = [] then (Inr [], s)
      else (Inr (filter (\<lambda>h. \<not> hash_referenced h (pruned_db i k s)) (map v_object_hash (drop k (versions_newest_first i s)))),
            pruned_db i k s))"
  by (simp add: prune_version_history_def pruned_db_def)

lemma hash_referenced_prune: "hash_referenced h (snd (prune_version_history i k s)) \<Longrightarrow> hash_referenced h s"
  by (auto simp: prune_eval hash_referenced_iff pruned_db_def split: if_splits)

lemma hashes_ok_prune: "hashes_ok s \<Longrightarrow> hashes_ok (snd (prune_version_history i k s))"
  by (simp add: prune_eval hashes_ok_def pruned_db_def)

lemma prune_unreferenced:
  "\<lbrakk>prune_version_history i k s = (Inr hs, s'); h \<in> set hs\<rbrakk> \<Longrightarrow> \<not> hash_referenced h s'"
  by (auto simp: prune_eval split: if_splits)

lemma prune_hash_stored:
  "\<lbrakk>prune_version_history i k s = (Inr hs, s'); h \<in> set hs\<rbrakk> \<Longrightarrow> hash_referenced h s"
  unfolding hash_referenced_iff
  by (auto simp: prune_eval versions_newest_first_def dest!: in_set_dropD split: if_splits) blast

lemma remove_object_frame:
  "wdb (snd (remove_object d h w)) = wdb w \<and>
   (\<forall>q. q \<noteq> object_path d h \<longrightarrow> objects (snd (remove_object d h w)) q = objects w q)"
  by (simp add: remove_object_def Let_def)

lemma remove_orphans_wdb: "wdb (snd (each (\<lambda>h. attempt (remove_object d h)) hs w)) = wdb w"
proof (induction hs arbitrary: w)
  case (Cons h hs)
  then show ?case using remove_object_frame [of d h w] by (simp add: run_then)
qed simp

lemma remove_orphans_frame:
  assumes "\<forall>h\<in>set hs. q \<noteq> object_path d h"
  shows "objects (snd (each (\<lambda>h. attempt (remove_object d h)) hs w)) q = objects w q"
  using assms
proof (induction hs arbitrary: w)
  case (Cons h hs)
  then show ?case using remove_object_frame [of d h w] by (simp add: run_then)
qed simp

lemma remove_orphans_ok: "fst (each (\<lambda>h. attempt (remove_object d h)) hs w) = Inr ()"
  by (induction hs arbitrary: w) (simp_all add: run_then)

section \<open>Version capture keeps every referenced blob\<close>

definition store_inv :: "path \<Rightarrow> world \<Rightarrow> bool" where
  "store_inv d w \<longleftrightarrow> hashes_ok (wdb w) \<and> blobs_present d w"

lemma store_base_cases:
  "(\<exists>e. store_base sha d p w = (Inl e, w)) \<or>
   (\<exists>b o'. store_base sha d p w = (Inr (sha b), w\<lparr>objects := o'\<rparr>) \<and> o' (object_path d (sha b)) \<noteq> None
      \<and> (\<forall>q. objects w q \<noteq> None \<longrightarrow> o' q \<noteq> None))"
proof (cases "read_file p w")
  case (Pair r w')
  then have w': "w' = w" by (auto simp: read_file_def split: if_splits option.splits node.splits)
  show ?thesis
  proof (cases r)
    case (Inl e)
    with Pair w' show ?thesis by (simp add: store_base_def run_bind)
  next
    case (Inr b)
    show ?thesis
    proof (cases "objects w (object_path d (sha b))")
      case None
      show ?thesis
      proof (cases "io_fault w (object_path d (sha b))")
        case True
        with None Pair w' Inr show ?thesis by (simp add: store_base_def run_bind Let_def)
      next
        case False
        with None Pair w' Inr
        have "store_base sha d p w = (Inr (sha b), w\<lparr>objects := (objects w)(object_path d (sha b) \<mapsto> b)\<rparr>)"
          by (simp add: store_base_def run_bind Let_def)
        then show ?thesis by (intro disjI2 exI conjI) auto
      qed
    next
      case (Some b')
      with Pair w' Inr have "store_base sha d p w = (Inr (sha b), w\<lparr>objects := objects w\<rparr>)"
        by (simp add: store_base_def run_bind Let_def)
      with Some show ?thesis by blast
    qed
  qed
qed

lemma insert_version_cases:
  "(\<exists>e. insert_version_history i m h sz et src s = (Inl e, s)) \<or>
   (\<exists>n v. insert_version_history i m h sz et src s
      = (Inr n, s\<lparr>version_history := version_history s @ [v], version_seq := n\<rparr>) \<and> v_object_hash v = h)"
  by (auto simp: insert_version_history_def)

lemma prune_and_clean:
  assumes ok: "hashes_ok (wdb w)" and pres: "blobs_present d w"
    and run: "bindS (db_op (prune_version_history i k)) (\<lambda>orphans. each (\<lambda>h. attempt (remove_object d h)) orphans) w = (r, w')"
  shows "store_inv d w' \<and> r = Inr ()"
proof -
  obtain hs s' where p: "prune_version_history i k (wdb w) = (Inr hs, s')"
    unfolding prune_eval by (metis (no_types))
  define w1 where "w1 = w\<lparr>wdb := s'\<rparr>"
  have w': "each (\<lambda>h. attempt (remove_object d h)) hs w1 = (r, w')"
    using run p by (simp add: run_bind db_op_run w1_def)
  have s': "wdb w' = s'" using arg_cong [OF w', of "\<lambda>x. wdb (snd x)"] by (simp add: remove_orphans_wdb w1_def)
  have ok1: "hashes_ok s'" using hashes_ok_prune [OF ok, of i k] p by simp
  have "objects w' (object_path d h) \<noteq> None" if h: "hash_referenced h s'" for h
  proof -
    have "object_path d h \<noteq> object_path d g" if g: "g \<in> set hs" for g
    proof
      assume "object_path d h = object_path d g"
      then have "h = g"
        using object_path_inj [of h g d] hashes_ok_referenced [OF ok1 h]
          hashes_ok_referenced [OF ok prune_hash_stored [OF p g]] by simp
      with prune_unreferenced [OF p g] h show False by simp
    qed
    then have "objects w' (object_path d h) = objects w1 (object_path d h)"
      using arg_cong [OF w', of "\<lambda>x. objects (snd x) (object_path d h)"] by (simp add: remove_orphans_frame)
    moreover have "hash_referenced h (wdb w)"
      using hash_referenced_prune [of h i k "wdb w"] p h by simp
    ultimately show ?thesis using pres by (simp add: blobs_present_def w1_def)
  qed
  moreover have "r = Inr ()" using arg_cong [OF w', of fst] by (simp add: remove_orphans_ok)
  ultimately show ?thesis using ok1 s' by (simp add: store_inv_def blobs_present_def)
qed



section \<open>Eviction of stale base versions\<close>

text \<open>The part of the invariant that concerns base versions alone.\<close>

definition bases_present :: "path \<Rightarrow> world \<Rightarrow> bool" where
  "bases_present d w \<longleftrightarrow> (\<forall>b\<in>set (base_versions (wdb w)). objects w (object_path d (b_object_hash b)) \<noteq> None)"

definition base_inv :: "path \<Rightarrow> world \<Rightarrow> bool" where
  "base_inv d w \<longleftrightarrow> db_wf (wdb w) \<and> hashes_ok (wdb w) \<and> bases_present d w"

definition base_listed :: "mount_id \<Rightarrow> db \<Rightarrow> inode \<times> string \<times> nat \<Rightarrow> bool" where
  "base_listed m s e \<longleftrightarrow> (\<exists>b\<in>set (base_versions s). base_key b = (fst e, m) \<and> b_object_hash b = fst (snd e))"

lemma removed_base_unreferenced:
  assumes wf: "db_wf s" and l: "base_listed m s (i, h, z)"
    and one: "length (filter (\<lambda>b. b_object_hash b = h) (base_versions s)) \<le> 1"
    and b: "b \<in> set (base_versions s)" "base_key b \<noteq> (i, m)"
  shows "b_object_hash b \<noteq> h"
proof
  assume h: "b_object_hash b = h"
  from l obtain b0 where b0: "b0 \<in> set (base_versions s)" "base_key b0 = (i, m)" "b_object_hash b0 = h"
    by (auto simp: base_listed_def)
  let ?f = "filter (\<lambda>b. b_object_hash b = h) (base_versions s)"
  have "b \<in> set ?f" "b0 \<in> set ?f" using b b0 h by auto
  with one have "b = b0"
    by (cases ?f) auto
  with b b0 show False by simp
qed

lemma evict_stale_base_step:
  assumes inv: "base_inv d w" and l: "base_listed m (wdb w) (i, h, z)" and len: "2 \<le> length h"
  shows "base_inv d (state_after (evict_stale_base d m (i, h, z)) w)
     \<and> base_versions (wdb (state_after (evict_stale_base d m (i, h, z)) w)) = kt_remove base_key (i, m) (base_versions (wdb w))"
proof -
  let ?s = "wdb w"
  let ?s' = "?s\<lparr>base_versions := kt_remove base_key (i, m) (base_versions ?s)\<rparr>"
  have wf': "db_wf ?s'" using keepsD [OF remove_base_hash_wf, of ?s i m] inv
    by (simp add: base_inv_def remove_base_hash_def)
  have run: "evict_stale_base d m (i, h, z) w =
     (if length (filter (\<lambda>b. b_object_hash b = h) (base_versions ?s)) \<le> 1 then remove_object d h else ret ()) (w\<lparr>wdb := ?s'\<rparr>)"
    by (simp add: evict_stale_base_def run_bind run_then db_op_run base_hash_ref_count_def remove_base_hash_def)
  have keepb: "objects (snd (remove_object d h (w\<lparr>wdb := ?s'\<rparr>))) (object_path d (b_object_hash b)) \<noteq> None"
    if one: "length (filter (\<lambda>b. b_object_hash b = h) (base_versions ?s)) \<le> 1"
      and b: "b \<in> set (base_versions ?s)" "base_key b \<noteq> (i, m)" for b
  proof -
    have wf: "db_wf ?s" using inv by (simp add: base_inv_def)
    have "b_object_hash b \<noteq> h" using removed_base_unreferenced [OF wf l one b] .
    then have "object_path d (b_object_hash b) \<noteq> object_path d h"
      using object_path_inj [of "b_object_hash b" h d] len inv b by (auto simp: base_inv_def hashes_ok_def)
    then have "objects (snd (remove_object d h (w\<lparr>wdb := ?s'\<rparr>))) (object_path d (b_object_hash b)) = objects w (object_path d (b_object_hash b))"
      using remove_object_frame [of d h "w\<lparr>wdb := ?s'\<rparr>"] by simp
    with inv b show ?thesis by (simp add: base_inv_def bases_present_def)
  qed
  have wdb': "wdb (state_after (evict_stale_base d m (i, h, z)) w) = ?s'"
    using remove_object_frame [of d h "w\<lparr>wdb := ?s'\<rparr>"] by (simp add: run)
  have "bases_present d (state_after (evict_stale_base d m (i, h, z)) w)"
    unfolding bases_present_def wdb' using keepb inv by (simp add: run base_inv_def bases_present_def)
  moreover have "hashes_ok ?s'" using inv by (simp add: base_inv_def hashes_ok_def)
  ultimately show ?thesis using wf' wdb' by (simp add: base_inv_def)
qed

lemma evict_each_base:
  assumes "base_inv d w" "\<forall>e\<in>set es. base_listed m (wdb w) e \<and> 2 \<le> length (fst (snd e))" "distinct (map fst es)"
  shows "base_inv d (state_after (each (evict_stale_base d m) es) w)"
  using assms
proof (induction es arbitrary: w)
  case (Cons e es)
  obtain i h z where e: "e = (i, h, z)" by (cases e) auto
  obtain r w1 where r: "evict_stale_base d m e w = (r, w1)" by (cases "evict_stale_base d m e w") auto
  have step: "base_inv d w1 \<and> base_versions (wdb w1) = kt_remove base_key (i, m) (base_versions (wdb w))"
    using evict_stale_base_step [OF Cons.prems(1), of m i h z] Cons.prems(2) e r by simp
  have "base_listed m (wdb w1) e'" if "e' \<in> set es" for e'
    using Cons.prems(2,3) step that e by (force simp: base_listed_def)
  with Cons.IH [of w1] Cons.prems step r show ?case
    by (cases r) (auto simp: run_then)
qed simp

definition stale_bases :: "mount_id \<Rightarrow> nat \<Rightarrow> db \<Rightarrow> base_row list" where
  "stale_bases m days s = sort_key b_updated_at (filter (\<lambda>b. b_mount_id b = m
     \<and> list_ex (\<lambda>r. r_inode r = b_inode b \<and> r_mount_id r = b_mount_id b \<and> \<not> unsynced (r_status r)) (file_index s)
     \<and> b_updated_at b < clock s - int days * 86400) (base_versions s))"

lemma stale_base_entries_run:
  "stale_base_entries m days n s = (Inr (map (\<lambda>b. (b_inode b, b_object_hash b, b_file_size b)) (take n (stale_bases m days s))), s)"
  by (simp add: stale_base_entries_def stale_bases_def)

lemma stale_bases_distinct:
  assumes "db_wf s"
  shows "distinct (map b_inode (stale_bases m days s))"
proof -
  have d: "distinct (map base_key (stale_bases m days s))"
    using db_wf_tables(4) [OF assms] unfolding stale_bases_def
    by (metis (no_types, lifting) distinct_map distinct_map_filter distinct_sort set_sort)
  have "base_key b = (b_inode b, m)" if "b \<in> set (stale_bases m days s)" for b
    using that by (auto simp: stale_bases_def base_key_def)
  then have "map base_key (stale_bases m days s) = map (\<lambda>i. (i, m)) (map b_inode (stale_bases m days s))" by simp
  with d have "distinct (map (\<lambda>i. (i, m)) (map b_inode (stale_bases m days s)))" by (simp only:)
  then show ?thesis unfolding distinct_map [of "\<lambda>i. (i, m)"] by simp
qed

text \<open>
  C24: evicting stale base versions never removes a blob that another base version
  still needs: if every base version had its blob, the remaining ones still do,
  whether the run completes or stops at an error, and the database stays
  well-formed.
\<close>

theorem evict_stale_bases_keeps_live_bases:
  assumes "base_inv d w"
  shows "base_inv d (state_after (evict_stale_bases d m days) w)"
proof -
  let ?bs = "take 500 (stale_bases m days (wdb w))"
  let ?es = "map (\<lambda>b. (b_inode b, b_object_hash b, b_file_size b)) ?bs"
  have run: "evict_stale_bases d m days w = (if ?es = [] then ret () else each (evict_stale_base d m) ?es) w"
    by (simp add: evict_stale_bases_def run_bind db_op_run stale_base_entries_run)
  have "distinct (map fst ?es)"
    using stale_bases_distinct [of "wdb w" m days] assms by (simp add: base_inv_def comp_def distinct_take flip: take_map)
  moreover have "\<forall>e\<in>set ?es. base_listed m (wdb w) e \<and> 2 \<le> length (fst (snd e))"
    using assms by (fastforce simp: base_inv_def hashes_ok_def base_listed_def stale_bases_def base_key_def dest!: in_set_takeD)
  ultimately show ?thesis
    using evict_each_base [OF assms, of ?es m] assms by (simp add: run)
qed

definition sample_base :: base_row where
  "sample_base = \<lparr> b_inode = 3, b_mount_id = 1, b_object_hash = ''aabb'', b_file_size = 0, b_updated_at = 0 \<rparr>"

text \<open>
  A world in which file 3 has a version and a base version with the same content,
  thirty days later.
\<close>

definition shared_blob_world :: world where
  "shared_blob_world = sample_world\<lparr>
     wdb := history_db\<lparr>version_history := [sample_version 1 10 ''aabb''], base_versions := [sample_base], clock := 2592100\<rparr>,
     objects := [object_path ''/c/.bases'' ''aabb'' \<mapsto> [1, 2]]\<rparr>"

lemma shared_blob_world_inv: "store_inv ''/c/.bases'' shared_blob_world" "base_inv ''/c/.bases'' shared_blob_world"
proof -
  have wf: "db_wf (wdb shared_blob_world)"
    by (simp add: shared_blob_world_def history_db_def db_wf_defs sample_version_def sample_base_def sample_defs
        unique_ok_def fk_ok_def row_refs_ok_def trigger_ok_def base_key_def)
  show "store_inv ''/c/.bases'' shared_blob_world" "base_inv ''/c/.bases'' shared_blob_world"
    using wf by (auto simp: base_inv_def store_inv_def hashes_ok_def bases_present_def blobs_present_def
        hash_referenced_iff shared_blob_world_def history_db_def sample_version_def sample_base_def)
qed

theorem evict_stale_bases_keeps_live_bases_witness:
  "base_inv ''/c/.bases'' (state_after (evict_stale_bases ''/c/.bases'' 1 30) shared_blob_world)"
  by (rule evict_stale_bases_keeps_live_bases [OF shared_blob_world_inv(2)])

text \<open>
  The same eviction does not consult the version history: from a store in
  which every referenced blob is present it can delete the blob of a version that
  \<open>version_history\<close> still lists, so that version can no longer be restored.
\<close>

theorem evict_stale_bases_loses_history_blob:
  "\<exists>w d m days. store_inv d w \<and> base_inv d w \<and>
     (\<exists>w'. evict_stale_bases d m days w = (Inr (), w') \<and> \<not> blobs_present d w')"
proof -
  have s: "stale_bases 1 30 (wdb shared_blob_world) = [sample_base]"
    by (simp add: stale_bases_def shared_blob_world_def history_db_def sample_base_def sample_defs)
  have run: "evict_stale_bases ''/c/.bases'' 1 30 shared_blob_world
      = each (evict_stale_base ''/c/.bases'' 1) [(3, ''aabb'', 0)] shared_blob_world"
    by (simp add: evict_stale_bases_def run_bind db_op_run stale_base_entries_run s [simplified]) (simp add: sample_base_def)
  have "evict_stale_bases ''/c/.bases'' 1 30 shared_blob_world = (Inr (), shared_blob_world\<lparr>
      wdb := (wdb shared_blob_world)\<lparr>base_versions := []\<rparr>, objects := Map.empty\<rparr>)"
    unfolding run
    by (simp add: run_then run_bind evict_stale_base_def db_op_run base_hash_ref_count_def remove_base_hash_def
        remove_object_def shared_blob_world_def sample_base_def kt_remove_def base_key_def sample_world_def)
  moreover have "\<not> blobs_present ''/c/.bases'' (shared_blob_world\<lparr>
      wdb := (wdb shared_blob_world)\<lparr>base_versions := []\<rparr>, objects := Map.empty\<rparr>)"
    by (simp add: blobs_present_def hash_referenced_iff shared_blob_world_def sample_version_def)
  ultimately show ?thesis using shared_blob_world_inv by blast
qed

end
