(* ===== verification/Config.thy ===== *)
theory Config
  imports Sync_Types
begin

text \<open>
  The pure parts of the configuration (\<open>stratosync-core/src/config/mod.rs\<close>):
  the daily transfer window and its parser, the resolution of the legacy and
  the current window settings, and the size and duration parsers.  Floating
  point is a parameter: \<open>parse_f64\<close> and \<open>scale\<close> stand for \<open>str::parse::<f64>\<close>
  and for \<open>(num * mul as f64) as u64\<close>.
\<close>

datatype config_error = BadWindow string | BadHour string | BadMinute string | HourRange nat | MinuteRange nat
  | BothWindows string | BadNumber string | UnknownUnit string

section \<open>Helpers of the standard library\<close>

definition is_space :: "char \<Rightarrow> bool" where
  "is_space c \<longleftrightarrow> c \<in> {CHR '' '', CHR 0x09, CHR 0x0A, CHR 0x0B, CHR 0x0C, CHR 0x0D}"

definition trim_ws :: "string \<Rightarrow> string" where
  "trim_ws s = rev (dropWhile is_space (rev (dropWhile is_space s)))"

definition split_once :: "'a \<Rightarrow> 'a list \<Rightarrow> ('a list \<times> 'a list) option" where
  "split_once c s = (if c \<in> set s then Some (takeWhile (\<lambda>x. x \<noteq> c) s, tl (dropWhile (\<lambda>x. x \<noteq> c) s)) else None)"

text \<open>\<open>str::split_once\<close> with a string.\<close>

fun split_once_str :: "string \<Rightarrow> string \<Rightarrow> (string \<times> string) option" where
  "split_once_str p s =
     (if prefix p s then Some ([], drop (length p) s)
      else case s of [] \<Rightarrow> None
           | c # cs \<Rightarrow> map_option (\<lambda>(a, b). (c # a, b)) (split_once_str p cs))"

declare split_once_str.simps [simp del]

definition strip_suffix :: "'a list \<Rightarrow> 'a list \<Rightarrow> 'a list option" where
  "strip_suffix suf s = (if suffix suf s then Some (take (length s - length suf) s) else None)"

definition parse_u32 :: "string \<Rightarrow> nat option" where
  "parse_u32 s = (case parse_u64 s of Some n \<Rightarrow> if n < 2 ^ 32 then Some n else None | None \<Rightarrow> None)"

lemma split_once_append: "c \<notin> set a \<Longrightarrow> split_once c (a @ c # b) = Some (a, b)"
proof -
  assume c: "c \<notin> set a"
  then have "takeWhile (\<lambda>x. x \<noteq> c) (a @ c # b) = a" "dropWhile (\<lambda>x. x \<noteq> c) (a @ c # b) = c # b"
    by (auto simp: takeWhile_append dropWhile_append takeWhile_eq_all_conv)
  then show ?thesis by (simp add: split_once_def)
qed

section \<open>Transfer windows\<close>

record transfer_window =
  start_min :: nat
  end_min   :: nat

definition contains_minute :: "transfer_window \<Rightarrow> nat \<Rightarrow> bool" where
  "contains_minute w m =
     (if start_min w = end_min w then True
      else if start_min w < end_min w then start_min w \<le> m \<and> m < end_min w
      else m \<ge> start_min w \<or> m < end_min w)"

definition seconds_until_open :: "transfer_window \<Rightarrow> nat \<Rightarrow> nat \<Rightarrow> nat" where
  "seconds_until_open w now_min now_sec =
     (if contains_minute w now_min then 0
      else let now_total = int now_min * 60 + int now_sec;
               start_total = int (start_min w) * 60;
               diff = start_total - now_total;
               day = 24 * 60 * 60
           in nat (if diff \<le> 0 then diff + day else diff))"

definition secs_until_window_opens :: "transfer_window option \<Rightarrow> nat \<Rightarrow> nat \<Rightarrow> nat" where
  "secs_until_window_opens window now_min now_sec =
     (case window of None \<Rightarrow> 0 | Some w \<Rightarrow> seconds_until_open w now_min now_sec)"

datatype transfer_direction = UploadOnly | DownloadOnly | Both

fun includes_upload :: "transfer_direction \<Rightarrow> bool" where
  "includes_upload DownloadOnly = False" | "includes_upload _ = True"

fun includes_download :: "transfer_direction \<Rightarrow> bool" where
  "includes_download UploadOnly = False" | "includes_download _ = True"

definition parse_hhmm :: "string \<Rightarrow> config_error + nat" where
  "parse_hhmm s =
     (case split_once (CHR '':'') s of
        None \<Rightarrow> Inl (BadWindow s)
      | Some (h, m) \<Rightarrow>
          (case parse_u32 h of
             None \<Rightarrow> Inl (BadHour s)
           | Some h \<Rightarrow>
               (case parse_u32 m of
                  None \<Rightarrow> Inl (BadMinute s)
                | Some m \<Rightarrow>
                    if h \<ge> 24 then Inl (HourRange h)
                    else if m \<ge> 60 then Inl (MinuteRange m)
                    else Inr (h * 60 + m))))"

definition parse_transfer_window :: "string \<Rightarrow> config_error + transfer_window" where
  "parse_transfer_window s0 =
     (let s = trim_ws s0 in
      case split_once (CHR ''-'') s of
        None \<Rightarrow> Inl (BadWindow s)
      | Some (start, fin) \<Rightarrow>
          (case parse_hhmm (trim_ws start) of
             Inl e \<Rightarrow> Inl e
           | Inr a \<Rightarrow> (case parse_hhmm (trim_ws fin) of
                 Inl e \<Rightarrow> Inl e
               | Inr b \<Rightarrow> Inr \<lparr> start_min = a, end_min = b \<rparr>)))"

record mount_config =
  mc_name                      :: string
  mc_upload_window             :: "string option"
  mc_transfer_window           :: "string option"
  mc_transfer_window_direction :: transfer_direction

definition nonempty :: "string option \<Rightarrow> string option" where
  "nonempty x = (case x of Some s \<Rightarrow> if s = [] then None else Some s | None \<Rightarrow> None)"

definition parse_window :: "mount_config \<Rightarrow> config_error + (transfer_window \<times> transfer_direction) option" where
  "parse_window c =
     (case (nonempty (mc_upload_window c), nonempty (mc_transfer_window c)) of
        (None, None) \<Rightarrow> Inr None
      | (Some s, None) \<Rightarrow> map_sum id (\<lambda>w. Some (w, UploadOnly)) (parse_transfer_window s)
      | (None, Some s) \<Rightarrow> map_sum id (\<lambda>w. Some (w, mc_transfer_window_direction c)) (parse_transfer_window s)
      | (Some _, Some _) \<Rightarrow> Inl (BothWindows (mc_name c)))"

section \<open>Sizes and durations\<close>

definition ascii_upper :: "char \<Rightarrow> char" where
  "ascii_upper c = (let n = of_char c :: nat in if 97 \<le> n \<and> n \<le> 122 then char_of (n - 32) else c)"

definition is_alphabetic :: "char \<Rightarrow> bool" where
  "is_alphabetic c \<longleftrightarrow> (let n = of_char c :: nat in (65 \<le> n \<and> n \<le> 90) \<or> (97 \<le> n \<and> n \<le> 122))"

definition size_unit :: "string \<Rightarrow> nat option" where
  "size_unit u =
     (if u = [] \<or> u = ''B'' then Some 1
      else if u \<in> {''K'', ''KB'', ''KIB''} then Some (2 ^ 10)
      else if u \<in> {''M'', ''MB'', ''MIB''} then Some (2 ^ 20)
      else if u \<in> {''G'', ''GB'', ''GIB''} then Some (2 ^ 30)
      else if u \<in> {''T'', ''TB'', ''TIB''} then Some (2 ^ 40)
      else None)"

definition parse_size :: "(string \<Rightarrow> 'f option) \<Rightarrow> ('f \<Rightarrow> nat \<Rightarrow> nat) \<Rightarrow> string \<Rightarrow> config_error + nat" where
  "parse_size parse_f64 scale s0 =
     (let s = trim_ws s0;
          num_s = takeWhile (\<lambda>c. \<not> is_alphabetic c) s;
          unit_s = dropWhile (\<lambda>c. \<not> is_alphabetic c) s
      in case parse_f64 (trim_ws num_s) of
           None \<Rightarrow> Inl (BadNumber s)
         | Some num \<Rightarrow>
             (case size_unit (map ascii_upper (trim_ws unit_s)) of
                None \<Rightarrow> Inl (UnknownUnit (map ascii_upper (trim_ws unit_s)))
              | Some mul \<Rightarrow> Inr (scale num mul)))"

text \<open>A duration in milliseconds; the multiplications are those of \<open>u64\<close> in a release build.\<close>

definition parse_duration :: "string \<Rightarrow> config_error + nat" where
  "parse_duration s0 =
     (let s = trim_ws s0;
          num = (\<lambda>n f. case parse_u64 n of None \<Rightarrow> Inl (BadNumber s) | Some k \<Rightarrow> Inr (f k))
      in case strip_suffix ''ms'' s of
           Some n \<Rightarrow> num (trim_ws n) (\<lambda>k. k)
         | None \<Rightarrow> (case strip_suffix ''s'' s of
             Some n \<Rightarrow> num (trim_ws n) (\<lambda>k. k * 1000)
           | None \<Rightarrow> (case strip_suffix ''m'' s of
               Some n \<Rightarrow> num (trim_ws n) (\<lambda>k. (k * 60) mod 2 ^ 64 * 1000)
             | None \<Rightarrow> (case strip_suffix ''h'' s of
                 Some n \<Rightarrow> num (trim_ws n) (\<lambda>k. (k * 3600) mod 2 ^ 64 * 1000)
               | None \<Rightarrow> num s (\<lambda>k. k * 1000)))))"

section \<open>Properties\<close>

definition window_valid :: "transfer_window \<Rightarrow> bool" where
  "window_valid w \<longleftrightarrow> start_min w < 1440 \<and> end_min w < 1440"

text \<open>The minute of the day \<open>j\<close> seconds after \<open>now_min:now_sec\<close>.\<close>

definition minute_after :: "nat \<Rightarrow> nat \<Rightarrow> nat \<Rightarrow> nat" where
  "minute_after now_min now_sec j = ((now_min * 60 + now_sec + j) mod 86400) div 60"

text \<open>
  C27: the wait computed for a closed transfer window is exact.  For a valid window
  and time of day it is zero exactly when the window is open, at most a day; after
  waiting that long the window is open, and at every earlier second it is closed.
\<close>

theorem seconds_until_open_exact:
  assumes w: "window_valid w" and now: "now_min < 1440" "now_sec < 60"
  defines "k \<equiv> seconds_until_open w now_min now_sec"
  shows "(k = 0 \<longleftrightarrow> contains_minute w now_min) \<and> k \<le> 86400
     \<and> contains_minute w (minute_after now_min now_sec k)
     \<and> (\<forall>j<k. \<not> contains_minute w (minute_after now_min now_sec j))"
proof (cases "contains_minute w now_min")
  case True
  have "minute_after now_min now_sec 0 = now_min" using now by (simp add: minute_after_def)
  with True show ?thesis by (simp add: k_def seconds_until_open_def)
next
  case False
  define a where "a = start_min w" define b where "b = end_min w" define n where "n = now_min * 60 + now_sec"
  have ab: "a < 1440" "b < 1440" "a \<noteq> b" using w False by (auto simp: window_valid_def contains_minute_def a_def b_def)
  have n: "n < 86400" "n div 60 = now_min" using now by (auto simp: n_def)
  have k: "k = (if a * 60 \<le> n then a * 60 + 86400 - n else a * 60 - n)"
    using False n(1) ab(1) by (auto simp: k_def seconds_until_open_def Let_def n_def a_def nat_diff_distrib)
  have closed: "\<not> contains_minute w m \<longleftrightarrow> (if a < b then m < a \<or> b \<le> m else m < a \<and> b \<le> m)" for m
    using ab(3) by (auto simp: contains_minute_def a_def b_def)
  have "n + k = a * 60 + (if a * 60 \<le> n then 86400 else 0)" using k n(1) by simp
  then have m_k: "minute_after now_min now_sec k = a"
    using ab(1) by (simp add: minute_after_def n_def add.assoc)
  moreover have "contains_minute w a" using ab by (auto simp: contains_minute_def a_def b_def)
  moreover have "\<not> contains_minute w (minute_after now_min now_sec j)" if j: "j < k" for j
  proof -
    have m: "minute_after now_min now_sec j = (if n + j < 86400 then (n + j) div 60 else (n + j - 86400) div 60)"
    proof -
      have "n + j - 86400 < 86400" using j k n(1) ab(1) by (auto split: if_splits)
      then have "(n + j) mod 86400 = (if n + j < 86400 then n + j else n + j - 86400)"
        using le_mod_geq [of 86400 "n + j"] by (cases "n + j < 86400") simp_all
      then show ?thesis unfolding minute_after_def n_def [symmetric] by simp
    qed
    have "(if a < b then now_min < a \<or> b \<le> now_min else now_min < a \<and> b \<le> now_min)" using False closed by simp
    moreover have "now_min \<le> (n + j) div 60" using n(2) div_le_mono [of n "n + j" 60] by simp
    moreover have "a * 60 \<le> n \<longleftrightarrow> a \<le> now_min" unfolding n(2) [symmetric]
      by (simp add: less_eq_div_iff_mult_less_eq)
    moreover have "a * 60 \<le> n \<Longrightarrow> \<not> n + j < 86400 \<Longrightarrow> (n + j - 86400) div 60 < a"
      using j k by (intro less_mult_imp_div_less) simp
    moreover have "\<not> a * 60 \<le> n \<Longrightarrow> (n + j) div 60 < a \<and> n + j < 86400"
      using j k ab(1) by (auto intro: less_mult_imp_div_less)
    ultimately show ?thesis
      unfolding closed m by (cases "a * 60 \<le> n"; cases "a < b"; cases "n + j < 86400") auto
  qed
  moreover have "k \<le> 86400" "k \<noteq> 0" using k n(1) ab(1) by auto
  ultimately show ?thesis using False by auto
qed

theorem seconds_until_open_exact_witness:
  "seconds_until_open \<lparr> start_min = 1320, end_min = 360 \<rparr> 1200 30 = 7170
   \<and> contains_minute \<lparr> start_min = 1320, end_min = 360 \<rparr> (minute_after 1200 30 7170)"
proof -
  have k: "seconds_until_open \<lparr> start_min = 1320, end_min = 360 \<rparr> 1200 30 = 7170"
    by (simp add: seconds_until_open_def contains_minute_def)
  have "window_valid \<lparr> start_min = 1320, end_min = 360 \<rparr>" by (simp add: window_valid_def)
  from seconds_until_open_exact [OF this, of 1200 30] k show ?thesis by simp
qed

subsection \<open>Parsing what the daemon prints\<close>

text \<open>The \<open>{:02}:{:02}\<close> form in which the daemon logs a window (\<open>main.rs\<close>).\<close>

definition fmt02 :: "nat \<Rightarrow> string" where
  "fmt02 n = (if n < 10 then ''0'' @ nat_to_string n else nat_to_string n)"

definition format_hhmm :: "nat \<Rightarrow> string" where
  "format_hhmm m = fmt02 (m div 60) @ '':'' @ fmt02 (m mod 60)"

definition format_window :: "transfer_window \<Rightarrow> string" where
  "format_window w = format_hhmm (start_min w) @ ''-'' @ format_hhmm (end_min w)"

lemma nat_to_string_ne [simp]: "nat_to_string n \<noteq> []"
  by (simp add: nat_to_string_def)

lemma parse_digits:
  assumes "ds \<noteq> []" "\<forall>c\<in>set ds. is_digit c" "digits_val ds < 2 ^ 64"
  shows "parse_u64 ds = Some (digits_val ds)"
proof -
  obtain c r where ds: "ds = c # r" using assms(1) by (cases ds) auto
  then have "c \<noteq> CHR ''+''" using assms(2) by (auto simp: is_digit_def)
  with ds assms show ?thesis by (simp add: parse_u64_def list_all_iff)
qed

lemma digits_val_zero: "digits_val (CHR ''0'' # ds) = digits_val ds"
  by (simp add: digits_val_def digit_val_def)

lemma fmt02_digits: "c \<in> set (fmt02 n) \<Longrightarrow> is_digit c"
  using nat_to_string_digits by (auto simp: fmt02_def is_digit_def split: if_splits)

lemma parse_fmt02: "n < 2 ^ 32 \<Longrightarrow> parse_u32 (fmt02 n) = Some n"
proof -
  assume n: "n < 2 ^ 32"
  have v: "digits_val (fmt02 n) = n" by (simp add: fmt02_def digits_val_zero digits_val_to_string)
  moreover have "fmt02 n \<noteq> []" by (simp add: fmt02_def)
  ultimately have "parse_u64 (fmt02 n) = Some n" using parse_digits [of "fmt02 n"] fmt02_digits n by simp
  with n show ?thesis by (simp add: parse_u32_def)
qed

lemma digit_not [simp]: "is_digit c \<Longrightarrow> \<not> is_space c" "\<not> is_digit (CHR '':'')" "\<not> is_digit (CHR ''-'')" "\<not> is_space (CHR ''-'')"
  by (auto simp: is_digit_def is_space_def)

lemma trim_ws_id: "\<forall>c\<in>set s. \<not> is_space c \<Longrightarrow> trim_ws s = s"
proof -
  assume a: "\<forall>c\<in>set s. \<not> is_space c"
  have d: "dropWhile is_space t = t" if "\<forall>c\<in>set t. \<not> is_space c" for t
    using that by (cases t) auto
  from a d [of s] d [of "rev s"] show ?thesis by (simp add: trim_ws_def)
qed

lemma parse_format_hhmm: "m < 1440 \<Longrightarrow> parse_hhmm (format_hhmm m) = Inr m"
proof -
  assume m: "m < 1440"
  have "CHR '':'' \<notin> set (fmt02 (m div 60))" using fmt02_digits by fastforce
  then have "split_once (CHR '':'') (format_hhmm m) = Some (fmt02 (m div 60), fmt02 (m mod 60))"
    using split_once_append [of "CHR '':''" "fmt02 (m div 60)" "fmt02 (m mod 60)"] by (simp add: format_hhmm_def)
  moreover have "m div 60 < 24" "m div 60 < 2 ^ 32" "m mod 60 < 2 ^ 32" "m mod 60 < 60" using m by auto
  ultimately show ?thesis by (simp add: parse_hhmm_def parse_fmt02)
qed

lemma format_hhmm_chars: "c \<in> set (format_hhmm m) \<Longrightarrow> \<not> is_space c \<and> c \<noteq> CHR ''-''"
  using fmt02_digits [of c] by (auto simp: format_hhmm_def is_space_def is_digit_def)

lemma parse_hhmm_range: "parse_hhmm s = Inr m \<Longrightarrow> m < 1440"
  by (auto simp: parse_hhmm_def split: option.splits prod.splits if_splits)

text \<open>
  Parsing the printed form of a valid transfer window gives that window back,
  and every window the parser accepts is valid (both ends before midnight).
\<close>

theorem transfer_window_round_trip:
  "(window_valid w \<longrightarrow> parse_transfer_window (format_window w) = Inr w)
   \<and> (parse_transfer_window s = Inr v \<longrightarrow> window_valid v)"
proof (intro conjI impI)
  assume w: "window_valid w"
  let ?a = "format_hhmm (start_min w)" and ?b = "format_hhmm (end_min w)"
  have t: "trim_ws (format_window w) = format_window w" "trim_ws ?a = ?a" "trim_ws ?b = ?b"
    using format_hhmm_chars by (auto intro!: trim_ws_id simp: format_window_def)
  have "CHR ''-'' \<notin> set ?a" using format_hhmm_chars by blast
  then have "split_once (CHR ''-'') (format_window w) = Some (?a, ?b)"
    using split_once_append [of "CHR ''-''" ?a ?b] by (simp add: format_window_def)
  with w t show "parse_transfer_window (format_window w) = Inr w"
    by (simp add: parse_transfer_window_def parse_format_hhmm window_valid_def)
next
  assume "parse_transfer_window s = Inr v"
  then show "window_valid v"
    by (auto simp: parse_transfer_window_def window_valid_def Let_def dest!: parse_hhmm_range
        split: option.splits prod.splits sum.splits)
qed

theorem transfer_window_round_trip_witness:
  "parse_transfer_window (format_window \<lparr> start_min = 1320, end_min = 360 \<rparr>) = Inr \<lparr> start_min = 1320, end_min = 360 \<rparr>"
  using transfer_window_round_trip by (simp add: window_valid_def)

end
