(* ===== verification/Upload_Queue.thy ===== *)
theory Upload_Queue
  imports Base_Store Config
begin

text \<open>
  The upload queue (\<open>stratosync-daemon/src/sync/upload_queue.rs\<close>): the loop that
  debounces triggers, launches uploads within a concurrency limit and a transfer
  window, and handles completed uploads; and one upload attempt.  Instants are
  integers in milliseconds.  The backend and the conflict resolver are
  parameters.
\<close>

section \<open>State\<close>

datatype upload_trigger = TWrite inode | TClose inode | TFsync inode

record pending_upload =
  due_at    :: int
  immediate :: bool

record queue_state =
  pending          :: "inode \<rightharpoonup> pending_upload"
  in_flight        :: "inode list"
  started_at       :: "inode \<rightharpoonup> int"
  first_started_at :: "inode \<rightharpoonup> int"
  attempts         :: "inode \<rightharpoonup> nat"
  progress         :: "inode \<rightharpoonup> nat"

definition empty_queue :: queue_state where
  "empty_queue = \<lparr> pending = Map.empty, in_flight = [], started_at = Map.empty, first_started_at = Map.empty,
     attempts = Map.empty, progress = Map.empty \<rparr>"

section \<open>Triggers\<close>

definition trigger_inode :: "upload_trigger \<Rightarrow> inode" where
  "trigger_inode t = (case t of TWrite i \<Rightarrow> i | TClose i \<Rightarrow> i | TFsync i \<Rightarrow> i)"

definition trigger_window :: "int \<Rightarrow> int \<Rightarrow> upload_trigger \<Rightarrow> int" where
  "trigger_window debounce close_debounce t = (case t of TWrite _ \<Rightarrow> debounce | TClose _ \<Rightarrow> close_debounce | TFsync _ \<Rightarrow> 0)"

definition is_fsync :: "upload_trigger \<Rightarrow> bool" where
  "is_fsync t = (case t of TFsync _ \<Rightarrow> True | _ \<Rightarrow> False)"

definition on_trigger :: "int \<Rightarrow> int \<Rightarrow> int \<Rightarrow> upload_trigger \<Rightarrow> queue_state \<Rightarrow> queue_state" where
  "on_trigger debounce close_debounce now t st =
     (let i = trigger_inode t;
          window = trigger_window debounce close_debounce t;
          new_due = now + window
      in case pending st i of
           Some entry \<Rightarrow>
             st\<lparr>pending := (pending st)(i \<mapsto>
                entry\<lparr>due_at := (if window = debounce then new_due else min (due_at entry) new_due),
                      immediate := (is_fsync t \<or> immediate entry)\<rparr>)\<rparr>
         | None \<Rightarrow> st\<lparr>pending := (pending st)(i \<mapsto> \<lparr> due_at = new_due, immediate = is_fsync t \<rparr>)\<rparr>)"

section \<open>Deadlines\<close>

definition effective_due_at :: "pending_upload \<Rightarrow> transfer_window option \<Rightarrow> int \<Rightarrow> nat \<Rightarrow> int" where
  "effective_due_at p window now secs_until_open =
     (if immediate p \<or> window = None \<or> secs_until_open = 0 then due_at p
      else max (due_at p) (now + int secs_until_open * 1000))"

definition is_ready :: "int \<Rightarrow> bool \<Rightarrow> pending_upload \<Rightarrow> bool" where
  "is_ready now window_open p \<longleftrightarrow> due_at p \<le> now \<and> (immediate p \<or> window_open)"

definition launch_one :: "int \<Rightarrow> inode \<Rightarrow> queue_state \<Rightarrow> queue_state" where
  "launch_one now i st = st\<lparr>
     pending := (pending st)(i := None),
     progress := (progress st)(i \<mapsto> 0),
     in_flight := in_flight st @ [i],
     started_at := (started_at st)(i \<mapsto> now),
     first_started_at := (case first_started_at st i of None \<Rightarrow> (first_started_at st)(i \<mapsto> now) | Some _ \<Rightarrow> first_started_at st),
     attempts := (attempts st)(i \<mapsto> (case attempts st i of None \<Rightarrow> 0 | Some n \<Rightarrow> n) + 1) \<rparr>"

fun launch :: "int \<Rightarrow> nat \<Rightarrow> inode list \<Rightarrow> queue_state \<Rightarrow> queue_state" where
  "launch now max_concurrent [] st = st"
| "launch now max_concurrent (i # is) st =
     (if length (in_flight st) \<ge> max_concurrent then st
      else launch now max_concurrent is (launch_one now i st))"

text \<open>
  The deadline arm.  \<open>keys\<close> enumerates the pending map in the order in which the
  hash map happens to be iterated.
\<close>

definition ready_inodes :: "int \<Rightarrow> bool \<Rightarrow> inode list \<Rightarrow> queue_state \<Rightarrow> inode list" where
  "ready_inodes now window_open keys st =
     filter (\<lambda>i. case pending st i of Some p \<Rightarrow> is_ready now window_open p | None \<Rightarrow> False) keys"

definition on_deadline :: "int \<Rightarrow> bool \<Rightarrow> nat \<Rightarrow> inode list \<Rightarrow> queue_state \<Rightarrow> queue_state" where
  "on_deadline now window_open max_concurrent keys st =
     launch now max_concurrent (ready_inodes now window_open keys st) st"

section \<open>Completions\<close>

datatype join_result = Finished inode "sync_error + unit" | Panicked

definition clear_all :: "inode \<Rightarrow> queue_state \<Rightarrow> queue_state" where
  "clear_all i st = st\<lparr>started_at := (started_at st)(i := None), first_started_at := (first_started_at st)(i := None),
     attempts := (attempts st)(i := None), progress := (progress st)(i := None)\<rparr>"

definition is_conflict :: "sync_error \<Rightarrow> bool" where
  "is_conflict e = (case e of EtagConflict _ _ \<Rightarrow> True | _ \<Rightarrow> False)"

text \<open>The queue's own bookkeeping when a task is joined.\<close>

definition on_complete :: "int \<Rightarrow> int \<Rightarrow> inode \<Rightarrow> sync_error + unit \<Rightarrow> queue_state \<Rightarrow> queue_state" where
  "on_complete debounce now i res st0 =
     (let st = st0\<lparr>in_flight := remove1 i (in_flight st0)\<rparr> in
      case res of
        Inr _ \<Rightarrow> clear_all i st
      | Inl e \<Rightarrow>
          (if is_conflict e then clear_all i st
           else if is_retryable e
           then st\<lparr>started_at := (started_at st)(i := None), progress := (progress st)(i := None),
                   pending := (pending st)(i \<mapsto> \<lparr> due_at = now + debounce, immediate = False \<rparr>)\<rparr>
           else clear_all i st))"

text \<open>The \<open>Debug\<close> text of an optional string (of text without characters that are escaped), and \<open>Display\<close> of an error.\<close>

definition debug_opt :: "string option \<Rightarrow> string" where
  "debug_opt x = (case x of None \<Rightarrow> ''None'' | Some s \<Rightarrow> ''Some('' @ [CHR 34] @ s @ [CHR 34] @ '')'')"

definition conflict_message :: "sync_error \<Rightarrow> string" where
  "conflict_message e = (case e of EtagConflict l r \<Rightarrow> ''conflict: '' @ debug_opt l @ '' vs '' @ debug_opt r | _ \<Rightarrow> [])"

definition show_error :: "sync_error \<Rightarrow> string" where
  "show_error e = (case e of Network m \<Rightarrow> ''network error: '' @ m | Transient m \<Rightarrow> ''transient error (will retry): '' @ m
     | Fatal m \<Rightarrow> ''backend fatal: '' @ m | NotFound m \<Rightarrow> ''not found: '' @ m
     | PermissionDenied m \<Rightarrow> ''permission denied: '' @ m | QuotaExceeded \<Rightarrow> ''quota exceeded''
     | TokenExpired \<Rightarrow> ''change token expired or invalidated'' | NotSupported \<Rightarrow> ''operation not supported''
     | IoError m \<Rightarrow> ''io: '' @ m | OtherError m \<Rightarrow> m | EtagConflict l r \<Rightarrow> ''etag conflict: local='' @ debug_opt l @ '' remote='' @ debug_opt r)"

text \<open>
  The database side of a completion.  Failed database writes are logged and do
  not stop the loop.  \<open>resolve\<close> is the conflict resolver.
\<close>

definition complete_effects :: "(file_entry \<Rightarrow> unit app) \<Rightarrow> mount_id \<Rightarrow> inode \<Rightarrow> sync_error + unit \<Rightarrow> unit app" where
  "complete_effects resolve m i res =
     (case res of
        Inr _ \<Rightarrow> thenS (attempt (db_op (record_upload_success m))) (ret ())
      | Inl e \<Rightarrow>
          (if is_conflict e then
             thenS (attempt (db_op (record_upload_failure m (conflict_message e))))
               (bindS (attempt (db_op (get_by_inode i))) (\<lambda>r. case r of
                  Inr (Some entry) \<Rightarrow> thenS (attempt (resolve entry)) (ret ())
                | _ \<Rightarrow> ret ()))
           else if is_retryable e then
             thenS (attempt (db_op (fail_queue_job_by_inode i (show_error e) 30)))
               (thenS (attempt (db_op (record_upload_failure m (show_error e)))) (ret ()))
           else
             thenS (attempt (db_op (record_upload_failure m (show_error e))))
               (thenS (attempt (db_op (set_status i Dirty))) (ret ()))))"

section \<open>One upload attempt\<close>

type_synonym 'a upl = "(world, sync_error, 'a) sem"

definition db_fatal :: "'a dbm \<Rightarrow> 'a upl" where
  "db_fatal m w = (case m (wdb w) of (r, s) \<Rightarrow> (case r of Inl e \<Rightarrow> Inl (Fatal ''database'') | Inr a \<Rightarrow> Inr a, w\<lparr>wdb := s\<rparr>))"

lemma db_fatal_run [run_simps]:
  "db_fatal m w = (case fst (m (wdb w)) of Inl e \<Rightarrow> Inl (Fatal ''database'') | Inr a \<Rightarrow> Inr a, w\<lparr>wdb := snd (m (wdb w))\<rparr>)"
  by (simp add: db_fatal_def split: prod.split)

text \<open>
  Up to the backend call: either the attempt ends here, or it continues with the
  cache path, the remote path and the known etag.
\<close>

definition upload_begin :: "inode \<Rightarrow> (path \<times> path \<times> string option) option upl" where
  "upload_begin i =
     bindS (db_fatal (get_by_inode i)) (\<lambda>r. case r of
        None \<Rightarrow> raise (NotFound (''inode '' @ nat_to_string i))
      | Some entry \<Rightarrow>
          (if fe_status entry = Conflict then ret None
           else if fe_kind entry \<noteq> File then thenS (attempt (db_fatal (set_status i Cached))) (ret None)
           else case fe_cache_path entry of
             None \<Rightarrow> thenS (attempt (db_fatal (set_status i Remote))) (ret None)
           | Some cp \<Rightarrow>
               bindS (query (path_exists cp)) (\<lambda>ex.
                 if \<not> ex then
                   bindS (db_fatal (revert_dirty_with_missing_cache i cp))
                     (\<lambda>reverted. if reverted then ret None else raise (Transient (''cache file missing and row changed underneath: '' @ cp)))
                 else bindS (query (\<lambda>w. (io_fault w cp, disk w cp))) (\<lambda>(bad, node).
                   if bad then raise (IoError ''symlink_metadata'')
                   else case node of
                     Some (Link _) \<Rightarrow> raise (Fatal (''cache file is a symlink: '' @ cp))
                   | _ \<Rightarrow> thenS (db_fatal (set_status i Uploading))
                             (ret (Some (cp, fe_remote_path entry, fe_etag entry)))))))"

text \<open>
  After a successful backend call: the row becomes cached, the content is captured
  as a version, and as a merge base when it is mergeable text.  \<open>max_size\<close>,
  \<open>retention\<close> and \<open>exts\<close> come from the configuration.
\<close>

definition upload_finish ::
  "(bytes \<Rightarrow> string) \<Rightarrow> path \<Rightarrow> nat \<Rightarrow> nat \<Rightarrow> string list \<Rightarrow> mount_id \<Rightarrow> inode \<Rightarrow> path \<Rightarrow> remote_metadata \<Rightarrow> unit upl" where
  "upload_finish sha base_dir max_size retention exts m i cp meta =
     thenS (db_fatal (set_uploaded i (rm_size meta) (rm_etag meta) (rm_mtime meta) (rm_size meta)))
      (thenS (attempt (capture sha base_dir i m cp (rm_size meta) (rm_etag meta) AfterUpload max_size retention))
       (bindS (query (is_text_mergeable cp (rm_size meta) max_size exts)) (\<lambda>mergeable.
          if mergeable then
            bindS (attempt (store_base sha base_dir cp)) (\<lambda>r. case r of
               Inr hash \<Rightarrow> thenS (attempt (db_op (set_base_hash i m hash 0))) (ret ())
             | Inl _ \<Rightarrow> ret ())
          else ret ())))"

definition run_upload ::
  "(path \<Rightarrow> path \<Rightarrow> string option \<Rightarrow> world \<Rightarrow> sync_error + remote_metadata) \<Rightarrow> (bytes \<Rightarrow> string) \<Rightarrow> path
   \<Rightarrow> nat \<Rightarrow> nat \<Rightarrow> string list \<Rightarrow> mount_id \<Rightarrow> inode \<Rightarrow> unit upl" where
  "run_upload upload sha base_dir max_size retention exts m i =
     bindS (upload_begin i) (\<lambda>job. case job of
        None \<Rightarrow> ret ()
      | Some (cp, rp, etag) \<Rightarrow>
          bindS (query (upload cp rp etag)) (\<lambda>r. case r of
            Inl e \<Rightarrow> raise e
          | Inr meta \<Rightarrow> upload_finish sha base_dir max_size retention exts m i cp meta))"

end
