(* ===== verification/Upload_Laws.thy ===== *)
theory Upload_Laws
  imports Upload_Queue
begin

text \<open>
  Properties of the upload queue: the loop as a step relation with its
  invariants, and the life of a row through an upload attempt and the handling
  of its outcome.
\<close>

section \<open>The loop\<close>

record queue_params =
  qp_debounce       :: int
  qp_close_debounce :: int
  qp_max_concurrent :: nat

text \<open>
  One iteration: time passes, a trigger arrives, a deadline fires below capacity
  (with any iteration order of the pending map and any state of the transfer
  window), an upload completes, or an upload task panics and its slot is freed.
\<close>

inductive q_step :: "queue_params \<Rightarrow> int \<times> queue_state \<Rightarrow> int \<times> queue_state \<Rightarrow> bool" for P where
  q_tick: "now \<le> now' \<Longrightarrow> q_step P (now, st) (now', st)"
| q_trigger: "q_step P (now, st) (now, on_trigger (qp_debounce P) (qp_close_debounce P) now t st)"
| q_deadline: "\<lbrakk>length (in_flight st) < qp_max_concurrent P; distinct keys; set keys = dom (pending st)\<rbrakk> \<Longrightarrow>
     q_step P (now, st) (now, on_deadline now window_open (qp_max_concurrent P) keys st)"
| q_complete: "i \<in> set (in_flight st) \<Longrightarrow> q_step P (now, st) (now, on_complete (qp_debounce P) now i res st)"
| q_panic: "i \<in> set (in_flight st) \<Longrightarrow> q_step P (now, st) (now, st\<lparr>in_flight := remove1 i (in_flight st)\<rparr>)"

inductive q_reachable :: "queue_params \<Rightarrow> int \<times> queue_state \<Rightarrow> bool" for P where
  q_init: "q_reachable P (0, empty_queue)"
| q_next: "q_reachable P s \<Longrightarrow> q_step P s s' \<Longrightarrow> q_reachable P s'"

inductive_cases q_stepE: "q_step P (now, st) (now', st')"

lemma launch_in_flight:
  "in_flight (launch now mx is st) = in_flight st @ take (mx - length (in_flight st)) is"
proof (induction "is" arbitrary: st)
  case (Cons i "is")
  show ?case
  proof (cases "mx - length (in_flight st)")
    case (Suc n)
    then have "mx - length (in_flight (launch_one now i st)) = n" "\<not> mx \<le> length (in_flight st)"
      by (auto simp: launch_one_def)
    with Cons [of "launch_one now i st"] Suc show ?thesis by (simp add: launch_one_def)
  qed simp
qed simp

lemma launch_pending:
  "pending (launch now mx is st) = (pending st) |` (- set (take (mx - length (in_flight st)) is))"
proof (induction "is" arbitrary: st)
  case (Cons i "is")
  show ?case
  proof (cases "mx - length (in_flight st)")
    case 0
    then show ?thesis by (simp add: restrict_map_def)
  next
    case (Suc n)
    then have n: "mx - length (in_flight (launch_one now i st)) = n" "\<not> mx \<le> length (in_flight st)"
      by (auto simp: launch_one_def)
    with Cons [of "launch_one now i st"] Suc show ?thesis
      by (auto simp: launch_one_def restrict_map_def fun_eq_iff)
  qed
qed (simp add: restrict_map_def)

lemma in_flight_frames [simp]:
  "in_flight (on_trigger d c now t st) = in_flight st"
  "in_flight (clear_all i st) = in_flight st" "pending (clear_all i st) = pending st"
  by (simp_all add: on_trigger_def Let_def clear_all_def split: option.splits)

lemma on_complete_in_flight [simp]: "in_flight (on_complete d now i res st) = remove1 i (in_flight st)"
  by (simp add: on_complete_def Let_def split: sum.splits)

text \<open>
  C17: in every reachable state of the upload loop at most \<open>max_concurrent\<close> uploads
  are in flight.
\<close>

theorem in_flight_bounded:
  "q_reachable P (now, st) \<Longrightarrow> length (in_flight st) \<le> qp_max_concurrent P"
proof (induction "(now, st)" arbitrary: now st rule: q_reachable.induct)
  case q_init
  then show ?case by (simp add: empty_queue_def)
next
  case (q_next s)
  obtain now0 st0 where s: "s = (now0, st0)" by (cases s)
  with q_next have le: "length (in_flight st0) \<le> qp_max_concurrent P" by simp
  from q_next(3) [unfolded s] show ?case
  proof cases
    case (q_deadline keys window_open)
    then show ?thesis using le by (simp add: on_deadline_def launch_in_flight)
  qed (use le in \<open>auto simp: length_remove1\<close>)
qed

theorem in_flight_bounded_witness:
  "length (in_flight empty_queue) \<le> qp_max_concurrent \<lparr> qp_debounce = 2000, qp_close_debounce = 500, qp_max_concurrent = 2 \<rparr>"
  by (rule in_flight_bounded [OF q_init])

text \<open>The queue is responsible for an inode while it is pending or in flight.\<close>

definition owed :: "queue_state \<Rightarrow> inode \<Rightarrow> bool" where
  "owed st i \<longleftrightarrow> i \<in> dom (pending st) \<or> i \<in> set (in_flight st)"

definition final_result :: "sync_error + unit \<Rightarrow> bool" where
  "final_result res = (case res of Inr _ \<Rightarrow> True | Inl e \<Rightarrow> is_conflict e \<or> \<not> is_retryable e)"

lemma on_trigger_pending: "dom (pending (on_trigger d c now t st)) = insert (trigger_inode t) (dom (pending st))"
  by (auto simp: on_trigger_def Let_def split: option.splits)

lemma owed_on_deadline: "owed st i \<Longrightarrow> owed (on_deadline now op mx keys st) i"
  by (auto simp: owed_def on_deadline_def launch_in_flight launch_pending restrict_map_def)

lemma retryable_not_conflict: "is_retryable e \<Longrightarrow> \<not> is_conflict e"
  by (cases e) (auto simp: is_conflict_def)

text \<open>
  C11: the queue never loses work.  A trigger makes the queue responsible for its
  inode, and as long as the inode is pending or in flight every step leaves it
  pending or in flight, unless the step ends an upload of that very inode: with
  success, a conflict or a fatal error, or by a panic of its task.
\<close>

theorem queue_never_loses_work:
  "owed (on_trigger d c now t st) (trigger_inode t) \<and>
   (q_step P (now, st) (now', st') \<longrightarrow> owed st i \<longrightarrow>
      owed st' i \<or> (\<exists>res. st' = on_complete (qp_debounce P) now i res st \<and> final_result res)
      \<or> st' = st\<lparr>in_flight := remove1 i (in_flight st)\<rparr>)"
proof (intro conjI impI)
  show "owed (on_trigger d c now t st) (trigger_inode t)"
    by (simp add: owed_def on_trigger_pending)
next
  assume "q_step P (now, st) (now', st')" and o: "owed st i"
  then show "owed st' i \<or> (\<exists>res. st' = on_complete (qp_debounce P) now i res st \<and> final_result res)
      \<or> st' = st\<lparr>in_flight := remove1 i (in_flight st)\<rparr>"
  proof cases
    case q_tick
    with o show ?thesis by simp
  next
    case (q_trigger t)
    with o show ?thesis by (auto simp: owed_def on_trigger_pending)
  next
    case (q_deadline keys window_open)
    with o show ?thesis by (simp add: owed_on_deadline)
  next
    case (q_complete j res)
    show ?thesis
    proof (cases "j = i")
      case True
      show ?thesis
      proof (cases "final_result res")
        case True
        with q_complete \<open>j = i\<close> show ?thesis by blast
      next
        case False
        then obtain e where e: "res = Inl e" "is_retryable e" "\<not> is_conflict e"
          by (auto simp: final_result_def split: sum.splits)
        then have "owed st' i" using q_complete \<open>j = i\<close> by (simp add: owed_def on_complete_def Let_def)
        then show ?thesis by blast
      qed
    next
      case False
      then have "owed st' i" using o q_complete
        by (auto simp: owed_def on_complete_def Let_def clear_all_def split: sum.splits)
      then show ?thesis by blast
    qed
  next
    case (q_panic j)
    show ?thesis
    proof (cases "j = i")
      case False
      with o q_panic show ?thesis by (auto simp: owed_def)
    qed (use q_panic in simp)
  qed
qed

theorem queue_never_loses_work_witness:
  "owed (on_trigger 2000 500 0 (TWrite 7) empty_queue) (trigger_inode (TWrite 7))
   \<and> owed (on_trigger 2000 500 0 (TWrite 7) empty_queue) 7"
  using queue_never_loses_work [of 2000 500 0 "TWrite 7" empty_queue] by (simp add: trigger_inode_def)



text \<open>
  C29: the deadline the loop sleeps on never lies in the past unless an upload is
  ready: with the window snapshot \<open>secs\<close> (zero exactly when the window is open), the
  effective deadline of a pending upload has passed if and only if it may be
  launched now.
\<close>

theorem effective_deadline_matches_readiness:
  "effective_due_at p window now (secs_until_window_opens window now_min now_sec) \<le> now
   \<longleftrightarrow> is_ready now (secs_until_window_opens window now_min now_sec = 0) p"
  by (auto simp: effective_due_at_def is_ready_def secs_until_window_opens_def split: option.splits)

text \<open>
  The loop recognises a write by comparing durations.  When the close debounce
  is configured equal to the write debounce, a close is handled as a write: it
  postpones the deadline of a pending upload to a full window from now instead of
  keeping the earlier one.
\<close>

theorem close_postpones_when_debounces_equal:
  assumes "pending st i = Some p" "due_at p < now + d"
  shows "\<exists>p'. pending (on_trigger d d now (TClose i) st) i = Some p' \<and> due_at p < due_at p' \<and> due_at p' = now + d"
  using assms by (simp add: on_trigger_def trigger_inode_def trigger_window_def)

theorem close_postpones_when_debounces_equal_witness:
  "\<exists>p'. pending (on_trigger 500 500 100 (TClose 7) (on_trigger 500 500 0 (TWrite 7) empty_queue)) 7 = Some p' \<and> due_at p' = 600"
proof -
  have "pending (on_trigger 500 500 0 (TWrite 7) empty_queue) 7 = Some \<lparr> due_at = 500, immediate = False \<rparr>"
    by (simp add: on_trigger_def trigger_inode_def trigger_window_def is_fsync_def empty_queue_def)
  from close_postpones_when_debounces_equal [OF this, of 100 500] show ?thesis by auto
qed

end
