(* ===== verification/Upload_Run.thy ===== *)
theory Upload_Run
  imports Upload_Laws
begin

text \<open>
  The life of a row through one upload attempt: success, a failing backend, a
  vanished cache file.
\<close>

lemma set_status_run:
  assumes "db_wf s" "r \<in> set (file_index s)" "r_inode r = i" "trigger_ok (r\<lparr>r_status := st\<rparr>)"
  shows "set_status i st s = (Inr (), s\<lparr>file_index := update_rows (\<lambda>r. r_inode r = i) (\<lambda>r. r\<lparr>r_status := st\<rparr>) (file_index s)\<rparr>)"
  using update_inode_ok [OF assms(1-3), of "\<lambda>r. r\<lparr>r_status := st\<rparr>"] assms(4)
  by (simp add: set_status_def run_then same_keys_def)

lemma update_row_mem:
  "r \<in> set rows \<Longrightarrow> r_inode r = i \<Longrightarrow> f r \<in> set (update_rows (\<lambda>r. r_inode r = i) f rows)"
  by (force simp: update_rows_def)

lemma file_index_health [simp]:
  "file_index (snd (record_upload_failure m e s)) = file_index s"
  "file_index (snd (record_upload_success m s)) = file_index s"
  by (auto simp: record_upload_failure_def record_upload_success_def exec_health_upsert_def)

text \<open>A row that an upload attempt can work on.\<close>

definition uploadable :: "world \<Rightarrow> file_row \<Rightarrow> path \<Rightarrow> bytes \<Rightarrow> bool" where
  "uploadable w r cp b \<longleftrightarrow> r \<in> set (file_index (wdb w)) \<and> r_kind r = File \<and> r_status r \<noteq> Conflict
     \<and> r_cache_path r = Some cp \<and> disk w cp = Some (Regular b) \<and> \<not> io_fault w cp"

definition uploading_world :: "inode \<Rightarrow> world \<Rightarrow> world" where
  "uploading_world i w = w\<lparr>wdb := (wdb w)\<lparr>file_index :=
     update_rows (\<lambda>r. r_inode r = i) (\<lambda>r. r\<lparr>r_status := Uploading\<rparr>) (file_index (wdb w))\<rparr>\<rparr>"

lemma upload_begin_run:
  assumes wf: "world_wf w" and u: "uploadable w r cp b"
  shows "upload_begin (r_inode r) w = (Inr (Some (cp, r_remote_path r, r_etag r)), uploading_world (r_inode r) w)"
proof -
  have r: "r \<in> set (file_index (wdb w))" "r_kind r = File" "r_status r \<noteq> Conflict" "r_cache_path r = Some cp"
    using u by (auto simp: uploadable_def)
  have "set_status (r_inode r) Uploading (wdb w) = (Inr (), wdb (uploading_world (r_inode r) w))"
    using set_status_run [OF wf r(1) refl, of Uploading] r(4) by (simp add: trigger_ok_def uploading_world_def)
  with get_by_inode_row [OF wf r(1)] u show ?thesis
    by (simp add: upload_begin_def run_bind run_then db_fatal_run r path_exists_def uploadable_def uploading_world_def)
qed

lemma uploading_wf: "world_wf w \<Longrightarrow> uploadable w r cp b \<Longrightarrow> world_wf (uploading_world (r_inode r) w)"
  using keepsD [OF set_status_wf, of "wdb w" "r_inode r" Uploading] set_status_run [of "wdb w" r "r_inode r" Uploading]
  by (auto simp: uploadable_def uploading_world_def trigger_ok_def)

lemma uploading_row:
  "uploadable w r cp b \<Longrightarrow> r\<lparr>r_status := Uploading\<rparr> \<in> set (file_index (wdb (uploading_world (r_inode r) w)))"
  by (auto simp: uploadable_def uploading_world_def intro: update_row_mem)

lemma unique_inode_row:
  "world_wf w \<Longrightarrow> r \<in> set (file_index (wdb w)) \<Longrightarrow> r' \<in> set (file_index (wdb w)) \<Longrightarrow> r_inode r' = r_inode r \<Longrightarrow> r' = r"
  using wf_unique(1) by metis

lemma dirty_after:
  assumes "db_wf s" "r \<in> set (file_index s)" "r_inode r = i" "r_cache_path r = Some cp"
  shows "r\<lparr>r_status := Dirty\<rparr> \<in> set (file_index (snd (set_status i Dirty s)))"
    and "r\<lparr>r_status := Dirty\<rparr> \<in> set (file_index (snd (fail_queue_job_by_inode i msg k s)))"
proof -
  show "r\<lparr>r_status := Dirty\<rparr> \<in> set (file_index (snd (set_status i Dirty s)))"
    using set_status_run [OF assms(1-3), of Dirty] assms by (simp add: trigger_ok_def update_row_mem)
  let ?s = "s\<lparr>sync_queue := map (\<lambda>q. if q_inode q = i then fail_row msg k (clock s) q else q) (sync_queue s)\<rparr>"
  have "db_wf ?s" by (rule queue_map_db_wf [OF assms(1)]) simp
  with set_status_run [of ?s r i Dirty] assms
  have "exec_update (\<lambda>r. r_inode r = i) (\<lambda>r. r\<lparr>r_status := Dirty\<rparr>) ?s
      = (fst (exec_update (\<lambda>r. r_inode r = i) (\<lambda>r. r\<lparr>r_status := Dirty\<rparr>) ?s),
         ?s\<lparr>file_index := update_rows (\<lambda>r. r_inode r = i) (\<lambda>r. r\<lparr>r_status := Dirty\<rparr>) (file_index s)\<rparr>)"
    using update_inode_ok [of ?s r i "\<lambda>r. r\<lparr>r_status := Dirty\<rparr>"] by (simp add: same_keys_def trigger_ok_def)
  then show "r\<lparr>r_status := Dirty\<rparr> \<in> set (file_index (snd (fail_queue_job_by_inode i msg k s)))"
    using assms(2,3) by (auto simp: fail_queue_job_by_inode_def run_then update_row_mem split: prod.splits sum.splits)
qed



section \<open>Success\<close>

lemma capture_file_index:
  "keeps (\<lambda>w. Q (file_index (wdb w))) (capture sha d i m p sz et src mx n)"
proof -
  have q: "keeps (\<lambda>s. Q (file_index s)) (insert_version_history i m h sz et src)"
    "keeps (\<lambda>s. Q (file_index s)) (prune_version_history i n)" for h
    by (simp_all add: keeps_def insert_version_history_def prune_eval pruned_db_def)
  have s: "keeps (\<lambda>w. Q (file_index (wdb w))) (store_base sha d p)"
    unfolding keeps_def using store_base_cases [of sha d p] by (metis snd_conv world.simps(1) world.ext_inject world.surjective world.update_convs(3))
  have o: "keeps (\<lambda>w. Q (file_index (wdb w))) (remove_object d h)" for h
    using remove_object_frame by (simp add: keeps_def)
  show ?thesis unfolding capture_def by (intro keeps_rules s o q keeps_db_op)
qed

definition uploaded_row :: "int \<Rightarrow> remote_metadata \<Rightarrow> file_row \<Rightarrow> file_row" where
  "uploaded_row now meta r = r\<lparr>r_status := Cached, r_cache_size := Some (rm_size meta), r_etag := rm_etag meta,
     r_mtime := to_unix (rm_mtime meta), r_size := rm_size meta, r_cache_mtime := Some now\<rparr>"

lemma set_uploaded_run:
  assumes "db_wf s" "r \<in> set (file_index s)" "r_inode r = i" "r_cache_path r \<noteq> None"
  obtains l where "set_uploaded i (rm_size meta) (rm_etag meta) (rm_mtime meta) (rm_size meta) s =
    (Inr (), s\<lparr>file_index := update_rows (\<lambda>r. r_inode r = i) (uploaded_row (clock s) meta) (file_index s), cache_lru := l\<rparr>)"
proof -
  let ?f = "uploaded_row (clock s) meta"
  let ?s1 = "s\<lparr>file_index := update_rows (\<lambda>r. r_inode r = i) ?f (file_index s)\<rparr>"
  have upd: "exec_update (\<lambda>r. r_inode r = i) ?f s = (Inr (length (filter (\<lambda>r. r_inode r = i) (file_index s))), ?s1)"
    by (rule update_inode_ok [OF assms(1-3)]) (use assms(4) in \<open>simp_all add: uploaded_row_def same_keys_def trigger_ok_def\<close>)
  have fr: "?f r \<in> set (file_index ?s1)" using assms by (simp add: update_row_mem)
  have "i = r_inode (?f r)" using assms(3) by (simp add: uploaded_row_def)
  with fr have "i \<in> inodes ?s1" by (rule rev_image_eqI)
  then obtain l where "touch_lru i ?s1 = (Inr (), ?s1\<lparr>cache_lru := l\<rparr>)" using touch_lru_ok by blast
  with upd that [of l] show ?thesis
    by (simp add: set_uploaded_def run_then uploaded_row_def [abs_def])
qed

lemma finish_tail_file_index:
  "keeps (\<lambda>w. Q (file_index (wdb w)))
     (thenS (attempt (capture sha d i m cp sz et AfterUpload mx n))
       (bindS (query (is_text_mergeable cp sz mx exts)) (\<lambda>mergeable.
          if mergeable then
            bindS (attempt (store_base sha d cp)) (\<lambda>r. case r of
               Inr hash \<Rightarrow> thenS (attempt (db_op (set_base_hash i m hash 0))) (ret ())
             | Inl _ \<Rightarrow> ret ())
          else ret ())) :: unit upl)"
proof -
  have q: "keeps (\<lambda>s. Q (file_index s)) (set_base_hash i m h 0)" for h
    by (simp add: keeps_def set_base_hash_def Let_def)
  have s: "keeps (\<lambda>w. Q (file_index (wdb w))) (store_base sha d cp)"
    unfolding keeps_def using store_base_cases [of sha d cp] by (metis snd_conv world.simps(1) world.ext_inject world.surjective world.update_convs(3))
  show ?thesis by (intro keeps_rules capture_file_index s q keeps_db_op)
qed

lemma finish_tail_ok:
  "fst ((thenS (attempt (capture sha d i m cp sz et AfterUpload mx n))
       (bindS (query (is_text_mergeable cp sz mx exts)) (\<lambda>mergeable.
          if mergeable then
            bindS (attempt (store_base sha d cp)) (\<lambda>r. case r of
               Inr hash \<Rightarrow> thenS (attempt (db_op (set_base_hash i m hash 0))) (ret ())
             | Inl _ \<Rightarrow> ret ())
          else ret ())) :: unit upl) w) = Inr ()"
  by (simp add: run_then run_bind split: sum.split)

text \<open>
  C31: when the backend accepts the upload, the attempt succeeds whatever happens to
  the version and merge-base snapshots; the row is then \<open>cached\<close> with the etag and
  size the backend reported and still names its cache file.
\<close>

theorem successful_upload_marks_cached:
  assumes wf: "world_wf w" and u: "uploadable w r cp b"
    and ok: "\<And>w. upload cp (r_remote_path r) (r_etag r) w = Inr meta"
  shows "\<exists>w'. run_upload upload sha d mx n exts m (r_inode r) w = (Inr (), w')
     \<and> (\<exists>r'\<in>set (file_index (wdb w')). r_inode r' = r_inode r \<and> r_status r' = Cached
           \<and> r_etag r' = rm_etag meta \<and> r_size r' = rm_size meta \<and> r_cache_path r' = Some cp)"
proof -
  let ?i = "r_inode r" and ?w1 = "uploading_world (r_inode r) w"
  let ?r1 = "r\<lparr>r_status := Uploading\<rparr>"
  let ?tail = "thenS (attempt (capture sha d ?i m cp (rm_size meta) (rm_etag meta) AfterUpload mx n))
       (bindS (query (is_text_mergeable cp (rm_size meta) mx exts)) (\<lambda>mergeable.
          if mergeable then
            bindS (attempt (store_base sha d cp)) (\<lambda>r. case r of
               Inr hash \<Rightarrow> thenS (attempt (db_op (set_base_hash ?i m hash 0))) (ret ())
             | Inl _ \<Rightarrow> ret ())
          else ret ())) :: unit upl"
  have row: "?r1 \<in> set (file_index (wdb ?w1))" and cp: "r_cache_path ?r1 \<noteq> None"
    using uploading_row [OF u] u by (auto simp: uploadable_def)
  obtain l where su: "set_uploaded ?i (rm_size meta) (rm_etag meta) (rm_mtime meta) (rm_size meta) (wdb ?w1) =
    (Inr (), (wdb ?w1)\<lparr>file_index := update_rows (\<lambda>r. r_inode r = ?i) (uploaded_row (clock (wdb ?w1)) meta) (file_index (wdb ?w1)), cache_lru := l\<rparr>)"
    using set_uploaded_run [OF uploading_wf [OF wf u] row _ cp] by auto
  define w2 where "w2 = ?w1\<lparr>wdb := (wdb ?w1)\<lparr>file_index := update_rows (\<lambda>r. r_inode r = ?i) (uploaded_row (clock (wdb ?w1)) meta) (file_index (wdb ?w1)), cache_lru := l\<rparr>\<rparr>"
  have run: "run_upload upload sha d mx n exts m ?i w = ?tail w2"
    by (simp add: run_upload_def run_bind upload_begin_run [OF wf u] ok upload_finish_def run_then [of "db_fatal _"] db_fatal_run su w2_def)
  have "uploaded_row (clock (wdb ?w1)) meta ?r1 \<in> set (file_index (wdb w2))"
    using row by (simp add: w2_def update_row_mem)
  then have "\<exists>r'\<in>set (file_index (wdb w2)). r_inode r' = ?i \<and> r_status r' = Cached
           \<and> r_etag r' = rm_etag meta \<and> r_size r' = rm_size meta \<and> r_cache_path r' = Some cp"
    by (rule rev_bexI) (use u in \<open>simp add: uploaded_row_def uploadable_def\<close>)
  then have "\<exists>r'\<in>set (file_index (wdb (snd (?tail w2)))). r_inode r' = ?i \<and> r_status r' = Cached
           \<and> r_etag r' = rm_etag meta \<and> r_size r' = rm_size meta \<and> r_cache_path r' = Some cp"
    by (rule keepsD [OF finish_tail_file_index])
  then show ?thesis using run finish_tail_ok by (metis prod.collapse)
qed

definition sample_meta :: remote_metadata where
  "sample_meta = \<lparr> rm_path = ''d/b'', rm_name = ''b'', rm_size = 1, rm_mtime = 0, rm_is_dir = False,
     rm_etag = Some ''new'', rm_checksum = None, rm_mime_type = None, rm_item_id = None \<rparr>"

theorem successful_upload_marks_cached_witness:
  "\<exists>w'. run_upload (\<lambda>_ _ _ _. Inr sample_meta) (\<lambda>_. ''abcd'') ''/c/.bases'' 100 5 [] 1 4 sample_world = (Inr (), w')
     \<and> (\<exists>r'\<in>set (file_index (wdb w')). r_inode r' = 4 \<and> r_status r' = Cached \<and> r_etag r' = Some ''new'')"
proof -
  let ?r = "sample_row 4 (Some 2) ''b'' ''d/b'' File Dirty (Some ''/c/d/b'') None"
  have wf: "world_wf sample_world" using sample_db_wf by (simp add: sample_world_def)
  have u: "uploadable sample_world ?r ''/c/d/b'' [3]"
    by (simp add: uploadable_def sample_world_def sample_defs)
  have "r_inode ?r = 4" by (simp add: sample_row_def)
  with successful_upload_marks_cached [OF wf u, of "\<lambda>_ _ _ _. Inr sample_meta" sample_meta "\<lambda>_. ''abcd''" "''/c/.bases''" 100 5 "[]" 1]
  show ?thesis by (auto simp: sample_meta_def)
qed

text \<open>
  When the cache file of a dirty row has vanished, the attempt does not call the
  backend; it ends without an error, the row is \<open>remote\<close> again without a cache path,
  and every other row is unchanged.
\<close>

theorem vanished_cache_file_reverts_to_remote:
  assumes wf: "world_wf w" and r: "r \<in> set (file_index (wdb w))" "r_kind r = File" "unsynced (r_status r)"
    "r_cache_path r = Some cp" and gone: "\<not> path_exists cp w"
  shows "\<exists>w'. run_upload upload sha d mx n exts m (r_inode r) w = (Inr (), w')
     \<and> file_index (wdb w') = update_rows (\<lambda>x. x = r) detach_cache (file_index (wdb w)) \<and> disk w' = disk w"
proof -
  let ?i = "r_inode r"
  let ?p = "\<lambda>x. r_inode x = ?i \<and> r_kind x = File \<and> unsynced (r_status x) \<and> r_cache_path x = Some cp"
  have eq: "?p x \<longleftrightarrow> x = r" if "x \<in> set (file_index (wdb w))" for x
    using unique_inode_row [OF wf r(1) that] r by auto
  then have rows: "update_rows ?p detach_cache (file_index (wdb w)) = update_rows (\<lambda>x. x = r) detach_cache (file_index (wdb w))"
    unfolding update_rows_def by (intro map_cong) (auto simp: eq)
  have "0 < length (filter ?p (file_index (wdb w)))" using r by (auto simp: filter_empty_conv)
  then have "revert_dirty_with_missing_cache ?i cp (wdb w) = (Inr True,
      (wdb w)\<lparr>file_index := update_rows ?p detach_cache (file_index (wdb w)), cache_lru := kt_remove l_inode ?i (cache_lru (wdb w))\<rparr>)"
    by (simp add: revert_dirty_with_missing_cache_def run_bind run_then detach_run [OF wf] exec_lru_delete_run)
  moreover have "r_status r \<noteq> Conflict" using r(3) by auto
  ultimately show ?thesis
    using get_by_inode_row [OF wf r(1)] gone r
    by (simp add: run_upload_def upload_begin_def run_bind db_fatal_run rows)
qed

theorem vanished_cache_file_reverts_to_remote_witness:
  "\<exists>w'. run_upload (\<lambda>_ _ _ _. Inl NotSupported) (\<lambda>_. ''abcd'') ''/c/.bases'' 100 5 [] 1 4 (sample_world\<lparr>disk := Map.empty\<rparr>) = (Inr (), w')"
proof -
  let ?r = "sample_row 4 (Some 2) ''b'' ''d/b'' File Dirty (Some ''/c/d/b'') None"
  let ?w = "sample_world\<lparr>disk := Map.empty\<rparr>"
  have wf: "world_wf ?w" using sample_db_wf by (simp add: sample_world_def)
  have "?r \<in> set (file_index (wdb ?w))" "r_kind ?r = File" "unsynced (r_status ?r)" "r_cache_path ?r = Some ''/c/d/b''"
    "\<not> path_exists ''/c/d/b'' ?w" "r_inode ?r = 4"
    by (simp_all add: sample_world_def sample_defs path_exists_def)
  with vanished_cache_file_reverts_to_remote [OF wf, of ?r "''/c/d/b''"] show ?thesis by metis
qed

end
