(* ===== verification/Header_Cache.thy ===== *)
theory Header_Cache
  imports World
begin

text \<open>
  The per-inode header cache (\<open>stratosync-daemon/src/fuse/header_cache.rs\<close>): the
  first bytes of a large file under \<open>.meta/headers/<inode>\<close> of the cache
  directory, written through a temporary file and a rename, read for short
  ranges, and dropped when the remote content changes.
\<close>

definition headers_dir :: "path \<Rightarrow> path" where
  "headers_dir cache_dir = cache_dir @ ''/.meta/headers''"

definition header_path :: "path \<Rightarrow> inode \<Rightarrow> path" where
  "header_path cache_dir i = headers_dir cache_dir @ ''/'' @ nat_to_string i"

text \<open>\<open>u64::saturating_add\<close>.\<close>

definition saturating_add :: "nat \<Rightarrow> nat \<Rightarrow> nat" where
  "saturating_add a b = min (a + b) (2 ^ 64 - 1)"

definition read_header :: "path \<Rightarrow> inode \<Rightarrow> nat \<Rightarrow> nat \<Rightarrow> bytes option app" where
  "read_header cache_dir i offset len =
     (if len = 0 then ret (Some [])
      else bindS (attempt (read_file (header_path cache_dir i))) (\<lambda>r.
        case r of
          Inl e \<Rightarrow> if e = IoNotFound then ret None else raise e
        | Inr b \<Rightarrow> if saturating_add offset len > length b then ret None
                   else ret (Some (take len (drop offset b)))))"

text \<open>\<open>nanos\<close> is the hexadecimal text of the current sub-second nanoseconds.\<close>

definition write_header :: "string \<Rightarrow> path \<Rightarrow> inode \<Rightarrow> bytes \<Rightarrow> unit app" where
  "write_header nanos cache_dir i data =
     (let tmp = header_path cache_dir i @ ''.tmp.'' @ nanos
      in thenS (create_dir_all (headers_dir cache_dir))
          (thenS (write_file tmp data)
             (rename_file tmp (header_path cache_dir i))))"

definition invalidate_header :: "path \<Rightarrow> inode \<Rightarrow> unit app" where
  "invalidate_header cache_dir i = thenS (attempt (remove_file (header_path cache_dir i))) (ret ())"

section \<open>Laws\<close>

lemma invalidate_header_run:
  "invalidate_header c i w = (Inr (), snd (remove_file (header_path c i) w))"
  by (simp add: invalidate_header_def run_then)

lemma keeps_invalidate_header [keeps_rules]: "keeps (\<lambda>w. I (wdb w)) (invalidate_header c i)"
  unfolding invalidate_header_def by (intro keeps_rules)

lemma nat_to_string_inj: "nat_to_string a = nat_to_string b \<Longrightarrow> a = b"
  by (metis digits_val_to_string)

lemma header_path_inj [simp]: "header_path c i = header_path c j \<longleftrightarrow> i = j"
  by (auto simp: header_path_def dest: nat_to_string_inj)

lemma header_path_not_dir: "header_path c i \<noteq> headers_dir c"
  by (simp add: header_path_def)

text \<open>A digits-only name differs from a name with the temporary suffix, whatever the inodes.\<close>

lemma header_path_not_tmp: "header_path c j \<noteq> header_path c i @ ''.tmp.'' @ x"
proof
  assume "header_path c j = header_path c i @ ''.tmp.'' @ x"
  then have "CHR ''.'' \<in> set (nat_to_string j)" by (simp add: header_path_def)
  then show False using nat_to_string_digits by (force simp: is_digit_def)
qed

lemma write_header_run:
  assumes "\<forall>p. \<not> io_fault w p" "disk w (headers_dir c) \<in> {None, Some Dir}"
    and "disk w (header_path c i) \<noteq> Some Dir" "disk w (header_path c i @ ''.tmp.'' @ x) \<noteq> Some Dir"
  shows "write_header x c i data w = (Inr (), w\<lparr>disk := (disk w)(headers_dir c \<mapsto> Dir,
           header_path c i @ ''.tmp.'' @ x := None, header_path c i \<mapsto> Regular data)\<rparr>)"
proof -
  have cd: "create_dir_all (headers_dir c) w = (Inr (), w\<lparr>disk := (disk w)(headers_dir c \<mapsto> Dir)\<rparr>)"
    using assms(1,2) by (auto simp: create_dir_all_def map_upd_triv fun_upd_idem)
  have ne: "header_path c i @ ''.tmp.'' @ x \<noteq> headers_dir c" by (simp add: header_path_def)
  show ?thesis
    using assms ne header_path_not_dir [of c i] header_path_not_tmp [of c i i x]
    by (simp add: write_header_def Let_def run_then cd write_file_def rename_file_def fun_upd_twist)
qed

lemma read_header_run:
  assumes "\<not> io_fault w (header_path c i)" "disk w (header_path c i) = Some (Regular b)"
  shows "read_header c i off len w =
    (Inr (if len = 0 then Some [] else if saturating_add off len > length b then None
          else Some (take len (drop off b))), w)"
  using assms by (simp add: read_header_def run_bind read_file_def)

text \<open>
  On a disk without faults, a header that was written is read back exactly on
  every range it covers, a range past its end misses, the headers of other
  inodes and the database are untouched, and after an invalidation every
  non-empty read of that inode misses.
\<close>

theorem header_round_trip:
  assumes "\<forall>p. \<not> io_fault w p" "disk w (headers_dir c) \<in> {None, Some Dir}"
    and "disk w (header_path c i) \<noteq> Some Dir" "disk w (header_path c i @ ''.tmp.'' @ x) \<noteq> Some Dir"
    and "0 < len" "off < 2 ^ 64" "len < 2 ^ 64" "length data < 2 ^ 64 - 1"
  shows "let w1 = state_after (write_header x c i data) w;
             w2 = state_after (invalidate_header c i) w1
         in result_of (write_header x c i data) w = Inr ()
          \<and> read_header c i off len w1 =
              (Inr (if off + len \<le> length data then Some (take len (drop off data)) else None), w1)
          \<and> (\<forall>j. j \<noteq> i \<longrightarrow> disk w2 (header_path c j) = disk w (header_path c j))
          \<and> wdb w2 = wdb w
          \<and> read_header c i off len w2 = (Inr None, w2)"
proof -
  note wr = write_header_run [OF assms(1-4), of data]
  define w1 where "w1 = state_after (write_header x c i data) w"
  have d1: "disk w1 = (disk w)(headers_dir c \<mapsto> Dir, header_path c i @ ''.tmp.'' @ x := None,
      header_path c i \<mapsto> Regular data)" and f1: "\<forall>p. \<not> io_fault w1 p" and b1: "wdb w1 = wdb w"
    using assms(1) by (simp_all add: w1_def wr)
  have rd: "read_header c i off len w1 =
      (Inr (if off + len \<le> length data then Some (take len (drop off data)) else None), w1)"
    using read_header_run [of w1 c i data off len] f1 d1 assms(5-8) by (auto simp: saturating_add_def)
  define w2 where "w2 = state_after (invalidate_header c i) w1"
  have w2: "w2 = w1\<lparr>disk := (disk w1)(header_path c i := None)\<rparr>"
    using f1 d1 by (simp add: w2_def invalidate_header_run remove_file_def)
  have frame: "\<forall>j. j \<noteq> i \<longrightarrow> disk w2 (header_path c j) = disk w (header_path c j)"
    using header_path_not_dir header_path_not_tmp by (auto simp: w2 d1)
  have miss: "read_header c i off len w2 = (Inr None, w2)"
    using f1 assms(5) by (simp add: w2 read_header_def run_bind read_file_def)
  show ?thesis
    unfolding Let_def w1_def [symmetric] w2_def [symmetric]
    using wr rd frame miss b1 w2 by simp
qed

theorem header_round_trip_witness:
  "read_header ''/c'' 7 1 2 (state_after (write_header ''ff'' ''/c'' 7 [1, 2, 3]) sample_world)
     = (Inr (Some [2, 3]), state_after (write_header ''ff'' ''/c'' 7 [1, 2, 3]) sample_world)"
proof -
  have ne: "disk sample_world p = None" if "hd (drop 3 p) = CHR ''.''" for p
    using that by (auto simp: sample_world_def)
  show ?thesis
    using header_round_trip [of sample_world "''/c''" 7 "''ff''" 2 1 "[1, 2, 3]"]
      ne [of "headers_dir ''/c''"] ne [of "header_path ''/c'' 7"] ne [of "header_path ''/c'' 7 @ ''.tmp.'' @ ''ff''"]
    by (simp add: headers_dir_def header_path_def sample_world_def Let_def)
qed

end
