(* ===== verification/Poller.thy ===== *)
theory Poller
  imports Base_Store Header_Cache
begin

text \<open>
  The remote poller (\<open>stratosync-daemon/src/sync/poller.rs\<close>): the full-listing
  poll with its generation sweep, the delta poll over change tokens, and the
  interval state of the poll loop.  The backend, the ignore patterns and
  SHA-256 are code outside the sources: the record \<open>poller\<close> carries what a
  poll gets from them.  Text that \<open>anyhow\<close> puts around a backend error is not
  kept; log lines and counters that only feed them are left out.
\<close>

record poller =
  p_mount_id      :: mount_id
  p_list          :: "path \<Rightarrow> sync_error + remote_metadata list"
  p_start_token   :: "sync_error + string"
  p_changes_since :: "string \<Rightarrow> sync_error + (remote_change list \<times> string)"
  p_ignore        :: "path \<Rightarrow> bool"
  p_sha           :: "bytes \<Rightarrow> string"
  p_base_dir      :: path
  p_version_max_size  :: nat
  p_version_retention :: nat
  p_cache_dir     :: path

section \<open>Filters\<close>

definition unsafe_entry :: "remote_metadata \<Rightarrow> bool" where
  "unsafe_entry e \<longleftrightarrow> contains_str (rm_path e) ''..'' \<or> CHR 0x00 \<in> set (rm_path e) \<or> CHR ''/'' \<in> set (rm_name e)"

definition tombstoned :: "path list \<Rightarrow> path \<Rightarrow> bool" where
  "tombstoned ts p \<longleftrightarrow> list_ex (\<lambda>t. p = t \<or> prefix (t @ ''/'') p) ts"

datatype verdict = Skipped | Unchanged inode | ToUpsert

definition classify :: "poller \<Rightarrow> path list \<Rightarrow> (path \<rightharpoonup> remote_snapshot) \<Rightarrow> remote_metadata \<Rightarrow> verdict" where
  "classify P ts snap e =
     (if unsafe_entry e then Skipped
      else if prefix CONFLICT_PREFIX (rm_path e) then Skipped
      else if tombstoned ts (rm_path e) then Skipped
      else if p_ignore P (rm_path e)
      then (case snap (rm_path e) of Some sn \<Rightarrow> Unchanged (sn_inode sn) | None \<Rightarrow> Skipped)
      else (case snap (rm_path e) of
              Some sn \<Rightarrow> if sn_etag sn = rm_etag e \<and> sn_size sn = rm_size e
                         then Unchanged (sn_inode sn) else ToUpsert
            | None \<Rightarrow> ToUpsert))"

definition unchanged_of :: "verdict \<Rightarrow> inode option" where
  "unchanged_of v = (case v of Unchanged i \<Rightarrow> Some i | _ \<Rightarrow> None)"

section \<open>Shared steps\<close>

text \<open>The version snapshot of an entry that a remote change is about to replace.\<close>

definition snapshot_version :: "poller \<Rightarrow> (path \<rightharpoonup> remote_snapshot) \<Rightarrow> remote_metadata \<Rightarrow> unit app" where
  "snapshot_version P snap e =
     (case snap (rm_path e) of
        None \<Rightarrow> ret ()
      | Some sn \<Rightarrow>
          if sn_status sn \<noteq> Cached then ret ()
          else bindS (attempt (db_op (get_by_inode (sn_inode sn)))) (\<lambda>r. case r of
            Inr (Some ent) \<Rightarrow> (case fe_cache_path ent of
                None \<Rightarrow> ret ()
              | Some cp \<Rightarrow> thenS (attempt (capture (p_sha P) (p_base_dir P) (sn_inode sn) (p_mount_id P) cp
                    (fe_size ent) (fe_etag ent) BeforePoll (p_version_max_size P) (p_version_retention P)))
                  (ret ()))
          | _ \<Rightarrow> ret ()))"

definition parent_inode :: "(path \<rightharpoonup> inode) \<Rightarrow> path \<Rightarrow> inode" where
  "parent_inode p2i p =
     (case rsplit_once (CHR ''/'') p of
        Some (parent_path, _) \<Rightarrow> (case p2i parent_path of Some i \<Rightarrow> i | None \<Rightarrow> FUSE_ROOT_INODE)
      | None \<Rightarrow> FUSE_ROOT_INODE)"

definition upsert_meta :: "poller \<Rightarrow> nat \<Rightarrow> inode \<Rightarrow> remote_metadata \<Rightarrow> inode dbm" where
  "upsert_meta P gen parent e = upsert_remote_file_by_id_or_path (p_mount_id P) parent (rm_name e)
     (rm_path e) (if rm_is_dir e then Directory else File) (rm_size e) (rm_mtime e) (rm_etag e) (rm_item_id e) gen"

definition upsert_entry :: "poller \<Rightarrow> nat \<Rightarrow> (path \<rightharpoonup> inode) \<Rightarrow> remote_metadata \<Rightarrow> (path \<rightharpoonup> inode) app" where
  "upsert_entry P gen p2i e =
     bindS (db_op (upsert_meta P gen (parent_inode p2i (rm_path e)) e))
       (\<lambda>i. thenS (invalidate_header (p_cache_dir P) i) (ret (p2i(rm_path e \<mapsto> i))))"

fun upsert_entries :: "poller \<Rightarrow> nat \<Rightarrow> (path \<rightharpoonup> inode) \<Rightarrow> remote_metadata list \<Rightarrow> (path \<rightharpoonup> inode) app" where
  "upsert_entries P gen p2i [] = ret p2i"
| "upsert_entries P gen p2i (e # es) = bindS (upsert_entry P gen p2i e) (\<lambda>p2i'. upsert_entries P gen p2i' es)"

definition forget_cache :: "poller \<Rightarrow> inode \<Rightarrow> path option \<Rightarrow> unit app" where
  "forget_cache P i cp = thenS
     (case cp of None \<Rightarrow> ret () | Some c \<Rightarrow> thenS (attempt (remove_file c)) (ret ()))
     (invalidate_header (p_cache_dir P) i)"

definition lift_sync :: "sync_error + 'a \<Rightarrow> 'a app" where
  "lift_sync r = (case r of Inl e \<Rightarrow> raise (SyncErr e) | Inr a \<Rightarrow> ret a)"

definition load_tombstones :: "mount_id \<Rightarrow> path list app" where
  "load_tombstones m = bindS (attempt (db_op (active_tombstones m)))
     (\<lambda>r. ret (case r of Inr ts \<Rightarrow> ts | Inl _ \<Rightarrow> []))"

section \<open>The full poll\<close>

definition MAX_POLL_ENTRIES :: nat where
  "MAX_POLL_ENTRIES = 500000"

definition apply_listing ::
  "poller \<Rightarrow> nat \<Rightarrow> (path \<rightharpoonup> remote_snapshot) \<Rightarrow> remote_metadata list \<Rightarrow> inode list \<Rightarrow> unit app" where
  "apply_listing P gen snap to_upsert unchanged =
     thenS (if p_version_retention P > 0 then each (snapshot_version P snap) to_upsert else ret ())
      (thenS (upsert_entries P gen (map_option sn_inode \<circ> snap) (sort_key (\<lambda>e. length (rm_path e)) to_upsert))
       (thenS (db_op (batch_mark_generation unchanged gen))
        (bindS (db_op (delete_stale_entries (p_mount_id P) gen)) (\<lambda>deleted.
           thenS (each (\<lambda>(i, _, cp). forget_cache P i cp) deleted)
            (thenS (db_op (set_poll_generation (p_mount_id P) gen))
             (thenS (attempt (db_op cleanup_expired_tombstones))
              (thenS (attempt (db_op (batch_mark_dirs_listed (p_mount_id P))))
                 (ret ()))))))))"

definition poll_once :: "poller \<Rightarrow> unit app" where
  "poll_once P =
     bindS (lift_sync (p_list P ''/'')) (\<lambda>remote_files.
       if length remote_files > MAX_POLL_ENTRIES then raise (Bail ''remote listing too large'')
       else bindS (db_op (snapshot_remote_index (p_mount_id P))) (\<lambda>snap.
            bindS (db_op (get_poll_generation (p_mount_id P))) (\<lambda>g.
            bindS (load_tombstones (p_mount_id P)) (\<lambda>ts.
              apply_listing P (g + 1) snap
                (filter (\<lambda>e. classify P ts snap e = ToUpsert) remote_files)
                (List.map_filter (\<lambda>e. unchanged_of (classify P ts snap e)) remote_files)))))"

section \<open>The delta poll\<close>

text \<open>The filters of the delta poll, in its own order.\<close>

definition delta_skips :: "poller \<Rightarrow> path list \<Rightarrow> remote_metadata \<Rightarrow> bool" where
  "delta_skips P ts e \<longleftrightarrow> prefix CONFLICT_PREFIX (rm_path e) \<or> tombstoned ts (rm_path e) \<or> unsafe_entry e
     \<or> p_ignore P (rm_path e)"

definition delta_upsert ::
  "poller \<Rightarrow> path list \<Rightarrow> (path \<rightharpoonup> remote_snapshot) \<Rightarrow> (path \<rightharpoonup> inode) \<Rightarrow> remote_metadata \<Rightarrow> (path \<rightharpoonup> inode) app" where
  "delta_upsert P ts snap p2i e =
     (if delta_skips P ts e then ret p2i
      else thenS (if p_version_retention P > 0 then snapshot_version P snap e else ret ())
             (upsert_entry P 0 p2i e))"

definition delta_delete :: "poller \<Rightarrow> path \<Rightarrow> string option \<Rightarrow> unit app" where
  "delta_delete P p item =
     bindS (case item of
        Some i \<Rightarrow> bindS (db_op (delete_remote_entry_by_item_id (p_mount_id P) i)) (\<lambda>by_id.
          if by_id \<noteq> None then ret by_id else db_op (delete_remote_entry_by_path (p_mount_id P) p))
      | None \<Rightarrow> db_op (delete_remote_entry_by_path (p_mount_id P) p))
     (\<lambda>r. case r of None \<Rightarrow> ret () | Some (i, cp) \<Rightarrow> forget_cache P i cp)"

fun apply_changes ::
  "poller \<Rightarrow> path list \<Rightarrow> (path \<rightharpoonup> remote_snapshot) \<Rightarrow> (path \<rightharpoonup> inode) \<Rightarrow> remote_change list \<Rightarrow> unit app" where
  "apply_changes P ts snap p2i [] = ret ()"
| "apply_changes P ts snap p2i (c # cs) =
     (case c of
        Added e \<Rightarrow> bindS (delta_upsert P ts snap p2i e) (\<lambda>p2i'. apply_changes P ts snap p2i' cs)
      | Modified e _ \<Rightarrow> bindS (delta_upsert P ts snap p2i e) (\<lambda>p2i'. apply_changes P ts snap p2i' cs)
      | Deleted p item \<Rightarrow> thenS (delta_delete P p item) (apply_changes P ts snap p2i cs))"

definition poll_delta_changes :: "poller \<Rightarrow> remote_change list \<Rightarrow> string \<Rightarrow> unit app" where
  "poll_delta_changes P changes next_token =
     (if changes = [] then db_op (set_change_token (p_mount_id P) next_token)
      else bindS (load_tombstones (p_mount_id P)) (\<lambda>ts.
           bindS (db_op (snapshot_remote_index (p_mount_id P))) (\<lambda>snap.
             thenS (apply_changes P ts snap (map_option sn_inode \<circ> snap) changes)
              (thenS (db_op (set_change_token (p_mount_id P) next_token))
                (thenS (attempt (db_op cleanup_expired_tombstones)) (ret ()))))))"

text \<open>\<open>snap.len()\<close>: the number of distinct paths of the mount.\<close>

definition snapshot_len :: "mount_id \<Rightarrow> db \<Rightarrow> nat" where
  "snapshot_len m s = length (remdups (map r_remote_path (filter (\<lambda>r. r_mount_id r = m) (file_index s))))"

definition poll_delta_initial :: "poller \<Rightarrow> unit app" where
  "poll_delta_initial P =
     bindS (db_op (query (snapshot_len (p_mount_id P)))) (\<lambda>n.
       thenS (if n \<le> 1 then thenS (attempt (poll_once P)) (ret ()) else ret ())
        (bindS (lift_sync (p_start_token P)) (\<lambda>start. db_op (set_change_token (p_mount_id P) start))))"

definition poll_delta_expired :: "poller \<Rightarrow> unit app" where
  "poll_delta_expired P =
     thenS (db_op (clear_change_token (p_mount_id P)))
      (thenS (poll_once P)
       (bindS (lift_sync (p_start_token P)) (\<lambda>start. db_op (set_change_token (p_mount_id P) start))))"

definition poll_once_delta :: "poller \<Rightarrow> unit app" where
  "poll_once_delta P =
     bindS (db_op (get_change_token (p_mount_id P))) (\<lambda>token. case token of
        None \<Rightarrow> poll_delta_initial P
      | Some t \<Rightarrow> (case p_changes_since P t of
            Inr (changes, next_token) \<Rightarrow> poll_delta_changes P changes next_token
          | Inl TokenExpired \<Rightarrow> poll_delta_expired P
          | Inl e \<Rightarrow> raise (SyncErr e)))"

section \<open>The poll loop\<close>

record poller_status =
  ps_mode                  :: string
  ps_last_poll_unix        :: "int option"
  ps_next_poll_unix        :: "int option"
  ps_consecutive_failures  :: nat
  ps_current_interval_secs :: nat
  ps_last_error            :: "string option"

definition new_status :: "bool \<Rightarrow> nat \<Rightarrow> poller_status" where
  "new_status delta interval =
     \<lparr> ps_mode = (if delta then ''delta'' else ''full-listing''), ps_last_poll_unix = None, ps_next_poll_unix = None,
       ps_consecutive_failures = 0, ps_current_interval_secs = interval, ps_last_error = None \<rparr>"

definition update_state :: "int \<Rightarrow> bool \<Rightarrow> string option \<Rightarrow> nat \<Rightarrow> nat \<Rightarrow> poller_status \<Rightarrow> poller_status" where
  "update_state now success error interval failures st = st\<lparr>
     ps_last_poll_unix := Some now, ps_next_poll_unix := Some (now + int interval),
     ps_consecutive_failures := failures, ps_current_interval_secs := interval,
     ps_last_error := (if success then None else error) \<rparr>"

text \<open>
  The locals \<open>current_interval\<close> (seconds) and \<open>consecutive_failures\<close> of \<open>run\<close>,
  and their update after one poll; the outcome is \<open>Inl\<close> the error text.
\<close>

type_synonym loop_vars = "nat \<times> nat"

definition after_poll :: "nat \<Rightarrow> string + unit \<Rightarrow> loop_vars \<Rightarrow> loop_vars" where
  "after_poll base_interval result v =
     (case v of (current, failures) \<Rightarrow>
       (case result of
          Inr _ \<Rightarrow> if failures > 0 then (base_interval, 0) else (current, failures)
        | Inl _ \<Rightarrow>
            let failures' = failures + 1
            in if failures' \<ge> 10 then (current, failures')
               else if failures' \<ge> 3 then (min (current * 2) 600, failures')
               else (current, failures')))"

definition run_iteration :: "nat \<Rightarrow> int \<Rightarrow> string + unit \<Rightarrow> loop_vars \<times> poller_status \<Rightarrow> loop_vars \<times> poller_status" where
  "run_iteration base_interval now result s =
     (case s of (v, st) \<Rightarrow>
        let v' = after_poll base_interval result v
        in (v', case result of
                  Inr _ \<Rightarrow> update_state now True None (fst v') (snd v') st
                | Inl e \<Rightarrow> update_state now False (Some e) (fst v') (snd v') st))"

text \<open>A run of the loop over the outcomes of its polls, each with the time at which it ended.\<close>

definition run_loop :: "nat \<Rightarrow> (int \<times> (string + unit)) list \<Rightarrow> loop_vars \<times> poller_status \<Rightarrow> loop_vars \<times> poller_status" where
  "run_loop base_interval outcomes s = fold (\<lambda>(now, r). run_iteration base_interval now r) outcomes s"

end
