(* ===== verification/Poller_Laws.thy ===== *)
theory Poller_Laws
  imports Poller
begin

text \<open>
  What a poll guarantees.  Invariants on the rows of \<open>file_index\<close> are carried
  through the phases of a poll by \<open>apply_listing_keeps\<close> and
  \<open>apply_changes_keeps\<close>; the properties instantiate them.
\<close>

section \<open>Row invariants through the phases of a poll\<close>

definition rows_only :: "(db \<Rightarrow> bool) \<Rightarrow> bool" where
  "rows_only I \<longleftrightarrow> (\<forall>s s'. file_index s' = file_index s \<longrightarrow> I s \<longrightarrow> I s')"

definition wf_and :: "(db \<Rightarrow> bool) \<Rightarrow> db \<Rightarrow> bool" where
  "wf_and I s \<longleftrightarrow> db_wf s \<and> I s"

definition frames_rows :: "'a dbm \<Rightarrow> bool" where
  "frames_rows m \<longleftrightarrow> (\<forall>s. file_index (snd (m s)) = file_index s)"

lemma keeps_wf_and: "\<lbrakk>keeps db_wf m; keeps I m\<rbrakk> \<Longrightarrow> keeps (wf_and I) m"
  by (simp add: keeps_def wf_and_def)

lemma keeps_wf_and_frame: "\<lbrakk>rows_only I; keeps db_wf m; frames_rows m\<rbrakk> \<Longrightarrow> keeps (wf_and I) m"
  unfolding keeps_def wf_and_def rows_only_def frames_rows_def by blast

lemma frames_rows_ops:
  "frames_rows (insert_version_history i mo h sz et src)" "frames_rows (prune_version_history i k)"
  "frames_rows (set_change_token mo tok)" "frames_rows (clear_change_token mo)"
  "frames_rows (set_poll_generation mo g)" "frames_rows cleanup_expired_tombstones"
  by (simp_all add: frames_rows_def insert_version_history_def prune_version_history_def set_change_token_def
      clear_change_token_def set_poll_generation_def cleanup_expired_tombstones_def run_then Let_def)

lemma keeps_wf_and_ops:
  assumes "rows_only I"
  shows "keeps (wf_and I) (insert_version_history i mo h sz et src)" "keeps (wf_and I) (prune_version_history i k)"
    "keeps (wf_and I) (set_change_token mo tok)" "keeps (wf_and I) (clear_change_token mo)"
    "keeps (wf_and I) (set_poll_generation mo g)" "keeps (wf_and I) cleanup_expired_tombstones"
  by (rule keeps_wf_and_frame [OF assms _ frames_rows_ops(1)] keeps_wf_and_frame [OF assms _ frames_rows_ops(2)]
      keeps_wf_and_frame [OF assms _ frames_rows_ops(3)] keeps_wf_and_frame [OF assms _ frames_rows_ops(4)]
      keeps_wf_and_frame [OF assms _ frames_rows_ops(5)] keeps_wf_and_frame [OF assms _ frames_rows_ops(6)];
      rule keeps_rules)+

lemma keeps_remove_object: "keeps (\<lambda>w. I (wdb w)) (remove_object d h)"
  using remove_object_frame by (simp add: keeps_def)

lemma keeps_store_base: "keeps (\<lambda>w. I (wdb w)) (store_base sha d p)"
proof (rule keepsI)
  fix w :: world assume "I (wdb w)"
  with store_base_cases [of sha d p w] show "I (wdb (snd (store_base sha d p w)))" by auto
qed

text \<open>\<open>captures I\<close>: recording and pruning versions keeps \<open>I\<close>.\<close>

definition captures :: "(db \<Rightarrow> bool) \<Rightarrow> bool" where
  "captures I \<longleftrightarrow> (\<forall>i mo h sz et src. keeps I (insert_version_history i mo h sz et src))
     \<and> (\<forall>i k. keeps I (prune_version_history i k))"

lemma captures_wf_and: "rows_only I \<Longrightarrow> captures (wf_and I)"
  by (simp add: captures_def keeps_wf_and_ops)

lemma keeps_capture:
  assumes "captures I"
  shows "keeps (\<lambda>w. I (wdb w)) (capture sha d i mo cp sz et src mx ret')"
  unfolding capture_def
  by (intro keeps_rules keeps_db_op keeps_remove_object keeps_store_base) (use assms in \<open>auto simp: captures_def\<close>)

lemma keeps_db_query [keeps_rules]: "keeps (\<lambda>w. I (wdb w)) (db_op (query f))"
  by (intro keeps_db_op keeps_rules)

lemma keeps_reads:
  "keeps (\<lambda>w. I (wdb w)) (db_op (get_by_inode i))" "keeps (\<lambda>w. I (wdb w)) (db_op (snapshot_remote_index mo))"
  "keeps (\<lambda>w. I (wdb w)) (db_op (get_poll_generation mo))" "keeps (\<lambda>w. I (wdb w)) (db_op (get_change_token mo))"
  "keeps (\<lambda>w. I (wdb w)) (load_tombstones mo)"
  unfolding get_by_inode_def snapshot_remote_index_def get_poll_generation_def get_change_token_def
    load_tombstones_def active_tombstones_def
  by (intro keeps_rules keeps_db_op)+

lemma keeps_snapshot_version:
  assumes "captures I"
  shows "keeps (\<lambda>w. I (wdb w)) (snapshot_version P snap e)"
  unfolding snapshot_version_def
  by (intro keeps_rules keeps_reads keeps_capture [OF assms])

lemma keeps_forget_cache: "keeps (\<lambda>w. I (wdb w)) (forget_cache P i cp)"
  unfolding forget_cache_def by (intro keeps_rules)

lemma keeps_lift_sync: "keeps I (lift_sync r)"
  unfolding lift_sync_def by (intro keeps_rules)

lemma keeps_upsert_entry:
  "(\<And>parent. keeps I (upsert_meta P gen parent e)) \<Longrightarrow> keeps (\<lambda>w. I (wdb w)) (upsert_entry P gen p2i e)"
  unfolding upsert_entry_def by (intro keeps_rules keeps_db_op)

lemma keeps_upsert_entries:
  "(\<And>parent e. e \<in> set es \<Longrightarrow> keeps I (upsert_meta P gen parent e)) \<Longrightarrow>
   keeps (\<lambda>w. I (wdb w)) (upsert_entries P gen p2i es)"
  by (induction es arbitrary: p2i) (auto intro!: keeps_rules keeps_upsert_entry)

lemma apply_listing_keeps:
  assumes "rows_only I"
    and "\<And>parent e. e \<in> set es \<Longrightarrow> keeps (wf_and I) (upsert_meta P gen parent e)"
    and "keeps (wf_and I) (batch_mark_generation ids gen)"
    and "keeps (wf_and I) (delete_stale_entries (p_mount_id P) gen)"
    and "keeps (wf_and I) (batch_mark_dirs_listed (p_mount_id P))"
  shows "keeps (\<lambda>w. wf_and I (wdb w)) (apply_listing P gen snap es ids)"
  unfolding apply_listing_def
  by (intro keeps_rules keeps_db_op keeps_snapshot_version captures_wf_and keeps_upsert_entries keeps_forget_cache
      keeps_wf_and_ops assms)
     simp

lemma keeps_delta_delete:
  assumes "\<And>i. keeps I (delete_remote_entry_by_item_id (p_mount_id P) i)"
    and "\<And>p. keeps I (delete_remote_entry_by_path (p_mount_id P) p)"
  shows "keeps (\<lambda>w. I (wdb w)) (delta_delete P p item)"
  unfolding delta_delete_def
  by (intro keeps_rules keeps_db_op keeps_forget_cache assms)

text \<open>The metadata of the additions and modifications of a change list.\<close>

definition changed_metas :: "remote_change list \<Rightarrow> remote_metadata set" where
  "changed_metas cs = {e. Added e \<in> set cs \<or> (\<exists>old. Modified e old \<in> set cs)}"

lemma changed_metas_simps [simp]:
  "changed_metas [] = {}" "changed_metas (Added e # cs) = insert e (changed_metas cs)"
  "changed_metas (Modified e old # cs) = insert e (changed_metas cs)"
  "changed_metas (Deleted p item # cs) = changed_metas cs"
  by (auto simp: changed_metas_def)

lemma keeps_delta_upsert:
  assumes "captures I"
    and "\<And>parent. \<not> delta_skips P ts e \<Longrightarrow> keeps I (upsert_meta P 0 parent e)"
  shows "keeps (\<lambda>w. I (wdb w)) (delta_upsert P ts snap p2i e)"
  unfolding delta_upsert_def
  by (intro keeps_rules keeps_snapshot_version keeps_upsert_entry assms)

lemma apply_changes_keeps:
  assumes r: "captures I"
    and d: "\<And>i. keeps I (delete_remote_entry_by_item_id (p_mount_id P) i)"
      "\<And>p. keeps I (delete_remote_entry_by_path (p_mount_id P) p)"
    and u: "\<And>parent e. \<lbrakk>e \<in> changed_metas cs; \<not> delta_skips P ts e\<rbrakk> \<Longrightarrow> keeps I (upsert_meta P 0 parent e)"
  shows "keeps (\<lambda>w. I (wdb w)) (apply_changes P ts snap p2i cs)"
  using u
proof (induction cs arbitrary: p2i)
  case (Cons c cs)
  have IH: "keeps (\<lambda>w. I (wdb w)) (apply_changes P ts snap p2i' cs)" for p2i'
    by (rule Cons.IH) (cases c, auto intro: Cons.prems)
  show ?case
    by (cases c) (auto intro!: keeps_rules IH keeps_delta_delete d keeps_delta_upsert [OF r] Cons.prems)
qed (simp add: keeps_ret)

section \<open>Properties of all rows\<close>

definition all_rows :: "(file_row \<Rightarrow> bool) \<Rightarrow> db \<Rightarrow> bool" where
  "all_rows Q s \<longleftrightarrow> (\<forall>r\<in>set (file_index s). Q r)"

lemma rows_only_all_rows [simp]: "rows_only (all_rows Q)"
  by (simp add: rows_only_def all_rows_def)

lemma rows_only_has_row [simp]: "rows_only (has_row Q)"
  by (simp add: rows_only_def has_row_def)

lemma rows_only_conj: "rows_only I \<Longrightarrow> rows_only J \<Longrightarrow> rows_only (\<lambda>s. I s \<and> J s)"
  unfolding rows_only_def by blast

lemma all_rows_update: "(\<And>r. Q r \<Longrightarrow> p r \<Longrightarrow> Q (f r)) \<Longrightarrow> keeps (all_rows Q) (exec_update p f)"
  unfolding keeps_def
  by (auto simp: exec_update_def end_statement_def all_rows_def update_rows_def)

lemma all_rows_delete [keeps_rules]: "keeps (all_rows Q) (exec_delete p)"
  unfolding keeps_def by (auto simp: exec_delete_def end_statement_def all_rows_def)

lemma all_rows_upsert_path:
  assumes new: "\<And>i. Q (r\<lparr>r_inode := i\<rparr>)" and old: "\<And>x. Q x \<Longrightarrow> path_key x = path_key r \<Longrightarrow> Q (f x)"
  shows "keeps (all_rows Q) (exec_upsert_path r f)"
proof (rule keepsI)
  fix s assume h: "all_rows Q s"
  have "keeps (all_rows Q) (thenS (exec_update (\<lambda>x. path_key x = path_key r) f) (ret ()))"
    by (intro keeps_rules all_rows_update old)
  moreover have "all_rows Q (snd (thenS (exec_insert_auto r) (ret ()) s))"
    using h new by (auto simp: run_then exec_insert_auto_def exec_insert_def end_statement_def all_rows_def)
  ultimately show "all_rows Q (snd (exec_upsert_path r f s))"
    using h by (auto simp: exec_upsert_path_def dest: keepsD)
qed

lemma upsert_columns_keys [simp]:
  "r_mount_id (upsert_columns x r) = r_mount_id r" "r_remote_path (upsert_columns x r) = r_remote_path r"
  "r_item_id (upsert_columns x r) = r_item_id r" "r_poll_generation (upsert_columns x r) = r_poll_generation x"
  by (simp_all add: upsert_columns_def)

lemma remote_row_keys [simp]:
  "r_mount_id (remote_row m p n rp k sz mt et it g) = m" "r_remote_path (remote_row m p n rp k sz mt et it g) = rp"
  "r_item_id (remote_row m p n rp k sz mt et it g) = it" "r_poll_generation (remote_row m p n rp k sz mt et it g) = g"
  by (simp_all add: remote_row_def)

text \<open>
  A predicate on rows is stable under listing a path when it holds of every row
  with that path that an upsert can write.
\<close>

lemma all_rows_upsert_meta:
  assumes by_path: "\<And>r. r_mount_id r = p_mount_id P \<Longrightarrow> r_remote_path r = rm_path e \<Longrightarrow> r_poll_generation r = gen \<Longrightarrow> Q r"
    and same_mount: "\<And>r. Q r \<Longrightarrow> r_mount_id r \<noteq> p_mount_id P \<Longrightarrow>
        Q ((upsert_columns (remote_row (p_mount_id P) parent (rm_name e) (rm_path e) k (rm_size e) (rm_mtime e)
              (rm_etag e) (rm_item_id e) gen) r)\<lparr>r_remote_path := rm_path e\<rparr>)"
    and k: "k = (if rm_is_dir e then Directory else File)"
  shows "keeps (all_rows Q) (upsert_meta P gen parent e)"
  unfolding upsert_meta_def upsert_remote_file_by_id_or_path_def Let_def k [symmetric]
proof (intro keeps_rules all_rows_upsert_path all_rows_update)
  fix r :: file_row
  assume "Q r"
  show "Q ((upsert_columns (remote_row (p_mount_id P) parent (rm_name e) (rm_path e) k (rm_size e) (rm_mtime e)
              (rm_etag e) (rm_item_id e) gen) r)\<lparr>r_remote_path := rm_path e\<rparr>)"
  proof (cases "r_mount_id r = p_mount_id P")
    case True
    then show ?thesis by (intro by_path) simp_all
  next
    case False
    with \<open>Q r\<close> show ?thesis by (rule same_mount)
  qed
qed (auto intro!: by_path)

section \<open>Only admitted entries are indexed\<close>

definition admitted :: "poller \<Rightarrow> path list \<Rightarrow> remote_metadata \<Rightarrow> bool" where
  "admitted P ts e \<longleftrightarrow> \<not> unsafe_entry e \<and> \<not> prefix CONFLICT_PREFIX (rm_path e) \<and> \<not> tombstoned ts (rm_path e)
     \<and> \<not> p_ignore P (rm_path e)"

lemma classify_upsert_admitted: "classify P ts snap e = ToUpsert \<Longrightarrow> admitted P ts e"
  by (auto simp: classify_def admitted_def split: if_splits option.splits)

lemma delta_skips_iff: "delta_skips P ts e \<longleftrightarrow> \<not> admitted P ts e"
  by (auto simp: delta_skips_def admitted_def)

definition paths_in :: "mount_id \<Rightarrow> path set \<Rightarrow> db \<Rightarrow> bool" where
  "paths_in m A = all_rows (\<lambda>r. r_mount_id r = m \<longrightarrow> r_remote_path r \<in> A)"

lemma paths_in_ops:
  "keeps (paths_in m A) (batch_mark_generation ids g)" "keeps (paths_in m A) (delete_stale_entries m' g)"
  "keeps (paths_in m A) (batch_mark_dirs_listed m')" "keeps (paths_in m A) (delete_remote_entry p)"
  unfolding paths_in_def batch_mark_generation_def delete_stale_entries_def batch_mark_dirs_listed_def
    delete_remote_entry_def
  by (intro keeps_rules all_rows_update; simp)+

lemma paths_in_upsert: "rm_path e \<in> A \<Longrightarrow> keeps (paths_in (p_mount_id P) A) (upsert_meta P g parent e)"
  unfolding paths_in_def by (rule all_rows_upsert_meta [OF _ _ refl]) auto

lemma rows_only_paths_in [simp]: "rows_only (paths_in m A)"
  by (simp add: paths_in_def)

abbreviation live_tombstones :: "mount_id \<Rightarrow> db \<Rightarrow> path list" where
  "live_tombstones m s \<equiv> map d_remote_path (filter (\<lambda>d. d_mount_id d = m \<and> d_expires_at d > clock s) (tombstones s))"

lemma load_tombstones_run [simp]: "load_tombstones m w = (Inr (live_tombstones m (wdb w)), w)"
  by (simp add: load_tombstones_def active_tombstones_def run_bind db_op_run)

lemma db_query_run: "db_op (query f) w = (Inr (f (wdb w)), w)"
  by (simp add: db_op_run)

abbreviation snapshot_map :: "mount_id \<Rightarrow> db \<Rightarrow> path \<rightharpoonup> remote_snapshot" where
  "snapshot_map m s \<equiv> map_of (rev (map (\<lambda>r. (r_remote_path r, snapshot_of_row r))
       (filter (\<lambda>r. r_mount_id r = m) (file_index s))))"

abbreviation stored_generation :: "mount_id \<Rightarrow> db \<Rightarrow> nat" where
  "stored_generation m s \<equiv>
     (case Option.bind (map_option t_token (kt_lookup t_mount_id m (change_tokens s))) parse_u64 of None \<Rightarrow> 0 | Some n \<Rightarrow> n)"

text \<open>The reads of a full poll, resolved.\<close>

lemma poll_once_eval:
  "poll_once P w = (case p_list P ''/'' of
       Inl e \<Rightarrow> (Inl (SyncErr e), w)
     | Inr es \<Rightarrow>
        if length es > MAX_POLL_ENTRIES then (Inl (Bail ''remote listing too large''), w)
        else let m = p_mount_id P; s = wdb w; ts = live_tombstones m s; snap = snapshot_map m s
             in apply_listing P (stored_generation m s + 1) snap
                  (filter (\<lambda>e. classify P ts snap e = ToUpsert) es)
                  (List.map_filter (\<lambda>e. unchanged_of (classify P ts snap e)) es) w)"
proof -
  have q: "db_op (snapshot_remote_index m) w = (Inr (snapshot_map m (wdb w)), w)"
    "db_op (get_poll_generation m) w = (Inr (stored_generation m (wdb w)), w)" for m
    by (simp_all add: snapshot_remote_index_def get_poll_generation_def get_change_token_def db_op_run)
  show ?thesis
    by (simp add: poll_once_def lift_sync_def run_bind q Let_def split: sum.split)
qed

lemma poll_once_keeps:
  assumes "rows_only I"
    and "\<And>es parent e. \<lbrakk>p_list P ''/'' = Inr es; e \<in> set es; admitted P (live_tombstones (p_mount_id P) (wdb w)) e\<rbrakk>
           \<Longrightarrow> keeps (wf_and I) (upsert_meta P (stored_generation (p_mount_id P) (wdb w) + 1) parent e)"
    and "\<And>ids. keeps (wf_and I) (batch_mark_generation ids (stored_generation (p_mount_id P) (wdb w) + 1))"
    and "keeps (wf_and I) (delete_stale_entries (p_mount_id P) (stored_generation (p_mount_id P) (wdb w) + 1))"
    and "keeps (wf_and I) (batch_mark_dirs_listed (p_mount_id P))"
    and "wf_and I (wdb w)"
  shows "wf_and I (wdb (state_after (poll_once P) w))"
proof (cases "p_list P ''/''")
  case (Inl e)
  with assms(6) show ?thesis by (simp add: poll_once_eval)
next
  case (Inr es)
  let ?m = "p_mount_id P" and ?s = "wdb w"
  let ?c = "classify P (live_tombstones ?m ?s) (snapshot_map ?m ?s)"
  have "keeps (\<lambda>w. wf_and I (wdb w)) (apply_listing P (stored_generation ?m ?s + 1) (snapshot_map ?m ?s)
          (filter (\<lambda>e. ?c e = ToUpsert) es) (List.map_filter (\<lambda>e. unchanged_of (?c e)) es))"
    by (intro apply_listing_keeps assms) (use Inr classify_upsert_admitted in auto)
  from keepsD [OF this assms(6)] assms(6) Inr show ?thesis
    by (simp add: poll_once_eval Let_def)
qed

text \<open>Every entry the backend can hand to a poll: of the full listing, or of a change list.\<close>

definition offered :: "poller \<Rightarrow> remote_metadata set" where
  "offered P = {e. (\<exists>es. p_list P ''/'' = Inr es \<and> e \<in> set es)
                 \<or> (\<exists>t cs next. p_changes_since P t = Inr (cs, next) \<and> e \<in> changed_metas cs)}"

definition set_start_token :: "poller \<Rightarrow> unit app" where
  "set_start_token P = bindS (lift_sync (p_start_token P)) (\<lambda>start. db_op (set_change_token (p_mount_id P) start))"

lemma keeps_set_start_token:
  "rows_only I \<Longrightarrow> keeps (\<lambda>w. wf_and I (wdb w)) (set_start_token P)"
  unfolding set_start_token_def by (intro keeps_rules keeps_lift_sync keeps_db_op keeps_wf_and_ops)

lemma poll_once_delta_keeps:
  assumes r: "rows_only I"
    and u: "\<And>g parent e. \<lbrakk>e \<in> offered P; admitted P (live_tombstones (p_mount_id P) (wdb w)) e\<rbrakk>
           \<Longrightarrow> keeps (wf_and I) (upsert_meta P g parent e)"
    and k: "\<And>g ids. keeps (wf_and I) (batch_mark_generation ids g)"
      "\<And>g. keeps (wf_and I) (delete_stale_entries (p_mount_id P) g)"
      "keeps (wf_and I) (batch_mark_dirs_listed (p_mount_id P))"
      "\<And>q. keeps (wf_and I) (delete_remote_entry q)"
    and w: "wf_and I (wdb w)"
  shows "wf_and I (wdb (state_after (poll_once_delta P) w))"
proof -
  let ?m = "p_mount_id P"
  let ?K = "\<lambda>w. wf_and I (wdb w)"
  have tok: "poll_once_delta P w = (case map_option t_token (kt_lookup t_mount_id ?m (change_tokens (wdb w))) of
        None \<Rightarrow> poll_delta_initial P w
      | Some t \<Rightarrow> (case p_changes_since P t of
            Inr (changes, next_token) \<Rightarrow> poll_delta_changes P changes next_token w
          | Inl TokenExpired \<Rightarrow> poll_delta_expired P w
          | Inl e \<Rightarrow> raise (SyncErr e) w))"
    by (simp add: poll_once_delta_def get_change_token_def run_bind db_op_run split: option.split sum.split prod.split sync_error.split)
  have full: "?K (state_after (poll_once P) w')" if "?K w'" "live_tombstones ?m (wdb w') = live_tombstones ?m (wdb w)" for w'
    by (rule poll_once_keeps [OF r u k(1,2,3) that(1)]) (use that(2) in \<open>auto simp: offered_def\<close>)
  have init: "?K (state_after (poll_delta_initial P) w)"
    unfolding poll_delta_initial_def set_start_token_def [symmetric]
    by (auto simp: run_bind db_query_run w full intro!: keepsD_then [of ?K] keeps_set_start_token r keeps_ret)
  have expired: "?K (state_after (poll_delta_expired P) w)"
  proof -
    let ?w1 = "state_after (db_op (clear_change_token ?m)) w"
    have "?K ?w1" using keepsD [OF keeps_db_op [OF keeps_wf_and_ops(4) [OF r]], of w] w by blast
    moreover have "live_tombstones ?m (wdb ?w1) = live_tombstones ?m (wdb w)"
      by (simp add: db_op_run clear_change_token_def)
    ultimately have "?K (snd (thenS (poll_once P) (set_start_token P) ?w1))"
      by (rule keepsD_then [of ?K, OF full keeps_set_start_token [OF r]])
    then show ?thesis
      unfolding poll_delta_expired_def set_start_token_def [symmetric]
      by (simp add: run_then [of "db_op _"] db_op_run clear_change_token_def)
  qed
  have changes: "?K (state_after (poll_delta_changes P cs nt) w)" if "p_changes_since P t = Inr (cs, nt)" for t cs nt
  proof -
    let ?ts = "live_tombstones ?m (wdb w)"
    have "e \<in> offered P" if "e \<in> changed_metas cs" for e
      using that \<open>p_changes_since P t = Inr (cs, nt)\<close> unfolding offered_def by blast
    then have "keeps ?K (apply_changes P ?ts snap p2i cs)" for snap p2i
      by (intro apply_changes_keeps [OF captures_wf_and [OF r]])
         (auto simp: delete_remote_entry_by_item_id_def delete_remote_entry_by_path_def delta_skips_iff intro!: k u)
    then have "keeps ?K (bindS (db_op (snapshot_remote_index ?m)) (\<lambda>snap.
             thenS (apply_changes P ?ts snap (map_option sn_inode \<circ> snap) cs)
              (thenS (db_op (set_change_token ?m nt))
                (thenS (attempt (db_op cleanup_expired_tombstones)) (ret ())))))"
      and "keeps ?K (db_op (set_change_token ?m nt))"
      by (intro keeps_rules keeps_reads keeps_db_op keeps_wf_and_ops r; simp)+
    from this [THEN keepsD, OF w] show ?thesis
      by (simp add: poll_delta_changes_def run_bind [of "load_tombstones _"])
  qed
  show ?thesis
    using w init expired changes unfolding tok by (auto split: option.splits sum.splits prod.splits sync_error.splits)
qed

definition mount_paths :: "mount_id \<Rightarrow> db \<Rightarrow> path set" where
  "mount_paths m s = set (map r_remote_path (filter (\<lambda>r. r_mount_id r = m) (file_index s)))"

lemma wf_and_paths_in:
  "wf_and (paths_in m A) s \<longleftrightarrow> db_wf s \<and> mount_paths m s \<subseteq> A"
  by (auto simp: wf_and_def paths_in_def all_rows_def mount_paths_def)

lemmas poll_wf_rules = batch_mark_generation_wf delete_stale_entries_wf batch_mark_dirs_listed_wf delete_remote_entry_wf

text \<open>The library form of the claim below.\<close>

lemma poll_adds_admitted:
  assumes "world_wf w" "poll = poll_once P \<or> poll = poll_once_delta P"
  shows "world_wf (state_after poll w)
    \<and> mount_paths (p_mount_id P) (wdb (state_after poll w)) \<subseteq>
        mount_paths (p_mount_id P) (wdb w)
        \<union> {rm_path e | e. e \<in> offered P \<and> \<not> unsafe_entry e \<and> \<not> prefix CONFLICT_PREFIX (rm_path e)
             \<and> \<not> tombstoned (live_tombstones (p_mount_id P) (wdb w)) (rm_path e) \<and> \<not> p_ignore P (rm_path e)}"
proof -
  define A where "A = mount_paths (p_mount_id P) (wdb w)
    \<union> {rm_path e | e. e \<in> offered P \<and> admitted P (live_tombstones (p_mount_id P) (wdb w)) e}"
  let ?I = "paths_in (p_mount_id P) A"
  have u: "keeps (wf_and ?I) (upsert_meta P g parent e)"
    if "e \<in> offered P" "admitted P (live_tombstones (p_mount_id P) (wdb w)) e" for g parent e
    by (intro keeps_wf_and paths_in_upsert) (use that in \<open>auto simp: A_def upsert_meta_def intro: keeps_rules\<close>)
  have k: "keeps (wf_and ?I) (batch_mark_generation ids g)" "keeps (wf_and ?I) (delete_stale_entries (p_mount_id P) g)"
    "keeps (wf_and ?I) (batch_mark_dirs_listed (p_mount_id P))" "keeps (wf_and ?I) (delete_remote_entry q)" for ids g q
    by (intro keeps_wf_and paths_in_ops poll_wf_rules)+
  have w: "wf_and ?I (wdb w)" using assms(1) by (auto simp: wf_and_paths_in A_def)
  have "wf_and ?I (wdb (state_after (poll_once P) w))"
    by (rule poll_once_keeps [OF rows_only_paths_in u k(1,2,3) w]) (auto simp: offered_def)
  moreover have "wf_and ?I (wdb (state_after (poll_once_delta P) w))"
    by (rule poll_once_delta_keeps [OF rows_only_paths_in u k w])
  ultimately show ?thesis
    using assms(2) by (auto simp: wf_and_paths_in A_def admitted_def)
qed

text \<open>
  C32: a poll, full or delta, successful or failed, adds to the index of its mount
  only paths of entries the backend offered that pass every filter: no path
  with \<open>..\<close> or a NUL byte, no name with a slash, nothing of the conflict
  namespace, nothing under an active tombstone, nothing the ignore patterns
  match.  The database stays well-formed.
\<close>

theorem poll_indexes_only_admitted:
  assumes "world_wf w" "poll = poll_once P \<or> poll = poll_once_delta P"
  shows "world_wf (state_after poll w)
    \<and> mount_paths (p_mount_id P) (wdb (state_after poll w)) \<subseteq>
        mount_paths (p_mount_id P) (wdb w)
        \<union> {rm_path e | e. e \<in> offered P \<and> \<not> unsafe_entry e \<and> \<not> prefix CONFLICT_PREFIX (rm_path e)
             \<and> \<not> tombstoned (live_tombstones (p_mount_id P) (wdb w)) (rm_path e) \<and> \<not> p_ignore P (rm_path e)}"
  using assms by (rule poll_adds_admitted)

section \<open>A sample poller\<close>

definition sample_meta :: "path \<Rightarrow> string \<Rightarrow> nat \<Rightarrow> string option \<Rightarrow> remote_metadata" where
  "sample_meta p n sz item = \<lparr> rm_path = p, rm_name = n, rm_size = sz, rm_mtime = 0, rm_is_dir = False,
     rm_etag = Some ''e'', rm_checksum = None, rm_mime_type = None, rm_item_id = item \<rparr>"

definition sample_poller :: "remote_metadata list \<Rightarrow> poller" where
  "sample_poller es = \<lparr> p_mount_id = 1, p_list = (\<lambda>_. Inr es), p_start_token = Inr ''t0'',
     p_changes_since = (\<lambda>_. Inl TokenExpired), p_ignore = (\<lambda>_. False), p_sha = (\<lambda>_. ''hash''),
     p_base_dir = ''/c/.bases'', p_version_max_size = 100, p_version_retention = 0, p_cache_dir = ''/c'' \<rparr>"

theorem poll_indexes_only_admitted_witness:
  "''../x'' \<notin> mount_paths 1 (wdb (state_after (poll_once (sample_poller [sample_meta ''../x'' ''x'' 1 None])) sample_world))"
proof -
  let ?P = "sample_poller [sample_meta ''../x'' ''x'' 1 None]"
  have off: "offered ?P = {sample_meta ''../x'' ''x'' 1 None}"
    by (auto simp: offered_def sample_poller_def)
  have un: "unsafe_entry (sample_meta ''../x'' ''x'' 1 None)"
    by (simp add: unsafe_entry_def sample_meta_def contains_str_def)
  have old: "''../x'' \<notin> mount_paths 1 (wdb sample_world)"
    by (auto simp: mount_paths_def sample_world_def sample_defs)
  have wf: "world_wf sample_world" by (simp add: sample_world_def sample_db_wf)
  have m: "p_mount_id ?P = 1" by (simp add: sample_poller_def)
  show ?thesis
    using poll_indexes_only_admitted [OF wf, of "poll_once ?P" ?P] off un old unfolding m by auto
qed

end
