(* ===== verification/Poller_Sweep.thy ===== *)
theory Poller_Sweep
  imports Poller_Laws
begin

text \<open>
  The effect of a successful full poll on the index: what vanished from the
  remote listing is dropped and what the listing offers is indexed with its
  size and etag.
\<close>

section \<open>Successful runs, step by step\<close>

lemma delete_each_Inr:
  "each (\<lambda>(i, _, _). exec_delete (\<lambda>r. r_inode r = i)) xs s = (Inr u, s') \<Longrightarrow>
   file_index s' = filter (\<lambda>r. r_inode r \<notin> fst ` set xs) (file_index s)"
proof (induction xs arbitrary: s)
  case (Cons x xs)
  obtain i a b where x: "x = (i, a, b)" by (cases x)
  from Cons.prems obtain v s1 where "exec_delete (\<lambda>r. r_inode r = i) s = (Inr v, s1)"
    and rest: "each (\<lambda>(i, _, _). exec_delete (\<lambda>r. r_inode r = i)) xs s1 = (Inr u, s')"
    by (simp only: x each.simps then_Inr prod.case) blast
  then have "file_index s1 = filter (\<lambda>r. r_inode r \<noteq> i) (file_index s)"
    by (auto dest: exec_delete_Inr)
  with Cons.IH [OF rest] show ?case by (auto simp: x intro: filter_cong)
qed simp

text \<open>A sweep that succeeds leaves exactly the rows that are not stale.\<close>

lemma delete_stale_Inr:
  assumes "db_wf s" "delete_stale_entries m g s = (Inr d, s')"
  shows "set (file_index s') = {r \<in> set (file_index s). \<not> stale_row m g r}"
proof -
  let ?stale = "map (\<lambda>r. (r_inode r, r_remote_path r, r_cache_path r)) (filter (stale_row m g) (file_index s))"
  have "each (\<lambda>(i, _, _). exec_delete (\<lambda>r. r_inode r = i)) ?stale s = (Inr (), s')"
    using assms(2) by (auto simp: delete_stale_entries_def then_Inr)
  from delete_each_Inr [OF this]
  have rows: "file_index s' = filter (\<lambda>r. r_inode r \<notin> r_inode ` {r \<in> set (file_index s). stale_row m g r}) (file_index s)"
    by (simp add: image_image)
  show ?thesis
    unfolding rows using wf_unique(1) [OF assms(1)] by (auto simp: image_iff)
qed

lemma batch_mark_keeps:
  assumes "\<And>r. Q r \<Longrightarrow> r_inode r \<in> set ids \<Longrightarrow> Q (r\<lparr>r_poll_generation := g\<rparr>)"
  shows "keeps (all_rows Q) (batch_mark_generation ids g)"
proof -
  have mem: "i \<in> set ids" if "c \<in> set (chunks 1000 ids)" "i \<in> set c" for c i
  proof -
    have "i \<in> set (concat (chunks 1000 ids))" unfolding set_concat using that by blast
    then show ?thesis by simp
  qed
  show ?thesis
    unfolding batch_mark_generation_def
    by (intro keeps_rules keeps_each_in all_rows_update assms) (use mem in auto)
qed

section \<open>Vanished entries are dropped\<close>

text \<open>
  Rows that carry the new generation, or are about to receive it, have a path
  of the listing.
\<close>

definition current_rows :: "mount_id \<Rightarrow> nat \<Rightarrow> inode set \<Rightarrow> path set \<Rightarrow> file_row \<Rightarrow> bool" where
  "current_rows m g ids L r \<longleftrightarrow>
     (r_mount_id r = m \<longrightarrow> g \<le> r_poll_generation r \<or> r_inode r \<in> ids \<longrightarrow> r_remote_path r \<in> L)"

definition listed_row :: "mount_id \<Rightarrow> path set \<Rightarrow> file_row \<Rightarrow> bool" where
  "listed_row m L r \<longleftrightarrow> (r_mount_id r = m \<longrightarrow>
     r_inode r = FUSE_ROOT_INODE \<or> unsynced (r_status r) \<or> r_remote_path r \<in> L)"

text \<open>The phases of a successful full poll: before the sweep, the sweep, and after it.\<close>

lemma apply_listing_Inr:
  assumes "apply_listing P gen snap es ids w = (Inr (), w')"
  obtains w1 w2 d s3 where
    "(if p_version_retention P > 0 then each (snapshot_version P snap) es else ret ()) w = (Inr (), w1)"
    "\<exists>p2i'. upsert_entries P gen (map_option sn_inode \<circ> snap) (sort_key (\<lambda>e. length (rm_path e)) es) w1 = (Inr p2i', w2)"
    "batch_mark_generation ids gen (wdb w2) = (Inr (), s3)"
    "\<exists>s4 s5. delete_stale_entries (p_mount_id P) gen s3 = (Inr d, s4)
        \<and> set_poll_generation (p_mount_id P) gen s4 = (Inr (), s5)
        \<and> wdb w' = snd (batch_mark_dirs_listed (p_mount_id P) (snd (cleanup_expired_tombstones s5)))"
proof -
  have fin: "wdb w4 = wdb w3"
    if "each (\<lambda>(i, _, cp). forget_cache P i cp) d w3 = (Inr u, w4)" for d u w3 w4
  proof -
    have "keeps (\<lambda>w. wdb w = wdb w3) (each (\<lambda>(i, _, cp). forget_cache P i cp) d)"
      by (intro keeps_rules keeps_forget_cache)
    from keepsE [OF this that] show ?thesis by simp
  qed
  from assms show ?thesis
    unfolding apply_listing_def
    by (simp only: then_Inr bind_Inr db_op_Inr run_attempt run_ret)
       (fastforce simp: db_op_run dest!: fin intro!: that)
qed

lemma keeps_snapshots:
  "rows_only I \<Longrightarrow> keeps (\<lambda>w. wf_and I (wdb w))
     (if p_version_retention P > 0 then each (snapshot_version P snap) es else ret ())"
  by (intro keeps_rules keeps_snapshot_version captures_wf_and)

lemma keeps_final_steps:
  assumes "\<And>r n. Q r \<Longrightarrow> Q (r\<lparr>r_dir_listed := Some n\<rparr>)"
  shows "keeps (all_rows Q) (batch_mark_dirs_listed m)"
  unfolding batch_mark_dirs_listed_def
  by (intro keeps_rules all_rows_update) (use assms in auto)

lemma all_rows_frame: "all_rows Q s \<Longrightarrow> frames_rows m \<Longrightarrow> all_rows Q (snd (m s))"
  by (simp add: all_rows_def frames_rows_def)

lemma sweep_leaves_listed:
  assumes wf: "db_wf s3" and cur: "all_rows (current_rows m g ids L) s3"
    and sweep: "delete_stale_entries m g s3 = (Inr d, s4)"
  shows "all_rows (listed_row m L) s4"
  using cur delete_stale_Inr [OF wf sweep]
  by (auto simp: all_rows_def listed_row_def current_rows_def stale_row_def not_less)

lemma listing_phases_listed:
  assumes run: "apply_listing P gen snap es ids w = (Inr (), w')" and wf: "world_wf w"
    and es: "\<forall>e\<in>set es. rm_path e \<in> L"
    and start: "all_rows (current_rows (p_mount_id P) gen (set ids) L) (wdb w)"
  shows "all_rows (listed_row (p_mount_id P) L) (wdb w')"
proof -
  let ?m = "p_mount_id P" and ?Q = "current_rows (p_mount_id P) gen (set ids) L"
  from run obtain w1 w2 d s3 where
    ph1: "(if p_version_retention P > 0 then each (snapshot_version P snap) es else ret ()) w = (Inr (), w1)"
    and "\<exists>p2i'. upsert_entries P gen (map_option sn_inode \<circ> snap) (sort_key (\<lambda>e. length (rm_path e)) es) w1 = (Inr p2i', w2)"
    and ph3: "batch_mark_generation ids gen (wdb w2) = (Inr (), s3)"
    and "\<exists>s4 s5. delete_stale_entries ?m gen s3 = (Inr d, s4) \<and> set_poll_generation ?m gen s4 = (Inr (), s5)
        \<and> wdb w' = snd (batch_mark_dirs_listed ?m (snd (cleanup_expired_tombstones s5)))"
    by (rule apply_listing_Inr) blast
  then obtain p2i' s4 s5 where
    ph2: "upsert_entries P gen (map_option sn_inode \<circ> snap) (sort_key (\<lambda>e. length (rm_path e)) es) w1 = (Inr p2i', w2)"
    and ph4: "delete_stale_entries ?m gen s3 = (Inr d, s4)" and ph5: "set_poll_generation ?m gen s4 = (Inr (), s5)"
    and fin: "wdb w' = snd (batch_mark_dirs_listed ?m (snd (cleanup_expired_tombstones s5)))" by blast
  let ?I = "wf_and (all_rows ?Q)"
  have "?I (wdb w1)"
    using keepsE [OF keeps_snapshots [OF rows_only_all_rows] ph1] start wf by (simp add: wf_and_def)
  moreover have "keeps ?I (upsert_meta P gen parent e)" if "e \<in> set es" for parent e
  proof (intro keeps_wf_and all_rows_upsert_meta [OF _ _ refl])
    show "keeps db_wf (upsert_meta P gen parent e)" unfolding upsert_meta_def by (rule keeps_rules)
  qed (use es that in \<open>auto simp: current_rows_def\<close>)
  ultimately have w2: "?I (wdb w2)"
    using keepsE [OF keeps_upsert_entries ph2, of ?I] by simp
  have mark: "keeps ?I (batch_mark_generation ids gen)"
    by (intro keeps_wf_and batch_mark_keeps keeps_rules) (auto simp: current_rows_def)
  have s3: "?I s3" by (rule keepsE [OF mark ph3 w2])
  then have "all_rows (listed_row ?m L) s4"
    using sweep_leaves_listed [OF _ _ ph4, of "set ids" L] by (simp add: wf_and_def)
  then have "all_rows (listed_row ?m L) s5"
    using all_rows_frame [OF _ frames_rows_ops(5)] ph5 by (metis snd_conv)
  then have "all_rows (listed_row ?m L) (snd (cleanup_expired_tombstones s5))"
    by (rule all_rows_frame) (rule frames_rows_ops)
  then show ?thesis
    unfolding fin by (rule keepsD [OF keeps_final_steps, rotated 1]) (simp add: listed_row_def)
qed

text \<open>Every inode of the unchanged list is that of a row whose path is listed.\<close>

lemma snapshot_map_Some:
  assumes "snapshot_map m s p = Some sn"
  shows "\<exists>r\<in>set (file_index s). r_mount_id r = m \<and> r_remote_path r = p \<and> sn = snapshot_of_row r"
  using map_of_SomeD [OF assms] by auto

lemma unchanged_inode_listed:
  assumes "i \<in> set (List.map_filter (\<lambda>e. unchanged_of (classify P ts (snapshot_map m s) e)) es)"
  shows "\<exists>e\<in>set es. \<not> prefix CONFLICT_PREFIX (rm_path e)
     \<and> (\<exists>r\<in>set (file_index s). r_inode r = i \<and> r_mount_id r = m \<and> r_remote_path r = rm_path e)"
proof -
  from assms obtain e where e: "e \<in> set es" "unchanged_of (classify P ts (snapshot_map m s) e) = Some i"
    by (auto simp: List.map_filter_def)
  then obtain sn where "snapshot_map m s (rm_path e) = Some sn" "sn_inode sn = i" "\<not> prefix CONFLICT_PREFIX (rm_path e)"
    by (auto simp: classify_def unchanged_of_def split: if_splits option.splits verdict.splits)
  with snapshot_map_Some [OF this(1)] e(1) show ?thesis unfolding snapshot_of_row_def by force
qed

text \<open>What a full poll leaves of a mount: the root, unsynced work, and listed paths outside the conflict namespace.\<close>

lemma full_poll_leaves_listed:
  assumes wf: "world_wf w" and es: "p_list P ''/'' = Inr es"
    and gen: "\<forall>r\<in>set (file_index (wdb w)). r_mount_id r = p_mount_id P \<longrightarrow>
                r_poll_generation r \<le> stored_generation (p_mount_id P) (wdb w)"
    and run: "poll_once P w = (Inr (), w')"
    and r: "r \<in> set (file_index (wdb w'))" "r_mount_id r = p_mount_id P"
  shows "r_inode r = FUSE_ROOT_INODE \<or> unsynced (r_status r)
     \<or> (r_remote_path r \<in> rm_path ` set es \<and> \<not> prefix CONFLICT_PREFIX (r_remote_path r))"
proof -
  let ?m = "p_mount_id P" and ?s = "wdb w"
  let ?L = "{p \<in> rm_path ` set es. \<not> prefix CONFLICT_PREFIX p}"
  let ?c = "classify P (live_tombstones ?m ?s) (snapshot_map ?m ?s)"
  let ?ids = "List.map_filter (\<lambda>e. unchanged_of (?c e)) es" and ?g = "stored_generation ?m ?s + 1"
  have "apply_listing P ?g (snapshot_map ?m ?s) (filter (\<lambda>e. ?c e = ToUpsert) es) ?ids w = (Inr (), w')"
    using run es by (simp add: poll_once_eval Let_def split: if_splits)
  moreover have "all_rows (current_rows ?m ?g (set ?ids) ?L) ?s"
    unfolding all_rows_def current_rows_def
  proof (intro ballI impI)
    fix r assume r: "r \<in> set (file_index ?s)" "r_mount_id r = ?m" and "?g \<le> r_poll_generation r \<or> r_inode r \<in> set ?ids"
    with gen have "r_inode r \<in> set ?ids" by fastforce
    from unchanged_inode_listed [OF this] wf_unique(1) [OF wf _ r(1)]
    show "r_remote_path r \<in> ?L" by force
  qed
  moreover have "\<forall>e\<in>set (filter (\<lambda>e. ?c e = ToUpsert) es). rm_path e \<in> ?L"
    by (auto simp: classify_def split: if_splits)
  ultimately have "all_rows (listed_row ?m ?L) (wdb w')"
    by (elim listing_phases_listed [OF _ wf])
  with r show ?thesis by (auto simp: all_rows_def listed_row_def)
qed


text \<open>
  The rows of conflict files lie in the conflict namespace, which the listing
  leaves out, so the sweep of a full poll removes every one of them.
\<close>

theorem full_poll_forgets_conflicts:
  assumes "world_wf w" "p_list P ''/'' = Inr es"
    and "\<forall>r\<in>set (file_index (wdb w)). r_mount_id r = p_mount_id P \<longrightarrow>
                r_poll_generation r \<le> stored_generation (p_mount_id P) (wdb w)"
    and "poll_once P w = (Inr (), w')"
    and "r \<in> set (file_index (wdb w'))" "r_mount_id r = p_mount_id P" "r_inode r \<noteq> FUSE_ROOT_INODE"
    and "prefix CONFLICT_PREFIX (r_remote_path r)"
  shows "r_status r \<noteq> Conflict"
  using full_poll_leaves_listed [OF assms(1-6)] assms(7,8) by (auto simp: unsynced_def)

definition swept_world :: world where
  "swept_world = sample_world\<lparr>wdb := sample_db\<lparr>change_tokens := [\<lparr> t_mount_id = 1, t_token = ''1'', t_updated_at = 0 \<rparr>]\<rparr>\<rparr>"

definition swept_poller :: poller where
  "swept_poller = sample_poller [(sample_meta ''d'' ''d'' 10 None)\<lparr>rm_is_dir := True\<rparr>, sample_meta ''d/b'' ''b'' 10 None]"

lemma swept_classify:
  "classify swept_poller (live_tombstones 1 (wdb swept_world)) (snapshot_map 1 (wdb swept_world))
     ((sample_meta ''d'' ''d'' 10 None)\<lparr>rm_is_dir := True\<rparr>) = Unchanged 2"
  "classify swept_poller (live_tombstones 1 (wdb swept_world)) (snapshot_map 1 (wdb swept_world))
     (sample_meta ''d/b'' ''b'' 10 None) = Unchanged 4"
  by (simp_all add: classify_def unsafe_entry_def contains_str_def tombstoned_def sample_meta_def swept_poller_def
      sample_poller_def swept_world_def sample_defs CONFLICT_PREFIX_def snapshot_of_row_def sublist_Cons_right)

definition swept_db :: db where
  "swept_db = (wdb swept_world)\<lparr>file_index :=
     [sample_row 1 None ''/'' ''/'' Directory Cached None None,
      (sample_row 2 (Some 1) ''d'' ''d'' Directory Remote None None)\<lparr>r_poll_generation := 2\<rparr>,
      sample_row 3 (Some 2) ''a'' ''d/a'' File Cached (Some ''/c/d/a'') (Some ''ID3''),
      (sample_row 4 (Some 2) ''b'' ''d/b'' File Dirty (Some ''/c/d/b'') None)\<lparr>r_poll_generation := 2\<rparr>]\<rparr>"

lemma swept_mark: "batch_mark_generation [2, 4] 2 (wdb swept_world) = (Inr (), swept_db)"
  by (simp add: batch_mark_generation_def chunks_short transaction_def run_then exec_update_def end_statement_def
      unique_ok_def fk_ok_def row_refs_ok_def update_rows_def trigger_ok_def swept_world_def swept_db_def sample_defs)

lemma swept_delete: "fst (delete_stale_entries 1 2 swept_db) = Inr [(3, ''d/a'', Some ''/c/d/a'')]
    \<and> mounts (snd (delete_stale_entries 1 2 swept_db)) = mounts sample_db"
  by (simp add: delete_stale_entries_def stale_row_def FUSE_ROOT_INODE_def run_then exec_delete_def delete_rows_def cascade_def
      end_statement_def unique_ok_def fk_ok_def row_refs_ok_def swept_world_def swept_db_def sample_defs)

lemma set_poll_generation_ok: "m \<in> mount_ids s \<Longrightarrow> fst (set_poll_generation m g s) = Inr ()"
  by (simp add: set_poll_generation_def set_change_token_def)

lemma forget_cache_ok: "fst (forget_cache P i cp w) = Inr ()"
  by (simp add: forget_cache_def run_then invalidate_header_run split: option.split)

lemma forget_cache_wdb: "wdb (snd (forget_cache P i cp w)) = wdb w"
  using keepsD [OF keeps_forget_cache [of "\<lambda>s. s = wdb w"], of w] by simp

lemma swept_poll_ok: "\<exists>w'. poll_once swept_poller swept_world = (Inr (), w')"
proof -
  obtain s4 where s4: "delete_stale_entries 1 2 swept_db = (Inr [(3, ''d/a'', Some ''/c/d/a'')], s4)" "mounts s4 = mounts sample_db"
    using swept_delete by (metis prod.collapse)
  have m: "p_mount_id swept_poller = 1" "p_version_retention swept_poller = 0"
    and l: "p_list swept_poller ''/'' = Inr [(sample_meta ''d'' ''d'' 10 None)\<lparr>rm_is_dir := True\<rparr>, sample_meta ''d/b'' ''b'' 10 None]"
    by (simp_all add: swept_poller_def sample_poller_def)
  have g: "stored_generation 1 (wdb swept_world) = 1"
    by (simp add: swept_world_def sample_defs kt_lookup_def parse_u64_def digits_val_def digit_val_def is_digit_def)
  let ?w = "swept_world\<lparr>wdb := swept_db\<rparr>"
  obtain x w5 where "forget_cache swept_poller 3 (Some ''/c/d/a'') (?w\<lparr>wdb := s4\<rparr>) = (x, w5)"
    by (cases "forget_cache swept_poller 3 (Some ''/c/d/a'') (?w\<lparr>wdb := s4\<rparr>)")
  then have w5: "forget_cache swept_poller 3 (Some ''/c/d/a'') (?w\<lparr>wdb := s4\<rparr>) = (Inr (), w5)" "wdb w5 = s4"
    using forget_cache_ok [of swept_poller 3 "Some ''/c/d/a''" "?w\<lparr>wdb := s4\<rparr>"]
      forget_cache_wdb [of swept_poller 3 "Some ''/c/d/a''" "?w\<lparr>wdb := s4\<rparr>"] by simp_all
  have "1 \<in> mount_ids s4" using s4(2) by (simp add: sample_defs)
  then have "fst (set_poll_generation 1 2 s4) = Inr ()" by (rule set_poll_generation_ok)
  then show ?thesis
    using l g swept_classify swept_mark s4 w5
    by (simp add: poll_once_eval Let_def m MAX_POLL_ENTRIES_def List.map_filter_def unchanged_of_def apply_listing_def
        run_then run_bind db_op_run numeral_2_eq_2)
qed

lemma swept_world_wf: "world_wf swept_world"
  by (simp add: swept_world_def db_wf_defs unique_ok_def fk_ok_def row_refs_ok_def trigger_ok_def sample_defs)


section \<open>Listed entries are indexed\<close>

text \<open>The row of an entry, as the listing describes it.\<close>

definition shows_entry :: "mount_id \<Rightarrow> remote_metadata \<Rightarrow> file_row \<Rightarrow> bool" where
  "shows_entry m e r \<longleftrightarrow> path_key r = (m, rm_path e) \<and> r_etag r = rm_etag e \<and> r_size r = rm_size e"

lemma exec_upsert_path_Inr:
  assumes "exec_upsert_path x f s = (Inr u, s')" "\<And>i. Q (x\<lparr>r_inode := i\<rparr>)" "\<And>r. path_key r = path_key x \<Longrightarrow> Q (f r)"
  shows "has_row Q s'"
proof (cases "list_ex (\<lambda>r. path_key r = path_key x) (file_index s)")
  case True
  then obtain r where r: "r \<in> set (file_index s)" "path_key r = path_key x" by (auto simp: list_ex_iff)
  from assms(1) True obtain n where "exec_update (\<lambda>r. path_key r = path_key x) f s = (Inr n, s')"
    by (auto simp: exec_upsert_path_def then_Inr split: if_splits)
  from exec_update_Inr [OF this] have "f r \<in> set (file_index s')"
    using r by (force simp: update_rows_def)
  with assms(3) [OF r(2)] show ?thesis by (auto simp: has_row_def)
next
  case False
  with assms(1) obtain i where "exec_insert_auto x s = (Inr i, s')"
    by (auto simp: exec_upsert_path_def then_Inr split: if_splits)
  with assms(2) show ?thesis
    by (auto simp: exec_insert_auto_def exec_insert_def end_statement_def then_Inr has_row_def split: if_splits)
qed

definition indexed_entry :: "mount_id \<Rightarrow> nat \<Rightarrow> remote_metadata \<Rightarrow> file_row \<Rightarrow> bool" where
  "indexed_entry m g e r \<longleftrightarrow> shows_entry m e r \<and> g \<le> r_poll_generation r"

lemma upsert_meta_indexes:
  assumes "upsert_meta P g parent e s = (Inr i, s')" "rm_item_id e = None"
  shows "has_row (indexed_entry (p_mount_id P) g e) s'"
proof -
  let ?x = "remote_row (p_mount_id P) parent (rm_name e) (rm_path e) (if rm_is_dir e then Directory else File)
     (rm_size e) (rm_mtime e) (rm_etag e) None g"
  from assms obtain u s1 where "exec_upsert_path ?x (\<lambda>r. (upsert_columns ?x r)\<lparr>r_item_id := or_else (r_item_id r) None\<rparr>) s = (Inr u, s1)"
    and "s' = s1"
    by (fastforce simp: upsert_meta_def upsert_remote_file_by_id_or_path_def Let_def then_Inr bind_Inr split: option.splits)
  then show ?thesis
    by (elim exec_upsert_path_Inr [where Q = "indexed_entry (p_mount_id P) g e", THEN back_subst [of "has_row _"]])
       (auto simp: indexed_entry_def shows_entry_def upsert_columns_def remote_row_def)
qed

lemma upsert_other_keeps:
  assumes "rm_item_id e' = None" "rm_path e' \<noteq> rm_path e"
  shows "keeps (has_row (\<lambda>r. shows_entry (p_mount_id P) e r \<and> R r)) (upsert_meta P g parent e')"
  unfolding upsert_meta_def upsert_remote_file_by_id_or_path_def Let_def assms(1) option.case bind_query_const
  by (intro keeps_rules has_row_upsert_path) (use assms(2) in \<open>auto simp: shows_entry_def\<close>)

lemma upsert_entry_Inr:
  assumes "upsert_entry P g p2i e w = (Inr p2i', w')"
  obtains i parent where "upsert_meta P g parent e (wdb w) = (Inr i, wdb w')"
  using assms by (fastforce simp: upsert_entry_def bind_Inr then_Inr db_op_Inr invalidate_header_run)

lemma upsert_entries_keep_others:
  assumes "upsert_entries P g p2i es w = (Inr p2i', w')" "\<forall>e'\<in>set es. rm_item_id e' = None \<and> rm_path e' \<noteq> rm_path e"
    and "has_row (\<lambda>r. shows_entry (p_mount_id P) e r \<and> R r) (wdb w)"
  shows "has_row (\<lambda>r. shows_entry (p_mount_id P) e r \<and> R r) (wdb w')"
proof -
  have "keeps (\<lambda>w. has_row (\<lambda>r. shows_entry (p_mount_id P) e r \<and> R r) (wdb w)) (upsert_entries P g p2i es)"
    by (intro keeps_upsert_entries upsert_other_keeps) (use assms(2) in auto)
  from keepsE [OF this assms(1)] assms(3) show ?thesis by simp
qed

lemma upsert_entries_index:
  assumes "upsert_entries P g p2i es w = (Inr p2i', w')" "\<forall>e\<in>set es. rm_item_id e = None"
    "distinct (map rm_path es)" "e \<in> set es"
  shows "has_row (indexed_entry (p_mount_id P) g e) (wdb w')"
  using assms
proof (induction es arbitrary: p2i w)
  case (Cons x xs)
  then obtain q w1 where x: "upsert_entry P g p2i x w = (Inr q, w1)" and xs: "upsert_entries P g q xs w1 = (Inr p2i', w')"
    by (auto simp: bind_Inr)
  show ?case
  proof (cases "e = x")
    case True
    from x obtain i parent where "upsert_meta P g parent x (wdb w) = (Inr i, wdb w1)" by (rule upsert_entry_Inr)
    then have "has_row (indexed_entry (p_mount_id P) g x) (wdb w1)"
      by (rule upsert_meta_indexes) (use Cons.prems in simp)
    moreover have "\<forall>e'\<in>set xs. rm_item_id e' = None \<and> rm_path e' \<noteq> rm_path x"
      using Cons.prems(2,3) by (auto simp: image_iff dest: sym)
    ultimately show ?thesis
      using upsert_entries_keep_others [OF xs, of x "\<lambda>r. g \<le> r_poll_generation r"] True
      by (simp add: indexed_entry_def [abs_def])
  next
    case False
    with Cons.prems show ?thesis by (intro Cons.IH [OF xs]) auto
  qed
qed simp

text \<open>Marking the generation of a list of inodes is one pass over the rows.\<close>

definition mark_rows :: "inode list \<Rightarrow> nat \<Rightarrow> file_row list \<Rightarrow> file_row list" where
  "mark_rows ids g = map (\<lambda>r. if r_inode r \<in> set ids then r\<lparr>r_poll_generation := g\<rparr> else r)"

lemma mark_rows_append: "mark_rows b g (mark_rows a g rows) = mark_rows (a @ b) g rows"
  by (simp add: mark_rows_def)

lemma mark_each_Inr:
  "each (\<lambda>i. exec_update (\<lambda>r. r_inode r = i) (\<lambda>r. r\<lparr>r_poll_generation := g\<rparr>)) ids s = (Inr u, s') \<Longrightarrow>
   file_index s' = mark_rows ids g (file_index s)"
proof (induction ids arbitrary: s)
  case (Cons i ids)
  from Cons.prems obtain n s1 where s1: "exec_update (\<lambda>r. r_inode r = i) (\<lambda>r. r\<lparr>r_poll_generation := g\<rparr>) s = (Inr n, s1)"
    and rest: "each (\<lambda>i. exec_update (\<lambda>r. r_inode r = i) (\<lambda>r. r\<lparr>r_poll_generation := g\<rparr>)) ids s1 = (Inr u, s')"
    by (auto simp: then_Inr)
  from exec_update_Inr [OF s1] have "file_index s1 = mark_rows [i] g (file_index s)"
    by (simp add: mark_rows_def update_rows_def)
  with Cons.IH [OF rest] show ?case by (simp add: mark_rows_append)
qed (simp add: mark_rows_def)

lemma mark_chunks_Inr:
  "each (\<lambda>c. transaction (each (\<lambda>i. exec_update (\<lambda>r. r_inode r = i) (\<lambda>r. r\<lparr>r_poll_generation := g\<rparr>)) c)) cs s = (Inr u, s') \<Longrightarrow>
   file_index s' = mark_rows (concat cs) g (file_index s)"
proof (induction cs arbitrary: s)
  case (Cons c cs)
  let ?f = "\<lambda>c. each (\<lambda>i. exec_update (\<lambda>r. r_inode r = i) (\<lambda>r. r\<lparr>r_poll_generation := g\<rparr>)) c"
  from Cons.prems obtain v s1 where "transaction (?f c) s = (Inr v, s1)" and rest: "each (\<lambda>c. transaction (?f c)) cs s1 = (Inr u, s')"
    by (auto simp: then_Inr)
  then have "?f c s = (Inr v, s1)" by (auto simp: transaction_def split: prod.splits sum.splits)
  from mark_each_Inr [OF this] Cons.IH [OF rest] show ?case by (simp add: mark_rows_append)
qed (simp add: mark_rows_def)

lemma batch_mark_Inr:
  "batch_mark_generation ids g s = (Inr u, s') \<Longrightarrow> file_index s' = mark_rows ids g (file_index s)"
  by (auto simp: batch_mark_generation_def mark_rows_def dest: mark_chunks_Inr split: if_splits)

lemma mark_shows:
  assumes "has_row (\<lambda>r. shows_entry m e r \<and> (g \<le> r_poll_generation r \<or> r_inode r \<in> set ids)) s"
    and "batch_mark_generation ids g s = (Inr u, s')"
  shows "has_row (indexed_entry m g e) s'"
proof -
  from assms(1) obtain r where r: "r \<in> set (file_index s)" "shows_entry m e r"
    "g \<le> r_poll_generation r \<or> r_inode r \<in> set ids" by (auto simp: has_row_def)
  let ?r = "if r_inode r \<in> set ids then r\<lparr>r_poll_generation := g\<rparr> else r"
  have "?r \<in> set (file_index s')"
    unfolding batch_mark_Inr [OF assms(2)] mark_rows_def using r(1) by force
  moreover have "indexed_entry m g e ?r" using r by (auto simp: indexed_entry_def shows_entry_def)
  ultimately show ?thesis unfolding has_row_def by blast
qed

lemma sweep_keeps_indexed:
  assumes "db_wf s" "delete_stale_entries m g s = (Inr d, s')" "has_row (indexed_entry m g e) s"
  shows "has_row (shows_entry m e) s'"
  using assms(3) delete_stale_Inr [OF assms(1,2)]
  by (fastforce simp: has_row_def indexed_entry_def stale_row_def)

lemma listing_phases_indexed:
  assumes run: "apply_listing P g snap es ids w = (Inr (), w')" and wf: "world_wf w"
    and es: "\<forall>e'\<in>set es. rm_item_id e' = None" "distinct (map rm_path es)"
    and e: "e \<in> set es \<or> has_row (\<lambda>r. shows_entry (p_mount_id P) e r \<and> r_inode r \<in> set ids) (wdb w)
                          \<and> rm_path e \<notin> rm_path ` set es"
  shows "has_row (shows_entry (p_mount_id P) e) (wdb w')"
proof -
  let ?m = "p_mount_id P" and ?es = "sort_key (\<lambda>e. length (rm_path e)) es"
  from run obtain w1 w2 d s3 where
    ph1: "(if p_version_retention P > 0 then each (snapshot_version P snap) es else ret ()) w = (Inr (), w1)"
    and "\<exists>p2i'. upsert_entries P g (map_option sn_inode \<circ> snap) ?es w1 = (Inr p2i', w2)"
    and ph3: "batch_mark_generation ids g (wdb w2) = (Inr (), s3)"
    and "\<exists>s4 s5. delete_stale_entries ?m g s3 = (Inr d, s4) \<and> set_poll_generation ?m g s4 = (Inr (), s5)
        \<and> wdb w' = snd (batch_mark_dirs_listed ?m (snd (cleanup_expired_tombstones s5)))"
    by (rule apply_listing_Inr) blast
  then obtain p2i' s4 s5 where
    ph2: "upsert_entries P g (map_option sn_inode \<circ> snap) ?es w1 = (Inr p2i', w2)"
    and ph4: "delete_stale_entries ?m g s3 = (Inr d, s4)" and ph5: "set_poll_generation ?m g s4 = (Inr (), s5)"
    and fin: "wdb w' = snd (batch_mark_dirs_listed ?m (snd (cleanup_expired_tombstones s5)))" by blast
  have d: "distinct (map rm_path ?es)"
    using es(2) by (simp add: distinct_map)
  have wf1: "db_wf (wdb w1)"
    using keepsE [OF keeps_snapshots [of "\<lambda>_. True"] ph1] wf by (simp add: rows_only_def wf_and_def)
  have up: "keeps db_wf (upsert_meta P g parent x)" for parent x
    unfolding upsert_meta_def by (rule keeps_rules)
  have wf2: "db_wf (wdb w2)" by (rule keepsE [OF keeps_upsert_entries ph2]) (use up wf1 in auto)
  have wf3: "db_wf s3" by (rule keepsE [OF batch_mark_generation_wf ph3 wf2])
  have "has_row (\<lambda>r. shows_entry ?m e r \<and> (g \<le> r_poll_generation r \<or> r_inode r \<in> set ids)) (wdb w2)"
    using e
  proof
    assume "e \<in> set es"
    with upsert_entries_index [OF ph2 _ d, of e] es(1)
    show ?thesis by (auto simp: has_row_def indexed_entry_def)
  next
    let ?R = "\<lambda>r. shows_entry ?m e r \<and> r_inode r \<in> set ids"
    assume a: "has_row ?R (wdb w) \<and> rm_path e \<notin> rm_path ` set es"
    then have "has_row ?R (wdb w1)"
      using keepsE [OF keeps_snapshots [of "has_row ?R"] ph1] wf by (simp add: wf_and_def)
    moreover have "\<forall>e'\<in>set ?es. rm_item_id e' = None \<and> rm_path e' \<noteq> rm_path e"
      using a es(1) by (auto simp: image_iff dest: sym)
    ultimately have "has_row ?R (wdb w2)" by (rule upsert_entries_keep_others [OF ph2, rotated])
    then show ?thesis by (auto simp: has_row_def)
  qed
  then have "has_row (indexed_entry ?m g e) s3" by (rule mark_shows [OF _ ph3])
  then have "has_row (shows_entry ?m e) s4" by (rule sweep_keeps_indexed [OF wf3 ph4])
  then have s5: "has_row (shows_entry ?m e) (snd (cleanup_expired_tombstones s5))"
    using frames_rows_ops(5) [of ?m g] frames_rows_ops(6) ph5 unfolding frames_rows_def has_row_def by (metis snd_conv)
  have "keeps (has_row (shows_entry ?m e)) (batch_mark_dirs_listed ?m)"
    unfolding batch_mark_dirs_listed_def by (intro keeps_rules has_row_update) (simp add: shows_entry_def)
  from keepsD [OF this s5] show ?thesis by (simp add: fin)
qed



end
