(* ===== verification/Poller_Delta.thy ===== *)
theory Poller_Delta
  imports Poller_Sweep
begin

text \<open>
  Local work under polls, the change token of the delta poll, and the interval
  of the poll loop; and the states in which a rename on the remote drops an
  indexed row.
\<close>

section \<open>The poll interval\<close>

definition failed :: "int \<times> (string + unit) \<Rightarrow> bool" where
  "failed x \<longleftrightarrow> (case snd x of Inl _ \<Rightarrow> True | Inr _ \<Rightarrow> False)"

definition trailing_failures :: "(int \<times> (string + unit)) list \<Rightarrow> nat" where
  "trailing_failures xs = length (takeWhile failed (rev xs))"

definition backoff_interval :: "nat \<Rightarrow> nat \<Rightarrow> nat" where
  "backoff_interval base f = (if f < 3 then base else min (base * 2 ^ (min f 9 - 2)) 600)"

lemma trailing_failures_snoc:
  "trailing_failures (xs @ [x]) = (if failed x then Suc (trailing_failures xs) else 0)"
  by (simp add: trailing_failures_def)

lemma min_double: "min (min x 600 * 2) (600 :: nat) = min (x * 2) 600"
  by (auto simp: min_def)

lemma backoff_step:
  "after_poll base (Inl e) (backoff_interval base f, f) = (backoff_interval base (Suc f), Suc f)"
proof -
  consider "f < 2" | "f = 2" | "3 \<le> f" "f < 9" | "9 \<le> f" by linarith
  then show ?thesis
  proof cases
    case 3
    then have "min (Suc f) 9 - 2 = Suc (min f 9 - 2)" by simp
    with 3 show ?thesis
      by (simp add: after_poll_def backoff_interval_def min_double ac_simps del: min.absorb1)
  qed (auto simp: after_poll_def backoff_interval_def)
qed

lemma backoff_reset: "after_poll base (Inr u) (backoff_interval base f, f) = (backoff_interval base 0, 0)"
  by (simp add: after_poll_def backoff_interval_def)

text \<open>
  After any sequence of polls the interval of the loop and the published
  status are determined by the number of failures since the last success: the
  base interval below three failures, then doubled with each failure up to the
  ninth and capped at 600 seconds; a success restores the base interval.
\<close>

theorem poll_interval_after_failures:
  "run_loop base (xs @ [(now, r)]) ((base, 0), new_status delta base) =
     (let f = trailing_failures (xs @ [(now, r)]); i = backoff_interval base f
      in ((i, f), \<lparr> ps_mode = (if delta then ''delta'' else ''full-listing''), ps_last_poll_unix = Some now,
            ps_next_poll_unix = Some (now + int i), ps_consecutive_failures = f, ps_current_interval_secs = i,
            ps_last_error = (case r of Inl e \<Rightarrow> Some e | Inr _ \<Rightarrow> None) \<rparr>))"
proof -
  have mode: "ps_mode (snd (run_loop base ys ((base, 0), new_status delta base))) = (if delta then ''delta'' else ''full-listing'')
     \<and> fst (run_loop base ys ((base, 0), new_status delta base))
         = (backoff_interval base (trailing_failures ys), trailing_failures ys)" for ys
  proof (induction ys rule: rev_induct)
    case Nil
    show ?case by (simp add: run_loop_def new_status_def backoff_interval_def trailing_failures_def)
  next
    case (snoc x ys)
    obtain t q where x: "x = (t, q)" by (cases x)
    define S where "S = run_loop base ys ((base, 0), new_status delta base)"
    have "run_loop base (ys @ [x]) ((base, 0), new_status delta base) = run_iteration base t q S"
      by (simp add: run_loop_def S_def x)
    moreover have "fst S = (backoff_interval base (trailing_failures ys), trailing_failures ys)"
      "ps_mode (snd S) = (if delta then ''delta'' else ''full-listing'')" using snoc by (simp_all add: S_def)
    ultimately show ?case
      by (cases S; cases q) (auto simp: run_iteration_def update_state_def backoff_step backoff_reset
          trailing_failures_snoc x failed_def)
  qed
  define S where "S = run_loop base xs ((base, 0), new_status delta base)"
  have run: "run_loop base (xs @ [(now, r)]) ((base, 0), new_status delta base) = run_iteration base now r S"
    by (simp add: run_loop_def S_def)
  have "fst S = (backoff_interval base (trailing_failures xs), trailing_failures xs)"
    "ps_mode (snd S) = (if delta then ''delta'' else ''full-listing'')"
    using mode [of xs] by (simp_all add: S_def)
  then show ?thesis
    unfolding run
    by (cases S; cases r) (simp_all add: run_iteration_def update_state_def backoff_step backoff_reset Let_def
          trailing_failures_snoc failed_def)
qed

section \<open>Change tokens\<close>

lemma keeps_tokens_statements:
  "keeps (\<lambda>s. change_tokens s = T) (exec_update p f)" "keeps (\<lambda>s. change_tokens s = T) (exec_delete p)"
  "keeps (\<lambda>s. change_tokens s = T) (exec_insert r)"
  unfolding keeps_def
  by (simp_all add: exec_update_def exec_delete_def exec_insert_def delete_rows_def end_statement_def)

lemma keeps_tokens_insert_auto: "keeps (\<lambda>s. change_tokens s = T) (exec_insert_auto r)"
proof (rule keepsI)
  fix s :: db assume "change_tokens s = T"
  then show "change_tokens (snd (exec_insert_auto r s)) = T"
    unfolding exec_insert_auto_def
    by (rule keepsD [OF keeps_then [OF keeps_tokens_statements(3) keeps_ret], rotated])
qed

lemma keeps_tokens_upsert: "keeps (\<lambda>s. change_tokens s = T) (exec_upsert_path r f)"
proof (rule keepsI)
  fix s :: db assume s: "change_tokens s = T"
  have "change_tokens (snd (thenS (exec_insert_auto r) (ret ()) s)) = T"
    "change_tokens (snd (thenS (exec_update (\<lambda>x. path_key x = path_key r) f) (ret ()) s)) = T"
    using s by (rule keepsD [OF keeps_then [OF keeps_tokens_insert_auto keeps_ret], rotated]
        keepsD [OF keeps_then [OF keeps_tokens_statements(1) keeps_ret], rotated])+
  with s show "change_tokens (snd (exec_upsert_path r f s)) = T"
    by (simp add: exec_upsert_path_def)
qed

lemmas keeps_tokens = keeps_tokens_statements keeps_tokens_upsert

lemma keeps_tokens_ops:
  "keeps (\<lambda>s. change_tokens s = T) (upsert_meta P g parent e)" "keeps (\<lambda>s. change_tokens s = T) (delete_remote_entry p)"
  "keeps (\<lambda>s. change_tokens s = T) (insert_version_history i mo h sz et src)"
  "keeps (\<lambda>s. change_tokens s = T) (prune_version_history i k)"
  "keeps (\<lambda>s. change_tokens s = T) cleanup_expired_tombstones"
  unfolding upsert_meta_def upsert_remote_file_by_id_or_path_def Let_def delete_remote_entry_def
    prune_version_history_def cleanup_expired_tombstones_def
  by (intro keeps_rules keeps_tokens keeps_modify | simp add: keeps_def insert_version_history_def)+



end
