(* ===== verification/Poller_Work.thy ===== *)
theory Poller_Work
  imports Poller_Delta
begin

text \<open>
  Unsynced local work under polls: a poll keeps it as long as the backend's item
  ids agree with the index about the file; two theorems at the end show what
  happens otherwise.
\<close>

section \<open>The work of one file\<close>

text \<open>
  The row that holds the work, at its path, with an item id out of \<open>ids\<close> or
  none; and no other path of the mount carries an id out of \<open>ids\<close>.
\<close>

definition work_row :: "mount_id \<Rightarrow> path \<Rightarrow> string set \<Rightarrow> inode \<Rightarrow> sync_status \<Rightarrow> path option \<Rightarrow> nat option \<Rightarrow> file_row \<Rightarrow> bool" where
  "work_row m rp ids i st cp cs r \<longleftrightarrow> local_work i st cp cs r \<and> path_key r = (m, rp)
     \<and> (\<forall>it. r_item_id r = Some it \<longrightarrow> it \<in> ids)"

definition ids_at :: "mount_id \<Rightarrow> path \<Rightarrow> string set \<Rightarrow> file_row \<Rightarrow> bool" where
  "ids_at m rp ids r \<longleftrightarrow> (\<forall>it. r_mount_id r = m \<and> r_item_id r = Some it \<and> it \<in> ids \<longrightarrow> r_remote_path r = rp)"

definition work_inv :: "mount_id \<Rightarrow> path \<Rightarrow> string set \<Rightarrow> inode \<Rightarrow> sync_status \<Rightarrow> path option \<Rightarrow> nat option \<Rightarrow> db \<Rightarrow> bool" where
  "work_inv m rp ids i st cp cs s \<longleftrightarrow> has_row (work_row m rp ids i st cp cs) s \<and> all_rows (ids_at m rp ids) s"

lemma rows_only_work_inv [simp]: "rows_only (work_inv m rp ids i st cp cs)"
  unfolding work_inv_def by (rule rows_only_conj) simp_all

lemma keeps_work_inv:
  "\<lbrakk>keeps (has_row (work_row m rp ids i st cp cs)) p; keeps (all_rows (ids_at m rp ids)) p\<rbrakk>
   \<Longrightarrow> keeps (work_inv m rp ids i st cp cs) p"
  by (simp add: keeps_def work_inv_def)

lemma work_inv_mark: "keeps (work_inv m rp ids i st cp cs) (batch_mark_generation js g)"
  unfolding batch_mark_generation_def
  by (intro keeps_work_inv keeps_rules has_row_update all_rows_update)
     (auto simp: work_row_def local_work_def ids_at_def)

lemma work_inv_dirs: "keeps (work_inv m rp ids i st cp cs) (batch_mark_dirs_listed m')"
  unfolding batch_mark_dirs_listed_def
  by (intro keeps_work_inv keeps_rules has_row_update all_rows_update)
     (auto simp: work_row_def local_work_def ids_at_def)

lemma work_inv_deletes:
  assumes "unsynced st"
  shows "keeps (wf_and (work_inv m rp ids i st cp cs)) (delete_stale_entries m' g)"
    and "keeps (wf_and (work_inv m rp ids i st cp cs)) (delete_remote_entry p)"
proof -
  have all: "keeps (all_rows (ids_at m rp ids)) (delete_stale_entries m' g)"
    "keeps (all_rows (ids_at m rp ids)) (delete_remote_entry p)"
    unfolding delete_stale_entries_def delete_remote_entry_def by (intro keeps_rules)+
  have un: "unsynced (r_status r)" if "work_row m rp ids i st cp cs r" for r
    using that assms by (simp add: work_row_def local_work_def)
  show "keeps (wf_and (work_inv m rp ids i st cp cs)) (delete_stale_entries m' g)"
    using keepsD [OF delete_stale_entries_wf] keepsD [OF all(1)] delete_stale_keeps un
    unfolding keeps_def wf_and_def work_inv_def has_row_def by (metis stale_row_def)
  show "keeps (wf_and (work_inv m rp ids i st cp cs)) (delete_remote_entry p)"
    using keepsD [OF delete_remote_entry_wf] keepsD [OF all(2)] delete_remote_entry_keeps un
    unfolding keeps_def wf_and_def work_inv_def has_row_def by metis
qed

section \<open>Upserts\<close>

lemma exec_update_state:
  "snd (exec_update p f s) = s \<or> snd (exec_update p f s) = s\<lparr>file_index := update_rows p f (file_index s)\<rparr>"
  by (simp add: exec_update_def end_statement_def)

text \<open>The update of the row found by its item id, when that id is not one of the file's.\<close>

lemma update_other_item:
  assumes wf: "db_wf s" and inv: "work_inv m rp ids i st cp cs s"
    and old: "old \<in> set (file_index s)" "r_mount_id old = m" "r_item_id old = Some it" "it \<notin> ids"
  shows "work_inv m rp ids i st cp cs (snd (exec_update (\<lambda>r. r_inode r = r_inode old)
           (\<lambda>r. (upsert_columns x r)\<lparr>r_remote_path := rp'\<rparr>) s))"
    (is "work_inv _ _ _ _ _ _ _ (snd (exec_update ?p ?f s))")
proof -
  have rows: "r = old" if "r \<in> set (file_index s)" "?p r" for r
    using wf_unique(1) [OF wf that(1) old(1)] that(2) by simp
  obtain r0 where r0: "r0 \<in> set (file_index s)" "work_row m rp ids i st cp cs r0"
    using inv by (auto simp: work_inv_def has_row_def)
  have "\<not> ?p r0" using rows [OF r0(1)] r0(2) old by (auto simp: work_row_def)
  then have "r0 \<in> set (update_rows ?p ?f (file_index s))"
    using r0(1) by (force simp: update_rows_set)
  moreover have "ids_at m rp ids r" if "r \<in> set (update_rows ?p ?f (file_index s))" for r
  proof -
    from that obtain r1 where r1: "r1 \<in> set (file_index s)" "r = (if ?p r1 then ?f r1 else r1)"
      by (auto simp: update_rows_set)
    show ?thesis
    proof (cases "?p r1")
      case True
      with rows [OF r1(1)] r1 old show ?thesis by (simp add: ids_at_def)
    next
      case False
      with r1 inv show ?thesis by (auto simp: work_inv_def all_rows_def)
    qed
  qed
  ultimately have "work_inv m rp ids i st cp cs (s\<lparr>file_index := update_rows ?p ?f (file_index s)\<rparr>)"
    using r0(2) by (auto simp: work_inv_def has_row_def all_rows_def)
  then show ?thesis using exec_update_state [of ?p ?f s] inv by metis
qed

text \<open>The backend and the index agree on which entry is the file: it has the path exactly if its id is one of the file's.\<close>

definition agrees :: "path \<Rightarrow> string set \<Rightarrow> remote_metadata \<Rightarrow> bool" where
  "agrees rp ids e \<longleftrightarrow> (\<forall>it. rm_item_id e = Some it \<longrightarrow> (rm_path e = rp \<longleftrightarrow> it \<in> ids))"

lemma or_else_Some: "or_else a b = Some x \<longleftrightarrow> a = Some x \<or> (a = None \<and> b = Some x)"
  by (auto simp: or_else_def split: option.splits)

lemma upsert_path_keeps_work:
  assumes "unsynced st" "agrees rp ids e" "r_mount_id x = m" "r_remote_path x = rm_path e" "r_item_id x = rm_item_id e"
  shows "keeps (work_inv m rp ids i st cp cs)
     (exec_upsert_path x (\<lambda>r. (upsert_columns x r)\<lparr>r_item_id := or_else (r_item_id r) (rm_item_id e)\<rparr>))"
  by (intro keeps_work_inv has_row_upsert_path all_rows_upsert_path)
     (use assms in \<open>auto simp: work_row_def ids_at_def or_else_Some agrees_def local_work_def upsert_columns_def upserted_status_def\<close>)

lemma update_same_item:
  assumes "unsynced st"
  shows "keeps (work_inv m rp ids i st cp cs) (exec_update p (\<lambda>r. (upsert_columns x r)\<lparr>r_remote_path := rp\<rparr>))"
  by (intro keeps_work_inv has_row_update all_rows_update)
     (use assms in \<open>auto simp: work_row_def ids_at_def local_work_def upsert_columns_def upserted_status_def\<close>)

lemma delete_other_path:
  "rp' \<noteq> rp \<Longrightarrow> keeps (work_inv m rp ids i st cp cs) (exec_delete (\<lambda>r. r_mount_id r = m \<and> r_remote_path r = rp' \<and> R r))"
  by (intro keeps_work_inv has_row_delete all_rows_delete) (auto simp: work_row_def)

lemma upsert_keeps_work:
  assumes un: "unsynced st" and ag: "agrees rp ids e" and m: "m = p_mount_id P"
  shows "keeps (wf_and (work_inv m rp ids i st cp cs)) (upsert_meta P g parent e)"
proof (rule keepsI)
  fix s assume "wf_and (work_inv m rp ids i st cp cs) s"
  then have wf: "db_wf s" and inv: "work_inv m rp ids i st cp cs s" by (simp_all add: wf_and_def)
  define x where "x = remote_row m parent (rm_name e) (rm_path e) (if rm_is_dir e then Directory else File) (rm_size e)
      (rm_mtime e) (rm_etag e) (rm_item_id e) g"
  let ?found = "case rm_item_id e of None \<Rightarrow> None | Some it \<Rightarrow> find_row (\<lambda>r. r_mount_id r = m \<and> r_item_id r = Some it) s"
  have "work_inv m rp ids i st cp cs (snd (upsert_meta P g parent e s))"
  proof (cases ?found)
    case None
    have "keeps (work_inv m rp ids i st cp cs) (thenS (exec_upsert_path x (\<lambda>r. (upsert_columns x r)\<lparr>r_item_id := or_else (r_item_id r) (rm_item_id e)\<rparr>))
              (bindS (query (find_row (\<lambda>r. r_mount_id r = m \<and> r_remote_path r = rm_path e)))
                 (\<lambda>row. case row of Some r \<Rightarrow> ret (r_inode r) | None \<Rightarrow> raise NoRows)))"
      by (intro keeps_rules upsert_path_keeps_work [OF un ag]) (simp_all add: x_def)
    from keepsD [OF this inv] None show ?thesis
      by (simp add: upsert_meta_def upsert_remote_file_by_id_or_path_def Let_def x_def [symmetric] flip: m)
  next
    case (Some old)
    then obtain it where it: "rm_item_id e = Some it" "find_row (\<lambda>r. r_mount_id r = m \<and> r_item_id r = Some it) s = Some old"
      by (auto split: option.splits)
    from find_row_Some [OF it(2)] have old: "old \<in> set (file_index s)" "r_mount_id old = m" "r_item_id old = Some it" by auto
    let ?upd = "exec_update (\<lambda>r. r_inode r = r_inode old) (\<lambda>r. (upsert_columns x r)\<lparr>r_remote_path := rm_path e\<rparr>)"
    let ?del = "if r_remote_path old \<noteq> rm_path e
        then exec_delete (\<lambda>r. r_mount_id r = m \<and> r_remote_path r = rm_path e \<and> r_inode r \<noteq> r_inode old) else ret ()"
    have run: "upsert_meta P g parent e s = thenS ?del (thenS ?upd (ret (r_inode old))) s"
      using Some by (simp add: upsert_meta_def upsert_remote_file_by_id_or_path_def Let_def x_def [symmetric] flip: m)
    show ?thesis
    proof (cases "it \<in> ids")
      case True
      then have rp: "rm_path e = rp" using ag it(1) by (simp add: agrees_def)
      moreover have "r_remote_path old = rp" using True old inv by (auto simp: work_inv_def all_rows_def ids_at_def)
      ultimately show ?thesis
        using keepsD [OF keeps_then [OF update_same_item [OF un] keeps_ret] inv] by (simp add: run run_then)
    next
      case False
      then have rp: "rm_path e \<noteq> rp" using ag it(1) by (simp add: agrees_def)
      obtain q s1 where d: "?del s = (q, s1)" by (cases "?del s")
      have "keeps db_wf ?del" by (intro keeps_rules keeps_delete)
      from keepsE [OF this d wf] have wf1: "db_wf s1" .
      have "keeps (work_inv m rp ids i st cp cs) ?del" by (intro keeps_rules delete_other_path [OF rp])
      from keepsE [OF this d inv] have inv1: "work_inv m rp ids i st cp cs s1" .
      have "old \<in> set (file_index s1)"
        using d old(1) by (auto simp: exec_delete_def end_statement_def split: if_splits)
      from update_other_item [OF wf1 inv1 this old(2,3) False, of "rm_path e" x] inv1
      show ?thesis unfolding run run_then d by (auto simp: run_then split: sum.split prod.split)
    qed
  qed
  moreover have "keeps db_wf (upsert_meta P g parent e)" unfolding upsert_meta_def by (rule keeps_rules)
  ultimately show "wf_and (work_inv m rp ids i st cp cs) (snd (upsert_meta P g parent e s))"
    using keepsD wf by (auto simp: wf_and_def)
qed

section \<open>Polls\<close>

text \<open>
  C10: a poll, full or delta, successful or failed, keeps unsynced local work: a
  dirty or uploading row stays at its path with its inode, status, cache file
  and cache size, provided the backend's entries and the index agree on the item
  ids of that file.
\<close>

theorem poll_keeps_unsynced_work:
  assumes wf: "world_wf w" and r0: "r0 \<in> set (file_index (wdb w))" "r_mount_id r0 = p_mount_id P" "unsynced (r_status r0)"
    and ids: "\<forall>r\<in>set (file_index (wdb w)). \<forall>it. r_mount_id r = p_mount_id P \<and> r_item_id r = Some it \<longrightarrow> (it \<in> ids \<longleftrightarrow> r = r0)"
    and off: "\<forall>e\<in>offered P. \<forall>it. rm_item_id e = Some it \<longrightarrow> (rm_path e = r_remote_path r0 \<longleftrightarrow> it \<in> ids)"
    and poll: "poll = poll_once P \<or> poll = poll_once_delta P"
  shows "\<exists>r\<in>set (file_index (wdb (state_after poll w))). r_inode r = r_inode r0 \<and> r_remote_path r = r_remote_path r0
           \<and> r_status r = r_status r0 \<and> r_cache_path r = r_cache_path r0 \<and> r_cache_size r = r_cache_size r0"
proof -
  let ?J = "work_inv (p_mount_id P) (r_remote_path r0) ids (r_inode r0) (r_status r0) (r_cache_path r0) (r_cache_size r0)"
  have J: "wf_and ?J (wdb w)"
    using wf r0 ids by (auto simp: wf_and_def work_inv_def has_row_def all_rows_def work_row_def local_work_def ids_at_def)
  have u: "keeps (wf_and ?J) (upsert_meta P g parent e)" if "e \<in> offered P" for g parent e
    using off that by (intro upsert_keeps_work r0 refl) (auto simp: agrees_def)
  have k: "keeps (wf_and ?J) (batch_mark_generation js g)" "keeps (wf_and ?J) (batch_mark_dirs_listed (p_mount_id P))" for js g
    by (intro keeps_wf_and work_inv_mark work_inv_dirs keeps_rules)+
  have "wf_and ?J (wdb (state_after (poll_once P) w))"
    by (rule poll_once_keeps [OF rows_only_work_inv u k(1) work_inv_deletes(1) [OF r0(3)] k(2) J]) (auto simp: offered_def)
  moreover have "wf_and ?J (wdb (state_after (poll_once_delta P) w))"
    by (rule poll_once_delta_keeps [OF rows_only_work_inv u k(1) work_inv_deletes(1) [OF r0(3)] k(2) work_inv_deletes(2) [OF r0(3)] J])
  ultimately show ?thesis
    using poll by (auto simp: wf_and_def work_inv_def has_row_def work_row_def local_work_def)
qed

theorem poll_keeps_unsynced_work_witness:
  "\<exists>r\<in>set (file_index (wdb (state_after (poll_once swept_poller) swept_world))). r_inode r = 4 \<and> r_remote_path r = ''d/b''
     \<and> r_status r = Dirty \<and> r_cache_path r = Some ''/c/d/b'' \<and> r_cache_size r = Some 10"
proof -
  let ?r = "sample_row 4 (Some 2) ''b'' ''d/b'' File Dirty (Some ''/c/d/b'') None"
  have r: "?r \<in> set (file_index (wdb swept_world))" "r_mount_id ?r = p_mount_id swept_poller" "unsynced (r_status ?r)"
    by (simp_all add: swept_world_def swept_poller_def sample_poller_def sample_defs)
  have ids: "\<forall>r\<in>set (file_index (wdb swept_world)). \<forall>it. r_mount_id r = p_mount_id swept_poller \<and> r_item_id r = Some it \<longrightarrow> (it \<in> {} \<longleftrightarrow> r = ?r)"
    by (simp add: swept_world_def swept_poller_def sample_poller_def sample_defs)
  have off: "\<forall>e\<in>offered swept_poller. \<forall>it. rm_item_id e = Some it \<longrightarrow> (rm_path e = r_remote_path ?r \<longleftrightarrow> it \<in> {})"
    by (auto simp: offered_def swept_poller_def sample_poller_def sample_meta_def)
  show ?thesis
    using poll_keeps_unsynced_work [OF swept_world_wf r ids off, of "poll_once swept_poller"]
    by (simp add: sample_row_def)
qed

section \<open>Where the poll and the index disagree\<close>

text \<open>
  The sweep cannot delete a vanished directory that still has a child with
  unsynced work.  The foreign key on the parent makes \<open>delete_stale_entries\<close> fail,
  in every order of the rows, and with it the whole poll, for as long as the
  child is unsynced.
\<close>

theorem vanished_parent_of_unsynced_blocks_sweep:
  assumes wf: "db_wf s" and p: "p \<in> set (file_index s)" "stale_row m g p"
    and c: "c \<in> set (file_index s)" "r_parent c = Some (r_inode p)" "unsynced (r_status c)"
  shows "\<exists>e. result_of (delete_stale_entries m g) s = Inl e"
proof (cases "delete_stale_entries m g s")
  case (Pair res s')
  show ?thesis
  proof (cases res)
    case (Inr d)
    with Pair have run: "delete_stale_entries m g s = (Inr d, s')" by simp
    have "db_wf s'" by (rule keepsE [OF delete_stale_entries_wf run wf])
    moreover have "c \<in> set (file_index s')"
      using delete_stale_Inr [OF wf run] c(1,3) by (simp add: stale_row_def)
    ultimately obtain q where q: "q \<in> set (file_index s')" "r_inode q = r_inode p"
      using c(2) by (fastforce simp: db_wf_def files_wf_def fk_ok_def row_refs_ok_def list_all_iff)
    with delete_stale_Inr [OF wf run] have "q \<in> set (file_index s)" "\<not> stale_row m g q" by auto
    with wf_unique(1) [OF wf _ p(1)] q(2) p(2) show ?thesis by blast
  qed (use Pair in simp)
qed

theorem vanished_parent_of_unsynced_blocks_sweep_witness:
  "\<exists>e. result_of (delete_stale_entries 1 2) sample_db = Inl e"
  using vanished_parent_of_unsynced_blocks_sweep [OF sample_db_wf,
      of "sample_row 2 (Some 1) ''d'' ''d'' Directory Remote None None" 1 2
         "sample_row 4 (Some 2) ''b'' ''d/b'' File Dirty (Some ''/c/d/b'') None"]
  by (simp add: sample_defs stale_row_def FUSE_ROOT_INODE_def)

lemmas statement_simps = exec_update_def exec_delete_def exec_insert_auto_def exec_insert_def exec_upsert_path_def
  delete_rows_def cascade_def end_statement_def update_rows_def unique_ok_def fk_ok_def row_refs_ok_def trigger_ok_def

lemmas upsert_simps = upsert_meta_def upsert_remote_file_by_id_or_path_def find_row_def remote_row_def upsert_columns_def
  upserted_status_def or_else_def to_unix_def

text \<open>
  A file renamed on the remote onto the path of a file with unsynced local
  work drops that work: the row of the dirty file is deleted, and only the row of
  the renamed file remains at the path.
\<close>

theorem rename_onto_dirty_path_drops_row:
  "result_of (upsert_meta (sample_poller []) 2 2 (sample_meta ''d/b'' ''b'' 10 (Some ''ID3''))) sample_db = Inr 3
   \<and> (\<exists>r\<in>set (file_index sample_db). r_inode r = 4 \<and> r_status r = Dirty)
   \<and> 4 \<notin> inodes (state_after (upsert_meta (sample_poller []) 2 2 (sample_meta ''d/b'' ''b'' 10 (Some ''ID3''))) sample_db)"
  by (simp add: upsert_simps sample_poller_def sample_meta_def sample_defs run_then statement_simps)

text \<open>
  An entry recreated at a path whose former file was renamed is lost from the
  index.  The upsert by path keeps the old item id of the row, so the entry of
  the renamed file, which carries that id, takes the row away to its new path;
  the listing has both paths, the index after both upserts only the second.
\<close>

theorem recreated_path_lost_after_rename:
  "\<exists>s1. upsert_meta (sample_poller []) 2 2 (sample_meta ''d/a'' ''a'' 20 (Some ''ID9'')) sample_db = (Inr 3, s1)
     \<and> result_of (upsert_meta (sample_poller []) 2 2 (sample_meta ''d/aa'' ''aa'' 10 (Some ''ID3''))) s1 = Inr 3
     \<and> mount_paths 1 (state_after (upsert_meta (sample_poller []) 2 2 (sample_meta ''d/aa'' ''aa'' 10 (Some ''ID3''))) s1)
         = {''/'', ''d'', ''d/aa'', ''d/b''}"
proof -
  obtain x s1 where s1: "upsert_meta (sample_poller []) 2 2 (sample_meta ''d/a'' ''a'' 20 (Some ''ID9'')) sample_db = (x, s1)"
    by (cases "upsert_meta (sample_poller []) 2 2 (sample_meta ''d/a'' ''a'' 20 (Some ''ID9'')) sample_db")
  then have "x = Inr 3" and "s1 = sample_db\<lparr>file_index := [sample_row 1 None ''/'' ''/'' Directory Cached None None,
       sample_row 2 (Some 1) ''d'' ''d'' Directory Remote None None,
       (sample_row 3 (Some 2) ''a'' ''d/a'' File Stale (Some ''/c/d/a'') (Some ''ID3''))\<lparr>r_size := 20, r_poll_generation := 2\<rparr>,
       sample_row 4 (Some 2) ''b'' ''d/b'' File Dirty (Some ''/c/d/b'') None]\<rparr>"
    by (simp_all add: upsert_simps sample_poller_def sample_meta_def sample_defs run_then statement_simps)
  moreover from this(2) have "upsert_meta (sample_poller []) 2 2 (sample_meta ''d/aa'' ''aa'' 10 (Some ''ID3'')) s1
      = (Inr 3, sample_db\<lparr>file_index := [sample_row 1 None ''/'' ''/'' Directory Cached None None,
       sample_row 2 (Some 1) ''d'' ''d'' Directory Remote None None,
       (sample_row 3 (Some 2) ''aa'' ''d/aa'' File Stale (Some ''/c/d/a'') (Some ''ID3''))\<lparr>r_poll_generation := 2\<rparr>,
       sample_row 4 (Some 2) ''b'' ''d/b'' File Dirty (Some ''/c/d/b'') None]\<rparr>)"
    by (simp add: upsert_simps sample_poller_def sample_meta_def sample_defs run_then statement_simps)
  ultimately show ?thesis using s1 by (simp add: mount_paths_def sample_row_def del: set_filter set_map)
qed

text \<open>
  The full listing that replaces an expired change token misses deletions.
  Clearing the token also clears the stored poll generation, so the sweep runs
  with generation one and keeps every row that an earlier full poll has seen:
  here the listing is empty, the poll succeeds, and the row of the vanished file
  is still in the index.
\<close>

theorem expired_token_fallback_misses_deletion:
  "result_of (poll_once_delta (sample_poller [])) swept_world = Inr ()
   \<and> ''d/a'' \<in> mount_paths 1 (wdb (state_after (poll_once_delta (sample_poller [])) swept_world))"
proof -
  define w1 where "w1 = swept_world\<lparr>wdb := sample_db\<rparr>"
  have clear: "db_op (clear_change_token 1) swept_world = (Inr (), w1)"
    by (simp add: db_op_run clear_change_token_def swept_world_def kt_remove_def w1_def sample_db_def empty_db_def)
  have P: "p_mount_id (sample_poller []) = 1" "p_list (sample_poller []) ''/'' = Inr []" "p_version_retention (sample_poller []) = 0"
    "p_start_token (sample_poller []) = Inr ''t0''" "p_changes_since (sample_poller []) t = Inl TokenExpired" for t
    by (simp_all add: sample_poller_def)
  define s2 where "s2 = sample_db\<lparr>change_tokens := [\<lparr> t_mount_id = 1, t_token = nat_to_string 1, t_updated_at = 100 \<rparr>]\<rparr>"
  have g: "stored_generation 1 (wdb w1) = 0" by (simp add: w1_def sample_defs kt_lookup_def)
  have sw: "delete_stale_entries 1 1 (wdb w1) = (Inr [], wdb w1)"
    by (simp add: delete_stale_entries_def w1_def stale_row_def sample_defs run_then)
  have gen: "set_poll_generation 1 1 (wdb w1) = (Inr (), s2)"
    by (simp add: set_poll_generation_def set_change_token_def w1_def s2_def sample_defs kt_upsert_def)
  have cl: "snd (cleanup_expired_tombstones s2) = s2"
    by (simp add: cleanup_expired_tombstones_def run_then s2_def sample_defs)
  obtain w3 where w3: "poll_once (sample_poller []) w1 = (Inr (), w3)" "wdb w3 = snd (batch_mark_dirs_listed 1 s2)"
    using sw gen cl g
    by (simp add: poll_once_eval P Let_def MAX_POLL_ENTRIES_def List.map_filter_def apply_listing_def run_then run_bind db_op_run
        batch_mark_generation_def)
  have s3: "1 \<in> mount_ids (wdb w3)" "''d/a'' \<in> mount_paths 1 (wdb w3)"
    by (simp_all add: w3(2) batch_mark_dirs_listed_def statement_simps s2_def sample_defs mount_paths_def)
  have "kt_lookup t_mount_id 1 (change_tokens (wdb swept_world)) = Some \<lparr> t_mount_id = 1, t_token = ''1'', t_updated_at = 0 \<rparr>"
    by (simp add: swept_world_def kt_lookup_def)
  then have "poll_once_delta (sample_poller []) swept_world = poll_delta_expired (sample_poller []) swept_world"
    by (simp add: poll_once_delta_def get_change_token_def P run_bind db_op_run)
  also have "\<dots> = db_op (set_change_token 1 ''t0'') w3"
    by (simp add: poll_delta_expired_def P run_then clear w3(1) lift_sync_def del: One_nat_def)
  finally show ?thesis
    using s3 by (simp add: db_op_run set_change_token_def Let_def mount_paths_def)
qed

end
