(* ===== verification/Fuse_Base.thy ===== *)
theory Fuse_Base
  imports Upload_Queue Header_Cache
begin

text \<open>
  The ground of the FUSE layer (\<open>stratosync-daemon/src/fuse/mod.rs\<close> and
  \<open>write_ops.rs\<close>): error numbers, attributes, path helpers, and the state the
  handlers work on.  The handlers return an error number or a value; the file
  handles, the triggers sent to the upload queue and the tasks spawned for later
  are part of the state.  Path helpers are for paths without doubled or trailing
  slashes, as the daemon builds them.
\<close>

section \<open>Error numbers\<close>

definition EPERM :: int where "EPERM = 1"
definition ENOENT :: int where "ENOENT = 2"
definition EIO :: int where "EIO = 5"
definition EBADF :: int where "EBADF = 9"
definition EAGAIN :: int where "EAGAIN = 11"
definition EACCES :: int where "EACCES = 13"
definition EEXIST :: int where "EEXIST = 17"
definition ENOTDIR :: int where "ENOTDIR = 20"
definition EINVAL :: int where "EINVAL = 22"
definition ENOSPC :: int where "ENOSPC = 28"
definition ERANGE :: int where "ERANGE = 34"
definition ENOTEMPTY :: int where "ENOTEMPTY = 39"
definition ENODATA :: int where "ENODATA = 61"
definition ENOTSUP :: int where "ENOTSUP = 95"
definition EHOSTUNREACH :: int where "EHOSTUNREACH = 113"
definition EDQUOT :: int where "EDQUOT = 122"

lemmas errno_defs = EPERM_def ENOENT_def EIO_def EBADF_def EAGAIN_def EACCES_def EEXIST_def ENOTDIR_def EINVAL_def
  ENOSPC_def ERANGE_def ENOTEMPTY_def ENODATA_def ENOTSUP_def EHOSTUNREACH_def EDQUOT_def

text \<open>From the operating system's code of an I/O error, if it has one.\<close>

definition io_errno :: "int option \<Rightarrow> int" where
  "io_errno code = (case code of
       None \<Rightarrow> EIO
     | Some c \<Rightarrow> if c = ENOSPC then ENOSPC else if c = EDQUOT then ENOSPC else c)"

text \<open>The faults of the model's disk are \<open>EIO\<close>.\<close>

definition raw_os_error :: "err \<Rightarrow> int option" where
  "raw_os_error e = (case e of IoNotFound \<Rightarrow> Some ENOENT | IoOther \<Rightarrow> Some EIO | _ \<Rightarrow> None)"

text \<open>
  An I/O error inside a \<open>sync_error\<close> carries the text the operating system's code
  is displayed with; \<open>os_code\<close> recovers the code of the faults of the model.
\<close>

definition io_text :: "err \<Rightarrow> string" where
  "io_text e = (if e = IoNotFound then ''No such file or directory (os error 2)''
     else ''Input/output error (os error 5)'')"

definition invalid_argument :: string where
  "invalid_argument = ''Invalid argument (os error 22)''"

definition os_code :: "string \<Rightarrow> int option" where
  "os_code m = (if m = io_text IoNotFound then Some ENOENT else if m = io_text IoOther then Some EIO
     else if m = invalid_argument then Some EINVAL else None)"

definition errno :: "sync_error \<Rightarrow> int" where
  "errno e = (case e of
       NotFound _ \<Rightarrow> ENOENT
     | PermissionDenied _ \<Rightarrow> EACCES
     | QuotaExceeded \<Rightarrow> ENOSPC
     | Network _ \<Rightarrow> EHOSTUNREACH
     | Transient _ \<Rightarrow> EAGAIN
     | EtagConflict _ _ \<Rightarrow> EEXIST
     | NotSupported \<Rightarrow> ENOTSUP
     | IoError m \<Rightarrow> (case os_code m of Some c \<Rightarrow> c | None \<Rightarrow> EIO)
     | _ \<Rightarrow> EIO)"

section \<open>Attributes\<close>

record file_attr =
  a_ino    :: inode
  a_size   :: nat
  a_blocks :: nat
  a_mtime  :: system_time
  a_kind   :: file_kind
  a_perm   :: nat
  a_nlink  :: nat

definition entry_to_attr :: "file_entry \<Rightarrow> file_attr" where
  "entry_to_attr e =
     (let sz = (if fe_kind e = File then (case fe_cache_size e of Some n \<Rightarrow> n | None \<Rightarrow> fe_size e) else fe_size e)
      in \<lparr> a_ino = fe_inode e, a_size = sz, a_blocks = (sz + 511) div 512, a_mtime = fe_mtime e, a_kind = fe_kind e,
           a_perm = (if fe_kind e = Directory then 493 else 420), a_nlink = 1 \<rparr>)"

section \<open>Paths\<close>

definition validate_filename :: "string \<Rightarrow> int + unit" where
  "validate_filename name =
     (if name = [] \<or> name = ''.'' \<or> name = ''..'' \<or> CHR ''/'' \<in> set name \<or> CHR 0x00 \<in> set name
      then Inl EINVAL else Inr ())"

definition join_remote :: "path \<Rightarrow> string \<Rightarrow> path" where
  "join_remote parent child =
     (let p = trim_matches (CHR ''/'') parent in if p = [] then child else p @ ''/'' @ child)"

text \<open>\<open>canonicalize\<close> is the operating system's path resolution, a parameter of the check.\<close>

definition safe_cache_path :: "(path \<Rightarrow> path option) \<Rightarrow> (path \<Rightarrow> bool) \<Rightarrow> path \<Rightarrow> path \<Rightarrow> int + path" where
  "safe_cache_path canonicalize ex cache_dir remote_path =
     (let rel = trim_start_matches (CHR ''/'') remote_path;
          candidate = path_join cache_dir rel;
          canon_cache = (case canonicalize cache_dir of Some p \<Rightarrow> p | None \<Rightarrow> cache_dir);
          check = (\<lambda>check_dir. if \<not> path_starts_with check_dir canon_cache then Inl EACCES else Inr candidate)
      in if ex candidate
         then (case canonicalize candidate of Some p \<Rightarrow> check p | None \<Rightarrow> Inl EIO)
         else (case canonicalize (case path_parent candidate of Some p \<Rightarrow> p | None \<Rightarrow> cache_dir) of
                 Some p \<Rightarrow> check (path_join p (case path_file_name candidate of Some n \<Rightarrow> n | None \<Rightarrow> []))
               | None \<Rightarrow> check candidate))"

section \<open>State\<close>

record open_file =
  of_inode       :: inode
  of_cache_path  :: path
  of_remote_path :: path
  of_flags       :: int
  of_hydrating   :: bool

text \<open>Work handed to \<open>tokio::spawn\<close>.\<close>

datatype task =
    TaskMkdir path
  | TaskDelete path
  | TaskRmdir path
  | TaskRename "path option" "(path \<times> path) option"

text \<open>
  The bookkeeping of downloads.  \<open>waiters\<close> lists, per inode, the channels of the
  readers that wait for its download, and \<open>delivered\<close> what was sent on them.
\<close>

record active_hydration =
  ah_inode         :: inode
  ah_path          :: path
  ah_size          :: nat
  ah_started       :: int
  ah_first_started :: int
  ah_attempt       :: nat
  ah_downloaded    :: "nat option"

record hydration_tracker =
  ht_in_flight     :: "inode \<rightharpoonup> active_hydration"
  ht_first_started :: "inode \<rightharpoonup> int"
  ht_attempts      :: "inode \<rightharpoonup> nat"

text \<open>Speculative work: child directories, small files and headers of a directory, and a header to keep.\<close>

datatype prefetch = ChildDirs inode | SmallFiles inode | Headers inode | KeepHeader inode bytes

record fs =
  fw         :: world
  open_files :: "nat \<rightharpoonup> open_file"
  next_fh    :: nat
  triggers   :: "upload_trigger list"
  tasks      :: "task list"
  hydrations :: "inode list"
  tracker    :: hydration_tracker
  waiters    :: "inode \<rightharpoonup> nat list"
  delivered  :: "(nat \<times> (int + unit)) list"
  prefetches :: "prefetch list"
  prefetch_inflight :: "inode set"
  focus_dir  :: inode

type_synonym 'a fsm = "(fs, int, 'a) sem"

record fuse_cfg =
  f_mount_id     :: mount_id
  f_cache_dir    :: path
  f_ignore       :: "path \<Rightarrow> bool"
  f_canonicalize :: "world \<Rightarrow> path \<Rightarrow> path option"

definition in_world :: "(err \<Rightarrow> 'e) \<Rightarrow> 'a app \<Rightarrow> (fs, 'e, 'a) sem" where
  "in_world f m s = (case m (fw s) of (r, w) \<Rightarrow> (case r of Inl e \<Rightarrow> Inl (f e) | Inr a \<Rightarrow> Inr a, s\<lparr>fw := w\<rparr>))"

abbreviation db_eio :: "'a dbm \<Rightarrow> 'a fsm" where
  "db_eio m \<equiv> in_world (\<lambda>_. EIO) (db_op m)"

abbreviation io_op :: "'a app \<Rightarrow> 'a fsm" where
  "io_op m \<equiv> in_world (\<lambda>e. io_errno (raw_os_error e)) m"

definition require :: "int \<Rightarrow> 'a option \<Rightarrow> 'a fsm" where
  "require e x = (case x of None \<Rightarrow> raise e | Some a \<Rightarrow> ret a)"

definition check :: "int + 'a \<Rightarrow> 'a fsm" where
  "check r = (case r of Inl e \<Rightarrow> raise e | Inr a \<Rightarrow> ret a)"

definition enqueue :: "upload_trigger \<Rightarrow> unit fsm" where
  "enqueue t = modifyS (\<lambda>s. s\<lparr>triggers := triggers s @ [t]\<rparr>)"

definition spawn :: "task \<Rightarrow> unit fsm" where
  "spawn t = modifyS (\<lambda>s. s\<lparr>tasks := tasks s @ [t]\<rparr>)"

definition now_time :: "fs \<Rightarrow> system_time" where
  "now_time s = from_unix (clock (wdb (fw s)))"

lemma in_world_run [run_simps]:
  "in_world f m s = (case fst (m (fw s)) of Inl e \<Rightarrow> Inl (f e) | Inr a \<Rightarrow> Inr a, s\<lparr>fw := snd (m (fw s))\<rparr>)"
  by (simp add: in_world_def split: prod.split)

lemma in_world_Inr: "in_world f m s = (Inr a, s') \<longleftrightarrow> (\<exists>w. m (fw s) = (Inr a, w) \<and> s' = s\<lparr>fw := w\<rparr>)"
  by (cases "m (fw s)") (auto simp: in_world_run split: sum.splits)

lemma require_Inr [simp]: "require e x s = (Inr a, s') \<longleftrightarrow> x = Some a \<and> s' = s"
  by (auto simp: require_def split: option.splits)

lemma check_Inr [simp]: "check r s = (Inr a, s') \<longleftrightarrow> r = Inr a \<and> s' = s"
  by (auto simp: check_def split: sum.splits)

lemma enqueue_run [run_simps, simp]: "enqueue t s = (Inr (), s\<lparr>triggers := triggers s @ [t]\<rparr>)"
  by (simp add: enqueue_def)

lemma spawn_run [run_simps, simp]: "spawn t s = (Inr (), s\<lparr>tasks := tasks s @ [t]\<rparr>)"
  by (simp add: spawn_def)

lemma keeps_in_world: "keeps I m \<Longrightarrow> keeps (\<lambda>s. I (fw s)) (in_world f m)"
  by (simp add: keeps_def in_world_run)

lemma keeps_fs_steps [keeps_rules]:
  "keeps (\<lambda>s. I (fw s)) (require e x)" "keeps (\<lambda>s. I (fw s)) (check r)"
  "keeps (\<lambda>s. I (fw s)) (enqueue t)" "keeps (\<lambda>s. I (fw s)) (spawn k)"
  by (simp_all add: keeps_def require_def check_def split: option.split sum.split)

section \<open>The path check\<close>

text \<open>
  A path that the check accepts while its target exists resolves to a place
  inside the cache directory.
\<close>

lemma safe_cache_path_confined:
  assumes "safe_cache_path canon ex d rp = Inr c" "ex c"
  shows "\<exists>p. canon c = Some p \<and> path_starts_with p (case canon d of Some q \<Rightarrow> q | None \<Rightarrow> d)"
  using assms by (auto simp: safe_cache_path_def Let_def split: if_splits option.splits)

text \<open>
  When the parent of the target cannot be resolved, because a directory on the
  way does not exist yet, the check compares the unresolved path and accepts a
  path that leads out of the cache directory.
\<close>

lemma safe_cache_path_accepts_dotdot:
  "safe_cache_path (\<lambda>p. if p = ''/c'' then Some ''/c'' else None) (\<lambda>_. False) ''/c'' ''new/../../etc/x''
     = Inr ''/c/new/../../etc/x''"
  by (simp add: safe_cache_path_def Let_def trim_start_matches_def path_join_def path_parent_def rsplit_once_def
      path_starts_with_def path_components_def)

end
