(* ===== verification/Fuse_Ops.thy ===== *)
theory Fuse_Ops
  imports Fuse_Base
begin

text \<open>
  The write operations of the FUSE layer
  (\<open>stratosync-daemon/src/fuse/write_ops.rs\<close>): one definition per handler, with
  its steps in the source's order, and the background tasks the handlers spawn.
  A cache file that is a symbolic link cannot be opened in the model; the daemon
  itself creates regular files only.
\<close>

section \<open>Files\<close>

text \<open>A seek to \<open>off\<close> and a write: a gap is filled with zeros, and writing nothing extends nothing.\<close>

definition write_at :: "nat \<Rightarrow> bytes \<Rightarrow> bytes \<Rightarrow> bytes" where
  "write_at off data b =
     (if data = [] then b
      else take off b @ replicate (off - length b) 0 @ data @ drop (off + length data) b)"

text \<open>\<open>OpenOptions::new().write(true).open(..)\<close>.\<close>

definition open_write :: "path \<Rightarrow> bytes app" where
  "open_write p = read_file p"

section \<open>Handlers\<close>

definition handle_write :: "nat \<Rightarrow> int \<Rightarrow> bytes \<Rightarrow> nat fsm" where
  "handle_write fh offset data =
     bindS (query (\<lambda>s. open_files s fh)) (\<lambda>h.
     bindS (require EBADF h) (\<lambda>entry.
     bindS (io_op (open_write (of_cache_path entry))) (\<lambda>old.
       if offset < 0 then raise EINVAL
       else let new = write_at (nat offset) data old in
         thenS (io_op (write_file (of_cache_path entry) new))
         (thenS (attempt (db_eio (set_dirty_size (of_inode entry) (length new))))
         (thenS (enqueue (TWrite (of_inode entry)))
           (ret (length data mod 2 ^ 32)))))))"

definition handle_fsync :: "nat \<Rightarrow> unit fsm" where
  "handle_fsync fh =
     bindS (query (\<lambda>s. open_files s fh)) (\<lambda>h.
     bindS (require EBADF h) (\<lambda>entry. enqueue (TFsync (of_inode entry))))"

definition handle_release :: "nat \<Rightarrow> unit fsm" where
  "handle_release fh =
     bindS (query (\<lambda>s. open_files s fh)) (\<lambda>h. case h of
        None \<Rightarrow> ret ()
      | Some entry \<Rightarrow>
          thenS (modifyS (\<lambda>s. s\<lparr>open_files := (open_files s)(fh := None)\<rparr>))
            (bindS (attempt (db_eio (get_by_inode (of_inode entry)))) (\<lambda>r. case r of
               Inr (Some fe) \<Rightarrow> if fe_status fe = Dirty then enqueue (TClose (of_inode entry)) else ret ()
             | _ \<Rightarrow> ret ())))"

definition new_entry :: "fuse_cfg \<Rightarrow> inode \<Rightarrow> string \<Rightarrow> path \<Rightarrow> file_kind \<Rightarrow> system_time \<Rightarrow> sync_status \<Rightarrow> path option \<Rightarrow> new_file_entry" where
  "new_entry cfg parent name rp kind now st cp =
     \<lparr> n_mount_id = f_mount_id cfg, n_parent = parent, n_name = name, n_remote_path = rp, n_kind = kind,
       n_size = 0, n_mtime = now, n_etag = None, n_status = st, n_cache_path = cp,
       n_cache_size = map_option (\<lambda>_. 0) cp \<rparr>"

text \<open>The new handle is opened for writing (\<open>O_WRONLY\<close> is 1).\<close>

definition open_handle :: "open_file \<Rightarrow> (fs, 'e, nat) sem" where
  "open_handle h =
     bindS (query next_fh) (\<lambda>fh.
       thenS (modifyS (\<lambda>s. s\<lparr>next_fh := fh + 1, open_files := (open_files s)(fh \<mapsto> h)\<rparr>)) (ret fh))"

text \<open>The steps after the parent has been found, for \<open>create\<close> and for \<open>mkdir\<close>.\<close>

definition create_in :: "fuse_cfg \<Rightarrow> inode \<Rightarrow> string \<Rightarrow> path \<Rightarrow> (inode \<times> nat) fsm" where
  "create_in cfg parent name remote_path =
     (if f_ignore cfg remote_path then raise EPERM
      else
        bindS (query (\<lambda>s. safe_cache_path (f_canonicalize cfg (fw s)) (\<lambda>p. path_exists p (fw s))
                       (f_cache_dir cfg) remote_path)) (\<lambda>r.
        bindS (check r) (\<lambda>cache_path.
        thenS (case path_parent cache_path of
                 Some d \<Rightarrow> in_world (\<lambda>_. EIO) (create_dir_all d) | None \<Rightarrow> ret ())
       (thenS (in_world (\<lambda>_. EIO) (write_file cache_path []))
       (bindS (query now_time) (\<lambda>now.
        bindS (db_eio (insert_file (new_entry cfg parent name remote_path File now Dirty (Some cache_path)))) (\<lambda>i.
        bindS (open_handle \<lparr> of_inode = i, of_cache_path = cache_path, of_remote_path = remote_path,
                             of_flags = 1, of_hydrating = False \<rparr>) (\<lambda>fh.
          ret (i, fh)))))))))"

definition mkdir_in :: "fuse_cfg \<Rightarrow> inode \<Rightarrow> string \<Rightarrow> path \<Rightarrow> inode fsm" where
  "mkdir_in cfg parent name remote_path =
     (if f_ignore cfg remote_path then raise EPERM
      else
        bindS (query now_time) (\<lambda>now.
        bindS (db_eio (insert_file (new_entry cfg parent name remote_path Directory now Cached None))) (\<lambda>i.
          thenS (spawn (TaskMkdir remote_path)) (ret i))))"

definition handle_create :: "fuse_cfg \<Rightarrow> inode \<Rightarrow> string \<Rightarrow> (inode \<times> nat) fsm" where
  "handle_create cfg parent name =
     bindS (check (validate_filename name)) (\<lambda>_.
     bindS (db_eio (get_by_inode parent)) (\<lambda>pe.
     bindS (require ENOENT pe) (\<lambda>parent_entry.
       create_in cfg parent name (join_remote (fe_remote_path parent_entry) name))))"

definition handle_mkdir :: "fuse_cfg \<Rightarrow> inode \<Rightarrow> string \<Rightarrow> inode fsm" where
  "handle_mkdir cfg parent name =
     bindS (check (validate_filename name)) (\<lambda>_.
     bindS (db_eio (get_by_inode parent)) (\<lambda>pe.
     bindS (require ENOENT pe) (\<lambda>parent_entry.
       mkdir_in cfg parent name (join_remote (fe_remote_path parent_entry) name))))"

text \<open>A tombstone lives for 300 seconds.\<close>

definition handle_unlink :: "fuse_cfg \<Rightarrow> inode \<Rightarrow> string \<Rightarrow> unit fsm" where
  "handle_unlink cfg parent name =
     bindS (db_eio (get_by_parent_name (f_mount_id cfg) parent name)) (\<lambda>e.
     bindS (require ENOENT e) (\<lambda>entry.
       thenS (case fe_cache_path entry of
                Some cp \<Rightarrow> thenS (attempt (io_op (remove_file cp))) (ret ())
              | None \<Rightarrow> ret ())
      (thenS (in_world (\<lambda>_. EIO) (invalidate_header (f_cache_dir cfg) (fe_inode entry)))
      (thenS (db_eio (delete_entry (fe_inode entry)))
      (thenS (attempt (db_eio (insert_tombstone (f_mount_id cfg) (fe_remote_path entry) 300)))
         (spawn (TaskDelete (fe_remote_path entry))))))))"

definition handle_rmdir :: "fuse_cfg \<Rightarrow> inode \<Rightarrow> string \<Rightarrow> unit fsm" where
  "handle_rmdir cfg parent name =
     bindS (db_eio (get_by_parent_name (f_mount_id cfg) parent name)) (\<lambda>e.
     bindS (require ENOENT e) (\<lambda>entry.
       if fe_kind entry \<noteq> Directory then raise ENOTDIR
       else
         bindS (db_eio (list_children (f_mount_id cfg) (fe_inode entry))) (\<lambda>children.
           if children \<noteq> [] then raise ENOTEMPTY
           else
             thenS (db_eio (delete_entry (fe_inode entry)))
            (thenS (attempt (db_eio (insert_tombstone (f_mount_id cfg) (fe_remote_path entry) 300)))
               (spawn (TaskRmdir (fe_remote_path entry)))))))"

subsection \<open>Rename\<close>

text \<open>A destination that exists is deleted from the database first; a failure is logged.\<close>

definition rename_dest :: "fuse_cfg \<Rightarrow> inode \<Rightarrow> string \<Rightarrow> path option fsm" where
  "rename_dest cfg new_parent new_name =
     bindS (attempt (db_eio (get_by_parent_name (f_mount_id cfg) new_parent new_name))) (\<lambda>r. case r of
        Inr (Some dest) \<Rightarrow>
          thenS (attempt (db_eio (delete_entry (fe_inode dest))))
         (thenS (in_world (\<lambda>_. EIO) (invalidate_header (f_cache_dir cfg) (fe_inode dest)))
            (ret (Some (fe_remote_path dest))))
      | _ \<Rightarrow> ret None)"

text \<open>The cache file stays in its directory and takes the new name; if that fails it stays where it is.\<close>

definition rename_cache :: "file_entry \<Rightarrow> string \<Rightarrow> path option fsm" where
  "rename_cache entry new_name =
     (case fe_cache_path entry of
        None \<Rightarrow> ret None
      | Some old_cache \<Rightarrow>
          let new_cache = (case path_parent old_cache of Some d \<Rightarrow> path_join d new_name | None \<Rightarrow> new_name)
          in bindS (attempt (io_op (rename_file old_cache new_cache))) (\<lambda>r. case r of
               Inl _ \<Rightarrow> ret (Some old_cache)
             | Inr _ \<Rightarrow> ret (Some new_cache)))"

definition needs_remote_rename :: "sync_status \<Rightarrow> bool" where
  "needs_remote_rename st \<longleftrightarrow> st \<in> {Cached, Stale, Uploading, Conflict}"

definition rename_to :: "fuse_cfg \<Rightarrow> file_entry \<Rightarrow> inode \<Rightarrow> string \<Rightarrow> path \<Rightarrow> unit fsm" where
  "rename_to cfg entry new_parent new_name new_remote =
     bindS (rename_dest cfg new_parent new_name) (\<lambda>dest_remote.
     bindS (rename_cache entry new_name) (\<lambda>new_cache_path.
     thenS (db_eio (rename_entry (fe_inode entry) new_parent new_name new_remote new_cache_path))
       (let needs = needs_remote_rename (fe_status entry) in
        if needs \<or> dest_remote \<noteq> None then
          thenS (if needs
                 then thenS (attempt (db_eio (insert_tombstone (f_mount_id cfg) (fe_remote_path entry) 300))) (ret ())
                 else ret ())
            (spawn (TaskRename dest_remote (if needs then Some (fe_remote_path entry, new_remote) else None)))
        else ret ())))"

definition handle_rename :: "fuse_cfg \<Rightarrow> inode \<Rightarrow> string \<Rightarrow> inode \<Rightarrow> string \<Rightarrow> unit fsm" where
  "handle_rename cfg parent name new_parent new_name =
     bindS (check (validate_filename new_name)) (\<lambda>_.
     bindS (db_eio (get_by_parent_name (f_mount_id cfg) parent name)) (\<lambda>e.
     bindS (require ENOENT e) (\<lambda>entry.
     bindS (db_eio (get_by_inode new_parent)) (\<lambda>pe.
     bindS (require ENOENT pe) (\<lambda>new_parent_entry.
       rename_to cfg entry new_parent new_name (join_remote (fe_remote_path new_parent_entry) new_name))))))"

section \<open>Background tasks\<close>

text \<open>The results of the backend's calls, which may depend on what has happened so far.\<close>

record remote_ops =
  ro_mkdir  :: "path \<Rightarrow> fs \<Rightarrow> sync_error + unit"
  ro_delete :: "path \<Rightarrow> fs \<Rightarrow> sync_error + unit"
  ro_rmdir  :: "path \<Rightarrow> fs \<Rightarrow> sync_error + unit"
  ro_rename :: "path \<Rightarrow> path \<Rightarrow> fs \<Rightarrow> sync_error + unit"

definition gone_or_ok :: "sync_error + unit \<Rightarrow> bool" where
  "gone_or_ok r = (case r of Inr _ \<Rightarrow> True | Inl (NotFound _) \<Rightarrow> True | _ \<Rightarrow> False)"

definition run_task :: "remote_ops \<Rightarrow> mount_id \<Rightarrow> task \<Rightarrow> unit fsm" where
  "run_task be m t =
     (case t of
        TaskMkdir rp \<Rightarrow> bindS (query (ro_mkdir be rp)) (\<lambda>_. ret ())
      | TaskDelete rp \<Rightarrow> bindS (query (ro_delete be rp)) (\<lambda>r.
          if gone_or_ok r then thenS (attempt (db_eio (remove_tombstone m rp))) (ret ()) else ret ())
      | TaskRmdir rp \<Rightarrow> bindS (query (ro_rmdir be rp)) (\<lambda>r.
          if gone_or_ok r then thenS (attempt (db_eio (remove_tombstone m rp))) (ret ()) else ret ())
      | TaskRename dest mv \<Rightarrow>
          thenS (case dest of Some rp \<Rightarrow> bindS (query (ro_delete be rp)) (\<lambda>_. ret ()) | None \<Rightarrow> ret ())
            (case mv of
               Some (a, b) \<Rightarrow> bindS (query (ro_rename be a b)) (\<lambda>_.
                 thenS (attempt (db_eio (remove_tombstone m a))) (ret ()))
             | None \<Rightarrow> ret ()))"

end
