(* ===== verification/Fuse_Hydrate.thy ===== *)
theory Fuse_Hydrate
  imports Fuse_Ops
begin

text \<open>
  Downloads on demand (\<open>stratosync-daemon/src/fuse/mod.rs\<close>): \<open>do_hydrate\<close> and
  \<open>hydrate_if_needed\<close> with the tracker of running downloads and the channels of
  the readers that wait for one.  \<open>do_hydrate\<close> is split where it awaits the
  backend, so that other operations may run between its two halves.  The base
  snapshot, which the source hands to a blocking thread, is taken in line.
\<close>

section \<open>Environment\<close>

text \<open>
  The backend calls, the configuration values, whether the download window is
  open, and the temporary suffix a download uses.  A download returns its outcome and what it left at the temporary path.
\<close>

record hydrator =
  hy_cfg      :: fuse_cfg
  hy_download :: "path \<Rightarrow> fs \<Rightarrow> (sync_error + unit) \<times> bytes option"
  hy_stat     :: "path \<Rightarrow> fs \<Rightarrow> sync_error + remote_metadata"
  hy_range    :: "path \<Rightarrow> nat \<Rightarrow> nat \<Rightarrow> fs \<Rightarrow> sync_error + bytes"
  hy_sha      :: "bytes \<Rightarrow> string"
  hy_base_dir :: path
  hy_max_size :: nat
  hy_exts     :: "string list"
  hy_nanos    :: "fs \<Rightarrow> string"
  hy_list     :: "path \<Rightarrow> fs \<Rightarrow> sync_error + remote_metadata list"
  hy_prefetch_threshold :: nat
  hy_header_size        :: nat
  hy_auto_hydrate_max   :: "nat option"
  hy_window_open        :: "fs \<Rightarrow> bool"

type_synonym 'a hym = "(fs, sync_error, 'a) sem"

definition err_text :: "err \<Rightarrow> string" where
  "err_text e = (case e of SqlErr _ \<Rightarrow> ''database'' | SyncErr x \<Rightarrow> show_error x | Bail m \<Rightarrow> m | _ \<Rightarrow> io_text e)"

abbreviation hy_io :: "'a app \<Rightarrow> 'a hym" where
  "hy_io m \<equiv> in_world (\<lambda>e. IoError (io_text e)) m"

abbreviation hy_db :: "'a dbm \<Rightarrow> 'a hym" where
  "hy_db m \<equiv> in_world (\<lambda>e. Fatal (err_text e)) (db_op m)"

section \<open>One download\<close>

definition partial_path :: "path \<Rightarrow> inode \<Rightarrow> string \<Rightarrow> path" where
  "partial_path cache_dir i x = path_join cache_dir (''.meta/partial/'' @ nat_to_string i @ ''.'' @ x @ ''.tmp'')"

definition register_hydration :: "file_entry \<Rightarrow> unit hym" where
  "register_hydration entry = modifyS (\<lambda>s.
     let t = tracker s; i = fe_inode entry; now = clock (wdb (fw s));
         first = (case ht_first_started t i of Some x \<Rightarrow> x | None \<Rightarrow> now);
         n = (case ht_attempts t i of Some k \<Rightarrow> k | None \<Rightarrow> 0) + 1
     in s\<lparr>tracker := t\<lparr>
          ht_first_started := (ht_first_started t)(i \<mapsto> first),
          ht_attempts := (ht_attempts t)(i \<mapsto> n),
          ht_in_flight := (ht_in_flight t)(i \<mapsto>
            \<lparr> ah_inode = i, ah_path = fe_remote_path entry, ah_size = fe_size entry, ah_started = now,
              ah_first_started = first, ah_attempt = n, ah_downloaded = None \<rparr>)\<rparr>\<rparr>)"

text \<open>The cache path, the temporary path and the registration: what runs before the download.\<close>

definition hydrate_begin :: "hydrator \<Rightarrow> file_entry \<Rightarrow> (path \<times> path) hym" where
  "hydrate_begin h entry =
     bindS (query (\<lambda>s. safe_cache_path (f_canonicalize (hy_cfg h) (fw s)) (\<lambda>p. path_exists p (fw s))
                    (f_cache_dir (hy_cfg h)) (fe_remote_path entry))) (\<lambda>r. case r of
        Inl e \<Rightarrow> raise (Fatal (''unsafe cache path: errno '' @ nat_to_string (nat e)))
      | Inr cache_path \<Rightarrow>
          bindS (query (\<lambda>s. partial_path (f_cache_dir (hy_cfg h)) (fe_inode entry) (hy_nanos h s))) (\<lambda>tmp_path.
          thenS (register_hydration entry) (ret (cache_path, tmp_path))))"

definition download_to :: "hydrator \<Rightarrow> path \<Rightarrow> path \<Rightarrow> (sync_error + unit) hym" where
  "download_to h rp tmp =
     bindS (query (hy_download h rp)) (\<lambda>(r, b).
       thenS (case b of
                Some bs \<Rightarrow> modifyS (\<lambda>s. s\<lparr>fw := (fw s)\<lparr>disk := (disk (fw s))(tmp \<mapsto> Regular bs)\<rparr>\<rparr>)
              | None \<Rightarrow> ret ())
         (ret r))"

text \<open>The base version for a three-way merge, best effort.\<close>

definition snapshot_base :: "hydrator \<Rightarrow> file_entry \<Rightarrow> path \<Rightarrow> nat \<Rightarrow> unit hym" where
  "snapshot_base h entry cache_path len =
     bindS (query (\<lambda>s. is_text_mergeable cache_path len (hy_max_size h) (hy_exts h) (fw s))) (\<lambda>mergeable.
       if mergeable then
         bindS (attempt (hy_io (store_base (hy_sha h) (hy_base_dir h) cache_path))) (\<lambda>r. case r of
            Inr hash \<Rightarrow> thenS (attempt (hy_db (set_base_hash (fe_inode entry) (fe_mount_id entry) hash 0))) (ret ())
          | Inl _ \<Rightarrow> ret ())
       else ret ())"

definition hydrate_store :: "hydrator \<Rightarrow> file_entry \<Rightarrow> path \<Rightarrow> path \<Rightarrow> unit hym" where
  "hydrate_store h entry cache_path tmp_path =
     thenS (case path_parent cache_path of Some d \<Rightarrow> hy_io (create_dir_all d) | None \<Rightarrow> ret ())
    (thenS (hy_io (rename_file tmp_path cache_path))
    (bindS (hy_io (file_len cache_path)) (\<lambda>len.
     thenS (hy_db (set_cached (fe_inode entry) cache_path len (fe_etag entry) (fe_mtime entry) (fe_size entry)))
       (snapshot_base h entry cache_path len))))"

definition not_found :: "sync_error \<Rightarrow> string option" where
  "not_found e = (case e of NotFound m \<Rightarrow> Some m | _ \<Rightarrow> None)"

text \<open>
  After a \<open>NotFound\<close>: the path is looked up once more; a row whose path is gone is
  deleted, and an item id learnt on the way is kept.  The flag says whether the
  row was deleted.
\<close>

definition verify_not_found :: "hydrator \<Rightarrow> file_entry \<Rightarrow> string \<Rightarrow> (sync_error \<times> bool) hym" where
  "verify_not_found h entry msg =
     (let err = NotFound (msg @ '' (path: '' @ fe_remote_path entry @ '')'') in
      bindS (query (hy_stat h (fe_remote_path entry))) (\<lambda>r. case r of
         Inl e \<Rightarrow>
           if not_found e \<noteq> None
           then bindS (attempt (hy_db (delete_entry (fe_inode entry)))) (\<lambda>d. case d of
             Inl _ \<Rightarrow> ret (err, False)
           | Inr _ \<Rightarrow> ret (err, True))
           else ret (err, False)
       | Inr meta \<Rightarrow>
           thenS (case rm_item_id meta of
                    Some item \<Rightarrow> thenS (attempt (hy_db (set_item_id_if_absent (fe_inode entry) item))) (ret ())
                  | None \<Rightarrow> ret ())
             (ret (err, False))))"

text \<open>The outcome on the row, the health record and the partial file.\<close>

definition hydrate_settle :: "file_entry \<Rightarrow> path \<Rightarrow> sync_error + unit \<Rightarrow> bool \<Rightarrow> unit hym" where
  "hydrate_settle entry tmp_path result pruned =
     (case result of
        Inr _ \<Rightarrow> thenS (attempt (hy_db (record_hydration_success (fe_mount_id entry)))) (ret ())
      | Inl e \<Rightarrow>
          thenS (if pruned then ret () else thenS (attempt (hy_db (set_status (fe_inode entry) Remote))) (ret ()))
         (thenS (attempt (hy_db (record_hydration_failure (fe_mount_id entry) (show_error e))))
         (thenS (attempt (hy_io (remove_file tmp_path))) (ret ()))))"

definition terminal :: "sync_error + unit \<Rightarrow> bool \<Rightarrow> bool" where
  "terminal result pruned =
     (case result of Inr _ \<Rightarrow> True | Inl e \<Rightarrow> if not_found e \<noteq> None then pruned else \<not> is_retryable e)"

definition unregister_hydration :: "inode \<Rightarrow> bool \<Rightarrow> unit hym" where
  "unregister_hydration i term = modifyS (\<lambda>s. let t = tracker s in
     s\<lparr>tracker := t\<lparr>
       ht_in_flight := (ht_in_flight t)(i := None),
       ht_first_started := (if term then (ht_first_started t)(i := None) else ht_first_started t),
       ht_attempts := (if term then (ht_attempts t)(i := None) else ht_attempts t)\<rparr>\<rparr>)"

definition notify_waiters :: "inode \<Rightarrow> sync_error + unit \<Rightarrow> unit hym" where
  "notify_waiters i result = modifyS (\<lambda>s. case waiters s i of
       None \<Rightarrow> s
     | Some chans \<Rightarrow> s\<lparr>waiters := (waiters s)(i := None),
         delivered := delivered s @ map (\<lambda>c. (c, case result of Inl _ \<Rightarrow> Inl EIO | Inr _ \<Rightarrow> Inr ())) chans\<rparr>)"

text \<open>What runs after the backend has answered.\<close>

definition hydrate_finish :: "hydrator \<Rightarrow> file_entry \<Rightarrow> path \<Rightarrow> path \<Rightarrow> sync_error + unit \<Rightarrow> unit hym" where
  "hydrate_finish h entry cache_path tmp_path downloaded =
     bindS (case downloaded of
              Inl e \<Rightarrow> ret (Inl e)
            | Inr _ \<Rightarrow> attempt (hydrate_store h entry cache_path tmp_path)) (\<lambda>r0.
     bindS (case r0 of
              Inl e \<Rightarrow> (case not_found e of
                  Some msg \<Rightarrow> bindS (verify_not_found h entry msg) (\<lambda>(e', pruned). ret (Inl e', pruned))
                | None \<Rightarrow> ret (Inl e, False))
            | Inr _ \<Rightarrow> ret (Inr (), False)) (\<lambda>(result, pruned).
     thenS (hydrate_settle entry tmp_path result pruned)
    (thenS (unregister_hydration (fe_inode entry) (terminal result pruned))
    (thenS (notify_waiters (fe_inode entry) result)
       (case result of Inl e \<Rightarrow> raise e | Inr _ \<Rightarrow> ret ())))))"

definition do_hydrate :: "hydrator \<Rightarrow> file_entry \<Rightarrow> unit hym" where
  "do_hydrate h entry =
     bindS (hydrate_begin h entry) (\<lambda>(cache_path, tmp_path).
     bindS (download_to h (fe_remote_path entry) tmp_path) (\<lambda>r.
       hydrate_finish h entry cache_path tmp_path r))"

section \<open>Waiting for a download\<close>

datatype wait_outcome = Received "int + unit" | SenderDropped | TimedOut

text \<open>
  \<open>await\<close> is what the rest of the daemon does while this reader waits on its
  channel, and how the wait ends.  Channels are numbered by the caller.
\<close>

fun hydrate_attempts ::
  "(inode \<Rightarrow> nat \<Rightarrow> fs \<Rightarrow> wait_outcome \<times> fs) \<Rightarrow> hydrator \<Rightarrow> inode \<Rightarrow> nat \<Rightarrow> nat list \<Rightarrow> unit hym" where
  "hydrate_attempts await h i max_retries [] = raise (Transient ''hydration failed after retries'')"
| "hydrate_attempts await h i max_retries (chan # rest) =
     bindS (hy_db (get_by_inode i)) (\<lambda>r. case r of
        None \<Rightarrow> raise (NotFound (''inode '' @ nat_to_string i))
      | Some entry \<Rightarrow>
          (if fe_status entry \<in> {Cached, Dirty, Uploading, Conflict} then ret ()
           else if fe_status entry \<in> {Remote, Stale} then
             thenS (hy_db (set_status i Hydrating)) (do_hydrate h entry)
           else
             thenS (modifyS (\<lambda>s. s\<lparr>waiters := (waiters s)(i \<mapsto>
                      (case waiters s i of Some cs \<Rightarrow> cs | None \<Rightarrow> []) @ [chan])\<rparr>))
               (bindS (\<lambda>s. case await i chan s of (out, s') \<Rightarrow> (Inr out, s')) (\<lambda>out. case out of
                  Received (Inr _) \<Rightarrow> ret ()
                | Received (Inl e) \<Rightarrow> raise (Transient (''hydration failed: '' @ nat_to_string (nat e)))
                | SenderDropped \<Rightarrow> hydrate_attempts await h i max_retries rest
                | TimedOut \<Rightarrow>
                    thenS (attempt (hy_db (set_status i Remote)))
                      (if rest = [] then raise (Transient (''hydration timed out after '' @ nat_to_string max_retries @ '' attempts''))
                       else hydrate_attempts await h i max_retries rest)))))"

text \<open>At most three attempts; \<open>chan\<close> is the first unused channel.\<close>

definition hydrate_if_needed ::
  "(inode \<Rightarrow> nat \<Rightarrow> fs \<Rightarrow> wait_outcome \<times> fs) \<Rightarrow> hydrator \<Rightarrow> inode \<Rightarrow> nat \<Rightarrow> unit hym" where
  "hydrate_if_needed await h i chan = hydrate_attempts await h i 3 [chan, chan + 1, chan + 2]"

end
