(* ===== verification/Fuse_Read.thy ===== *)
theory Fuse_Read
  imports Fuse_Hydrate Poller
begin

text \<open>
  The rest of the \<open>Filesystem\<close> implementation
  (\<open>stratosync-daemon/src/fuse/mod.rs\<close>): lookups and directory population,
  attributes, directory listings, opening and reading files, extended
  attributes, the root entry, and the speculative downloads.  Names are valid
  UTF-8.  Replies are values; an error reply is an error number.
\<close>

section \<open>Directories\<close>

type_synonym 'a anym = "(fs, err, 'a) sem"

abbreviation any_db :: "'a dbm \<Rightarrow> 'a anym" where
  "any_db m \<equiv> in_world (\<lambda>e. e) (db_op m)"

definition unsafe_name :: "string \<Rightarrow> bool" where
  "unsafe_name n \<longleftrightarrow> contains_str n ''..'' \<or> CHR 0x00 \<in> set n \<or> CHR ''/'' \<in> set n"

definition listing_of :: "path \<Rightarrow> remote_metadata \<Rightarrow> listing_entry" where
  "listing_of dir c = (rm_name c, join_remote dir (rm_name c), if rm_is_dir c then Directory else File,
     rm_size c, rm_mtime c, rm_etag c)"

definition speculate :: "prefetch \<Rightarrow> (fs, 'e, unit) sem" where
  "speculate p = modifyS (\<lambda>s. s\<lparr>prefetches := prefetches s @ [p]\<rparr>)"

text \<open>Small files and headers are fetched only when configured and while the download window is open.\<close>

definition spawn_prefetch_small_files :: "hydrator \<Rightarrow> inode \<Rightarrow> (fs, 'e, unit) sem" where
  "spawn_prefetch_small_files h i =
     (if hy_prefetch_threshold h = 0 then ret ()
      else bindS (query (hy_window_open h)) (\<lambda>w. if w then speculate (SmallFiles i) else ret ()))"

definition spawn_prefetch_headers :: "hydrator \<Rightarrow> inode \<Rightarrow> (fs, 'e, unit) sem" where
  "spawn_prefetch_headers h i =
     (if hy_header_size h = 0 then ret ()
      else bindS (query (hy_window_open h)) (\<lambda>w. if w then speculate (Headers i) else ret ()))"

definition populate_directory :: "hydrator \<Rightarrow> file_entry \<Rightarrow> unit anym" where
  "populate_directory h dir =
     (let m = f_mount_id (hy_cfg h) in
      bindS (query (hy_list h (fe_remote_path dir))) (\<lambda>r. case r of
         Inl e \<Rightarrow>
           if \<not> needs_hydration (fe_status dir) then any_db (mark_dir_listed (fe_inode dir))
           else raise (SyncErr e)
       | Inr children \<Rightarrow>
           bindS (attempt (any_db (active_tombstones m))) (\<lambda>t.
             let ts = (case t of Inr x \<Rightarrow> x | Inl _ \<Rightarrow> []);
                 keep = filter (\<lambda>c. \<not> unsafe_name (rm_name c)
                          \<and> \<not> tombstoned ts (join_remote (fe_remote_path dir) (rm_name c))) children
             in thenS (any_db (batch_upsert_remote_files m (fe_inode dir) (map (listing_of (fe_remote_path dir)) keep)))
               (thenS (any_db (mark_dir_listed (fe_inode dir)))
                  (speculate (ChildDirs (fe_inode dir)))))))"

definition fuse_lookup :: "hydrator \<Rightarrow> inode \<Rightarrow> string \<Rightarrow> file_attr fsm" where
  "fuse_lookup h parent name =
     (let m = f_mount_id (hy_cfg h) in
      bindS (attempt
        (bindS (any_db (get_by_parent_name m parent name)) (\<lambda>e. case e of
           Some x \<Rightarrow> ret (Some x)
         | None \<Rightarrow>
             bindS (any_db (get_by_inode parent)) (\<lambda>d. case d of
               Some dir \<Rightarrow>
                 if fe_kind dir = Directory \<and> fe_dir_listed dir = None
                 then thenS (populate_directory h dir) (any_db (get_by_parent_name m parent name))
                 else ret None
             | None \<Rightarrow> ret None)))) (\<lambda>r. case r of
         Inr (Some e) \<Rightarrow> ret (entry_to_attr e)
       | Inr None \<Rightarrow> raise ENOENT
       | Inl _ \<Rightarrow> raise EIO))"

definition fuse_getattr :: "inode \<Rightarrow> file_attr fsm" where
  "fuse_getattr i = bindS (db_eio (get_by_inode i)) (\<lambda>r. case r of
     Some e \<Rightarrow> ret (entry_to_attr e) | None \<Rightarrow> raise ENOENT)"

text \<open>\<open>File::set_len\<close>.\<close>

definition set_len :: "nat \<Rightarrow> bytes \<Rightarrow> bytes" where
  "set_len n b = take n b @ replicate (n - length b) 0"

definition truncate_to :: "hydrator \<Rightarrow> file_entry \<Rightarrow> nat \<Rightarrow> unit anym" where
  "truncate_to h entry new_size =
     (case fe_cache_path entry of
        Some cp \<Rightarrow>
          bindS (in_world (\<lambda>e. e) (open_write cp)) (\<lambda>old.
          thenS (in_world (\<lambda>e. e) (write_file cp (set_len new_size old)))
            (any_db (set_dirty_size (fe_inode entry) new_size)))
      | None \<Rightarrow>
          let cp = path_join (f_cache_dir (hy_cfg h)) (trim_start_matches (CHR ''/'') (fe_remote_path entry)) in
          thenS (case path_parent cp of Some d \<Rightarrow> in_world (\<lambda>e. e) (create_dir_all d) | None \<Rightarrow> ret ())
         (thenS (in_world (\<lambda>e. e) (write_file cp (set_len new_size [])))
            (any_db (set_dirty_with_cache_path (fe_inode entry) cp new_size))))"

definition fuse_setattr :: "hydrator \<Rightarrow> inode \<Rightarrow> nat option \<Rightarrow> file_attr fsm" where
  "fuse_setattr h i new_len =
     bindS (attempt
       (bindS (any_db (get_by_inode i)) (\<lambda>r. case r of
          None \<Rightarrow> raise (Bail (''inode '' @ nat_to_string i))
        | Some entry \<Rightarrow>
            thenS (case new_len of
                     Some n \<Rightarrow> thenS (truncate_to h entry n)
                        (modifyS (\<lambda>s. s\<lparr>triggers := triggers s @ [TWrite i]\<rparr>))
                   | None \<Rightarrow> ret ())
              (bindS (any_db (get_by_inode i)) (\<lambda>r2. case r2 of
                 Some e \<Rightarrow> ret e
               | None \<Rightarrow> raise (Bail (''inode '' @ nat_to_string i @ '' gone after setattr''))))))) (\<lambda>r. case r of
        Inr e \<Rightarrow> ret (entry_to_attr e)
      | Inl _ \<Rightarrow> raise EIO)"

subsection \<open>Listings\<close>

text \<open>Rows with a name already seen are hidden.\<close>

fun unique_names :: "string set \<Rightarrow> file_entry list \<Rightarrow> file_entry list" where
  "unique_names seen [] = []"
| "unique_names seen (e # es) =
     (if fe_name e \<in> seen then unique_names seen es
      else e # unique_names (insert (fe_name e) seen) es)"

type_synonym dirent = "inode \<times> file_kind \<times> string"

definition dirents :: "inode \<Rightarrow> file_entry list \<Rightarrow> dirent list" where
  "dirents i children = [(i, Directory, ''.''), (i, Directory, ''..'')]
     @ map (\<lambda>e. (fe_inode e, fe_kind e, fe_name e)) (unique_names {} children)"

text \<open>
  The reply buffer: entries from position \<open>offset\<close> on are added, each with the
  position after it, until one does not fit.  \<open>full acc e\<close> says that \<open>e\<close> does not
  fit behind \<open>acc\<close>.
\<close>

fun add_entries ::
  "((dirent \<times> nat) list \<Rightarrow> dirent \<Rightarrow> bool) \<Rightarrow> nat \<Rightarrow> nat \<Rightarrow> dirent list \<Rightarrow> (dirent \<times> nat) list \<Rightarrow> (dirent \<times> nat) list" where
  "add_entries full offset i [] acc = acc"
| "add_entries full offset i (e # es) acc =
     (if i \<ge> offset then
        (if full acc e then acc else add_entries full offset (i + 1) es (acc @ [(e, i + 1)]))
      else add_entries full offset (i + 1) es acc)"

definition fuse_readdir ::
  "((dirent \<times> nat) list \<Rightarrow> dirent \<Rightarrow> bool) \<Rightarrow> hydrator \<Rightarrow> inode \<Rightarrow> nat \<Rightarrow> (dirent \<times> nat) list fsm" where
  "fuse_readdir full h i offset =
     thenS (modifyS (\<lambda>s. s\<lparr>focus_dir := i\<rparr>))
     (bindS (attempt
       (bindS (any_db (get_by_inode i)) (\<lambda>r. case r of
          None \<Rightarrow> raise (Bail (''inode '' @ nat_to_string i))
        | Some dir \<Rightarrow>
            thenS (if fe_dir_listed dir = None
                   then thenS (populate_directory h dir) (spawn_prefetch_small_files h i) else ret ())
           (thenS (spawn_prefetch_headers h i)
              (any_db (list_children (f_mount_id (hy_cfg h)) i)))))) (\<lambda>r. case r of
        Inl _ \<Rightarrow> raise EIO
      | Inr children \<Rightarrow> ret (add_entries full offset 0 (dirents i children) [])))"

section \<open>Opening and reading\<close>

definition fuse_open :: "hydrator \<Rightarrow> inode \<Rightarrow> int \<Rightarrow> nat fsm" where
  "fuse_open h i flags =
     bindS (attempt
       (bindS (hy_db (get_by_inode i)) (\<lambda>r. case r of
          None \<Rightarrow> raise (NotFound (nat_to_string i))
        | Some entry \<Rightarrow>
            let needs = needs_hydration (fe_status entry);
                hydrating = is_hydrating (fe_status entry);
                cache_path = (case fe_cache_path entry of
                    Some cp \<Rightarrow> cp
                  | None \<Rightarrow> path_join (f_cache_dir (hy_cfg h)) (trim_start_matches (CHR ''/'') (fe_remote_path entry)));
                auto = (case hy_auto_hydrate_max h of Some cap \<Rightarrow> fe_size entry \<le> cap | None \<Rightarrow> True)
            in thenS (if needs \<and> auto
                      then thenS (hy_db (set_status i Hydrating))
                             (modifyS (\<lambda>s. s\<lparr>hydrations := hydrations s @ [i]\<rparr>))
                      else if \<not> hydrating then thenS (attempt (hy_db (touch_lru i))) (ret ())
                      else ret ())
                 (open_handle \<lparr> of_inode = i, of_cache_path = cache_path, of_remote_path = fe_remote_path entry,
                                of_flags = flags, of_hydrating = needs \<or> hydrating \<rparr>)))) (\<lambda>r. case r of
        Inr fh \<Rightarrow> ret fh
      | Inl e \<Rightarrow> raise (errno e))"

text \<open>The spawned download of an open or of a read past the header.\<close>

definition run_hydration :: "hydrator \<Rightarrow> inode \<Rightarrow> (fs, 'e, unit) sem" where
  "run_hydration h i =
     bindS (attempt (hy_db (get_by_inode i))) (\<lambda>r. case r of
        Inr (Some entry) \<Rightarrow> thenS (attempt (do_hydrate h entry)) (ret ())
      | _ \<Rightarrow> ret ())"

definition update_handle :: "nat \<Rightarrow> path option \<Rightarrow> unit hym" where
  "update_handle fh cp = modifyS (\<lambda>s. case open_files s fh of
       None \<Rightarrow> s
     | Some f \<Rightarrow> s\<lparr>open_files := (open_files s)(fh \<mapsto>
         f\<lparr>of_cache_path := (case cp of Some p \<Rightarrow> p | None \<Rightarrow> of_cache_path f), of_hydrating := False\<rparr>)\<rparr>)"

text \<open>Blocking until the file is local, then pointing the handle at the cache file.\<close>

definition wait_for_hydration ::
  "(inode \<Rightarrow> nat \<Rightarrow> fs \<Rightarrow> wait_outcome \<times> fs) \<Rightarrow> hydrator \<Rightarrow> nat \<Rightarrow> nat \<Rightarrow> inode \<Rightarrow> unit hym" where
  "wait_for_hydration await h chan fh i =
     thenS (hydrate_if_needed await h i chan)
    (bindS (query (\<lambda>s. open_files s fh)) (\<lambda>f.
     thenS (case f of
              None \<Rightarrow> ret ()
            | Some x \<Rightarrow> bindS (attempt (hy_db (get_by_inode (of_inode x)))) (\<lambda>r.
                update_handle fh (case r of Inr (Some fe) \<Rightarrow> fe_cache_path fe | _ \<Rightarrow> None)))
       (thenS (attempt (hy_db (touch_lru i))) (ret ()))))"

definition read_cache_file :: "nat \<Rightarrow> int \<Rightarrow> nat \<Rightarrow> bytes hym" where
  "read_cache_file fh offset len =
     bindS (query (\<lambda>s. open_files s fh)) (\<lambda>f. case f of
        None \<Rightarrow> raise (Fatal (''bad fh '' @ nat_to_string fh))
      | Some entry \<Rightarrow>
          bindS (hy_io (read_file (of_cache_path entry))) (\<lambda>b.
            if offset < 0 then raise (IoError invalid_argument)
            else ret (take len (drop (nat offset) b))))"

text \<open>
  While the file is not local yet: the range is read from the backend, and a range
  inside the header is kept for the next reader.  The result is the data, or
  nothing when the file has become local and is to be read from the cache.
\<close>

definition read_range ::
  "(inode \<Rightarrow> nat \<Rightarrow> fs \<Rightarrow> wait_outcome \<times> fs) \<Rightarrow> hydrator \<Rightarrow> nat \<Rightarrow> nat \<Rightarrow> inode \<Rightarrow> path \<Rightarrow> int \<Rightarrow> nat \<Rightarrow> bool \<Rightarrow> bytes option hym" where
  "read_range await h chan fh i rp offset len within =
     bindS (query (hy_range h rp (nat (offset mod 2 ^ 64)) len)) (\<lambda>r. case r of
        Inr data \<Rightarrow>
          bindS (query (\<lambda>s. within \<and> max offset 0 = 0 \<and> hy_header_size h > 0 \<and> data \<noteq> []
                   \<and> \<not> path_exists (header_path (f_cache_dir (hy_cfg h)) i) (fw s))) (\<lambda>keep.
            thenS (if keep
                   then bindS (query (\<lambda>s. i \<in> prefetch_inflight s)) (\<lambda>busy.
                     thenS (modifyS (\<lambda>s. s\<lparr>prefetch_inflight := insert i (prefetch_inflight s)\<rparr>))
                       (if busy then ret () else speculate (KeepHeader i data)))
                   else ret ())
              (ret (Some data)))
      | Inl _ \<Rightarrow> thenS (wait_for_hydration await h chan fh i) (ret None))"

definition read_pending ::
  "(inode \<Rightarrow> nat \<Rightarrow> fs \<Rightarrow> wait_outcome \<times> fs) \<Rightarrow> hydrator \<Rightarrow> nat \<Rightarrow> nat \<Rightarrow> inode \<Rightarrow> path \<Rightarrow> int \<Rightarrow> nat \<Rightarrow> bytes option hym" where
  "read_pending await h chan fh i rp offset len =
     (let off = nat (max offset 0);
          within = (hy_header_size h > 0 \<and> saturating_add off len \<le> hy_header_size h) in
      bindS (if within then attempt (hy_io (read_header (f_cache_dir (hy_cfg h)) i off len)) else ret (Inr None)) (\<lambda>hd.
        case hd of
          Inr (Some data) \<Rightarrow> ret (Some data)
        | _ \<Rightarrow>
            bindS (attempt (hy_db (get_by_inode i))) (\<lambda>r. case r of
              Inr (Some fe) \<Rightarrow>
                if has_local_data (fe_status fe) \<and> \<not> is_hydrating (fe_status fe) then
                  thenS (update_handle fh (fe_cache_path fe))
                 (thenS (attempt (hy_db (touch_lru i))) (ret None))
                else
                  thenS (if \<not> within \<and> fe_status fe = Remote
                         then bindS (attempt (hy_db (set_status i Hydrating))) (\<lambda>st. case st of
                           Inr _ \<Rightarrow> modifyS (\<lambda>s. s\<lparr>hydrations := hydrations s @ [i]\<rparr>)
                         | Inl _ \<Rightarrow> ret ())
                         else ret ())
                    (read_range await h chan fh i rp offset len within)
            | _ \<Rightarrow> ret None)))"

definition fuse_read ::
  "(inode \<Rightarrow> nat \<Rightarrow> fs \<Rightarrow> wait_outcome \<times> fs) \<Rightarrow> hydrator \<Rightarrow> nat \<Rightarrow> nat \<Rightarrow> int \<Rightarrow> nat \<Rightarrow> bytes fsm" where
  "fuse_read await h chan fh offset len =
     bindS (attempt
       (bindS (query (\<lambda>s. open_files s fh)) (\<lambda>f. case f of
          None \<Rightarrow> raise (Fatal (''bad fh '' @ nat_to_string fh))
        | Some x \<Rightarrow>
            bindS (if of_hydrating x
                   then read_pending await h chan fh (of_inode x) (of_remote_path x) offset len
                   else ret None) (\<lambda>d. case d of
              Some data \<Rightarrow> ret data
            | None \<Rightarrow> read_cache_file fh offset len)))) (\<lambda>r. case r of
        Inr data \<Rightarrow> ret data
      | Inl e \<Rightarrow> raise (errno e))"

section \<open>Extended attributes\<close>

definition XATTR_STATUS :: string where "XATTR_STATUS = ''user.stratosync.status''"
definition XATTR_ETAG :: string where "XATTR_ETAG = ''user.stratosync.etag''"
definition XATTR_REMOTE_PATH :: string where "XATTR_REMOTE_PATH = ''user.stratosync.remote_path''"

datatype xattr_reply = XSize nat | XData string

definition xattr_value :: "file_entry \<Rightarrow> string \<Rightarrow> string option" where
  "xattr_value e name =
     (if name = XATTR_STATUS then Some (status_as_str (fe_status e))
      else if name = XATTR_ETAG then Some (case fe_etag e of Some t \<Rightarrow> t | None \<Rightarrow> [])
      else if name = XATTR_REMOTE_PATH then Some (fe_remote_path e)
      else None)"

definition xattr_reply :: "nat \<Rightarrow> string \<Rightarrow> xattr_reply fsm" where
  "xattr_reply len value =
     (if len = 0 then ret (XSize (length value mod 2 ^ 32))
      else if len \<ge> length value mod 2 ^ 32 then ret (XData value) else raise ERANGE)"

definition fuse_getxattr :: "inode \<Rightarrow> string \<Rightarrow> nat \<Rightarrow> xattr_reply fsm" where
  "fuse_getxattr i name len =
     bindS (db_eio (get_by_inode i)) (\<lambda>r. case r of
        None \<Rightarrow> raise ENOENT
      | Some e \<Rightarrow> (case xattr_value e name of None \<Rightarrow> raise ENODATA | Some v \<Rightarrow> xattr_reply len v))"

definition fuse_listxattr :: "inode \<Rightarrow> nat \<Rightarrow> xattr_reply fsm" where
  "fuse_listxattr i len =
     bindS (db_eio (get_by_inode i)) (\<lambda>r. case r of
        None \<Rightarrow> raise ENOENT
      | Some _ \<Rightarrow> xattr_reply len
          (concat (map (\<lambda>a. a @ [CHR 0x00]) [XATTR_STATUS, XATTR_ETAG, XATTR_REMOTE_PATH])))"

section \<open>The root\<close>

definition root_entry :: "mount_id \<Rightarrow> system_time \<Rightarrow> new_file_entry" where
  "root_entry m now = \<lparr> n_mount_id = m, n_parent = 0, n_name = ''/'', n_remote_path = ''/'', n_kind = Directory,
     n_size = 0, n_mtime = now, n_etag = None, n_status = Remote, n_cache_path = None, n_cache_size = None \<rparr>"

definition ensure_root :: "mount_id \<Rightarrow> unit dbm" where
  "ensure_root m =
     bindS (get_by_inode FUSE_ROOT_INODE) (\<lambda>r.
     bindS (case r of
              None \<Rightarrow> ret True
            | Some e \<Rightarrow>
                if fe_kind e \<noteq> Directory \<or> fe_remote_path e \<noteq> ''/'' \<or> fe_mount_id e \<noteq> m
                then thenS (delete_mount_entries m) (ret True) else ret False) (\<lambda>needs_root.
       if needs_root
       then bindS (query (\<lambda>s. from_unix (clock s))) (\<lambda>now. thenS (insert_root (root_entry m now)) (ret ()))
       else ret ()))"

section \<open>Prefetching\<close>

text \<open>
  The tasks work on the children listed when they start, one after another; the
  source runs several at a time.
\<close>

definition prefetch_child_dir :: "hydrator \<Rightarrow> file_entry \<Rightarrow> unit anym" where
  "prefetch_child_dir h child =
     (if fe_kind child \<noteq> Directory \<or> fe_dir_listed child \<noteq> None then ret ()
      else bindS (query (hy_list h (fe_remote_path child))) (\<lambda>r. case r of
         Inl _ \<Rightarrow> ret ()
       | Inr l \<Rightarrow>
           bindS (attempt (any_db (batch_upsert_remote_files (f_mount_id (hy_cfg h)) (fe_inode child)
                     (map (listing_of (fe_remote_path child)) (filter (\<lambda>c. \<not> unsafe_name (rm_name c)) l))))) (\<lambda>u.
             case u of
               Inl _ \<Rightarrow> ret ()
             | Inr _ \<Rightarrow> thenS (attempt (any_db (mark_dir_listed (fe_inode child)))) (ret ()))))"

definition prefetch_small_file :: "hydrator \<Rightarrow> file_entry \<Rightarrow> unit anym" where
  "prefetch_small_file h child =
     (if fe_kind child \<noteq> File \<or> \<not> needs_hydration (fe_status child) \<or> fe_size child > hy_prefetch_threshold h
      then ret ()
      else bindS (attempt (any_db (set_status (fe_inode child) Hydrating))) (\<lambda>r. case r of
         Inl _ \<Rightarrow> ret ()
       | Inr _ \<Rightarrow> thenS (attempt (do_hydrate h child)) (ret ())))"

definition header_wanted :: "hydrator \<Rightarrow> file_entry \<Rightarrow> fs \<Rightarrow> bool" where
  "header_wanted h child s \<longleftrightarrow> fe_kind child = File \<and> needs_hydration (fe_status child)
     \<and> fe_size child > hy_prefetch_threshold h
     \<and> \<not> path_exists (header_path (f_cache_dir (hy_cfg h)) (fe_inode child)) (fw s)
     \<and> fe_inode child \<notin> prefetch_inflight s"

definition write_header_of :: "hydrator \<Rightarrow> inode \<Rightarrow> bytes \<Rightarrow> unit anym" where
  "write_header_of h i data =
     bindS (query (hy_nanos h)) (\<lambda>x.
       thenS (attempt (in_world (\<lambda>e. e) (write_header x (f_cache_dir (hy_cfg h)) i data))) (ret ()))"

definition prefetch_header :: "hydrator \<Rightarrow> inode \<Rightarrow> file_entry \<Rightarrow> unit anym" where
  "prefetch_header h parent child =
     bindS (query (header_wanted h child)) (\<lambda>wanted.
       if \<not> wanted then ret ()
       else
         thenS (modifyS (\<lambda>s. s\<lparr>prefetch_inflight := insert (fe_inode child) (prefetch_inflight s)\<rparr>))
        (thenS (bindS (query focus_dir) (\<lambda>f.
                if f \<noteq> parent then ret ()
                else bindS (query (\<lambda>s. path_exists (header_path (f_cache_dir (hy_cfg h)) (fe_inode child)) (fw s))) (\<lambda>ex.
                  if ex then ret ()
                  else bindS (query (hy_range h (fe_remote_path child) 0 (min (hy_header_size h) (fe_size child)))) (\<lambda>r.
                    case r of Inr data \<Rightarrow> write_header_of h (fe_inode child) data | Inl _ \<Rightarrow> ret ()))))
           (modifyS (\<lambda>s. s\<lparr>prefetch_inflight := prefetch_inflight s - {fe_inode child}\<rparr>))))"

definition children_of :: "hydrator \<Rightarrow> inode \<Rightarrow> file_entry list anym" where
  "children_of h i =
     bindS (attempt (any_db (list_children (f_mount_id (hy_cfg h)) i)))
       (\<lambda>r. ret (case r of Inr cs \<Rightarrow> cs | Inl _ \<Rightarrow> []))"

definition run_prefetch :: "hydrator \<Rightarrow> prefetch \<Rightarrow> unit anym" where
  "run_prefetch h p =
     (case p of
        ChildDirs i \<Rightarrow> bindS (children_of h i) (each (prefetch_child_dir h))
      | SmallFiles i \<Rightarrow> bindS (children_of h i) (each (prefetch_small_file h))
      | Headers i \<Rightarrow> bindS (children_of h i) (each (prefetch_header h i))
      | KeepHeader i data \<Rightarrow>
          thenS (write_header_of h i data)
            (modifyS (\<lambda>s. s\<lparr>prefetch_inflight := prefetch_inflight s - {i}\<rparr>)))"

end
