(* ===== verification/Fuse_Laws.thy ===== *)
theory Fuse_Laws
  imports Fuse_Read
begin

text \<open>
  What a write through the FUSE layer does: the bytes, the row, the trigger and
  what a later read returns.
\<close>

section \<open>Writing bytes\<close>

lemma length_write_at: "length (write_at off data b) = (if data = [] then length b else max (length b) (off + length data))"
  by (auto simp: write_at_def)

lemma write_at_read_back: "take (length data) (drop off (write_at off data b)) = data"
  by (cases "off \<le> length b") (auto simp: write_at_def)

lemma write_at_outside:
  assumes "k < length (write_at off data b)" "k < off \<or> off + length data \<le> k"
  shows "write_at off data b ! k = (if k < length b then b ! k else 0)"
  using assms by (auto simp: write_at_def nth_append min_def split: if_splits)

lemma set_dirty_size_run:
  assumes "db_wf d" and "\<forall>r\<in>set (file_index d). r_inode r = i \<longrightarrow> r_cache_path r \<noteq> None"
  shows "set_dirty_size i n d = (Inr (), d\<lparr>file_index := update_rows (\<lambda>r. r_inode r = i)
           (\<lambda>r. r\<lparr>r_status := Dirty, r_size := n, r_cache_size := Some n\<rparr>) (file_index d)\<rparr>)"
  using assms by (subst set_dirty_size_def)
    (auto simp: run_then exec_update_same_keys same_keys_def list_ex_iff trigger_ok_def)

lemma handle_write_run:
  assumes "open_files s fh = Some f" "0 \<le> off"
    and "\<not> io_fault (fw s) (of_cache_path f)" "disk (fw s) (of_cache_path f) = Some (Regular b)"
    and "world_wf (fw s)"
    and "\<forall>r\<in>set (file_index (wdb (fw s))). r_inode r = of_inode f \<longrightarrow> r_cache_path r \<noteq> None"
  shows "handle_write fh off data s =
    (let new = write_at (nat off) data b; d = wdb (fw s)
     in (Inr (length data mod 2 ^ 32), s\<lparr>fw := (fw s)\<lparr>disk := (disk (fw s))(of_cache_path f \<mapsto> Regular new),
           wdb := d\<lparr>file_index := update_rows (\<lambda>r. r_inode r = of_inode f)
              (\<lambda>r. r\<lparr>r_status := Dirty, r_size := length new, r_cache_size := Some (length new)\<rparr>) (file_index d)\<rparr>\<rparr>,
         triggers := triggers s @ [TWrite (of_inode f)]\<rparr>))"
  using assms
  by (simp add: handle_write_def run_bind run_then require_def in_world_run open_write_def read_file_def write_file_def
      Let_def db_op_run set_dirty_size_run)

lemma fuse_read_cached:
  assumes "open_files s fh = Some f" "\<not> of_hydrating f" "0 \<le> off"
    and "\<not> io_fault (fw s) (of_cache_path f)" "disk (fw s) (of_cache_path f) = Some (Regular b)"
  shows "fuse_read await h chan fh off len s = (Inr (take len (drop (nat off) b)), s)"
  using assms
  by (simp add: fuse_read_def read_cache_file_def run_bind in_world_run read_file_def)

lemma get_by_inode_update:
  assumes "db_wf d" "r \<in> set (file_index d)" "\<And>x. r_inode (f x) = r_inode x"
  shows "get_by_inode (r_inode r) (d\<lparr>file_index := update_rows (\<lambda>x. r_inode x = r_inode r) f (file_index d)\<rparr>)
    = (Inr (Some (row_to_entry (f r))), d\<lparr>file_index := update_rows (\<lambda>x. r_inode x = r_inode r) f (file_index d)\<rparr>)"
proof -
  have di: "distinct (map r_inode (file_index d))" using assms(1) by (simp add: db_wf_def files_wf_def unique_ok_def)
  let ?rows = "update_rows (\<lambda>x. r_inode x = r_inode r) f (file_index d)"
  have "distinct (map r_inode ?rows)"
    using di assms(3) by (simp add: update_rows_def comp_def if_distrib cong: if_cong)
  moreover have "f r \<in> set ?rows" using assms(2) by (force simp: update_rows_def)
  ultimately have "find (\<lambda>x. r_inode x = r_inode r) ?rows = Some (f r)"
    by (simp add: find_key_Some assms(3))
  then show ?thesis by (simp add: get_by_inode_def find_row_def)
qed

text \<open>
  C5: a write through an open handle stores the bytes at the offset, fills a gap
  with zeros and changes no other byte and no other file; the row becomes dirty
  with the new size, no other row changes, and one write trigger is sent.  A read
  of the same range through the handle returns the bytes, and the attributes
  report the new size.
\<close>

theorem write_is_stored_and_marked:
  assumes "open_files s fh = Some f" "\<not> of_hydrating f" "0 \<le> off" "length data < 2 ^ 32"
    and "\<not> io_fault (fw s) (of_cache_path f)" "disk (fw s) (of_cache_path f) = Some (Regular b)"
    and "world_wf (fw s)" "r \<in> set (file_index (wdb (fw s)))" "r_inode r = of_inode f"
    and "r_kind r = File" "r_cache_path r \<noteq> None"
  shows "\<exists>new s'. handle_write fh off data s = (Inr (length data), s')
    \<and> disk (fw s') = (disk (fw s))(of_cache_path f \<mapsto> Regular new)
    \<and> length new = (if data = [] then length b else max (length b) (nat off + length data))
    \<and> (\<forall>k < length new. int k < off \<or> off + int (length data) \<le> int k \<longrightarrow> new ! k = (if k < length b then b ! k else 0))
    \<and> triggers s' = triggers s @ [TWrite (of_inode f)]
    \<and> file_index (wdb (fw s')) = map (\<lambda>x. if r_inode x = of_inode f
        then x\<lparr>r_status := Dirty, r_size := length new, r_cache_size := Some (length new)\<rparr> else x) (file_index (wdb (fw s)))
    \<and> fuse_read await h chan fh off (length data) s' = (Inr data, s')
    \<and> map_sum id a_size (result_of (fuse_getattr (of_inode f)) s') = Inr (length new)"
proof -
  define new where "new = write_at (nat off) data b"
  let ?upd = "\<lambda>x. x\<lparr>r_status := Dirty, r_size := length new, r_cache_size := Some (length new)\<rparr>"
  define d' where "d' = (wdb (fw s))\<lparr>file_index := update_rows (\<lambda>x. r_inode x = r_inode r) ?upd (file_index (wdb (fw s)))\<rparr>"
  define s' where "s' = s\<lparr>fw := (fw s)\<lparr>disk := (disk (fw s))(of_cache_path f \<mapsto> Regular new), wdb := d'\<rparr>,
    triggers := triggers s @ [TWrite (of_inode f)]\<rparr>"
  have cp: "\<forall>x\<in>set (file_index (wdb (fw s))). r_inode x = of_inode f \<longrightarrow> r_cache_path x \<noteq> None"
    using wf_unique(1) [OF assms(7,8)] assms(9,11) by metis
  have w: "handle_write fh off data s = (Inr (length data), s')"
    using handle_write_run [OF assms(1,3,5,6,7) cp, of data] assms(4,9) by (simp add: Let_def s'_def d'_def new_def)
  have rd: "fuse_read await h chan fh off (length data) s' = (Inr data, s')"
    using fuse_read_cached [of s' fh f off new await h chan "length data"] assms(1-3,5)
    by (simp add: s'_def new_def write_at_read_back)
  have "get_by_inode (of_inode f) d' = (Inr (Some (row_to_entry (?upd r))), d')"
    using get_by_inode_update [OF assms(7,8), of ?upd] assms(9) by (simp add: d'_def)
  then have ga: "map_sum id a_size (result_of (fuse_getattr (of_inode f)) s') = Inr (length new)"
    using assms(10) by (simp add: fuse_getattr_def run_bind in_world_run db_op_run s'_def entry_to_attr_def Let_def)
  have len: "length new = (if data = [] then length b else max (length b) (nat off + length data))"
    by (simp add: new_def length_write_at)
  have out: "\<forall>k < length new. int k < off \<or> off + int (length data) \<le> int k \<longrightarrow> new ! k = (if k < length b then b ! k else 0)"
    unfolding new_def by (intro allI impI write_at_outside) (use assms(3) in auto)
  show ?thesis
    by (rule exI [of _ new], rule exI [of _ s'], intro conjI w rd ga len out)
      (simp_all add: s'_def d'_def update_rows_def assms(9))
qed

section \<open>A sample filesystem\<close>

definition sample_cfg :: fuse_cfg where
  "sample_cfg = \<lparr> f_mount_id = 1, f_cache_dir = ''/c'', f_ignore = (\<lambda>p. ends_with p ''.tmp''),
     f_canonicalize = (\<lambda>_ p. Some p) \<rparr>"

definition sample_fs :: "world \<Rightarrow> fs" where
  "sample_fs w = \<lparr> fw = w, open_files = [1 \<mapsto> \<lparr> of_inode = 3, of_cache_path = ''/c/d/a'', of_remote_path = ''d/a'',
       of_flags = 2, of_hydrating = False \<rparr>], next_fh = 2, triggers = [], tasks = [], hydrations = [],
     tracker = \<lparr> ht_in_flight = (\<lambda>_. None), ht_first_started = (\<lambda>_. None), ht_attempts = (\<lambda>_. None) \<rparr>,
     waiters = (\<lambda>_. None), delivered = [], prefetches = [], prefetch_inflight = {}, focus_dir = 0 \<rparr>"

definition sample_hydrator :: "(path \<Rightarrow> fs \<Rightarrow> (sync_error + unit) \<times> bytes option) \<Rightarrow> hydrator" where
  "sample_hydrator dl = \<lparr> hy_cfg = sample_cfg, hy_download = dl, hy_stat = (\<lambda>_ _. Inl NotSupported),
     hy_range = (\<lambda>_ _ _ _. Inl NotSupported), hy_sha = (\<lambda>_. ''hash''), hy_base_dir = ''/c/.bases'', hy_max_size = 100,
     hy_exts = [], hy_nanos = (\<lambda>_. ''ff''), hy_list = (\<lambda>_ _. Inr []), hy_prefetch_threshold = 0, hy_header_size = 0,
     hy_auto_hydrate_max = None, hy_window_open = (\<lambda>_. True) \<rparr>"

lemmas sample_fs_defs = sample_cfg_def sample_fs_def sample_hydrator_def sample_world_def

theorem write_is_stored_and_marked_witness:
  "\<exists>s'. handle_write 1 3 [9] (sample_fs sample_world) = (Inr 1, s')
    \<and> fuse_read (\<lambda>_ _ s. (TimedOut, s)) (sample_hydrator (\<lambda>_ _. (Inr (), None))) 0 1 3 1 s' = (Inr [9], s')"
  using write_is_stored_and_marked [of "sample_fs sample_world" 1
      "\<lparr> of_inode = 3, of_cache_path = ''/c/d/a'', of_remote_path = ''d/a'', of_flags = 2, of_hydrating = False \<rparr>"
      3 "[9]" "[1, 2]" "sample_row 3 (Some 2) ''a'' ''d/a'' File Cached (Some ''/c/d/a'') (Some ''ID3'')"
      "\<lambda>_ _ s. (TimedOut, s)" "sample_hydrator (\<lambda>_ _. (Inr (), None))" 0] sample_db_wf
  by (auto simp: sample_fs_defs sample_defs)

end
