(* ===== verification/Fuse_Tree.thy ===== *)
theory Fuse_Tree
  imports Fuse_Laws Poller_Laws
begin

text \<open>
  The index as a tree: the remote path of an entry is its parent's path and its
  own name.  The FUSE operations keep this, with the handles they give out, in
  every sequence of steps in which a directory that has entries is not renamed.
\<close>

section \<open>The tree invariant\<close>

definition tree_ok :: "db \<Rightarrow> bool" where
  "tree_ok d \<longleftrightarrow> (\<forall>r\<in>set (file_index d). \<forall>q\<in>set (file_index d).
     r_parent r = Some (r_inode q) \<longrightarrow> r_remote_path r = join_remote (r_remote_path q) (r_name r))"

definition same_place :: "file_row \<Rightarrow> file_row \<Rightarrow> bool" where
  "same_place r r' \<longleftrightarrow> r_inode r' = r_inode r \<and> r_parent r' = r_parent r \<and> r_name r' = r_name r
     \<and> r_remote_path r' = r_remote_path r"

lemma rows_only_tree_ok [simp]: "rows_only tree_ok"
  by (simp add: rows_only_def tree_ok_def)

lemma tree_ok_update: "(\<And>r. same_place r (f r)) \<Longrightarrow> keeps tree_ok (exec_update p f)"
  unfolding keeps_def
  by (force simp: exec_update_def end_statement_def tree_ok_def update_rows_def same_place_def)

lemma tree_ok_delete: "keeps tree_ok (exec_delete p)"
  unfolding keeps_def by (auto simp: exec_delete_def end_statement_def tree_ok_def)

lemma frames_rows_more:
  "frames_rows (insert_tombstone m rp ttl)" "frames_rows (remove_tombstone m rp)" "frames_rows (touch_lru i)"
  "frames_rows (set_base_hash i m hs sz)" "frames_rows (record_hydration_success m)"
  "frames_rows (record_hydration_failure m e)"
  by (simp_all add: frames_rows_def insert_tombstone_def remove_tombstone_def touch_lru_def exec_lru_upsert_def Let_def
      set_base_hash_def record_hydration_success_def record_hydration_failure_def exec_health_upsert_def)

abbreviation wft :: "db \<Rightarrow> bool" where
  "wft \<equiv> wf_and tree_ok"

lemmas keeps_wft_update = keeps_wf_and [OF _ tree_ok_update]

lemma keeps_wft_ops [keeps_rules]:
  "keeps wft (set_status i st)" "keeps wft (set_dirty_size i n)" "keeps wft (set_dirty_with_cache_path i cp n)"
  "keeps wft (mark_dir_listed i)" "keeps wft (set_item_id_if_absent i it)" "keeps wft (delete_entry i)"
  by (intro keeps_wf_and keeps_rules;
      simp add: set_status_def set_dirty_size_def set_dirty_with_cache_path_def mark_dir_listed_def
        set_item_id_if_absent_def delete_entry_def;
      intro keeps_rules tree_ok_update tree_ok_delete; simp add: same_place_def)+

lemma keeps_wft_frames [keeps_rules]:
  "keeps wft (insert_tombstone m rp ttl)" "keeps wft (remove_tombstone m rp)" "keeps wft (touch_lru i)"
  "keeps wft (set_base_hash i m hs sz)" "keeps wft (record_hydration_success m)" "keeps wft (record_hydration_failure m e)"
  by (rule keeps_wf_and_frame, simp, rule keeps_rules, rule frames_rows_more)+

lemma keeps_wft_set_cached [keeps_rules]: "keeps wft (set_cached i cp cs et mt sz)"
proof -
  have u: "keeps wft (exec_update (\<lambda>r. r_inode r = i)
      (\<lambda>r. r\<lparr>r_status := Cached, r_cache_path := Some cp, r_cache_size := Some cs, r_etag := et,
              r_mtime := to_unix mt, r_size := sz, r_cache_mtime := Some now\<rparr>))" for now
    by (intro keeps_wft_update stmt_wf) (simp_all add: same_place_def)
  show ?thesis unfolding set_cached_def by (intro keeps_rules u)
qed

lemma keeps_wft_reads [keeps_rules]:
  "keeps wft (get_by_inode i)" "keeps wft (get_by_parent_name m p n)" "keeps wft (list_children m p)"
  "keeps wft (active_tombstones m)"
  by (simp_all add: get_by_inode_def get_by_parent_name_def list_children_def active_tombstones_def keeps_query)

section \<open>Inserting and moving rows\<close>

lemma parent_in_inodes: "\<lbrakk>db_wf d; r \<in> set (file_index d); r_parent r = Some p\<rbrakk> \<Longrightarrow> p \<in> inodes d"
  by (auto simp: db_wf_def files_wf_def fk_ok_def list_all_iff row_refs_ok_def)

text \<open>A row added below an existing one, at the path its parent gives it.\<close>

lemma tree_ok_insert_auto:
  assumes wf: "db_wf d" and t: "tree_ok d" and q: "q \<in> set (file_index d)"
    and x: "r_parent x = Some (r_inode q)" "r_remote_path x = join_remote (r_remote_path q) (r_name x)"
  shows "tree_ok (snd (exec_insert_auto x d))"
proof -
  let ?x = "x\<lparr>r_inode := next_inode d\<rparr>"
  have fresh: "\<forall>r\<in>set (file_index d). r_inode r \<noteq> next_inode d \<and> r_parent r \<noteq> Some (next_inode d)"
    using next_inode_fresh(1) [of d] parent_in_inodes [OF wf] by force
  have self: "r_inode q \<noteq> next_inode d" using fresh q by blast
  have same: "r = q" if "r \<in> set (file_index d)" "r_inode r = r_inode q" for r
    using wf_unique(1) [OF wf that(1) q that(2)] .
  have "r_remote_path r = join_remote (r_remote_path p) (r_name r)"
    if r: "r = ?x \<or> r \<in> set (file_index d)" and p: "p = ?x \<or> p \<in> set (file_index d)"
      and rp: "r_parent r = Some (r_inode p)" for r p
  proof (cases "r = ?x")
    case True
    with rp x have "r_inode p = r_inode q" by simp
    with p self same have "p = q" by auto
    with True x show ?thesis by simp
  next
    case False
    with r rp fresh p have "r \<in> set (file_index d)" "p \<in> set (file_index d)" by auto
    with t rp show ?thesis unfolding tree_ok_def by blast
  qed
  then have "tree_ok (d\<lparr>file_index := file_index d @ [?x], file_seq := max (file_seq d) (next_inode d)\<rparr>)"
    unfolding tree_ok_def by simp
  with t show ?thesis by (auto simp: exec_insert_auto_def run_then exec_insert_def end_statement_def)
qed

lemma tree_ok_insert_file:
  assumes "db_wf d" "tree_ok d" "q \<in> set (file_index d)"
    and "n_parent e = r_inode q" "n_remote_path e = join_remote (r_remote_path q) (n_name e)"
  shows "tree_ok (snd (insert_file e d))"
  unfolding insert_file_def
  by (rule tree_ok_insert_auto [OF assms(1-3)]) (use assms(4,5) in \<open>simp_all add: row_of_new_def\<close>)

text \<open>A row without entries of its own moves below another row.\<close>

lemma tree_ok_rename_entry:
  assumes t: "tree_ok d" and np: "np \<noteq> i" and leaf: "\<forall>r\<in>set (file_index d). r_parent r \<noteq> Some i"
    and path: "\<forall>q\<in>set (file_index d). r_inode q = np \<longrightarrow> rp = join_remote (r_remote_path q) name"
  shows "tree_ok (snd (rename_entry i np name rp cp d))"
proof -
  let ?f = "\<lambda>r. r\<lparr>r_parent := Some np, r_name := name, r_remote_path := rp, r_cache_path := cp\<rparr>"
  let ?d = "d\<lparr>file_index := update_rows (\<lambda>r. r_inode r = i) ?f (file_index d)\<rparr>"
  define g :: "file_row \<Rightarrow> file_row" where "g = (\<lambda>r. if r_inode r = i then ?f r else r)"
  have g: "r_inode (g r) = r_inode r" "r_inode r = i \<Longrightarrow> g r = ?f r" "r_inode r \<noteq> i \<Longrightarrow> g r = r" for r
    by (simp_all add: g_def)
  have "r_remote_path (g r) = join_remote (r_remote_path (g p)) (r_name (g r))"
    if r: "r \<in> set (file_index d)" and p: "p \<in> set (file_index d)" and par: "r_parent (g r) = Some (r_inode p)" for r p
  proof (cases "r_inode r = i")
    case True
    with par p np path show ?thesis by (auto simp: g)
  next
    case False
    with par leaf r have "r_parent r = Some (r_inode p)" "r_inode p \<noteq> i" by (auto simp: g)
    with t r p False show ?thesis unfolding tree_ok_def by (simp add: g)
  qed
  then have "tree_ok ?d" unfolding tree_ok_def update_rows_def g_def [symmetric] by (simp add: g(1))
  with t show ?thesis by (simp add: rename_entry_def run_then exec_update_def end_statement_def)
qed

section \<open>The invariant of the handlers\<close>

text \<open>The database is well-formed and a tree, and every open handle is below the next free one.\<close>

definition fuse_inv :: "fs \<Rightarrow> bool" where
  "fuse_inv s \<longleftrightarrow> db_wf (wdb (fw s)) \<and> tree_ok (wdb (fw s)) \<and> (\<forall>fh. open_files s fh \<noteq> None \<longrightarrow> fh < next_fh s)"

lemma keeps_inv_world [keeps_rules]: "keeps (\<lambda>w. wft (wdb w)) m \<Longrightarrow> keeps fuse_inv (in_world f m)"
  by (simp add: keeps_def in_world_run fuse_inv_def wf_and_def)

lemma keeps_inv_steps [keeps_rules]:
  "keeps fuse_inv (require e x)" "keeps fuse_inv (check r)" "keeps fuse_inv (enqueue t)" "keeps fuse_inv (spawn k)"
  "keeps fuse_inv (open_handle f)"
  by (auto simp: keeps_def require_def check_def fuse_inv_def open_handle_def run_then less_SucI split: option.split sum.split)

lemma keeps_create_dir_all [keeps_rules]: "keeps (\<lambda>w. I (wdb w)) (create_dir_all d)"
  by (auto simp: keeps_def create_dir_all_def split: option.split node.split)

lemma keeps_open_write [keeps_rules]: "keeps (\<lambda>w. I (wdb w)) (open_write p)"
  unfolding open_write_def by (rule keeps_rules)

lemmas inv_rules = keeps_rules keeps_db_op

lemma handle_write_inv: "keeps fuse_inv (handle_write fh off data)"
  unfolding handle_write_def Let_def by (intro inv_rules)

lemma handle_fsync_inv: "keeps fuse_inv (handle_fsync fh)"
  unfolding handle_fsync_def by (intro inv_rules)

lemma handle_release_inv: "keeps fuse_inv (handle_release fh)"
  unfolding handle_release_def by (intro inv_rules keeps_modify) (auto simp: fuse_inv_def)

lemma handle_unlink_inv: "keeps fuse_inv (handle_unlink cfg p n)"
  unfolding handle_unlink_def by (intro inv_rules)

lemma handle_rmdir_inv: "keeps fuse_inv (handle_rmdir cfg p n)"
  unfolding handle_rmdir_def by (intro inv_rules)

lemma run_task_inv: "keeps fuse_inv (run_task be m t)"
  unfolding run_task_def by (cases t) (auto intro!: inv_rules)

subsection \<open>Handlers that add rows\<close>

text \<open>The invariant, with a given row present.\<close>

definition inv_with :: "file_row \<Rightarrow> fs \<Rightarrow> bool" where
  "inv_with q s \<longleftrightarrow> fuse_inv s \<and> q \<in> set (file_index (wdb (fw s)))"

lemma keeps_inv_with_io:
  assumes "keeps (\<lambda>w. (\<lambda>d. wft d \<and> q \<in> set (file_index d)) (wdb w)) m"
  shows "keeps (inv_with q) (in_world f m)"
  using assms by (simp add: inv_with_def keeps_def fuse_inv_def in_world_run wf_and_def)

lemma keeps_inv_with_steps:
  "keeps (inv_with q) (check r)" "keeps (inv_with q) (spawn k)" "keeps (inv_with q) (open_handle f)"
  by (auto simp: keeps_def check_def inv_with_def fuse_inv_def open_handle_def run_then less_SucI split: sum.split)

lemma keeps_inv_with_insert:
  assumes "n_parent e = r_inode q" "n_remote_path e = join_remote (r_remote_path q) (n_name e)"
  shows "keeps (inv_with q) (db_eio (insert_file e))"
proof (rule keepsI)
  fix s assume s: "inv_with q s"
  have "has_row (\<lambda>r. r = q) (snd (insert_file e (wdb (fw s))))"
    unfolding insert_file_def using s by (intro keepsD [OF has_row_insert_auto]) (simp add: inv_with_def has_row_def)
  moreover have "tree_ok (snd (insert_file e (wdb (fw s))))"
    by (rule tree_ok_insert_file [OF _ _ _ assms]) (use s in \<open>simp_all add: inv_with_def fuse_inv_def\<close>)
  moreover have "db_wf (snd (insert_file e (wdb (fw s))))"
    by (rule keepsD [OF insert_file_wf]) (use s in \<open>simp add: inv_with_def fuse_inv_def\<close>)
  ultimately show "inv_with q (snd (db_eio (insert_file e) s))"
    using s by (simp add: inv_with_def fuse_inv_def in_world_run db_op_run has_row_def)
qed

lemma create_in_inv:
  "rp = join_remote (r_remote_path q) name \<Longrightarrow> keeps (inv_with q) (create_in cfg (r_inode q) name rp)"
  unfolding create_in_def
  by (intro keeps_rules keeps_inv_with_steps keeps_inv_with_io keeps_inv_with_insert keeps_create_dir_all keeps_io(3))
     (simp_all add: new_entry_def)

lemma mkdir_in_inv:
  "rp = join_remote (r_remote_path q) name \<Longrightarrow> keeps (inv_with q) (mkdir_in cfg (r_inode q) name rp)"
  unfolding mkdir_in_def
  by (intro keeps_rules keeps_inv_with_steps keeps_inv_with_insert) (simp_all add: new_entry_def)

text \<open>A handler that looks its parent up and continues below it.\<close>

lemma below_parent_inv:
  assumes "\<And>q. keeps (inv_with q) (act (r_inode q) (join_remote (r_remote_path q) name))"
  shows "keeps fuse_inv (bindS (check v) (\<lambda>_. bindS (db_eio (get_by_inode parent)) (\<lambda>pe.
      bindS (require ENOENT pe) (\<lambda>e. act parent (join_remote (fe_remote_path e) name)))))"
proof (rule keepsI)
  fix s assume s: "fuse_inv s"
  show "fuse_inv (snd (bindS (check v) (\<lambda>_. bindS (db_eio (get_by_inode parent)) (\<lambda>pe.
      bindS (require ENOENT pe) (\<lambda>e. act parent (join_remote (fe_remote_path e) name)))) s))"
  proof (cases "find_row (\<lambda>r. r_inode r = parent) (wdb (fw s))")
    case None
    with s show ?thesis
      by (auto simp: run_bind check_def in_world_run db_op_run get_by_inode_run require_def split: sum.split)
  next
    case (Some q)
    then have q: "q \<in> set (file_index (wdb (fw s)))" "r_inode q = parent"
      by (auto simp: find_row_def dest: find_SomeD)
    have "fuse_inv (snd (act parent (join_remote (r_remote_path q) name) s))"
      using keepsD [OF assms [of q], of s] s q by (simp add: inv_with_def)
    with Some s show ?thesis
      by (auto simp: run_bind check_def in_world_run db_op_run get_by_inode_run require_def split: sum.split)
  qed
qed

lemma handle_create_inv: "keeps fuse_inv (handle_create cfg parent name)"
  unfolding handle_create_def by (rule below_parent_inv [OF create_in_inv]) simp

lemma handle_mkdir_inv: "keeps fuse_inv (handle_mkdir cfg parent name)"
  unfolding handle_mkdir_def by (rule below_parent_inv [OF mkdir_in_inv]) simp

subsection \<open>Rename\<close>

text \<open>
  Before the row \<open>i\<close> moves below \<open>np\<close>: no row lies below \<open>i\<close>, and the path of \<open>np\<close>
  is the one the new path was built from.
\<close>

definition may_move :: "inode \<Rightarrow> path \<Rightarrow> inode \<Rightarrow> file_row list \<Rightarrow> bool" where
  "may_move np pp i rows \<longleftrightarrow> (\<forall>r\<in>set rows. r_parent r \<noteq> Some i \<and> (r_inode r = np \<longrightarrow> r_remote_path r = pp))"

definition moving :: "inode \<Rightarrow> path \<Rightarrow> inode \<Rightarrow> fs \<Rightarrow> bool" where
  "moving np pp i s \<longleftrightarrow> fuse_inv s \<and> may_move np pp i (file_index (wdb (fw s)))"

lemma keeps_moving_world:
  assumes "keeps (\<lambda>w. (\<lambda>d. wft d \<and> may_move np pp i (file_index d)) (wdb w)) m"
  shows "keeps (moving np pp i) (in_world f m)"
  using assms by (simp add: moving_def keeps_def fuse_inv_def in_world_run wf_and_def)

lemma keeps_moving_delete: "keeps (\<lambda>d. wft d \<and> may_move np pp i (file_index d)) (delete_entry j)"
proof -
  have "keeps (\<lambda>d. may_move np pp i (file_index d)) (delete_entry j)"
    by (auto simp: keeps_def delete_entry_def exec_delete_def end_statement_def may_move_def)
  with keeps_wft_ops(6) [of j] show ?thesis by (simp add: keeps_def)
qed

lemma rename_dest_moving: "keeps (moving np pp i) (rename_dest cfg p n)"
  unfolding rename_dest_def get_by_parent_name_def
  by (intro keeps_rules keeps_moving_world keeps_db_op keeps_moving_delete keeps_invalidate_header)

lemma rename_cache_moving: "keeps (moving np pp i) (rename_cache e n)"
  unfolding rename_cache_def Let_def
  by (intro keeps_rules keeps_moving_world keeps_io(4))

lemma rename_entry_inv:
  assumes "moving np pp (fe_inode entry) s" "np \<noteq> fe_inode entry"
  shows "fuse_inv (snd (db_eio (rename_entry (fe_inode entry) np n (join_remote pp n) cp) s))"
proof -
  have "tree_ok (snd (rename_entry (fe_inode entry) np n (join_remote pp n) cp (wdb (fw s))))"
    by (rule tree_ok_rename_entry) (use assms in \<open>auto simp: moving_def fuse_inv_def may_move_def\<close>)
  then show ?thesis
    using assms keepsD [OF rename_entry_wf, of "wdb (fw s)"]
    by (simp add: moving_def fuse_inv_def in_world_run db_op_run)
qed

lemma leads_bind:
  assumes "P s" "keeps P m" "\<And>a s'. P s' \<Longrightarrow> Q (snd (f a s'))" "\<And>s'. P s' \<Longrightarrow> Q s'"
  shows "Q (snd (bindS m f s))"
  using keepsD [OF assms(2,1)] assms(3,4) by (cases "m s") (auto simp: run_bind split: sum.split)

lemma rename_to_inv:
  assumes "moving np pp (fe_inode entry) s" "np \<noteq> fe_inode entry"
  shows "fuse_inv (snd (rename_to cfg entry np n (join_remote pp n) s))"
  unfolding rename_to_def
proof (rule leads_bind [where P = "moving np pp (fe_inode entry)"])
  fix dest s' assume "moving np pp (fe_inode entry) s'"
  then show "fuse_inv (snd (bindS (rename_cache entry n) (\<lambda>cp.
      thenS (db_eio (rename_entry (fe_inode entry) np n (join_remote pp n) cp))
       (let needs = needs_remote_rename (fe_status entry) in
        if needs \<or> dest \<noteq> None then
          thenS (if needs
                 then thenS (attempt (db_eio (insert_tombstone (f_mount_id cfg) (fe_remote_path entry) 300))) (ret ())
                 else ret ())
            (spawn (TaskRename dest (if needs then Some (fe_remote_path entry, join_remote pp n) else None)))
        else ret ())) s'))"
  proof (rule leads_bind [where P = "moving np pp (fe_inode entry)"])
    fix cp s'' assume m: "moving np pp (fe_inode entry) s''"
    show "fuse_inv (snd (thenS (db_eio (rename_entry (fe_inode entry) np n (join_remote pp n) cp))
       (let needs = needs_remote_rename (fe_status entry) in
        if needs \<or> dest \<noteq> None then
          thenS (if needs
                 then thenS (attempt (db_eio (insert_tombstone (f_mount_id cfg) (fe_remote_path entry) 300))) (ret ())
                 else ret ())
            (spawn (TaskRename dest (if needs then Some (fe_remote_path entry, join_remote pp n) else None)))
        else ret ()) s''))"
      unfolding Let_def by (rule keepsD_then [where I = fuse_inv], rule rename_entry_inv [OF m assms(2)]) (intro inv_rules)
  qed (simp_all add: rename_cache_moving moving_def)
qed (use assms(1) rename_dest_moving in \<open>simp_all add: moving_def\<close>)

text \<open>
  The operating system moves no directory into itself; the step is for an entry
  that has no entries of its own.
\<close>

definition movable :: "mount_id \<Rightarrow> inode \<Rightarrow> string \<Rightarrow> inode \<Rightarrow> db \<Rightarrow> bool" where
  "movable m parent name np d \<longleftrightarrow> (\<forall>r\<in>set (file_index d).
     r_mount_id r = m \<and> r_parent r = Some parent \<and> r_name r = name \<longrightarrow>
       r_inode r \<noteq> np \<and> (\<forall>x\<in>set (file_index d). r_parent x \<noteq> Some (r_inode r)))"

lemma get_by_parent_name_run:
  "get_by_parent_name m p n d = (Inr (map_option row_to_entry
     (find_row (\<lambda>r. r_mount_id r = m \<and> r_parent r = Some p \<and> r_name r = n) d)), d)"
  by (simp add: get_by_parent_name_def)

lemma handle_rename_inv:
  assumes s: "fuse_inv s" and mv: "movable (f_mount_id cfg) parent name np (wdb (fw s))"
  shows "fuse_inv (snd (handle_rename cfg parent name np nn s))"
proof (cases "validate_filename nn")
  case (Inl e)
  with s show ?thesis by (simp add: handle_rename_def run_bind check_def)
next
  case v: (Inr u)
  let ?d = "wdb (fw s)"
  show ?thesis
  proof (cases "find_row (\<lambda>r. r_mount_id r = f_mount_id cfg \<and> r_parent r = Some parent \<and> r_name r = name) ?d")
    case None
    with s v show ?thesis
      by (simp add: handle_rename_def run_bind check_def in_world_run db_op_run get_by_parent_name_run require_def)
  next
    case r: (Some r)
    show ?thesis
    proof (cases "find_row (\<lambda>x. r_inode x = np) ?d")
      case None
      with s v r show ?thesis
        by (simp add: handle_rename_def run_bind check_def in_world_run db_op_run get_by_parent_name_run get_by_inode_run
            require_def)
    next
      case q: (Some q)
      have leaf: "np \<noteq> r_inode r \<and> (\<forall>x\<in>set (file_index ?d). r_parent x \<noteq> Some (r_inode r))"
        using mv find_row_Some [OF r] unfolding movable_def by blast
      have "x = q" if "x \<in> set (file_index ?d)" "r_inode x = np" for x
        using wf_unique(1) [of ?d x q] find_row_Some [OF q] s that by (simp add: fuse_inv_def)
      with leaf have "may_move np (r_remote_path q) (r_inode r) (file_index ?d)"
        unfolding may_move_def by blast
      with leaf have "fuse_inv (snd (rename_to cfg (row_to_entry r) np nn (join_remote (r_remote_path q) nn) s))"
        using s by (intro rename_to_inv) (simp_all add: moving_def)
      with v r q show ?thesis
        by (simp add: handle_rename_def run_bind check_def in_world_run db_op_run get_by_parent_name_run get_by_inode_run
            require_def)
    qed
  qed
qed

subsection \<open>Populating a directory\<close>

lemma tree_ok_upsert_path:
  assumes wf: "db_wf d" and t: "tree_ok d" and q: "q \<in> set (file_index d)"
    and x: "r_parent x = Some (r_inode q)" "r_remote_path x = join_remote (r_remote_path q) (r_name x)"
  shows "tree_ok (snd (exec_upsert_path x (upsert_columns x) d))"
proof (cases "list_ex (\<lambda>y. path_key y = path_key x) (file_index d)")
  case False
  with tree_ok_insert_auto [OF wf t q x] t show ?thesis
    by (cases "exec_insert_auto x d") (auto simp: exec_upsert_path_def run_then split: sum.splits)
next
  case True
  define g where "g = (\<lambda>r. if path_key r = path_key x then upsert_columns x r else r)"
  have g: "r_inode (g r) = r_inode r" "r_remote_path (g r) = r_remote_path r"
    "path_key r = path_key x \<Longrightarrow> r_parent (g r) = r_parent x \<and> r_name (g r) = r_name x"
    "path_key r \<noteq> path_key x \<Longrightarrow> g r = r" for r
    by (auto simp: g_def upsert_columns_def)
  have "r_remote_path (g r) = join_remote (r_remote_path (g p)) (r_name (g r))"
    if r: "r \<in> set (file_index d)" and p: "p \<in> set (file_index d)" and par: "r_parent (g r) = Some (r_inode p)" for r p
  proof (cases "path_key r = path_key x")
    case True
    with par x have "p = q" using wf_unique(1) [OF wf p q] by (simp add: g)
    with True x show ?thesis by (simp add: g)
  next
    case False
    with t r p par show ?thesis unfolding tree_ok_def by (simp add: g)
  qed
  then have "tree_ok (d\<lparr>file_index := update_rows (\<lambda>r. path_key r = path_key x) (upsert_columns x) (file_index d)\<rparr>)"
    unfolding tree_ok_def update_rows_def g_def [symmetric] by (simp add: g(1))
  with True t show ?thesis by (auto simp: exec_upsert_path_def run_then exec_update_def end_statement_def)
qed

text \<open>The directory being listed, as far as its entries' paths depend on it.\<close>

definition dir_at :: "inode \<Rightarrow> path \<Rightarrow> db \<Rightarrow> bool" where
  "dir_at i p d \<longleftrightarrow> wft d \<and> has_row (\<lambda>r. r_inode r = i \<and> r_remote_path r = p) d"

lemma dir_at_upsert:
  assumes "rp = join_remote p name"
  shows "keeps (dir_at i p) (upsert_listing_entry m i g (name, rp, k, sz, mt, et))"
proof (rule keepsI)
  fix d assume d: "dir_at i p d"
  let ?x = "remote_row m i name rp k sz mt et None g"
  obtain q where q: "q \<in> set (file_index d)" "r_inode q = i" "r_remote_path q = p"
    using d by (auto simp: dir_at_def has_row_def)
  have "tree_ok (snd (exec_upsert_path ?x (upsert_columns ?x) d))"
    by (rule tree_ok_upsert_path [OF _ _ q(1)]) (use d q assms in \<open>simp_all add: dir_at_def wf_and_def remote_row_def\<close>)
  moreover have "has_row (\<lambda>r. r_inode r = i \<and> r_remote_path r = p) (snd (exec_upsert_path ?x (upsert_columns ?x) d))"
    by (rule keepsD [OF has_row_upsert_path]) (use d in \<open>auto simp: dir_at_def\<close>)
  moreover have "db_wf (snd (upsert_listing_entry m i g (name, rp, k, sz, mt, et) d))"
    by (rule keepsD [OF upsert_listing_entry_wf]) (use d in \<open>simp add: dir_at_def wf_and_def\<close>)
  ultimately show "dir_at i p (snd (upsert_listing_entry m i g (name, rp, k, sz, mt, et) d))"
    by (simp add: dir_at_def wf_and_def upsert_listing_entry_def Let_def)
qed

lemma chunks_in: "\<lbrakk>c \<in> set (chunks n xs); e \<in> set c; 0 < n\<rbrakk> \<Longrightarrow> e \<in> set xs"
proof -
  assume "c \<in> set (chunks n xs)" "e \<in> set c" and n: "0 < n"
  then have "e \<in> set (concat (chunks n xs))" by (auto simp del: concat_chunks)
  with n show "e \<in> set xs" by simp
qed

lemma dir_at_batch: "keeps (dir_at i p) (batch_upsert_remote_files m i (map (listing_of p) cs))"
proof -
  have e: "keeps (dir_at i p) (upsert_listing_entry m i g e)" if "e \<in> set (map (listing_of p) cs)" for e g
    using that by (auto simp: listing_of_def intro: dir_at_upsert)
  show ?thesis
    unfolding batch_upsert_remote_files_def batch_upsert_remote_files_gen_def
    by (rule keeps_each_in, rule keeps_transaction, rule keeps_each_in, rule e, rule chunks_in) (assumption | simp)+
qed

lemma dir_at_mark: "keeps (dir_at i p) (mark_dir_listed j)"
proof -
  have "keeps (has_row (\<lambda>r. r_inode r = i \<and> r_remote_path r = p)) (mark_dir_listed j)"
    unfolding mark_dir_listed_def by (intro keeps_rules has_row_update) auto
  with keeps_wft_ops(4) [of j] show ?thesis by (simp add: keeps_def dir_at_def)
qed

text \<open>The state of a handler that works on a directory it has found.\<close>

definition inv_at :: "inode \<Rightarrow> path \<Rightarrow> fs \<Rightarrow> bool" where
  "inv_at i p s \<longleftrightarrow> fuse_inv s \<and> dir_at i p (wdb (fw s))"

lemma keeps_inv_at: "keeps (dir_at i p) m \<Longrightarrow> keeps (inv_at i p) (in_world f (db_op m))"
  by (simp add: keeps_def inv_at_def fuse_inv_def in_world_run db_op_run dir_at_def wf_and_def)

lemma keeps_inv_at_speculate: "keeps (inv_at i p) (speculate x)"
  by (simp add: keeps_def speculate_def inv_at_def fuse_inv_def)

lemma keeps_speculate [keeps_rules]: "keeps fuse_inv (speculate x)"
  by (simp add: keeps_def speculate_def fuse_inv_def)

lemma spawn_prefetch_inv [keeps_rules]:
  "keeps fuse_inv (spawn_prefetch_small_files h i)" "keeps fuse_inv (spawn_prefetch_headers h i)"
  unfolding spawn_prefetch_small_files_def spawn_prefetch_headers_def by (intro keeps_rules)+

lemma populate_directory_at: "keeps (inv_at (fe_inode dir) (fe_remote_path dir)) (populate_directory h dir)"
  unfolding populate_directory_def Let_def active_tombstones_def
  by (intro keeps_rules keeps_inv_at keeps_inv_at_speculate dir_at_batch dir_at_mark)

lemma row_inv_at: "\<lbrakk>fuse_inv s; r \<in> set (file_index (wdb (fw s)))\<rbrakk> \<Longrightarrow> inv_at (r_inode r) (r_remote_path r) s"
  by (auto simp: inv_at_def fuse_inv_def dir_at_def wf_and_def has_row_def)

lemma populate_directory_inv:
  assumes "fuse_inv s" "get_by_inode i (wdb (fw s)) = (Inr (Some dir), d)"
  shows "fuse_inv (snd (populate_directory h dir s))"
proof -
  obtain r where r: "r \<in> set (file_index (wdb (fw s)))" "dir = row_to_entry r"
    using assms(2) find_row_Some by (auto simp: get_by_inode_run)
  then show ?thesis
    using keepsD [OF populate_directory_at row_inv_at [OF assms(1) r(1), folded row_to_entry_simps], of h]
    by (simp add: inv_at_def)
qed

lemma populate_then_inv:
  assumes "fuse_inv s" "get_by_inode i (wdb (fw s)) = (Inr (Some dir), d)" "keeps fuse_inv n"
  shows "fuse_inv (snd (thenS (populate_directory h dir) n s))"
  by (rule keepsD_then [where I = fuse_inv, OF _ assms(3)]) (rule populate_directory_inv [OF assms(1,2)])

lemma fuse_lookup_inv: "keeps fuse_inv (fuse_lookup h p n)"
proof (rule keepsI)
  fix s assume s: "fuse_inv s"
  have pop: "fuse_inv (snd (thenS (populate_directory h (row_to_entry r)) (any_db (get_by_parent_name m p n)) s))"
    if "find_row (\<lambda>x. r_inode x = p) (wdb (fw s)) = Some r" for r m
    by (rule populate_then_inv [OF s]) (use that in \<open>auto simp: get_by_inode_run intro!: keeps_rules keeps_db_op\<close>)
  show "fuse_inv (snd (fuse_lookup h p n s))"
    using s pop
    by (auto simp: fuse_lookup_def Let_def run_bind in_world_run db_op_run get_by_parent_name_run get_by_inode_run
        split: option.split sum.split prod.split)
qed

lemma fuse_readdir_inv: "keeps fuse_inv (fuse_readdir full h i off)"
proof (rule keepsI)
  fix s0 assume s0: "fuse_inv s0"
  define s where "s = s0\<lparr>focus_dir := i\<rparr>"
  have s: "fuse_inv s" using s0 by (simp add: s_def fuse_inv_def)
  let ?n = "thenS (spawn_prefetch_headers h i) (any_db (list_children (f_mount_id (hy_cfg h)) i))"
  have n: "keeps fuse_inv ?n" by (intro keeps_rules keeps_db_op)
  have "fuse_inv (snd (thenS (if fe_dir_listed (row_to_entry r) = None
          then thenS (populate_directory h (row_to_entry r)) (spawn_prefetch_small_files h i) else ret ()) ?n s))"
    if "find_row (\<lambda>x. r_inode x = i) (wdb (fw s)) = Some r" for r
  proof (rule keepsD_then [where I = fuse_inv, OF _ n])
    have "fuse_inv (snd (thenS (populate_directory h (row_to_entry r)) (spawn_prefetch_small_files h i) s))"
      by (rule populate_then_inv [OF s]) (use that in \<open>auto simp: get_by_inode_run intro!: keeps_rules keeps_db_op\<close>)
    with s show "fuse_inv (snd ((if fe_dir_listed (row_to_entry r) = None
          then thenS (populate_directory h (row_to_entry r)) (spawn_prefetch_small_files h i) else ret ()) s))"
      by simp
  qed
  then have "fuse_inv (snd (bindS (any_db (get_by_inode i)) (\<lambda>r. case r of
          None \<Rightarrow> raise (Bail (''inode '' @ nat_to_string i))
        | Some dir \<Rightarrow>
            thenS (if fe_dir_listed dir = None
                   then thenS (populate_directory h dir) (spawn_prefetch_small_files h i) else ret ()) ?n) s))"
    using s by (auto simp: run_bind in_world_run db_op_run get_by_inode_run split: option.split)
  then show "fuse_inv (snd (fuse_readdir full h i off s0))"
    by (auto simp: fuse_readdir_def s_def run_bind split: sum.split)
qed

lemma keeps_inv_modify: "(\<And>s. fw (f s) = fw s \<and> open_files (f s) = open_files s \<and> next_fh (f s) = next_fh s) \<Longrightarrow>
   keeps fuse_inv (modifyS f)"
  by (simp add: keeps_def fuse_inv_def)

lemma fuse_setattr_inv: "keeps fuse_inv (fuse_setattr h i n)"
  unfolding fuse_setattr_def truncate_to_def Let_def
  by (intro keeps_rules keeps_db_op keeps_inv_modify) simp_all

lemma fuse_open_inv: "keeps fuse_inv (fuse_open h i flags)"
  unfolding fuse_open_def Let_def
  by (intro keeps_rules keeps_db_op keeps_inv_modify) simp

lemma hydrate_begin_inv [keeps_rules]: "keeps fuse_inv (hydrate_begin h e)"
  unfolding hydrate_begin_def register_hydration_def by (intro keeps_rules keeps_db_op keeps_inv_modify) (simp add: Let_def)

lemma download_to_inv [keeps_rules]: "keeps fuse_inv (download_to h rp tmp)"
  unfolding download_to_def by (intro keeps_rules keeps_db_op keeps_modify) (simp add: fuse_inv_def)

lemma keeps_file_len [keeps_rules]: "keeps (\<lambda>w. I (wdb w)) (file_len p)"
  unfolding file_len_def by (intro keeps_rules)

lemma hydrate_finish_inv [keeps_rules]: "keeps fuse_inv (hydrate_finish h e cp tmp r)"
  unfolding hydrate_finish_def hydrate_store_def snapshot_base_def verify_not_found_def hydrate_settle_def unregister_hydration_def
    notify_waiters_def Let_def
  by (intro keeps_rules keeps_db_op keeps_inv_modify keeps_store_base) (auto split: option.split)

lemma do_hydrate_inv [keeps_rules]: "keeps fuse_inv (do_hydrate h e)"
  unfolding do_hydrate_def by (intro keeps_rules keeps_db_op)

lemma run_hydration_inv: "keeps fuse_inv (run_hydration h i)"
  unfolding run_hydration_def by (intro keeps_rules keeps_db_op)

subsection \<open>Prefetching\<close>

definition placed :: "file_entry \<Rightarrow> db \<Rightarrow> bool" where
  "placed c d \<longleftrightarrow> has_row (\<lambda>r. r_inode r = fe_inode c \<and> r_remote_path r = fe_remote_path c) d"

lemma placed_upsert: "keeps (placed c) (upsert_listing_entry m i g e)"
proof -
  obtain n rp k sz mt et where e: "e = (n, rp, k, sz, mt, et)" by (metis prod_cases6)
  show ?thesis
    unfolding placed_def e upsert_listing_entry_def Let_def by simp (rule has_row_upsert_path, simp)
qed

lemma placed_batch: "keeps (placed c) (batch_upsert_remote_files m i es)"
  unfolding batch_upsert_remote_files_def batch_upsert_remote_files_gen_def
  by (rule keeps_each, rule keeps_transaction, rule keeps_each, rule placed_upsert)

lemma placed_mark: "keeps (placed c) (mark_dir_listed j)"
  unfolding placed_def mark_dir_listed_def by (intro keeps_rules has_row_update) auto

lemma prefetch_child_dir_inv:
  assumes "c \<in> set cs"
  shows "keeps (\<lambda>s. fuse_inv s \<and> (\<forall>x\<in>set cs. placed x (wdb (fw s)))) (prefetch_child_dir h c)"
    (is "keeps ?K _")
proof -
  have lift: "keeps ?K (in_world f (db_op m))"
    if "\<And>x. keeps (placed x) m" "keeps (dir_at (fe_inode c) (fe_remote_path c)) m"
    for f :: "err \<Rightarrow> err" and m :: "'x dbm"
    using that assms unfolding keeps_def
    by (auto simp: in_world_run db_op_run fuse_inv_def dir_at_def placed_def wf_and_def)
  show ?thesis
    unfolding prefetch_child_dir_def by (intro keeps_rules lift placed_batch placed_mark dir_at_batch dir_at_mark)
qed

lemma prefetch_small_file_inv [keeps_rules]: "keeps fuse_inv (prefetch_small_file h c)"
  unfolding prefetch_small_file_def by (intro keeps_rules keeps_db_op)

lemma keeps_write_header: "keeps (\<lambda>w. I (wdb w)) (write_header x c i data)"
  unfolding write_header_def Let_def by (intro keeps_rules)

lemma write_header_of_inv [keeps_rules]: "keeps fuse_inv (write_header_of h i data)"
  unfolding write_header_of_def by (intro keeps_rules keeps_write_header)

lemma prefetch_header_inv [keeps_rules]: "keeps fuse_inv (prefetch_header h i c)"
  unfolding prefetch_header_def by (intro keeps_rules keeps_inv_modify) simp_all

lemma children_of_inv [keeps_rules]: "keeps fuse_inv (children_of h i)"
  unfolding children_of_def by (intro keeps_rules keeps_db_op)

lemma children_of_run: "children_of h i s = (Inr (map row_to_entry (sort_key r_inode (filter (\<lambda>r.
    r_mount_id r = f_mount_id (hy_cfg h) \<and> r_parent r = Some i) (file_index (wdb (fw s)))))), s)"
  by (simp add: children_of_def run_bind in_world_run db_op_run list_children_def)

lemma run_prefetch_inv: "keeps fuse_inv (run_prefetch h p)"
proof (cases p)
  case (ChildDirs i)
  show ?thesis
  proof (rule keepsI)
    fix s assume s: "fuse_inv s"
    define cs where "cs = map row_to_entry (sort_key r_inode (filter (\<lambda>r.
      r_mount_id r = f_mount_id (hy_cfg h) \<and> r_parent r = Some i) (file_index (wdb (fw s)))))"
    have "keeps (\<lambda>s. fuse_inv s \<and> (\<forall>x\<in>set cs. placed x (wdb (fw s)))) (each (prefetch_child_dir h) cs)"
      by (rule keeps_each_in) (rule prefetch_child_dir_inv)
    moreover have "fuse_inv s \<and> (\<forall>x\<in>set cs. placed x (wdb (fw s)))"
      using s by (auto simp: cs_def placed_def has_row_def)
    ultimately have "fuse_inv (snd (each (prefetch_child_dir h) cs s))" by (simp add: keeps_def)
    then show "fuse_inv (snd (run_prefetch h p s))"
      by (simp add: ChildDirs run_prefetch_def run_bind children_of_run cs_def)
  qed
qed (auto simp: run_prefetch_def intro!: keeps_rules keeps_inv_modify)

section \<open>Sequences of operations\<close>

text \<open>
  One operation on the mount or one background task, started in any order: the
  handlers run one at a time on the session's thread, the tasks between them.
\<close>

inductive fuse_step :: "hydrator \<Rightarrow> remote_ops \<Rightarrow> fs \<Rightarrow> fs \<Rightarrow> bool" for h be where
  step_write: "fuse_step h be s (state_after (handle_write fh off data) s)"
| step_fsync: "fuse_step h be s (state_after (handle_fsync fh) s)"
| step_release: "fuse_step h be s (state_after (handle_release fh) s)"
| step_create: "fuse_step h be s (state_after (handle_create (hy_cfg h) parent name) s)"
| step_mkdir: "fuse_step h be s (state_after (handle_mkdir (hy_cfg h) parent name) s)"
| step_unlink: "fuse_step h be s (state_after (handle_unlink (hy_cfg h) parent name) s)"
| step_rmdir: "fuse_step h be s (state_after (handle_rmdir (hy_cfg h) parent name) s)"
| step_rename: "movable (f_mount_id (hy_cfg h)) parent name np (wdb (fw s)) \<Longrightarrow>
    fuse_step h be s (state_after (handle_rename (hy_cfg h) parent name np nn) s)"
| step_lookup: "fuse_step h be s (state_after (fuse_lookup h parent name) s)"
| step_readdir: "fuse_step h be s (state_after (fuse_readdir full h i off) s)"
| step_setattr: "fuse_step h be s (state_after (fuse_setattr h i sz) s)"
| step_open: "fuse_step h be s (state_after (fuse_open h i flags) s)"
| step_task: "t \<in> set (tasks s) \<Longrightarrow>
    fuse_step h be s (state_after (run_task be (f_mount_id (hy_cfg h)) t) (s\<lparr>tasks := remove1 t (tasks s)\<rparr>))"
| step_hydration: "i \<in> set (hydrations s) \<Longrightarrow>
    fuse_step h be s (state_after (run_hydration h i :: unit fsm) (s\<lparr>hydrations := remove1 i (hydrations s)\<rparr>))"
| step_prefetch: "p \<in> set (prefetches s) \<Longrightarrow>
    fuse_step h be s (state_after (run_prefetch h p) (s\<lparr>prefetches := remove1 p (prefetches s)\<rparr>))"

lemma fuse_step_inv:
  assumes "fuse_step h be s s'" "fuse_inv s"
  shows "fuse_inv s'"
  using assms
proof (induction rule: fuse_step.induct)
  case (step_rename parent name np s nn)
  then show ?case by (intro handle_rename_inv)
next
  case (step_task t s)
  then show ?case by (intro keepsD [OF run_task_inv]) (simp add: fuse_inv_def)
next
  case (step_hydration i s)
  then show ?case by (intro keepsD [OF run_hydration_inv]) (simp add: fuse_inv_def)
next
  case (step_prefetch p s)
  then show ?case by (intro keepsD [OF run_prefetch_inv]) (simp add: fuse_inv_def)
qed (auto intro: keepsD [OF handle_write_inv] keepsD [OF handle_fsync_inv] keepsD [OF handle_release_inv]
  keepsD [OF handle_create_inv] keepsD [OF handle_mkdir_inv] keepsD [OF handle_unlink_inv] keepsD [OF handle_rmdir_inv]
  keepsD [OF fuse_lookup_inv] keepsD [OF fuse_readdir_inv] keepsD [OF fuse_setattr_inv] keepsD [OF fuse_open_inv])


lemma sample_tree_ok: "tree_ok sample_db"
  by (simp add: tree_ok_def sample_defs join_remote_def trim_matches_def trim_start_matches_def trim_end_matches_def)

definition no_ops :: remote_ops where
  "no_ops = \<lparr> ro_mkdir = (\<lambda>_ _. Inr ()), ro_delete = (\<lambda>_ _. Inr ()), ro_rmdir = (\<lambda>_ _. Inr ()), ro_rename = (\<lambda>_ _ _. Inr ()) \<rparr>"


section \<open>Renaming a directory\<close>

text \<open>
  Without the restriction the tree is lost: renaming \<open>d\<close> to \<open>e\<close> succeeds and moves
  only the row of the directory, so that the file below it keeps the path \<open>d/a\<close>,
  which is the path its next upload and download use.
\<close>

lemmas path_simps = join_remote_def trim_matches_def trim_start_matches_def trim_end_matches_def validate_filename_def

theorem directory_rename_leaves_children:
  "let (r, s') = handle_rename sample_cfg 1 ''d'' 1 ''e'' (sample_fs sample_world) in
     r = Inr () \<and> map (\<lambda>x. (r_inode x, r_remote_path x)) (file_index (wdb (fw s'))) = [(1, ''/''), (2, ''e''), (3, ''d/a''), (4, ''d/b'')]
     \<and> \<not> tree_ok (wdb (fw s'))"
  by (simp add: handle_rename_def rename_to_def rename_dest_def rename_cache_def run_bind run_then check_def require_def
      in_world_run db_op_run get_by_parent_name_run get_by_inode_run find_row_def rename_entry_def exec_update_def
      end_statement_def update_rows_def unique_ok_def fk_ok_def row_refs_ok_def trigger_ok_def needs_remote_rename_def
      sample_fs_defs sample_defs path_simps tree_ok_def Let_def)

end
