(* ===== verification/Fuse_Effects.thy ===== *)
theory Fuse_Effects
  imports Fuse_Tree
begin

text \<open>
  What deleting and renaming through the FUSE layer do, together with the poller
  that runs beside it.
\<close>

section \<open>Deleting\<close>

lemma delete_entry_leaf_run:
  assumes wf: "db_wf d" and leaf: "\<forall>x\<in>set (file_index d). r_parent x \<noteq> Some i"
  shows "delete_entry i d = (Inr (), delete_rows (\<lambda>r. r_inode r = i) d)"
proof -
  have "mounts (delete_rows (\<lambda>r. r_inode r = i) d) = mounts d" by (simp add: delete_rows_def cascade_def)
  then have "fk_ok (delete_rows (\<lambda>r. r_inode r = i) d)"
    using wf leaf by (fastforce simp: fk_ok_def list_all_iff row_refs_ok_def db_wf_def files_wf_def split: option.splits)
  moreover have "unique_ok (filter (\<lambda>r. r_inode r \<noteq> i) (file_index d))"
    using wf by (intro unique_ok_filter) (simp add: db_wf_def files_wf_def)
  ultimately show ?thesis by (simp add: delete_entry_def exec_delete_def end_statement_def)
qed

lemma insert_tombstone_live:
  assumes "m \<in> mount_ids d" "0 \<le> t" "t < int ttl"
  shows "rp \<in> set (live_tombstones m ((snd (insert_tombstone m rp ttl d))\<lparr>clock := clock d + t\<rparr>))"
proof -
  let ?new = "\<lparr> d_mount_id = m, d_remote_path = rp, d_created_at = clock d, d_expires_at = clock d + int ttl \<rparr>"
  have "?new \<in> set (tombstones (snd (insert_tombstone m rp ttl d)))"
    using assms(1) by (auto simp: insert_tombstone_def Let_def kt_upsert_def tomb_key_def image_iff list_ex_iff)
  with assms(2,3) show ?thesis by force
qed

lemma delete_rows_frame [simp]:
  "mounts (delete_rows p d) = mounts d" "clock (delete_rows p d) = clock d" "tombstones (delete_rows p d) = tombstones d"
  by (simp_all add: delete_rows_def cascade_def)

text \<open>The state of the database after a file has been unlinked.\<close>

definition unlinked_db :: "mount_id \<Rightarrow> file_row \<Rightarrow> db \<Rightarrow> db" where
  "unlinked_db m r d = snd (insert_tombstone m (r_remote_path r) 300 (delete_rows (\<lambda>x. r_inode x = r_inode r) d))"

lemma unlinked_db_wf:
  assumes "db_wf d" "\<forall>x\<in>set (file_index d). r_parent x \<noteq> Some (r_inode r)"
  shows "db_wf (unlinked_db m r d)"
  using keepsD [OF delete_entry_wf assms(1), of "r_inode r"] keepsD [OF insert_tombstone_wf]
  by (simp add: unlinked_db_def delete_entry_leaf_run [OF assms])

lemma handle_unlink_run:
  assumes "db_wf (wdb (fw s))" "find_row (\<lambda>r. r_mount_id r = f_mount_id cfg \<and> r_parent r = Some parent \<and> r_name r = name) (wdb (fw s)) = Some r"
    and "\<forall>x\<in>set (file_index (wdb (fw s))). r_parent x \<noteq> Some (r_inode r)"
  shows "\<exists>s'. handle_unlink cfg parent name s = (Inr (), s')
    \<and> wdb (fw s') = unlinked_db (f_mount_id cfg) r (wdb (fw s)) \<and> io_fault (fw s') = io_fault (fw s)
    \<and> tasks s' = tasks s @ [TaskDelete (r_remote_path r)]
    \<and> (\<forall>cp. r_cache_path r = Some cp \<and> \<not> io_fault (fw s) cp \<and> disk (fw s) cp \<noteq> Some Dir \<longrightarrow> disk (fw s') cp = None)"
proof -
  define w1 where "w1 = (case r_cache_path r of Some cp \<Rightarrow> snd (remove_file cp (fw s)) | None \<Rightarrow> fw s)"
  define w2 where "w2 = snd (remove_file (header_path (f_cache_dir cfg) (r_inode r)) w1)"
  have fr: "wdb (snd (remove_file p w)) = wdb w \<and> io_fault (snd (remove_file p w)) = io_fault w" for p w
    by (auto simp: remove_file_def split: option.split node.split)
  have w2: "wdb w2 = wdb (fw s)" "io_fault w2 = io_fault (fw s)"
    by (auto simp: w2_def w1_def fr split: option.split)
  have keep: "disk w cp = None \<Longrightarrow> disk (snd (remove_file p w)) cp = None" for w cp p
    by (auto simp: remove_file_def split: option.split node.split)
  have "disk w2 cp = None" if "r_cache_path r = Some cp" "\<not> io_fault (fw s) cp" "disk (fw s) cp \<noteq> Some Dir" for cp
  proof -
    have "disk w1 cp = None"
      using that by (auto simp: w1_def remove_file_def split: option.split node.split)
    then show ?thesis unfolding w2_def by (rule keep)
  qed
  then show ?thesis
    using delete_entry_leaf_run [OF assms(1,3)] assms(2) w2
    by (cases "r_cache_path r")
      (auto simp: handle_unlink_def run_bind run_then in_world_run db_op_run get_by_parent_name_run require_def
        invalidate_header_run w1_def w2_def unlinked_db_def)
qed

text \<open>
  C6: unlinking a file removes its row and its cached copy and leaves the remote
  deletion to a background task; until that task has run, any poll of the mount
  within the tombstone's 300 seconds, full or delta, whatever the remote still
  lists, leaves the path and everything under it out of the index.
\<close>

theorem unlinked_path_stays_gone:
  assumes wf: "db_wf (wdb (fw s))"
    and r: "get_by_parent_name m parent name (wdb (fw s)) = (Inr (Some (row_to_entry r)), wdb (fw s))" "r \<in> set (file_index (wdb (fw s)))"
    and leaf: "\<forall>x\<in>set (file_index (wdb (fw s))). r_parent x \<noteq> Some (r_inode r)"
    and m: "f_mount_id cfg = m" "p_mount_id P = m" and t: "0 \<le> t" "t < 300"
    and poll: "poll = poll_once P \<or> poll = poll_once_delta P"
    and "s' = state_after (handle_unlink cfg parent name) s"
    and "w' = (fw s')\<lparr>wdb := (wdb (fw s'))\<lparr>clock := clock (wdb (fw s)) + t\<rparr>\<rparr>"
  shows "result_of (handle_unlink cfg parent name) s = Inr ()
    \<and> TaskDelete (r_remote_path r) \<in> set (tasks s')
    \<and> r_remote_path r \<notin> mount_paths m (wdb (fw s'))
    \<and> r_remote_path r \<notin> mount_paths m (wdb (state_after poll w'))
    \<and> (\<forall>p. prefix (r_remote_path r @ ''/'') p \<and> p \<notin> mount_paths m (wdb (fw s)) \<longrightarrow> p \<notin> mount_paths m (wdb (state_after poll w')))
    \<and> (\<forall>cp. r_cache_path r = Some cp \<and> \<not> io_fault (fw s) cp \<and> disk (fw s) cp \<noteq> Some Dir \<longrightarrow> disk (fw s') cp = None)"
proof -
  let ?d = "wdb (fw s)"
  obtain r0 where r0: "find_row (\<lambda>x. r_mount_id x = m \<and> r_parent x = Some parent \<and> r_name x = name) ?d = Some r0"
      and "row_to_entry r0 = row_to_entry r"
    using r(1) by (auto simp: get_by_parent_name_run)
  then have "r_inode r0 = r_inode r" by (metis row_to_entry_simps(6))
  with wf_unique(1) [OF wf _ r(2)] find_row_Some [OF r0] have [simp]: "r0 = r" and rm: "r_mount_id r = m" by auto
  have mm: "m \<in> mount_ids ?d"
    using wf r(2) rm by (auto simp: db_wf_def files_wf_def fk_ok_def list_all_iff row_refs_ok_def)
  from handle_unlink_run [OF wf r0 [folded m(1)]] leaf assms(10)
  have run: "result_of (handle_unlink cfg parent name) s = Inr ()" "tasks s' = tasks s @ [TaskDelete (r_remote_path r)]"
    and db: "wdb (fw s') = unlinked_db m r ?d"
    and cache: "\<forall>cp. r_cache_path r = Some cp \<and> \<not> io_fault (fw s) cp \<and> disk (fw s) cp \<noteq> Some Dir \<longrightarrow> disk (fw s') cp = None"
    unfolding m by auto
  have rows: "file_index (wdb (fw s')) = filter (\<lambda>x. r_inode x \<noteq> r_inode r) (file_index ?d)"
    using mm by (simp add: db unlinked_db_def insert_tombstone_def Let_def)
  have other: "x = r" if "x \<in> set (file_index ?d)" "r_mount_id x = m" "r_remote_path x = r_remote_path r" for x
    using wf_unique(2) [OF wf that(1) r(2)] that(2,3) rm by simp
  have gone: "r_remote_path r \<notin> mount_paths m (wdb (fw s'))"
    using other by (auto simp: mount_paths_def rows)
  have sub: "mount_paths m (wdb (fw s')) \<subseteq> mount_paths m ?d" by (auto simp: mount_paths_def rows)
  have "world_wf w'"
    using unlinked_db_wf [OF wf leaf, of m] by (simp add: assms(11) db clock_db_wf)
  from poll_adds_admitted [OF this poll]
  have new: "mount_paths m (wdb (state_after poll w')) \<subseteq> mount_paths m (wdb w') \<union> {p. \<not> tombstoned (live_tombstones m (wdb w')) p}"
    unfolding m by blast
  have same: "mount_paths m (wdb w') = mount_paths m (wdb (fw s'))" by (simp add: assms(11) mount_paths_def)
  have "r_remote_path r \<in> set (live_tombstones m (wdb w'))"
    using insert_tombstone_live [of m "delete_rows (\<lambda>x. r_inode x = r_inode r) ?d" t 300 "r_remote_path r"] mm t
    unfolding assms(11) db unlinked_db_def by simp
  then have tomb: "tombstoned (live_tombstones m (wdb w')) p" if "p = r_remote_path r \<or> prefix (r_remote_path r @ ''/'') p" for p
    using that unfolding tombstoned_def list_ex_iff by blast
  show ?thesis
    using run gone cache new same sub tomb by auto
qed

theorem unlinked_path_stays_gone_witness:
  "\<exists>s'. handle_unlink sample_cfg 2 ''a'' (sample_fs sample_world) = (Inr (), s')
    \<and> ''d/a'' \<notin> mount_paths 1 (wdb (state_after (poll_once (sample_poller [sample_meta ''d/a'' ''a'' 1 None]))
          ((fw s')\<lparr>wdb := (wdb (fw s'))\<lparr>clock := 399\<rparr>\<rparr>)))"
proof -
  let ?r = "sample_row 3 (Some 2) ''a'' ''d/a'' File Cached (Some ''/c/d/a'') (Some ''ID3'')"
  let ?P = "sample_poller [sample_meta ''d/a'' ''a'' 1 None]"
  let ?s = "sample_fs sample_world"
  define s' where "s' = state_after (handle_unlink sample_cfg 2 ''a'') ?s"
  have d: "wdb (fw ?s) = sample_db" by (simp add: sample_fs_defs)
  have g: "get_by_parent_name 1 2 ''a'' sample_db = (Inr (Some (row_to_entry ?r)), sample_db)"
    by (simp add: get_by_parent_name_run find_row_def sample_defs)
  have l: "\<forall>x\<in>set (file_index sample_db). r_parent x \<noteq> Some (r_inode ?r)" and i: "?r \<in> set (file_index sample_db)"
    by (auto simp: sample_defs)
  have m: "f_mount_id sample_cfg = 1" "p_mount_id ?P = 1" by (simp_all add: sample_cfg_def sample_poller_def)
  have c: "clock sample_db = 100" by (simp add: sample_defs)
  have p: "r_remote_path ?r = ''d/a''" by (simp add: sample_row_def)
  show ?thesis
    using unlinked_path_stays_gone [of ?s 1 2 "''a''" ?r sample_cfg ?P 299 "poll_once ?P" s', OF _ _ _ _ m _ _ _ s'_def refl]
      g l i sample_db_wf d c p
    by (intro exI [of _ s']) (simp add: s'_def prod_eq_iff)
qed

section \<open>What renaming leaves behind\<close>

lemmas rename_simps = handle_rename_def rename_to_def rename_dest_def rename_cache_def run_bind run_then check_def require_def
  in_world_run db_op_run get_by_parent_name_run get_by_inode_run find_row_def rename_entry_def exec_update_def
  end_statement_def update_rows_def unique_ok_def fk_ok_def row_refs_ok_def trigger_ok_def needs_remote_rename_def
  path_simps Let_def path_parent_def path_join_def rsplit_once_def rename_file_def

text \<open>
  A cached file keeps its place in the cache directory when it moves to another
  directory, and its old cache path is the one a new file with the old name
  gets: after moving \<open>d/a\<close> to the root and creating \<open>d/a\<close> again, both rows have
  the cache path \<open>/c/d/a\<close>, and the content of the moved file is gone.
\<close>

definition moved_fs :: fs where
  "moved_fs = state_after (handle_rename sample_cfg 2 ''a'' 1 ''a'') (sample_fs sample_world)"

definition moved_db :: db where
  "moved_db = sample_db\<lparr>file_index := [sample_row 1 None ''/'' ''/'' Directory Cached None None,
                    sample_row 2 (Some 1) ''d'' ''d'' Directory Remote None None,
                    sample_row 3 (Some 1) ''a'' ''a'' File Cached (Some ''/c/d/a'') (Some ''ID3''),
                    sample_row 4 (Some 2) ''b'' ''d/b'' File Dirty (Some ''/c/d/b'') None],
     tombstones := [\<lparr> d_mount_id = 1, d_remote_path = ''d/a'', d_created_at = 100, d_expires_at = 400 \<rparr>]\<rparr>"

lemma moved_fs_run:
  "handle_rename sample_cfg 2 ''a'' 1 ''a'' (sample_fs sample_world) = (Inr (), moved_fs)"
  "wdb (fw moved_fs) = moved_db" "disk (fw moved_fs) = disk sample_world" "io_fault (fw moved_fs) = (\<lambda>_. False)"
  unfolding moved_fs_def
  by (simp_all add: rename_simps sample_fs_defs sample_defs moved_db_def insert_tombstone_def kt_upsert_def fun_eq_iff)

lemma moved_fs_next_fh: "next_fh moved_fs = 2"
  unfolding moved_fs_def
  by (simp add: rename_simps sample_fs_defs sample_defs insert_tombstone_def kt_upsert_def)

lemma insert_moved:
  "insert_file (new_entry sample_cfg 2 ''a'' ''d/a'' File t Dirty (Some ''/c/d/a'')) moved_db =
     (Inr 5, moved_db\<lparr>file_index := file_index moved_db @ [row_of_new 5 (Some 2)
        (new_entry sample_cfg 2 ''a'' ''d/a'' File t Dirty (Some ''/c/d/a''))], file_seq := 5\<rparr>)"
  by (simp add: insert_file_def exec_insert_auto_def exec_insert_def next_inode_def end_statement_def unique_ok_def fk_ok_def
      row_refs_ok_def trigger_ok_def new_entry_def row_of_new_def run_then moved_db_def sample_defs sample_cfg_def
      del: One_nat_def set_filter distinct_append filter_append map_append)

lemma in_world_read: "m (wdb (fw s)) = (Inr a, wdb (fw s)) \<Longrightarrow> in_world f (db_op m) s = (Inr a, s)"
  by (simp add: in_world_run db_op_run)

theorem create_after_move_truncates_moved_file:
  "let (r, s') = handle_create sample_cfg 2 ''a'' moved_fs in
     r = Inr (5, 2)
     \<and> map (\<lambda>x. (r_inode x, r_remote_path x, r_cache_path x)) (filter (\<lambda>x. r_cache_path x = Some ''/c/d/a'') (file_index (wdb (fw s'))))
         = [(3, ''a'', Some ''/c/d/a''), (5, ''d/a'', Some ''/c/d/a'')]
     \<and> disk (fw moved_fs) ''/c/d/a'' = Some (Regular [1, 2])
     \<and> disk (fw s') ''/c/d/a'' = Some (Regular [])"
proof -
  have cp: "safe_cache_path (\<lambda>p. Some p) ex ''/c'' ''d/a'' = Inr ''/c/d/a''" for ex
    by (simp add: safe_cache_path_def path_simps path_join_def path_starts_with_def path_components_def path_parent_def
        rsplit_once_def path_file_name_def Let_def)
  have cf: "f_cache_dir sample_cfg = ''/c''" "f_canonicalize sample_cfg = (\<lambda>_ p. Some p)"
    by (simp_all add: sample_cfg_def)
  have pp: "path_parent ''/c/d/a'' = Some ''/c/d''" by (simp add: path_parent_def rsplit_once_def)
  have dd: "find_row (\<lambda>r. r_inode r = 2) moved_db = Some (sample_row 2 (Some 1) ''d'' ''d'' Directory Remote None None)"
    by (simp add: find_row_def moved_db_def sample_defs)
  have ig: "\<not> f_ignore sample_cfg ''d/a''" by (simp add: sample_cfg_def ends_with_def suffix_to_prefix)
  have jr: "join_remote ''d'' ''a'' = ''d/a''" "r_remote_path (sample_row 2 (Some 1) ''d'' ''d'' Directory Remote None None) = ''d''"
    by (simp_all add: path_simps sample_row_def)
  have dk: "disk sample_world ''/c/d'' = None" "disk sample_world ''/c/d/a'' = Some (Regular [1, 2])"
    by (simp_all add: sample_world_def)
  have "handle_create sample_cfg 2 ''a'' moved_fs = create_in sample_cfg 2 ''a'' ''d/a'' moved_fs"
    by (simp add: handle_create_def run_bind check_def require_def validate_filename_def in_world_read [of "get_by_inode 2"]
        get_by_inode_run moved_fs_run dd jr del: One_nat_def)
  also have "\<dots> = (Inr (5, 2), moved_fs\<lparr>fw := (fw moved_fs)\<lparr>
      disk := (disk sample_world)(''/c/d'' \<mapsto> Dir, ''/c/d/a'' \<mapsto> Regular []),
      wdb := snd (insert_file (new_entry sample_cfg 2 ''a'' ''d/a'' File (now_time moved_fs) Dirty (Some ''/c/d/a'')) moved_db)\<rparr>,
    next_fh := 3, open_files := (open_files moved_fs)(2 \<mapsto> \<lparr> of_inode = 5, of_cache_path = ''/c/d/a'', of_remote_path = ''d/a'',
                             of_flags = 1, of_hydrating = False \<rparr>)\<rparr>)"
    using ig cp [of "\<lambda>p. path_exists p (fw moved_fs)"]
    by (simp add: create_in_def run_bind run_then check_def in_world_run db_op_run pp create_dir_all_def write_file_def
        moved_fs_run moved_fs_next_fh dk open_handle_def insert_moved now_time_def cf)
  finally show ?thesis
    by (simp add: insert_moved moved_fs_run dk) (simp add: moved_db_def sample_defs row_of_new_def new_entry_def)
qed

text \<open>
  A file that was synced before and has local changes is dirty.  Renaming it
  leaves its old path on the remote: there is no remote rename, no remote
  deletion and no tombstone, so the next poll lists the old path again.
\<close>

theorem renamed_dirty_file_leaves_old_path:
  "let (r, s') = handle_rename sample_cfg 2 ''b'' 1 ''b'' (sample_fs sample_world) in
     r = Inr () \<and> tasks s' = [] \<and> tombstones (wdb (fw s')) = []
     \<and> map (\<lambda>x. (r_remote_path x, r_etag x, r_status x)) (filter (\<lambda>x. r_inode x = 4) (file_index (wdb (fw s'))))
         = [(''b'', Some ''e'', Dirty)]"
  by (simp add: rename_simps sample_fs_defs sample_defs)

text \<open>A handle opened before a rename keeps the old cache path: writing through it fails.\<close>

theorem write_after_rename_fails:
  "result_of (handle_write 1 0 [9]) (state_after (handle_rename sample_cfg 2 ''a'' 2 ''x'') (sample_fs sample_world))
     = Inl ENOENT"
  by (simp add: rename_simps sample_fs_defs sample_defs insert_tombstone_def kt_upsert_def handle_write_def open_write_def
      read_file_def io_errno_def raw_os_error_def errno_defs)

end
