(* ===== verification/Fuse_Download.thy ===== *)
theory Fuse_Download
  imports Fuse_Effects
begin

text \<open>
  What a download on demand guarantees whatever the backend and the disk do: it
  settles.  The row ends as cached, or back as remote for the next attempt, or
  deleted when the remote says twice that the path is gone; every reader that
  waited is answered once; and the tracker forgets the attempt.
\<close>

section \<open>Frames\<close>

definition books :: "fs \<Rightarrow> hydration_tracker \<times> (inode \<rightharpoonup> nat list) \<times> (nat \<times> (int + unit)) list" where
  "books s = (tracker s, waiters s, delivered s)"

lemma books_in_world [keeps_rules]: "keeps (\<lambda>s. books s = b) (in_world f m)"
  by (simp add: keeps_def books_def in_world_run)

lemma books_download [keeps_rules]: "keeps (\<lambda>s. books s = b) (download_to h rp tmp)"
  unfolding download_to_def by (intro keeps_rules keeps_modify) (simp add: books_def)

lemma books_store [keeps_rules]: "keeps (\<lambda>s. books s = b) (hydrate_store h e cp tmp)"
  unfolding hydrate_store_def snapshot_base_def by (intro keeps_rules)

lemma books_verify [keeps_rules]: "keeps (\<lambda>s. books s = b) (verify_not_found h e msg)"
  unfolding verify_not_found_def Let_def by (intro keeps_rules)

lemma books_settle [keeps_rules]: "keeps (\<lambda>s. books s = b) (hydrate_settle e tmp r pruned)"
  unfolding hydrate_settle_def by (intro keeps_rules)

section \<open>Rows of the inode\<close>

text \<open>\<open>rows_of i Q\<close>: every row with the inode satisfies \<open>Q\<close>; the database is well-formed.\<close>

definition rows_of :: "inode \<Rightarrow> (file_row \<Rightarrow> bool) \<Rightarrow> db \<Rightarrow> bool" where
  "rows_of i Q d \<longleftrightarrow> db_wf d \<and> all_rows (\<lambda>x. r_inode x = i \<longrightarrow> Q x) d"

lemma rows_of_frame: "\<lbrakk>frames_rows m; keeps db_wf m\<rbrakk> \<Longrightarrow> keeps (rows_of i Q) m"
  by (auto simp: keeps_def rows_of_def frames_rows_def all_rows_def)

lemma rows_of_frames [keeps_rules]:
  "keeps (rows_of i Q) (set_base_hash j m hs sz)" "keeps (rows_of i Q) (record_hydration_success m)"
  "keeps (rows_of i Q) (record_hydration_failure m e)" "keeps (rows_of i Q) (touch_lru j)"
  by (rule rows_of_frame, rule frames_rows_more, rule keeps_rules)+

lemma keeps_fs_db: "keeps I m \<Longrightarrow> keeps (\<lambda>s. I (wdb (fw s))) (in_world f (db_op m))"
  by (simp add: keeps_def in_world_run db_op_run)

lemma keeps_fs_io: "keeps (\<lambda>w. I (wdb w)) m \<Longrightarrow> keeps (\<lambda>s. I (wdb (fw s))) (in_world f m)"
  by (simp add: keeps_def in_world_run)

lemma updated_rows:
  assumes "\<And>x. Q (f x)"
  shows "all_rows (\<lambda>x. r_inode x = i \<longrightarrow> Q x) (d\<lparr>file_index := update_rows (\<lambda>r. r_inode r = i) f rows\<rparr>)"
  using assms by (auto simp: all_rows_def update_rows_def)

lemma set_status_remote_run:
  assumes "db_wf d"
  shows "set_status i Remote d = (Inr (), d\<lparr>file_index := update_rows (\<lambda>r. r_inode r = i) (\<lambda>r. r\<lparr>r_status := Remote\<rparr>) (file_index d)\<rparr>)"
  using assms by (auto simp: set_status_def run_then exec_update_same_keys same_keys_def list_ex_iff trigger_ok_def)

lemma set_status_remote_rows:
  assumes "db_wf d"
  shows "rows_of i (\<lambda>x. r_status x = Remote) (snd (set_status i Remote d))"
  unfolding rows_of_def
proof
  show "db_wf (snd (set_status i Remote d))" by (rule keepsD [OF set_status_wf assms])
  show "all_rows (\<lambda>x. r_inode x = i \<longrightarrow> r_status x = Remote) (snd (set_status i Remote d))"
    by (simp add: set_status_remote_run [OF assms]) (rule updated_rows, simp)
qed

lemma set_cached_rows:
  assumes "set_cached i cp cs et mt sz d = (Inr u, d')" "db_wf d"
  shows "rows_of i (\<lambda>x. r_status x = Cached \<and> r_cache_path x = Some cp) d'"
proof -
  let ?Q = "\<lambda>x. r_status x = Cached \<and> r_cache_path x = Some cp"
  let ?upd = "exec_update (\<lambda>r. r_inode r = i) (\<lambda>r. r\<lparr>r_status := Cached, r_cache_path := Some cp, r_cache_size := Some cs,
      r_etag := et, r_mtime := to_unix mt, r_size := sz, r_cache_mtime := Some (clock d)\<rparr>)"
  from assms(1) obtain n d1 where u: "?upd d = (Inr n, d1)" and t: "touch_lru i d1 = (Inr u, d')"
    by (auto simp: set_cached_def then_Inr)
  have "keeps db_wf ?upd" by (intro stmt_wf) simp
  from keepsE [OF this u assms(2)] have wf: "db_wf d1" .
  from u have "d1 = d\<lparr>file_index := update_rows (\<lambda>r. r_inode r = i) (\<lambda>r. r\<lparr>r_status := Cached, r_cache_path := Some cp,
      r_cache_size := Some cs, r_etag := et, r_mtime := to_unix mt, r_size := sz, r_cache_mtime := Some (clock d)\<rparr>) (file_index d)\<rparr>"
    by (simp add: exec_update_def end_statement_def split: if_splits)
  then have "rows_of i ?Q d1" using wf unfolding rows_of_def by (simp add: updated_rows)
  then show ?thesis using keepsE [OF rows_of_frames(4) [of i ?Q i] t] by blast
qed

lemma snapshot_base_rows: "keeps (\<lambda>s. rows_of i Q (wdb (fw s))) (snapshot_base h e cp len)"
  unfolding snapshot_base_def by (intro keeps_rules keeps_fs_db keeps_fs_io keeps_store_base)

lemma hydrate_store_rows:
  assumes "hydrate_store h e cp tmp s = (Inr u, s')" "db_wf (wdb (fw s))"
  shows "rows_of (fe_inode e) (\<lambda>x. r_status x = Cached \<and> r_cache_path x = Some cp) (wdb (fw s'))"
proof -
  let ?wf = "\<lambda>s. db_wf (wdb (fw s))"
  let ?Q = "\<lambda>x. r_status x = Cached \<and> r_cache_path x = Some cp"
  let ?d = "case path_parent cp of Some d \<Rightarrow> hy_io (create_dir_all d) | None \<Rightarrow> ret ()"
  have k1: "keeps ?wf ?d" "keeps ?wf (hy_io (rename_file tmp cp))" "keeps ?wf (hy_io (file_len cp))"
    by (intro keeps_rules keeps_fs_io)+
  from assms(1) obtain s1 s2 s3 s4 len u1 u2 u3 where s1: "?d s = (Inr u1, s1)"
    and s2: "hy_io (rename_file tmp cp) s1 = (Inr u2, s2)" and s3: "hy_io (file_len cp) s2 = (Inr len, s3)"
    and s4: "hy_db (set_cached (fe_inode e) cp len (fe_etag e) (fe_mtime e) (fe_size e)) s3 = (Inr u3, s4)"
    and rest: "snapshot_base h e cp len s4 = (Inr u, s')"
    unfolding hydrate_store_def then_Inr bind_Inr by blast
  have "db_wf (wdb (fw s3))"
    using keepsE [OF k1(3) s3] keepsE [OF k1(2) s2] keepsE [OF k1(1) s1] assms(2) by blast
  with s4 have "rows_of (fe_inode e) ?Q (wdb (fw s4))"
    by (auto simp: in_world_Inr db_op_Inr dest: set_cached_rows)
  with keepsE [OF snapshot_base_rows rest] show ?thesis .
qed

section \<open>One download\<close>

text \<open>The settled outcome of a download on the rows of its inode.\<close>

definition settled :: "path \<Rightarrow> sync_error + unit \<Rightarrow> file_row \<Rightarrow> bool" where
  "settled cp result x \<longleftrightarrow> (case result of
       Inr _ \<Rightarrow> r_status x = Cached \<and> r_cache_path x = Some cp
     | Inl _ \<Rightarrow> r_status x = Remote)"

lemma hydrate_settle_rows:
  assumes "db_wf (wdb (fw s))"
    and "result = Inr () \<Longrightarrow> rows_of (fe_inode e) (\<lambda>x. r_status x = Cached \<and> r_cache_path x = Some cp) (wdb (fw s))"
    and "pruned \<Longrightarrow> rows_of (fe_inode e) (\<lambda>_. False) (wdb (fw s))"
  shows "rows_of (fe_inode e) (settled cp result) (wdb (fw (snd (hydrate_settle e tmp result pruned s))))"
proof (cases result)
  case (Inr u)
  have "keeps (\<lambda>s. rows_of (fe_inode e) (\<lambda>x. r_status x = Cached \<and> r_cache_path x = Some cp) (wdb (fw s)))
      (hydrate_settle e tmp result pruned)"
    unfolding hydrate_settle_def Inr by (simp, intro keeps_rules keeps_fs_db)
  from keepsD [OF this, of s] assms(2) Inr show ?thesis by (simp add: settled_def [abs_def])
next
  case (Inl err)
  let ?I = "\<lambda>s. rows_of (fe_inode e) (\<lambda>x. r_status x = Remote) (wdb (fw s))"
  let ?rest = "thenS (attempt (hy_db (record_hydration_failure (fe_mount_id e) (show_error err))))
         (thenS (attempt (hy_io (remove_file tmp)) :: (fs, sync_error, sync_error + unit) sem) (ret ())) :: unit hym"
  have k: "keeps ?I ?rest" by (intro keeps_rules keeps_fs_db keeps_fs_io)
  have "?I (snd (thenS (if pruned then ret () else thenS (attempt (hy_db (set_status (fe_inode e) Remote))) (ret ())) ?rest s))"
  proof (rule keepsD_then [where I = ?I, OF _ k])
    have "?I s" if pruned using assms(3) [OF that] by (auto simp: rows_of_def all_rows_def)
    then show "?I (snd ((if pruned then ret () else thenS (attempt (hy_db (set_status (fe_inode e) Remote))) (ret ())) s))"
      using set_status_remote_rows [OF assms(1)] by (simp add: run_then in_world_run db_op_run)
  qed
  then show ?thesis by (simp add: hydrate_settle_def Inl settled_def [abs_def])
qed

lemma not_found_Some: "not_found e = Some m \<longleftrightarrow> e = NotFound m"
  by (cases e) (auto simp: not_found_def)

lemma delete_entry_rows:
  assumes "delete_entry i d = (Inr u, d')" "db_wf d"
  shows "rows_of i (\<lambda>_. False) d'"
  using assms keepsE [OF delete_entry_wf assms]
  by (auto simp: rows_of_def all_rows_def delete_entry_def dest: exec_delete_Inr)

lemma inodes_has_row: "i \<in> inodes d \<longleftrightarrow> has_row (\<lambda>r. r_inode r = i) d"
  by (auto simp: has_row_def)

lemma has_inode_updates [keeps_rules]:
  "keeps (has_row (\<lambda>r. r_inode r = i)) (set_item_id_if_absent j it)" "keeps (has_row (\<lambda>r. r_inode r = i)) (set_status j st)"
  "keeps (has_row (\<lambda>r. r_inode r = i)) (set_cached j cp cs et mt sz)"
  unfolding set_item_id_if_absent_def set_status_def set_cached_def touch_lru_def
  by (intro keeps_rules has_row_update; simp add: exec_lru_upsert_def has_row_def keeps_def)+

lemma has_row_frames:
  "frames_rows m \<Longrightarrow> keeps (has_row Q) m"
  by (simp add: keeps_def frames_rows_def has_row_def)

lemma has_inode_frames [keeps_rules]:
  "keeps (has_row Q) (set_base_hash i m hs sz)" "keeps (has_row Q) (record_hydration_success m)"
  "keeps (has_row Q) (record_hydration_failure m e)"
  by (rule has_row_frames, rule frames_rows_more)+

text \<open>The second look never fails itself; a row goes away only when it finds nothing.\<close>

lemma verify_not_found_run:
  assumes wf: "db_wf (wdb (fw s))"
  obtains pruned s' where "verify_not_found h e msg s = (Inr (NotFound (msg @ '' (path: '' @ fe_remote_path e @ '')''), pruned), s')"
    and "db_wf (wdb (fw s'))" and "pruned \<Longrightarrow> rows_of (fe_inode e) (\<lambda>_. False) (wdb (fw s'))"
    and "books s' = books s"
    and "\<forall>m. hy_stat h (fe_remote_path e) s \<noteq> Inl (NotFound m) \<Longrightarrow> fe_inode e \<in> inodes (wdb (fw s)) \<Longrightarrow> fe_inode e \<in> inodes (wdb (fw s'))"
proof -
  let ?run = "verify_not_found h e msg s"
  have b: "books (snd ?run) = books s" using keepsD [OF books_verify [of "books s"], of s] by simp
  have w: "db_wf (wdb (fw (snd ?run)))"
  proof -
    have "keeps (\<lambda>s. db_wf (wdb (fw s))) (verify_not_found h e msg)"
      unfolding verify_not_found_def Let_def by (intro keeps_rules keeps_fs_db)
    then show ?thesis using wf by (simp add: keeps_def)
  qed
  have has: "fe_inode e \<in> inodes (wdb (fw (snd ?run)))"
    if "\<forall>m. hy_stat h (fe_remote_path e) s \<noteq> Inl (NotFound m)" "fe_inode e \<in> inodes (wdb (fw s))"
  proof (cases "hy_stat h (fe_remote_path e) s")
    case (Inl x)
    with that(1) have "not_found x = None" by (cases "not_found x") (auto simp: not_found_Some)
    with Inl that(2) show ?thesis by (simp add: verify_not_found_def Let_def)
  next
    case (Inr meta)
    have "keeps (\<lambda>s. has_row (\<lambda>r. r_inode r = fe_inode e) (wdb (fw s)))
        (thenS (case rm_item_id meta of
            Some item \<Rightarrow> thenS (attempt (hy_db (set_item_id_if_absent (fe_inode e) item))) (ret ())
          | None \<Rightarrow> ret ()) (ret x) :: (sync_error \<times> bool) hym)" for x
      by (intro keeps_rules keeps_fs_db)
    with Inr that(2) show ?thesis
      unfolding inodes_has_row by (simp add: verify_not_found_def Let_def keeps_def)
  qed
  obtain pruned where r: "fst ?run = Inr (NotFound (msg @ '' (path: '' @ fe_remote_path e @ '')''), pruned)"
    and p: "pruned \<Longrightarrow> rows_of (fe_inode e) (\<lambda>_. False) (wdb (fw (snd ?run)))"
  proof (cases "hy_stat h (fe_remote_path e) s")
    case (Inl x)
    obtain dr d' where d: "delete_entry (fe_inode e) (wdb (fw s)) = (dr, d')" by fastforce
    show ?thesis
      using that [of "not_found x \<noteq> None \<and> \<not> isl dr"] delete_entry_rows [OF _ wf] d Inl
      by (cases dr; cases "not_found x") (auto simp: verify_not_found_def Let_def run_bind in_world_run db_op_run)
  next
    case (Inr meta)
    then show ?thesis
      using that [of False] by (cases "rm_item_id meta") (simp_all add: verify_not_found_def Let_def run_then)
  qed
  show ?thesis by (rule that [of pruned "snd ?run"]) (use r p w b has in \<open>simp_all add: prod_eq_iff\<close>)
qed

lemma hydrate_settle_result: "fst (hydrate_settle e tmp r pruned s) = Inr ()"
  by (simp add: hydrate_settle_def run_then split: sum.split)

text \<open>The two steps that decide the outcome: storing what was downloaded, and the second look.\<close>

definition hydrate_decide :: "hydrator \<Rightarrow> file_entry \<Rightarrow> path \<Rightarrow> path \<Rightarrow> sync_error + unit \<Rightarrow> ((sync_error + unit) \<times> bool) hym" where
  "hydrate_decide h e cp tmp r =
     bindS (case r of Inl x \<Rightarrow> ret (Inl x) | Inr _ \<Rightarrow> attempt (hydrate_store h e cp tmp)) (\<lambda>r0.
       case r0 of
         Inl x \<Rightarrow> (case not_found x of
             Some msg \<Rightarrow> bindS (verify_not_found h e msg) (\<lambda>(e', pruned). ret (Inl e', pruned))
           | None \<Rightarrow> ret (Inl x, False))
       | Inr _ \<Rightarrow> ret (Inr (), False))"

lemma hydrate_finish_eq:
  "hydrate_finish h e cp tmp r = bindS (hydrate_decide h e cp tmp r) (\<lambda>(result, pruned).
     thenS (hydrate_settle e tmp result pruned)
    (thenS (unregister_hydration (fe_inode e) (terminal result pruned))
    (thenS (notify_waiters (fe_inode e) result)
       (case result of Inl e \<Rightarrow> raise e | Inr _ \<Rightarrow> ret ()))))"
  by (simp add: hydrate_finish_def hydrate_decide_def bind_assoc)

lemma has_row_store: "keeps (\<lambda>s. has_row (\<lambda>r. r_inode r = i) (wdb (fw s))) (hydrate_store h e cp tmp)"
  unfolding hydrate_store_def snapshot_base_def
  by (intro keeps_rules keeps_fs_db keeps_fs_io keeps_store_base)

lemma wf_store: "keeps (\<lambda>s. db_wf (wdb (fw s))) (hydrate_store h e cp tmp)"
  unfolding hydrate_store_def snapshot_base_def
  by (intro keeps_rules keeps_fs_db keeps_fs_io keeps_store_base)

lemma store_not_found: "fst (hydrate_store h e cp tmp s) \<noteq> Inl (NotFound m)"
  by (auto simp: hydrate_store_def snapshot_base_def run_then run_bind in_world_run split: prod.splits sum.splits option.splits if_splits)

lemma has_row_settle: "keeps (\<lambda>s. has_row (\<lambda>r. r_inode r = i) (wdb (fw s))) (hydrate_settle e tmp r pruned)"
  unfolding hydrate_settle_def by (intro keeps_rules keeps_fs_db keeps_fs_io)

lemma hydrate_decide_run:
  assumes wf: "db_wf (wdb (fw s))"
  obtains result pruned s' where "hydrate_decide h e cp tmp r s = (Inr (result, pruned), s')"
    and "db_wf (wdb (fw s'))" "books s' = books s"
    and "result = Inr () \<Longrightarrow> rows_of (fe_inode e) (\<lambda>x. r_status x = Cached \<and> r_cache_path x = Some cp) (wdb (fw s'))"
    and "pruned \<Longrightarrow> rows_of (fe_inode e) (\<lambda>_. False) (wdb (fw s'))"
    and "\<lbrakk>fe_inode e \<in> inodes (wdb (fw s)); fe_inode e \<notin> inodes (wdb (fw s'))\<rbrakk> \<Longrightarrow>
      \<exists>m st m'. r = Inl (NotFound m) \<and> hy_stat h (fe_remote_path e) st = Inl (NotFound m')"
proof (cases r)
  case (Inl x)
  show ?thesis
  proof (cases "not_found x")
    case None
    show ?thesis
      by (rule that [of "Inl x" False s]) (use Inl None wf in \<open>simp_all add: hydrate_decide_def run_bind\<close>)
  next
    case (Some msg)
    obtain pruned s' where v: "verify_not_found h e msg s = (Inr (NotFound (msg @ '' (path: '' @ fe_remote_path e @ '')''), pruned), s')"
      "db_wf (wdb (fw s'))" "pruned \<Longrightarrow> rows_of (fe_inode e) (\<lambda>_. False) (wdb (fw s'))" "books s' = books s"
      "\<forall>m. hy_stat h (fe_remote_path e) s \<noteq> Inl (NotFound m) \<Longrightarrow> fe_inode e \<in> inodes (wdb (fw s)) \<Longrightarrow> fe_inode e \<in> inodes (wdb (fw s'))"
      by (rule verify_not_found_run [OF wf, of h e msg]) (rule that)
    have nf: "x = NotFound msg" using Some by (simp add: not_found_Some)
    show ?thesis
    proof (rule that [of "Inl (NotFound (msg @ '' (path: '' @ fe_remote_path e @ '')''))" pruned s'])
      show "hydrate_decide h e cp tmp r s = (Inr (Inl (NotFound (msg @ '' (path: '' @ fe_remote_path e @ '')'')), pruned), s')"
        by (simp only: hydrate_decide_def Inl Some run_bind run_ret sum.case option.case prod.case v(1))
    qed (use v Inl nf in auto)
  qed
next
  case (Inr u)
  obtain x s' where st: "hydrate_store h e cp tmp s = (x, s')" by fastforce
  have w: "db_wf (wdb (fw s'))" and b: "books s' = books s"
    and i: "fe_inode e \<in> inodes (wdb (fw s)) \<Longrightarrow> fe_inode e \<in> inodes (wdb (fw s'))"
    using keepsE [OF wf_store st wf] keepsE [OF books_store [of "books s"] st] keepsE [OF has_row_store st]
    by (auto simp: inodes_has_row)
  show ?thesis
  proof (cases x)
    case (Inl y)
    then have "not_found y = None" using store_not_found [of h e cp tmp s] st by (cases "not_found y") (auto simp: not_found_Some)
    with Inl show ?thesis
      by (intro that [of "Inl y" False s']) (use Inr st w b i in \<open>simp_all add: hydrate_decide_def run_bind\<close>)
  next
    case ok: (Inr z)
    with st have r: "rows_of (fe_inode e) (\<lambda>x. r_status x = Cached \<and> r_cache_path x = Some cp) (wdb (fw s'))"
      using hydrate_store_rows [OF _ wf] by blast
    show ?thesis
      by (rule that [of "Inr ()" False s']) (use ok Inr st w b i r in \<open>simp_all add: hydrate_decide_def run_bind\<close>)
  qed
qed


section \<open>Reading what was downloaded\<close>

lemma set_cached_ok:
  assumes "db_wf d" "i \<in> inodes d"
  shows "fst (set_cached i cp cs et mt sz d) = Inr ()"
proof -
  let ?f = "\<lambda>r. r\<lparr>r_status := Cached, r_cache_path := Some cp, r_cache_size := Some cs, r_etag := et,
      r_mtime := to_unix mt, r_size := sz, r_cache_mtime := Some (clock d)\<rparr>"
  have "inodes (d\<lparr>file_index := update_rows (\<lambda>r. r_inode r = i) ?f (file_index d)\<rparr>) = inodes d"
    by (simp add: inodes_update)
  with assms show ?thesis
    by (simp add: set_cached_def run_then exec_update_same_keys same_keys_def list_ex_iff trigger_ok_def touch_lru_def
        exec_lru_upsert_def)
qed

text \<open>What a step leaves of a file, of the absence of faults and of the handles.\<close>

definition file_kept :: "path \<Rightarrow> bytes \<Rightarrow> (nat \<rightharpoonup> open_file) \<Rightarrow> fs \<Rightarrow> bool" where
  "file_kept p b hs s \<longleftrightarrow> disk (fw s) p = Some (Regular b) \<and> (\<forall>q. \<not> io_fault (fw s) q) \<and> open_files s = hs"

lemma file_kept_db [keeps_rules]: "keeps (file_kept p b hs) (in_world f (db_op m))"
  by (simp add: keeps_def file_kept_def in_world_run db_op_run)

lemma file_kept_store_base: "keeps (file_kept p b hs) (in_world f (store_base sha d q))"
proof (rule keepsI)
  fix s assume "file_kept p b hs s"
  with store_base_cases [of sha d q "fw s"] show "file_kept p b hs (snd (in_world f (store_base sha d q) s))"
    by (auto simp: file_kept_def in_world_run)
qed

lemma file_kept_snapshot: "keeps (file_kept p b hs) (snapshot_base h e cp len)"
  unfolding snapshot_base_def by (intro keeps_rules file_kept_store_base)

lemma file_kept_settle: "tmp \<noteq> p \<Longrightarrow> keeps (file_kept p b hs) (hydrate_settle e tmp r pruned)"
proof -
  assume "tmp \<noteq> p"
  then have "keeps (file_kept p b hs) (hy_io (remove_file tmp))"
    by (auto simp: keeps_def file_kept_def in_world_run remove_file_def split: option.split node.split)
  then show ?thesis unfolding hydrate_settle_def by (intro keeps_rules)
qed

lemma snapshot_base_result: "fst (snapshot_base h e cp len s) = Inr ()"
  by (auto simp: snapshot_base_def run_bind run_then split: sum.split)

text \<open>A place in the cache where a download of \<open>cp\<close> through \<open>tmp\<close> can be put.\<close>

definition storable :: "path \<Rightarrow> path \<Rightarrow> world \<Rightarrow> bool" where
  "storable cp tmp w \<longleftrightarrow> (\<forall>q. \<not> io_fault w q) \<and> tmp \<noteq> cp \<and> disk w cp \<noteq> Some Dir
     \<and> (case path_parent cp of None \<Rightarrow> True | Some d \<Rightarrow> d \<noteq> tmp \<and> d \<noteq> cp \<and> disk w d \<in> {None, Some Dir})"

lemma hydrate_store_ok:
  assumes "storable cp tmp (fw s)" "disk (fw s) tmp = Some (Regular b)" "db_wf (wdb (fw s))" "fe_inode e \<in> inodes (wdb (fw s))"
  shows "\<exists>s'. hydrate_store h e cp tmp s = (Inr (), s') \<and> file_kept cp b (open_files s) s'"
proof -
  let ?mk = "case path_parent cp of Some d \<Rightarrow> hy_io (create_dir_all d) | None \<Rightarrow> ret ()"
  obtain s1 where s1: "?mk s = (Inr (), s1)" "wdb (fw s1) = wdb (fw s)" "io_fault (fw s1) = io_fault (fw s)" "open_files s1 = open_files s"
      "disk (fw s1) tmp = Some (Regular b)" "disk (fw s1) cp \<noteq> Some Dir"
    using assms(1,2) by (auto simp: storable_def in_world_run create_dir_all_def split: option.splits)
  define s2 where "s2 = s1\<lparr>fw := (fw s1)\<lparr>disk := (disk (fw s1))(tmp := None, cp \<mapsto> Regular b)\<rparr>\<rparr>"
  have s2: "hy_io (rename_file tmp cp) s1 = (Inr (), s2)" "hy_io (file_len cp) s2 = (Inr (length b), s2)"
    using assms(1) s1 by (auto simp: storable_def in_world_run rename_file_def s2_def file_len_def run_bind read_file_def)
  let ?set = "set_cached (fe_inode e) cp (length b) (fe_etag e) (fe_mtime e) (fe_size e)"
  obtain s3 where s3: "hy_db ?set s2 = (Inr (), s3)"
    using set_cached_ok [OF assms(3,4)] s1(2) by (simp add: in_world_run db_op_run s2_def)
  have "file_kept cp b (open_files s) s2" using assms(1) s1 by (simp add: file_kept_def s2_def storable_def)
  then have "file_kept cp b (open_files s) s3" by (rule keepsE [OF file_kept_db s3])
  then have "file_kept cp b (open_files s) (snd (snapshot_base h e cp (length b) s3))"
    by (rule keepsD [OF file_kept_snapshot])
  moreover have "snapshot_base h e cp (length b) s3 = (Inr (), snd (snapshot_base h e cp (length b) s3))"
    by (simp add: prod_eq_iff snapshot_base_result)
  then have "hydrate_store h e cp tmp s = (Inr (), snd (snapshot_base h e cp (length b) s3))"
    unfolding hydrate_store_def then_Inr bind_Inr using s1(1) s2 s3 by blast
  ultimately show ?thesis by blast
qed

lemma do_hydrate_ok:
  assumes wf: "db_wf (wdb (fw s))" "fe_inode e \<in> inodes (wdb (fw s))"
    and cp: "\<And>w. safe_cache_path (f_canonicalize (hy_cfg h) w) (\<lambda>p. path_exists p w) (f_cache_dir (hy_cfg h)) (fe_remote_path e) = Inr cp"
    and dl: "\<And>st. hy_download h (fe_remote_path e) st = (Inr (), Some b)"
    and st: "storable cp (partial_path (f_cache_dir (hy_cfg h)) (fe_inode e) (hy_nanos h s)) (fw s)"
  shows "\<exists>s'. do_hydrate h e s = (Inr (), s') \<and> file_kept cp b (open_files s) s' \<and> fe_inode e \<in> inodes (wdb (fw s'))
    \<and> rows_of (fe_inode e) (\<lambda>x. r_status x = Cached \<and> r_cache_path x = Some cp) (wdb (fw s'))"
proof -
  let ?i = "fe_inode e"
  define tmp where "tmp = partial_path (f_cache_dir (hy_cfg h)) ?i (hy_nanos h s)"
  define s0 where "s0 = snd (register_hydration e s)"
  define s1 where "s1 = s0\<lparr>fw := (fw s0)\<lparr>disk := (disk (fw s0))(tmp \<mapsto> Regular b)\<rparr>\<rparr>"
  have beg: "hydrate_begin h e s = (Inr (cp, tmp), s0)"
    by (simp add: hydrate_begin_def cp run_then register_hydration_def s0_def tmp_def)
  have d1: "download_to h (fe_remote_path e) tmp s0 = (Inr (Inr ()), s1)"
    by (simp add: download_to_def dl run_then s1_def)
  have s0: "fw s0 = fw s" "open_files s0 = open_files s" by (simp_all add: s0_def register_hydration_def Let_def)
  have "storable cp tmp (fw s1)" using st by (auto simp: storable_def s1_def s0 tmp_def [symmetric] split: option.splits)
  then obtain s2 where s2: "hydrate_store h e cp tmp s1 = (Inr (), s2)" and k2: "file_kept cp b (open_files s) s2"
    using hydrate_store_ok [of cp tmp s1 b e h] wf by (auto simp: s1_def s0)
  have dec: "hydrate_decide h e cp tmp (Inr ()) s1 = (Inr (Inr (), False), s2)"
    by (simp add: hydrate_decide_def run_bind s2)
  have w1: "db_wf (wdb (fw s1))" "?i \<in> inodes (wdb (fw s1))" using wf by (simp_all add: s1_def s0)
  have r2: "rows_of ?i (\<lambda>x. r_status x = Cached \<and> r_cache_path x = Some cp) (wdb (fw s2))" "?i \<in> inodes (wdb (fw s2))"
    using hydrate_store_rows [OF s2 w1(1)] keepsE [OF has_row_store s2, of ?i] w1(2) by (simp_all add: inodes_has_row)
  obtain s3 where s3: "hydrate_settle e tmp (Inr ()) False s2 = (Inr (), s3)"
    using hydrate_settle_result [of e tmp "Inr ()" False s2] by (cases "hydrate_settle e tmp (Inr ()) False s2") auto
  have "tmp \<noteq> cp" using st by (simp add: storable_def tmp_def)
  then have k3: "file_kept cp b (open_files s) s3" by (rule keepsE [OF file_kept_settle s3 k2])
  have r3: "rows_of ?i (\<lambda>x. r_status x = Cached \<and> r_cache_path x = Some cp) (wdb (fw s3))" "?i \<in> inodes (wdb (fw s3))"
    using hydrate_settle_rows [of s2 "Inr ()" e cp False tmp] r2 s3 keepsE [OF has_row_settle s3, of ?i]
    by (simp_all add: settled_def [abs_def] inodes_has_row) (simp add: rows_of_def)
  let ?s = "snd (notify_waiters ?i (Inr ()) (snd (unregister_hydration ?i (terminal (Inr ()) False) s3)))"
  have "do_hydrate h e s = (Inr (), ?s)"
    by (simp add: do_hydrate_def run_bind beg d1 hydrate_finish_eq dec run_then s3 unregister_hydration_def notify_waiters_def)
  moreover have "fw ?s = fw s3" "open_files ?s = open_files s3"
    by (simp_all add: notify_waiters_def unregister_hydration_def Let_def split: option.split)
  ultimately show ?thesis using k3 r3 by (auto simp: file_kept_def)
qed

lemma read_after_hydration:
  assumes f: "open_files s fh = Some f" "of_inode f = i" "of_hydrating f" and k: "file_kept cp b (open_files s) s"
    and r: "rows_of i (\<lambda>x. r_status x = Cached \<and> r_cache_path x = Some cp) (wdb (fw s))" "i \<in> inodes (wdb (fw s))"
    and "hy_header_size h = 0" "0 \<le> off"
  shows "fst (fuse_read await h chan fh off len s) = Inr (take len (drop (nat off) b))"
proof -
  obtain x where x: "x \<in> set (file_index (wdb (fw s)))" "r_inode x = i" using r(2) by auto
  then have st: "r_status x = Cached" "r_cache_path x = Some cp" using r(1) by (auto simp: rows_of_def all_rows_def)
  have g: "get_by_inode i (wdb (fw s)) = (Inr (Some (row_to_entry x)), wdb (fw s))"
    using get_by_inode_row [of "wdb (fw s)" x] r(1) x by (simp add: rows_of_def)
  let ?s = "s\<lparr>open_files := (open_files s)(fh \<mapsto> f\<lparr>of_cache_path := cp, of_hydrating := False\<rparr>)\<rparr>"
  have up: "snd (update_handle fh (Some cp) s) = ?s" using f by (simp add: update_handle_def)
  define s2 where "s2 = snd (hy_db (touch_lru i) ?s)"
  have s2: "disk (fw s2) cp = Some (Regular b)" "\<not> io_fault (fw s2) cp"
    "open_files s2 = (open_files s)(fh \<mapsto> f\<lparr>of_cache_path := cp, of_hydrating := False\<rparr>)"
    using k by (simp_all add: s2_def in_world_run db_op_run file_kept_def)
  have "read_pending await h chan fh i rp off len s = (Inr None, s2)" for rp
    using assms(7) up
    by (simp add: read_pending_def Let_def in_world_read [of "get_by_inode i"] g run_bind run_then st is_hydrating_def
        update_handle_def f(1) s2_def)
  then show ?thesis
    using f s2 assms(8)
    by (simp add: fuse_read_def run_bind read_cache_file_def in_world_run read_file_def)
qed

lemma set_status_hydrating_run:
  assumes "db_wf d"
  shows "set_status i Hydrating d = (Inr (), d\<lparr>file_index := update_rows (\<lambda>r. r_inode r = i) (\<lambda>r. r\<lparr>r_status := Hydrating\<rparr>) (file_index d)\<rparr>)"
  using assms by (auto simp: set_status_def run_then exec_update_same_keys same_keys_def list_ex_iff trigger_ok_def)

text \<open>The handle that an open of a remote file gives out.\<close>

lemma fuse_open_run:
  assumes wf: "db_wf (wdb (fw s))" and r: "r \<in> set (file_index (wdb (fw s)))" "needs_hydration (r_status r)"
    and auto: "case hy_auto_hydrate_max h of None \<Rightarrow> True | Some cap \<Rightarrow> r_size r \<le> cap"
  shows "\<exists>s1 f. fuse_open h (r_inode r) flags s = (Inr (next_fh s), s1)
    \<and> open_files s1 (next_fh s) = Some f \<and> of_inode f = r_inode r \<and> of_hydrating f
    \<and> (\<forall>cp. r_cache_path r = Some cp \<longrightarrow> of_cache_path f = cp)
    \<and> hydrations s1 = hydrations s @ [r_inode r]
    \<and> disk (fw s1) = disk (fw s) \<and> io_fault (fw s1) = io_fault (fw s)
    \<and> wdb (fw s1) = snd (set_status (r_inode r) Hydrating (wdb (fw s)))"
  using get_by_inode_row [OF wf r(1)] r(2) auto set_status_hydrating_run [OF wf, of "r_inode r"]
  by (simp add: fuse_open_def run_bind in_world_read [of "get_by_inode (r_inode r)"] Let_def run_then in_world_run db_op_run
      open_handle_def split: option.splits)


section \<open>A stale file\<close>

text \<open>The sample with \<open>d/a\<close> changed on the remote: its row is stale, its old copy still cached.\<close>

definition stale_row3 :: file_row where
  "stale_row3 = sample_row 3 (Some 2) ''a'' ''d/a'' File Stale (Some ''/c/d/a'') (Some ''ID3'')"

definition stale_db :: db where
  "stale_db = sample_db\<lparr>file_index := [sample_row 1 None ''/'' ''/'' Directory Cached None None,
     sample_row 2 (Some 1) ''d'' ''d'' Directory Remote None None, stale_row3,
     sample_row 4 (Some 2) ''b'' ''d/b'' File Dirty (Some ''/c/d/b'') None]\<rparr>"

definition stale_fs :: fs where
  "stale_fs = sample_fs (sample_world\<lparr>wdb := stale_db\<rparr>)"

definition remote_777 :: hydrator where
  "remote_777 = sample_hydrator (\<lambda>_ _. (Inr (), Some [7, 7, 7]))"

lemma stale_db_wf: "db_wf stale_db"
  by (simp add: db_wf_defs stale_db_def stale_row3_def sample_defs unique_ok_def fk_ok_def row_refs_ok_def trigger_ok_def)

lemma stale_facts:
  "wdb (fw stale_fs) = stale_db" "stale_row3 \<in> set (file_index stale_db)" "r_inode stale_row3 = 3" "r_status stale_row3 = Stale"
  "r_remote_path stale_row3 = ''d/a''" "r_cache_path stale_row3 = Some ''/c/d/a''" "disk (fw stale_fs) = disk sample_world"
  "io_fault (fw stale_fs) = (\<lambda>_. False)" "next_fh stale_fs = 2"
  by (simp_all add: stale_fs_def sample_fs_def stale_db_def stale_row3_def sample_row_def sample_world_def)

lemma remote_777_facts:
  "hy_download remote_777 p st = (Inr (), Some [7, 7, 7])" "hy_header_size remote_777 = 0" "hy_auto_hydrate_max remote_777 = None"
  "hy_nanos remote_777 st = ''ff''" "f_cache_dir (hy_cfg remote_777) = ''/c''"
  "safe_cache_path (f_canonicalize (hy_cfg remote_777) w) ex ''/c'' ''d/a'' = Inr ''/c/d/a''"
  by (simp_all add: remote_777_def sample_hydrator_def sample_cfg_def safe_cache_path_def path_simps path_join_def
      path_starts_with_def path_components_def path_parent_def rsplit_once_def path_file_name_def Let_def)

lemma partial_3: "partial_path ''/c'' 3 ''ff'' = ''/c/.meta/partial/'' @ nat_to_string 3 @ ''.ff.tmp''"
  by (simp add: partial_path_def path_join_def)

lemma stale_storable:
  "\<lbrakk>\<forall>q. \<not> io_fault w q; disk w ''/c/d'' = None; disk w ''/c/d/a'' \<noteq> Some Dir\<rbrakk> \<Longrightarrow> storable ''/c/d/a'' (partial_path ''/c'' 3 ''ff'') w"
  by (simp add: storable_def partial_3 path_parent_def rsplit_once_def)



text \<open>
  A write between the open of a stale file and the end of its download is
  accepted and lost: the download replaces the cache file, and the row, dirty in
  between, ends as cached, so that nothing is uploaded.
\<close>

theorem hydration_discards_concurrent_write:
  "let s1 = state_after (fuse_open remote_777 3 1) stale_fs;
       s2 = state_after (handle_write 2 0 [9]) s1;
       s3 = state_after (run_hydration remote_777 3 :: unit fsm) s2
   in result_of (handle_write 2 0 [9]) s1 = Inr 1
     \<and> (\<forall>x\<in>set (file_index (wdb (fw s2))). r_inode x = 3 \<longrightarrow> r_status x = Dirty)
     \<and> disk (fw s2) ''/c/d/a'' = Some (Regular [9, 2])
     \<and> disk (fw s3) ''/c/d/a'' = Some (Regular [7, 7, 7])
     \<and> (\<forall>x\<in>set (file_index (wdb (fw s3))). r_inode x = 3 \<longrightarrow> r_status x = Cached)"
proof -
  let ?h = "remote_777"
  let ?u = "\<lambda>x. x\<lparr>r_status := Hydrating\<rparr>"
  have wf: "db_wf (wdb (fw stale_fs))" and r: "stale_row3 \<in> set (file_index (wdb (fw stale_fs)))"
    by (simp_all add: stale_facts stale_db_wf)
  define s1 where "s1 = state_after (fuse_open ?h 3 1) stale_fs"
  obtain f where f: "open_files s1 2 = Some f" "of_inode f = 3" "of_cache_path f = ''/c/d/a''"
    and w1: "disk (fw s1) = disk sample_world" "io_fault (fw s1) = (\<lambda>_. False)"
      "wdb (fw s1) = snd (set_status 3 Hydrating stale_db)"
    using fuse_open_run [OF wf r, of ?h 1] by (auto simp: s1_def stale_facts remote_777_facts)
  have wf1: "db_wf (wdb (fw s1))" using keepsD [OF set_status_wf stale_db_wf] by (simp add: w1)
  have rows1: "file_index (wdb (fw s1)) = update_rows (\<lambda>x. r_inode x = 3) ?u (file_index stale_db)"
    by (simp add: w1 set_status_hydrating_run [OF stale_db_wf])
  have c1: "\<forall>x\<in>set (file_index (wdb (fw s1))). r_inode x = 3 \<longrightarrow> r_cache_path x \<noteq> None"
    by (auto simp: rows1 update_rows_def stale_db_def stale_row3_def sample_defs)
  define s2 where "s2 = state_after (handle_write 2 0 [9]) s1"
  have "disk (fw s1) ''/c/d/a'' = Some (Regular [1, 2])" by (simp add: w1 sample_world_def)
  note hw = handle_write_run [of s1 2 f 0 "[1, 2]" "[9]", unfolded f(2,3), OF f(1) _ _ this wf1 c1]
  have res: "result_of (handle_write 2 0 [9]) s1 = Inr 1"
    and d2: "disk (fw s2) = (disk sample_world)(''/c/d/a'' \<mapsto> Regular [9, 2])" and f2: "io_fault (fw s2) = (\<lambda>_. False)"
    and rows2: "file_index (wdb (fw s2)) = update_rows (\<lambda>x. r_inode x = 3)
        (\<lambda>x. x\<lparr>r_status := Dirty, r_size := 2, r_cache_size := Some 2\<rparr>) (file_index (wdb (fw s1)))"
    unfolding s2_def using hw by (simp_all add: w1 Let_def write_at_def numeral_2_eq_2)
  have dirty: "\<forall>x\<in>set (file_index (wdb (fw s2))). r_inode x = 3 \<longrightarrow> r_status x = Dirty \<and> r_remote_path x = ''d/a''"
    by (auto simp: rows2 rows1 update_rows_def stale_db_def stale_row3_def sample_defs)
  have wf2: "db_wf (wdb (fw s2))"
  proof -
    have "keeps (\<lambda>s. db_wf (wdb (fw s))) (handle_write 2 0 [9])"
      unfolding handle_write_def Let_def require_def enqueue_def
      by (intro keeps_rules keeps_fs_db keeps_fs_io keeps_modify) simp
    then show ?thesis using wf1 by (simp add: keeps_def s2_def)
  qed
  have "3 \<in> inodes stale_db" using imageI [OF stale_facts(2), of r_inode] by (simp add: stale_facts)
  then have "3 \<in> inodes (wdb (fw s2))" by (simp add: rows2 rows1 inodes_update)
  then obtain x where x: "x \<in> set (file_index (wdb (fw s2)))" "r_inode x = 3" by auto
  then have xp: "r_remote_path x = ''d/a''" using dirty by blast
  have st: "storable ''/c/d/a'' (partial_path ''/c'' 3 ''ff'') (fw s2)"
    by (rule stale_storable) (simp_all add: d2 f2, simp add: sample_world_def)
  obtain s3 where s3: "do_hydrate ?h (row_to_entry x) s2 = (Inr (), s3)" and k: "file_kept ''/c/d/a'' [7, 7, 7] (open_files s2) s3"
    and r3: "rows_of 3 (\<lambda>y. r_status y = Cached \<and> r_cache_path y = Some ''/c/d/a'') (wdb (fw s3))"
    using do_hydrate_ok [of s2 "row_to_entry x" ?h "''/c/d/a''" "[7, 7, 7]"] wf2 x xp st by (auto simp: remote_777_facts)
  have "state_after (run_hydration ?h 3 :: unit fsm) s2 = s3"
    using get_by_inode_row [OF wf2 x(1)] x(2) s3
    by (simp add: run_hydration_def run_bind in_world_read [of "get_by_inode 3"] run_then)
  then show ?thesis
    unfolding Let_def s1_def [symmetric] s2_def [symmetric]
    using res dirty d2 k r3 by (auto simp: file_kept_def rows_of_def all_rows_def)
qed

end
