(* ===== verification/Fuse_Dir.thy ===== *)
theory Fuse_Dir
  imports Fuse_Download
begin

text \<open>
  Directory listings: the pages a reader gets one after another make up the whole
  directory, and a name is listed exactly when a lookup finds it.  The root entry
  is what \<open>ensure_root\<close> makes of whatever it finds.
\<close>

section \<open>Pages\<close>

fun fill :: "((dirent \<times> nat) list \<Rightarrow> dirent \<Rightarrow> bool) \<Rightarrow> nat \<Rightarrow> dirent list \<Rightarrow> (dirent \<times> nat) list \<Rightarrow> (dirent \<times> nat) list" where
  "fill full i [] acc = acc"
| "fill full i (e # es) acc = (if full acc e then acc else fill full (i + 1) es (acc @ [(e, i + 1)]))"

lemma add_entries_from: "off \<le> i \<Longrightarrow> add_entries full off i es acc = fill full i es acc"
  by (induction es arbitrary: i acc) auto

lemma add_entries_fill: "i \<le> off \<Longrightarrow> add_entries full off i es acc = fill full off (drop (off - i) es) acc"
proof (induction es arbitrary: i)
  case (Cons e es)
  show ?case
  proof (cases "i = off")
    case True
    then show ?thesis using add_entries_from [of off i full "e # es" acc] by simp
  next
    case False
    with Cons.prems have "off - i = Suc (off - Suc i)" by simp
    with False Cons show ?thesis by simp
  qed
qed simp

lemma fill_prefix:
  "\<exists>k \<le> length es. fill full i es acc = acc @ zip (take k es) [i + 1..<i + k + 1]
     \<and> (es \<noteq> [] \<and> \<not> full acc (hd es) \<longrightarrow> 0 < k)"
proof (induction es arbitrary: i acc)
  case (Cons e es)
  show ?case
  proof (cases "full acc e")
    case False
    obtain k where k: "k \<le> length es" "fill full (i + 1) es (acc @ [(e, i + 1)]) = (acc @ [(e, i + 1)]) @ zip (take k es) [i + 1 + 1..<i + 1 + k + 1]"
      using Cons.IH [of "i + 1" "acc @ [(e, i + 1)]"] by blast
    have "[i + 1..<i + Suc k + 1] = (i + 1) # [i + 1 + 1..<i + 1 + k + 1]" by (simp add: upt_conv_Cons)
    with k False show ?thesis by (intro exI [of _ "Suc k"]) simp
  qed (intro exI [of _ 0], simp)
qed simp

lemma page_shape:
  "\<exists>k \<le> length es - off. add_entries full off 0 es [] = zip (take k (drop off es)) [off + 1..<off + k + 1]
     \<and> (off < length es \<and> (\<forall>e. \<not> full [] e) \<longrightarrow> 0 < k)"
proof -
  obtain k where "k \<le> length (drop off es)" "fill full off (drop off es) [] = [] @ zip (take k (drop off es)) [off + 1..<off + k + 1]"
    "drop off es \<noteq> [] \<and> \<not> full [] (hd (drop off es)) \<longrightarrow> 0 < k"
    using fill_prefix [of "drop off es" full off "[]"] by blast
  then show ?thesis by (intro exI [of _ k]) (simp add: add_entries_fill del: upt_Suc split_paired_All)
qed

lemma page_last:
  assumes "p = add_entries full off 0 es []" "p \<noteq> []"
  shows "off < snd (last p)" "snd (last p) \<le> length es" "map fst p = take (snd (last p) - off) (drop off es)"
proof -
  obtain k where k: "k \<le> length es - off" "p = zip (take k (drop off es)) [off + 1..<off + k + 1]"
    using page_shape [of es off full] assms(1) by blast
  have len: "length (take k (drop off es)) = k" using k(1) by simp
  with k assms(2) have k0: "0 < k" by (cases k) auto
  have sn: "map snd p = [off + 1..<off + k + 1]" and fs: "map fst p = take k (drop off es)"
    using len by (simp_all add: k(2))
  have "snd (last p) = last (map snd p)" using assms(2) by (simp add: last_map)
  also have "\<dots> = off + k" using k0 by (simp add: sn)
  finally have l: "snd (last p) = off + k" .
  show "off < snd (last p)" "snd (last p) \<le> length es" "map fst p = take (snd (last p) - off) (drop off es)"
    using k0 k(1) fs by (auto simp: l)
qed

text \<open>A reader of the directory: it continues after the last entry it got and stops at an empty page.\<close>

function read_pages :: "((dirent \<times> nat) list \<Rightarrow> dirent \<Rightarrow> bool) \<Rightarrow> dirent list \<Rightarrow> nat \<Rightarrow> dirent list" where
  "read_pages full es off =
     (let p = add_entries full off 0 es [] in
      if p = [] then [] else map fst p @ read_pages full es (snd (last p)))"
  by pat_completeness auto
termination
proof (relation "measure (\<lambda>(_, es, off). length es - off)")
  fix full :: "(dirent \<times> nat) list \<Rightarrow> dirent \<Rightarrow> bool" and es off p
  assume p: "p = add_entries full off 0 es []" "p \<noteq> []"
  show "((full, es, snd (last p)), (full, es, off)) \<in> measure (\<lambda>(_, es, off). length es - off)"
    using page_last [OF p] by simp
qed simp

declare read_pages.simps [simp del]

lemma read_pages_all: "\<forall>e. \<not> full [] e \<Longrightarrow> read_pages full es off = drop off es"
proof (induction full es off rule: read_pages.induct)
  case (1 full es off)
  define p where "p = add_entries full off 0 es []"
  show ?case
  proof (cases "p = []")
    case True
    obtain k where k: "p = zip (take k (drop off es)) [off + 1..<off + k + 1]" "k \<le> length es - off" "off < length es \<longrightarrow> 0 < k"
      using page_shape [of es off full] "1.prems" unfolding p_def by blast
    have "length es \<le> off"
    proof (rule ccontr)
      assume "\<not> length es \<le> off"
      with k True show False by (cases k) (auto simp: upt_conv_Cons)
    qed
    with True show ?thesis by (subst read_pages.simps) (simp add: p_def [symmetric])
  next
    case False
    note l = page_last [OF p_def False]
    have "read_pages full es off = map fst p @ drop (snd (last p)) es"
      using "1.IH" [OF p_def False "1.prems"] False by (subst read_pages.simps) (simp add: p_def [symmetric])
    also have "\<dots> = drop off es"
      using l by (metis append_take_drop_id diff_add_inverse drop_drop le_add_diff_inverse2 less_imp_le_nat)
    finally show ?thesis .
  qed
qed

section \<open>What is listed\<close>

lemma unique_names_distinct:
  "\<lbrakk>distinct (map fe_name es); \<forall>e\<in>set es. fe_name e \<notin> seen\<rbrakk> \<Longrightarrow> unique_names seen es = es"
proof (induction es arbitrary: seen)
  case (Cons e es)
  have "unique_names (insert (fe_name e) seen) es = es"
    by (rule Cons.IH) (use Cons.prems in \<open>auto simp: image_iff\<close>)
  with Cons.prems show ?case by simp
qed simp

definition child_rows :: "mount_id \<Rightarrow> inode \<Rightarrow> db \<Rightarrow> file_row list" where
  "child_rows m i d = sort_key r_inode (filter (\<lambda>r. r_mount_id r = m \<and> r_parent r = Some i) (file_index d))"

lemma child_names_distinct:
  assumes "db_wf d"
  shows "distinct (map r_name (child_rows m i d))"
proof -
  have d: "distinct (map name_key (filter (\<lambda>r. r_parent r \<noteq> None) (file_index d)))"
    using assms by (simp add: db_wf_def files_wf_def unique_ok_def)
  have "distinct (map name_key (filter (\<lambda>r. r_mount_id r = m \<and> r_parent r = Some i) (filter (\<lambda>r. r_parent r \<noteq> None) (file_index d))))"
    using d by (rule distinct_map_filter)
  then have n: "distinct (map name_key (filter (\<lambda>r. r_mount_id r = m \<and> r_parent r = Some i) (file_index d)))"
    unfolding filter_filter by (rule back_subst [where P = "\<lambda>xs. distinct (map name_key xs)"]) (auto intro!: filter_cong)
  have "inj_on r_name (set (filter (\<lambda>r. r_mount_id r = m \<and> r_parent r = Some i) (file_index d)))"
    using n by (auto simp: distinct_map inj_on_def)
  moreover have "distinct (filter (\<lambda>r. r_mount_id r = m \<and> r_parent r = Some i) (file_index d))"
    using n by (simp add: distinct_map)
  ultimately show ?thesis by (simp add: child_rows_def distinct_map)
qed

lemma readdir_listed_run:
  assumes "get_by_inode i (wdb (fw s)) = (Inr (Some dir), wdb (fw s))" "fe_dir_listed dir \<noteq> None"
  shows "\<exists>s'. fuse_readdir full h i off s =
      (Inr (add_entries full off 0 (dirents i (map row_to_entry (child_rows (f_mount_id (hy_cfg h)) i (wdb (fw s))))) []), s')
    \<and> fw s' = fw s \<and> open_files s' = open_files s"
  using assms
  by (auto simp: fuse_readdir_def run_bind run_then in_world_read [of "get_by_inode i"] spawn_prefetch_headers_def speculate_def
      in_world_run db_op_run list_children_def child_rows_def)

text \<open>
  C34: reading a directory that has been listed before, page after page, whatever
  the size of the pages as long as one entry fits into an empty one, ends and
  returns the two dot entries and then every entry of the directory exactly once,
  in the order of the inodes; the database is not changed, and the names are
  exactly those a lookup finds.
\<close>

theorem readdir_pages_complete:
  assumes wf: "db_wf (wdb (fw s))" and dir: "get_by_inode i (wdb (fw s)) = (Inr (Some dir), wdb (fw s))" "fe_dir_listed dir \<noteq> None"
    and m: "m = f_mount_id (hy_cfg h)" and fits: "\<forall>e. \<not> full [] e"
  shows "\<exists>es. (\<forall>off. result_of (fuse_readdir full h i off) s = Inr (add_entries full off 0 es [])
        \<and> fw (state_after (fuse_readdir full h i off) s) = fw s)
    \<and> read_pages full es 0 = [(i, Directory, ''.''), (i, Directory, ''..'')]
        @ map (\<lambda>r. (r_inode r, r_kind r, r_name r)) (sort_key r_inode (filter (\<lambda>r. r_mount_id r = m \<and> r_parent r = Some i) (file_index (wdb (fw s)))))
    \<and> (\<forall>n. n \<in> (\<lambda>(_, _, n). n) ` set (drop 2 (read_pages full es 0)) \<longleftrightarrow> result_of (get_by_parent_name m i n) (wdb (fw s)) \<noteq> Inr None)"
proof -
  let ?rows = "child_rows m i (wdb (fw s))"
  define es where "es = dirents i (map row_to_entry ?rows)"
  have "unique_names {} (map row_to_entry ?rows) = map row_to_entry ?rows"
    by (rule unique_names_distinct) (use child_names_distinct [OF wf] in \<open>simp_all add: comp_def\<close>)
  then have es: "es = [(i, Directory, ''.''), (i, Directory, ''..'')] @ map (\<lambda>r. (r_inode r, r_kind r, r_name r)) ?rows"
    by (simp add: es_def dirents_def)
  have run: "result_of (fuse_readdir full h i off) s = Inr (add_entries full off 0 es [])
      \<and> fw (state_after (fuse_readdir full h i off) s) = fw s" for off
    using readdir_listed_run [OF dir, of full h off] unfolding es_def m by auto
  have pages: "read_pages full es 0 = es" using read_pages_all [of full es 0] fits by simp
  have "n \<in> (\<lambda>(_, _, n). n) ` set (drop 2 es) \<longleftrightarrow> result_of (get_by_parent_name m i n) (wdb (fw s)) \<noteq> Inr None" for n
    by (auto simp: es child_rows_def get_by_parent_name_run find_row_def find_None_iff image_iff)
  then show ?thesis
    using run pages es by (intro exI [of _ es]) (simp add: child_rows_def)
qed

definition listed_fs :: fs where
  "listed_fs = sample_fs (sample_world\<lparr>wdb := snd (mark_dir_listed 2 sample_db)\<rparr>)"

lemma listed_db: "wdb (fw listed_fs) = sample_db\<lparr>file_index := [sample_row 1 None ''/'' ''/'' Directory Cached None None,
     (sample_row 2 (Some 1) ''d'' ''d'' Directory Remote None None)\<lparr>r_dir_listed := Some 100\<rparr>,
     sample_row 3 (Some 2) ''a'' ''d/a'' File Cached (Some ''/c/d/a'') (Some ''ID3''),
     sample_row 4 (Some 2) ''b'' ''d/b'' File Dirty (Some ''/c/d/b'') None]\<rparr>"
  by (simp add: listed_fs_def sample_fs_def mark_dir_listed_def run_then exec_update_def end_statement_def update_rows_def
      unique_ok_def fk_ok_def row_refs_ok_def trigger_ok_def sample_defs)

theorem readdir_pages_complete_witness:
  "\<exists>es. result_of (fuse_readdir (\<lambda>acc _. acc \<noteq> []) (sample_hydrator (\<lambda>_ _. (Inr (), None))) 2 3) listed_fs
        = Inr (add_entries (\<lambda>acc _. acc \<noteq> []) 3 0 es [])
    \<and> read_pages (\<lambda>acc _. acc \<noteq> []) es 0 = [(2, Directory, ''.''), (2, Directory, ''..''), (3, File, ''a''), (4, File, ''b'')]"
proof -
  have wf: "db_wf (wdb (fw listed_fs))"
    using keepsD [OF mark_dir_listed_wf sample_db_wf] by (simp add: listed_fs_def sample_fs_def)
  let ?dir = "row_to_entry ((sample_row 2 (Some 1) ''d'' ''d'' Directory Remote None None)\<lparr>r_dir_listed := Some 100\<rparr>)"
  have g: "get_by_inode 2 (wdb (fw listed_fs)) = (Inr (Some ?dir), wdb (fw listed_fs))"
    by (simp add: get_by_inode_run find_row_def listed_db sample_row_def)
  have rows: "sort_key r_inode (filter (\<lambda>r. r_mount_id r = 1 \<and> r_parent r = Some 2) (file_index (wdb (fw listed_fs))))
     = [sample_row 3 (Some 2) ''a'' ''d/a'' File Cached (Some ''/c/d/a'') (Some ''ID3''),
        sample_row 4 (Some 2) ''b'' ''d/b'' File Dirty (Some ''/c/d/b'') None]"
    by (simp add: listed_db sample_row_def)
  show ?thesis
    using readdir_pages_complete [OF wf g, of 1 "sample_hydrator (\<lambda>_ _. (Inr (), None))" "\<lambda>acc _. acc \<noteq> []"] rows
    by (auto simp: sample_hydrator_def sample_cfg_def sample_row_def)
qed

section \<open>The root entry\<close>

lemma delete_rows_none: "\<forall>r\<in>set (file_index d). \<not> p r \<Longrightarrow> delete_rows p d = d"
  by (simp add: delete_rows_def cascade_def filter_empty_conv filter_id_conv [THEN iffD2])

definition root_ok :: "mount_id \<Rightarrow> file_row \<Rightarrow> bool" where
  "root_ok m r \<longleftrightarrow> r_inode r = FUSE_ROOT_INODE \<and> r_kind r = Directory \<and> r_remote_path r = ''/'' \<and> r_mount_id r = m"

lemma insert_root_run:
  assumes wf: "db_wf d" and m: "m \<in> mount_ids d"
    and new: "\<forall>r\<in>set (file_index d). r_inode r \<noteq> FUSE_ROOT_INODE \<and> path_key r \<noteq> (m, ''/'')"
  shows "fst (insert_root (root_entry m t) d) = Inr FUSE_ROOT_INODE
    \<and> file_index (snd (insert_root (root_entry m t) d)) = file_index d @ [row_of_new FUSE_ROOT_INODE None (root_entry m t)]"
proof -
  let ?x = "row_of_new FUSE_ROOT_INODE None (root_entry m t)"
  have x: "r_inode ?x = FUSE_ROOT_INODE" "path_key ?x = (m, ''/'')" "r_parent ?x = None" "r_item_id ?x = None" "trigger_ok ?x"
    by (simp_all add: row_of_new_def root_entry_def trigger_ok_def)
  have "unique_ok (file_index d @ [?x])"
    using wf new x by (auto simp: db_wf_def files_wf_def unique_ok_def)
  moreover have "fk_ok (d\<lparr>file_index := file_index d @ [?x], file_seq := sq\<rparr>)" for sq
    using wf m x by (auto simp: db_wf_def files_wf_def fk_ok_def list_all_iff row_refs_ok_def split: option.splits)
  moreover have "delete_rows (\<lambda>y. r_inode y = r_inode ?x \<or> path_key y = path_key ?x
       \<or> r_parent ?x \<noteq> None \<and> name_key y = name_key ?x \<or> r_item_id ?x \<noteq> None \<and> item_key y = item_key ?x) d = d"
    by (rule delete_rows_none) (use new x in auto)
  ultimately show ?thesis
    using x by (simp add: insert_root_def run_then exec_replace_def Let_def end_statement_def del: file_index_delete_rows)
qed

lemma delete_mount_entries_run:
  assumes "db_wf d" "\<forall>r\<in>set (file_index d). r_mount_id r = m"
  shows "fst (delete_mount_entries m d) = Inr ()" "file_index (snd (delete_mount_entries m d)) = []"
    "mounts (snd (delete_mount_entries m d)) = mounts d"
proof -
  have "file_index (delete_rows (\<lambda>r. r_mount_id r = m) d) = []" using assms(2) by simp
  then have "exec_delete (\<lambda>r. r_mount_id r = m) d = (Inr (), delete_rows (\<lambda>r. r_mount_id r = m) d)"
    by (simp add: exec_delete_def end_statement_def unique_ok_def fk_ok_def del: file_index_delete_rows)
  then show "fst (delete_mount_entries m d) = Inr ()" "file_index (snd (delete_mount_entries m d)) = []"
    "mounts (snd (delete_mount_entries m d)) = mounts d"
    using assms(2) by (simp_all add: delete_mount_entries_def run_then)
qed

text \<open>The row a lookup of the root inode finds decides what happens.\<close>

lemma ensure_root_run:
  "ensure_root m d = (case find_row (\<lambda>r. r_inode r = FUSE_ROOT_INODE) d of
     Some r \<Rightarrow> if root_ok m r then (Inr (), d)
       else thenS (delete_mount_entries m) (bindS (query (\<lambda>s. from_unix (clock s))) (\<lambda>now. thenS (insert_root (root_entry m now)) (ret ()))) d
   | None \<Rightarrow> bindS (query (\<lambda>s. from_unix (clock s))) (\<lambda>now. thenS (insert_root (root_entry m now)) (ret ())) d)"
  by (auto simp: ensure_root_def get_by_inode_run run_bind run_then root_ok_def find_row_def
      split: option.split sum.split prod.split dest!: find_SomeD)

lemma insert_root_then:
  assumes "db_wf d" "m \<in> mount_ids d"
    and "\<forall>r\<in>set (file_index d). r_inode r \<noteq> FUSE_ROOT_INODE \<and> path_key r \<noteq> (m, ''/'')"
  shows "\<exists>d'. bindS (query (\<lambda>s. from_unix (clock s))) (\<lambda>now. thenS (insert_root (root_entry m now)) (ret ())) d = (Inr (), d')
    \<and> db_wf d' \<and> (\<exists>r\<in>set (file_index d'). root_ok m r) \<and> set (file_index d) \<subseteq> set (file_index d')"
proof -
  let ?e = "root_entry m (from_unix (clock d))"
  obtain d' where d': "insert_root ?e d = (Inr FUSE_ROOT_INODE, d')" "file_index d' = file_index d @ [row_of_new FUSE_ROOT_INODE None ?e]"
    using insert_root_run [OF assms, of "from_unix (clock d)"] by (metis prod.collapse)
  moreover have "db_wf d'" by (rule keepsE [OF insert_root_wf d'(1) assms(1)])
  ultimately show ?thesis
    by (intro exI [of _ d']) (auto simp: run_then root_ok_def row_of_new_def root_entry_def)
qed

text \<open>
  In the database of a mount, \<open>ensure_root\<close> always succeeds and leaves a
  well-formed database in which the root inode is the mount's root directory; it
  changes nothing when that is already so, keeps every row when there is no root
  inode yet, and running it again changes nothing.
\<close>

theorem ensure_root_establishes_root:
  assumes wf: "db_wf d" and m: "m \<in> mount_ids d"
    and rows: "\<forall>r\<in>set (file_index d). r_mount_id r = m \<and> (r_remote_path r = ''/'' \<longrightarrow> r_inode r = FUSE_ROOT_INODE)"
  shows "\<exists>d'. ensure_root m d = (Inr (), d') \<and> db_wf d'
    \<and> (\<exists>r\<in>set (file_index d'). r_inode r = FUSE_ROOT_INODE \<and> r_kind r = Directory \<and> r_remote_path r = ''/'' \<and> r_mount_id r = m)
    \<and> ((\<exists>r\<in>set (file_index d). root_ok m r) \<longrightarrow> d' = d)
    \<and> (FUSE_ROOT_INODE \<notin> inodes d \<longrightarrow> set (file_index d) \<subseteq> set (file_index d'))
    \<and> ensure_root m d' = (Inr (), d')"
proof -
  have again: "ensure_root m d' = (Inr (), d')" if w: "db_wf d'" and e: "\<exists>r\<in>set (file_index d'). root_ok m r" for d'
  proof -
    from e obtain r where r: "r \<in> set (file_index d')" "root_ok m r" by blast
    then have "find_row (\<lambda>r. r_inode r = FUSE_ROOT_INODE) d' = Some r"
      using find_row_inode [OF w, of FUSE_ROOT_INODE r] by (simp add: root_ok_def)
    with r show ?thesis by (simp add: ensure_root_run)
  qed
  show ?thesis
  proof (cases "find_row (\<lambda>r. r_inode r = FUSE_ROOT_INODE) d")
    case None
    then have none: "\<forall>r\<in>set (file_index d). r_inode r \<noteq> FUSE_ROOT_INODE" by (auto simp: find_row_def find_None_iff)
    then have "\<forall>r\<in>set (file_index d). r_inode r \<noteq> FUSE_ROOT_INODE \<and> path_key r \<noteq> (m, ''/'')" using rows by auto
    from insert_root_then [OF wf m this] obtain d' where d': "ensure_root m d = (Inr (), d')" "db_wf d'"
        "\<exists>r\<in>set (file_index d'). root_ok m r" "set (file_index d) \<subseteq> set (file_index d')"
      by (auto simp: ensure_root_run None)
    with none again show ?thesis by (intro exI [of _ d']) (auto simp: root_ok_def)
  next
    case (Some r)
    then have r: "r \<in> set (file_index d)" "r_inode r = FUSE_ROOT_INODE" by (auto dest: find_row_Some)
    show ?thesis
    proof (cases "root_ok m r")
      case True
      with Some r wf again show ?thesis by (intro exI [of _ d]) (auto simp: ensure_root_run root_ok_def)
    next
      case False
      have bad: "\<not> root_ok m x" if "x \<in> set (file_index d)" for x
        using wf_unique(1) [OF wf that r(1)] r(2) False by (auto simp: root_ok_def)
      let ?d = "snd (delete_mount_entries m d)"
      have del: "fst (delete_mount_entries m d) = Inr ()" "file_index ?d = []" "mounts ?d = mounts d"
        using delete_mount_entries_run [OF wf, of m] rows by auto
      have "db_wf ?d" "m \<in> mount_ids ?d" using keepsD [OF delete_mount_entries_wf wf] m del(3) by simp_all
      from insert_root_then [OF this] del(2) obtain d' where
        "bindS (query (\<lambda>s. from_unix (clock s))) (\<lambda>now. thenS (insert_root (root_entry m now)) (ret ())) ?d = (Inr (), d')"
        "db_wf d'" "\<exists>r\<in>set (file_index d'). root_ok m r" by auto
      moreover from this(1) have "ensure_root m d = (Inr (), d')"
        using False del(1) Some by (cases "delete_mount_entries m d") (simp add: ensure_root_run run_then)
      moreover have "FUSE_ROOT_INODE \<in> inodes d" using r by force
      ultimately show ?thesis using bad again by (intro exI [of _ d']) (auto simp: root_ok_def)
    qed
  qed
qed

theorem ensure_root_establishes_root_witness:
  "\<exists>d'. ensure_root 1 (sample_db\<lparr>file_index := [], cache_lru := []\<rparr>) = (Inr (), d')
     \<and> (\<exists>r\<in>set (file_index d'). r_inode r = FUSE_ROOT_INODE \<and> r_remote_path r = ''/'')"
proof -
  have "db_wf (sample_db\<lparr>file_index := [], cache_lru := []\<rparr>)"
    by (simp add: db_wf_defs sample_defs unique_ok_def fk_ok_def)
  from ensure_root_establishes_root [OF this, of 1] show ?thesis by (auto simp: sample_defs)
qed

end
