(* ===== verification/Hashes.thy ===== *)
theory Hashes
  imports Base_Store Config
begin

text \<open>
  Content hashes (\<open>stratosync-core/src/hashes.rs\<close>).  The same digest reaches the
  database in several spellings; \<open>hash_to_hex\<close> brings them to lower-case
  hexadecimal before they are compared.  The base64 decoders are third-party
  code and so a parameter, one function per engine.  Strings are their bytes, as
  the source reads them.
\<close>

section \<open>Hexadecimal text\<close>

definition is_ascii_hexdigit :: "char \<Rightarrow> bool" where
  "is_ascii_hexdigit c \<longleftrightarrow> (let n = of_char c :: nat in
     (48 \<le> n \<and> n \<le> 57) \<or> (65 \<le> n \<and> n \<le> 70) \<or> (97 \<le> n \<and> n \<le> 102))"

definition hex_char :: "nat \<Rightarrow> char" where
  "hex_char d = char_of (if d < 10 then 48 + d else 87 + d)"

text \<open>\<open>format!("{b:02x}")\<close> of a byte.\<close>

definition hex_byte :: "8 word \<Rightarrow> string" where
  "hex_byte b = [hex_char (unat b div 16), hex_char (unat b mod 16)]"

definition hex_bytes :: "bytes \<Rightarrow> string" where
  "hex_bytes bs = concat (map hex_byte bs)"

section \<open>Normalisation and comparison\<close>

datatype engine = STANDARD | URL_SAFE | STANDARD_NO_PAD | URL_SAFE_NO_PAD

fun find_map :: "('a \<Rightarrow> 'b option) \<Rightarrow> 'a list \<Rightarrow> 'b option" where
  "find_map f [] = None"
| "find_map f (x # xs) = (case f x of Some y \<Rightarrow> Some y | None \<Rightarrow> find_map f xs)"

definition hash_to_hex :: "(engine \<Rightarrow> string \<Rightarrow> bytes option) \<Rightarrow> string \<Rightarrow> string option" where
  "hash_to_hex decode s0 =
     (let s = trim_ws s0 in
      if s = [] then None
      else if even (length s) \<and> list_all is_ascii_hexdigit s then Some (map ascii_lower s)
      else map_option hex_bytes
             (find_map (\<lambda>e. decode e s) [STANDARD, URL_SAFE, STANDARD_NO_PAD, URL_SAFE_NO_PAD]))"

definition etag_matches_hashes :: "(engine \<Rightarrow> string \<Rightarrow> bytes option) \<Rightarrow> string \<Rightarrow> string list \<Rightarrow> bool" where
  "etag_matches_hashes decode stored hashes =
     (case hash_to_hex decode stored of
        None \<Rightarrow> False
      | Some x \<Rightarrow> list_ex (\<lambda>h. h = x) (List.map_filter (hash_to_hex decode) hashes))"

section \<open>Laws\<close>

definition lower_hex :: "char \<Rightarrow> bool" where
  "lower_hex c \<longleftrightarrow> (let n = of_char c :: nat in (48 \<le> n \<and> n \<le> 57) \<or> (97 \<le> n \<and> n \<le> 102))"

text \<open>A normal form: lower-case hexadecimal text of whole bytes.\<close>

definition hex_text :: "string \<Rightarrow> bool" where
  "hex_text h \<longleftrightarrow> even (length h) \<and> list_all lower_hex h"

lemma lower_hex_facts:
  "lower_hex c \<Longrightarrow> is_ascii_hexdigit c" "lower_hex c \<Longrightarrow> \<not> is_space c" "lower_hex c \<Longrightarrow> ascii_lower c = c"
  by (auto simp: lower_hex_def is_ascii_hexdigit_def is_space_def ascii_lower_def Let_def)

lemma hexdigit_not_space: "is_ascii_hexdigit c \<Longrightarrow> \<not> is_space c"
  by (auto simp: is_ascii_hexdigit_def is_space_def Let_def)

lemma ascii_lower_hex: "is_ascii_hexdigit c \<Longrightarrow> lower_hex (ascii_lower c)"
  by (auto simp: lower_hex_def is_ascii_hexdigit_def ascii_lower_def Let_def of_char_of)

lemma hex_char_lower: "d < 16 \<Longrightarrow> lower_hex (hex_char d)"
  by (auto simp: lower_hex_def hex_char_def Let_def of_char_of)

lemma hex_text_bytes: "hex_text (hex_bytes bs)"
proof (induction bs)
  case (Cons b bs)
  have "unat b < 256" using unsigned_less [of b] by simp
  then have "list_all lower_hex (hex_byte b)"
    by (simp add: hex_byte_def hex_char_lower)
  with Cons show ?case by (simp add: hex_text_def hex_bytes_def hex_byte_def)
qed (simp add: hex_text_def hex_bytes_def)

lemma hex_text_fixed:
  assumes "hex_text h" "h \<noteq> []"
  shows "hash_to_hex decode h = Some h"
proof -
  have t: "trim_ws h = h"
    using assms(1) lower_hex_facts(2) by (intro trim_ws_id) (auto simp: hex_text_def list_all_iff)
  have "map ascii_lower h = h"
    using assms(1) lower_hex_facts(3) by (intro map_idI) (auto simp: hex_text_def list_all_iff)
  moreover have "list_all is_ascii_hexdigit h"
    using assms(1) lower_hex_facts(1) by (auto simp: hex_text_def list_all_iff)
  ultimately show ?thesis using assms t by (simp add: hash_to_hex_def Let_def hex_text_def)
qed

lemma hash_to_hex_text: "hash_to_hex decode s = Some h \<Longrightarrow> hex_text h"
  using hex_text_bytes
  by (auto simp: hash_to_hex_def Let_def hex_text_def list_all_iff ascii_lower_hex split: if_splits)

lemma hex_char_inj: "\<lbrakk>a < 16; b < 16; hex_char a = hex_char b\<rbrakk> \<Longrightarrow> a = b"
proof -
  assume ab: "a < 16" "b < 16" and eq: "hex_char a = hex_char b"
  have "of_char (hex_char d) = (if d < 10 then 48 + d else 87 + d)" if "d < 16" for d :: nat
    using that by (simp add: hex_char_def of_char_of)
  with ab eq have "(if a < 10 then 48 + a else 87 + a) = (if b < 10 then 48 + b else 87 + b)" by metis
  with ab show "a = b" by (auto split: if_splits)
qed

lemma hex_byte_inj: "hex_byte a = hex_byte b \<Longrightarrow> a = b"
proof -
  assume eq: "hex_byte a = hex_byte b"
  have lt: "unat x < 256" for x :: "8 word" using unsigned_less [of x] by simp
  have "unat a div 16 = unat b div 16" "unat a mod 16 = unat b mod 16"
    using eq lt [of a] lt [of b] by (auto simp: hex_byte_def intro!: hex_char_inj)
  then have "unat a = unat b" by (metis div_mult_mod_eq)
  then show "a = b" by (rule unsigned_word_eqI)
qed

lemma hex_bytes_inj: "hex_bytes a = hex_bytes b \<Longrightarrow> a = b"
proof (induction a arbitrary: b)
  case Nil
  then show ?case by (cases b) (auto simp: hex_bytes_def hex_byte_def)
next
  case (Cons x xs)
  then obtain y ys where b: "b = y # ys"
    by (cases b) (auto simp: hex_bytes_def hex_byte_def)
  with Cons.prems have "hex_byte x = hex_byte y" "hex_bytes xs = hex_bytes ys"
    by (auto simp: hex_bytes_def hex_byte_def)
  with Cons.IH b hex_byte_inj show ?case by blast
qed

lemma lower_hex_digit: "lower_hex c \<Longrightarrow> \<exists>d<16. c = hex_char d"
proof -
  assume l: "lower_hex c"
  define n where "n = (of_char c :: nat)"
  have c: "c = char_of n" by (simp add: n_def)
  from l consider "48 \<le> n" "n \<le> 57" | "97 \<le> n" "n \<le> 102" by (auto simp: lower_hex_def n_def Let_def)
  then show ?thesis
  proof cases
    case 1
    then show ?thesis using c by (intro exI [of _ "n - 48"]) (simp add: hex_char_def)
  next
    case 2
    then have "\<not> n - 87 < 10" "n - 87 < 16" "87 + (n - 87) = n" by arith+
    then show ?thesis using c by (intro exI [of _ "n - 87"]) (simp add: hex_char_def)
  qed
qed

lemma hex_pair_byte: "\<lbrakk>lower_hex c; lower_hex d\<rbrakk> \<Longrightarrow> \<exists>b. hex_byte b = [c, d]"
proof -
  assume "lower_hex c" "lower_hex d"
  then obtain x y where xy: "x < 16" "c = hex_char x" "y < 16" "d = hex_char y"
    using lower_hex_digit by blast
  have "16 * x + y < 256" using xy by arith
  then have "unat (word_of_nat (16 * x + y) :: 8 word) = 16 * x + y"
    by (simp only: unsigned_of_nat len_bit0 len_num1) (simp add: take_bit_nat_eq_self)
  with xy show ?thesis
    by (intro exI [of _ "word_of_nat (16 * x + y)"]) (simp add: hex_byte_def)
qed

lemma hex_text_spelled: "hex_text h \<Longrightarrow> \<exists>bs. h = hex_bytes bs"
proof (induction h rule: induct_list012)
  case 1
  then show ?case by (intro exI [of _ "[]"]) (simp add: hex_bytes_def)
next
  case (2 x)
  then show ?case by (simp add: hex_text_def)
next
  case (3 x y zs)
  from "3.prems" have z: "hex_text zs" and xy: "lower_hex x" "lower_hex y" by (auto simp: hex_text_def)
  obtain bs where "zs = hex_bytes bs" using "3.IH"(1) [OF z] by blast
  moreover obtain b where "hex_byte b = [x, y]" using hex_pair_byte [OF xy] by blast
  ultimately show ?case by (intro exI [of _ "b # bs"]) (simp add: hex_bytes_def)
qed

lemma upper_lower_hex: "lower_hex c \<Longrightarrow> is_ascii_hexdigit (ascii_upper c) \<and> ascii_lower (ascii_upper c) = c"
proof -
  assume l: "lower_hex c"
  define n where "n = (of_char c :: nat)"
  have c: "c = char_of n" by (simp add: n_def)
  from l consider "48 \<le> n" "n \<le> 57" | "97 \<le> n" "n \<le> 102" by (auto simp: lower_hex_def n_def Let_def)
  then show ?thesis
    by cases (auto simp: c is_ascii_hexdigit_def ascii_upper_def ascii_lower_def Let_def of_char_of)
qed

lemma hash_to_hex_upper:
  assumes "hex_text h" "h \<noteq> []"
  shows "hash_to_hex decode (map ascii_upper h) = Some h"
proof -
  let ?u = "map ascii_upper h"
  have all: "list_all is_ascii_hexdigit ?u" and low: "map ascii_lower ?u = h"
    using assms(1) upper_lower_hex by (auto simp: hex_text_def list_all_iff intro: map_idI)
  have t: "trim_ws ?u = ?u" using all hexdigit_not_space by (intro trim_ws_id) (auto simp: list_all_iff)
  have "even (length ?u)" "?u \<noteq> []" using assms by (simp_all add: hex_text_def)
  then show ?thesis unfolding hash_to_hex_def Let_def t using all low by simp
qed

lemma etag_matches_iff:
  "etag_matches_hashes decode s hs \<longleftrightarrow>
     (\<exists>x. hash_to_hex decode s = Some x \<and> (\<exists>h\<in>set hs. hash_to_hex decode h = Some x))"
  by (auto simp: etag_matches_hashes_def list_ex_iff List.map_filter_def image_iff split: option.split)



end
