(* ===== verification/Rclone.thy ===== *)
theory Rclone
  imports Hashes
begin

text \<open>
  The backend that drives the rclone program (\<open>stratosync-core/src/backend/mod.rs\<close>).
  The program itself is outside the source: \<open>exec\<close> maps the arguments and the
  state it can touch (the remote, local files) to its outcome and the state it
  leaves.  The JSON parsers, the number parser behind sizes, the base64 decoders
  and the date parser are third-party parameters, gathered in \<open>parsers\<close>.
  A slice of a string at a byte that is not a character boundary panics; \<open>Panic\<close>
  is that outcome.
\<close>

section \<open>Parsers and strings\<close>

datatype json = JNull | JBool bool | JInt int | JFloat | JStr string | JArr "json list" | JObj "(string \<times> json) list"

record 'f parsers =
  parse_json    :: "string \<Rightarrow> json option"
  parse_lsjson_entries :: "bytes \<Rightarrow> string + rclone_ls_json_entry list"
  parse_about   :: "bytes \<Rightarrow> string + (nat option \<times> nat option \<times> nat option)"
  parse_f64     :: "string \<Rightarrow> 'f option"
  scale_f64     :: "'f \<Rightarrow> nat \<Rightarrow> nat"
  decode_base64 :: "engine \<Rightarrow> string \<Rightarrow> bytes option"
  parse_time    :: "string \<Rightarrow> system_time option"
  lossy         :: "bytes \<Rightarrow> string"

fun json_get :: "string \<Rightarrow> json \<Rightarrow> json option" where
  "json_get k (JObj kvs) = map_of kvs k"
| "json_get k _ = None"

fun as_str :: "json \<Rightarrow> string option" where
  "as_str (JStr s) = Some s"
| "as_str _ = None"

fun json_u64 :: "json \<Rightarrow> nat option" where
  "json_u64 (JInt i) = (if 0 \<le> i \<and> i < 2 ^ 64 then Some (nat i) else None)"
| "json_u64 _ = None"

text \<open>\<open>str::lines\<close>: pieces between line feeds, each without a final carriage return; no piece after a final line feed.\<close>

definition strip_cr :: "string \<Rightarrow> string" where
  "strip_cr l = (case strip_suffix [CHR 0x0D] l of Some m \<Rightarrow> m | None \<Rightarrow> l)"

definition str_lines :: "string \<Rightarrow> string list" where
  "str_lines s = (let ps = split_on (CHR 0x0A) s in map strip_cr (if last ps = [] then butlast ps else ps))"

text \<open>A byte index splits a character when the byte there is a UTF-8 continuation byte.\<close>

definition is_char_boundary :: "string \<Rightarrow> nat \<Rightarrow> bool" where
  "is_char_boundary s n \<longleftrightarrow> n = length s
     \<or> (n < length s \<and> \<not> (128 \<le> (of_char (s ! n) :: nat) \<and> (of_char (s ! n) :: nat) < 192))"

section \<open>Error output\<close>

text \<open>The message of one log line, when it is one.\<close>

definition error_line :: "'f parsers \<Rightarrow> string \<Rightarrow> string option" where
  "error_line J line =
     (let t = trim_ws line in
      if prefix ''{'' t then
        (case parse_json J t of
           None \<Rightarrow> None
         | Some v \<Rightarrow> if json_get ''stats'' v \<noteq> None then None else Option.bind (json_get ''msg'' v) as_str)
      else None)"

text \<open>\<open>None\<close>: the slice panics.\<close>

definition parse_rclone_error :: "'f parsers \<Rightarrow> string \<Rightarrow> string option" where
  "parse_rclone_error J stderr =
     (case find_map (error_line J) (rev (str_lines stderr)) of
        Some msg \<Rightarrow> Some msg
      | None \<Rightarrow>
          (let first = (case find (\<lambda>l. trim_ws l \<noteq> []) (str_lines stderr) of Some l \<Rightarrow> l | None \<Rightarrow> stderr)
           in if length first > 200
              then if is_char_boundary first 200 then Some (take 200 first @ ''...'') else None
              else Some first))"

definition parse_json_stats :: "'f parsers \<Rightarrow> string \<Rightarrow> (nat \<times> nat option) option" where
  "parse_json_stats J line =
     Option.bind (parse_json J (trim_ws line)) (\<lambda>v.
     Option.bind (json_get ''stats'' v) (\<lambda>stats.
     Option.bind (Option.bind (json_get ''bytes'' stats) json_u64) (\<lambda>b.
       Some (b, Option.bind (json_get ''totalBytes'' stats) json_u64))))"

text \<open>Whether the line shows that the transfer is alive, and the last byte count afterwards.\<close>

definition stderr_line_shows_liveness :: "'f parsers \<Rightarrow> string \<Rightarrow> nat option \<Rightarrow> bool \<times> nat option" where
  "stderr_line_shows_liveness J line last_bytes =
     (case parse_json_stats J line of
        None \<Rightarrow> (True, last_bytes)
      | Some (b, tot) \<Rightarrow>
          (last_bytes \<noteq> Some b \<or> (case tot of Some t \<Rightarrow> t > 0 \<and> b \<ge> t | None \<Rightarrow> False), Some b))"

definition trim_start :: "string \<Rightarrow> string" where
  "trim_start = dropWhile is_space"

definition parse_rclone_progress_line :: "'f parsers \<Rightarrow> string \<Rightarrow> nat option" where
  "parse_rclone_progress_line J line =
     (if prefix ''{'' (trim_start line) then map_option fst (parse_json_stats J (trim_start line))
      else case split_once_str ''Transferred:'' line of
        None \<Rightarrow> None
      | Some (_, after0) \<Rightarrow>
          (let after = trim_start after0 in
           if \<not> contains_str after ''Bytes'' \<and> \<not> contains_str after ''iB'' \<and> \<not> contains_str after '' B,'' then None
           else case split_once (CHR ''/'') after of
             None \<Rightarrow> None
           | Some (qty, _) \<Rightarrow>
               (case parse_size (parse_f64 J) (scale_f64 J) (trim_ws qty) of Inr n \<Rightarrow> Some n | Inl _ \<Rightarrow> None)))"

section \<open>Running the program\<close>

record rclone_backend =
  remote_root   :: string
  rclone_bin    :: path
  extra_flags   :: "string list"
  timeout_secs  :: nat
  stall_timeout :: nat

text \<open>\<open>Debug\<close> of a string without characters that are escaped.\<close>

definition debug_str :: "string \<Rightarrow> string" where
  "debug_str s = [CHR 34] @ s @ [CHR 34]"

definition with_binary :: "string \<Rightarrow> path \<Rightarrow> rclone_backend" where
  "with_binary root bin = \<lparr> remote_root = root, rclone_bin = bin,
     extra_flags = [''--log-level'', ''ERROR'', ''--use-json-log''], timeout_secs = 120, stall_timeout = 120 \<rparr>"

definition with_stall_timeout :: "nat \<Rightarrow> rclone_backend \<Rightarrow> rclone_backend" where
  "with_stall_timeout d b = b\<lparr>stall_timeout := d\<rparr>"

record rclone_config =
  rc_extra_flags        :: "string list"
  rc_bwlimit            :: "string option"
  rc_transfers          :: "nat option"
  rc_checkers           :: "nat option"
  rc_stall_timeout_secs :: "nat option"

definition with_rclone_config :: "rclone_config \<Rightarrow> rclone_backend \<Rightarrow> rclone_backend" where
  "with_rclone_config cfg b = b\<lparr>
     extra_flags := extra_flags b @ rc_extra_flags cfg
       @ (case rc_bwlimit cfg of Some w \<Rightarrow> [''--bwlimit'', w] | None \<Rightarrow> [])
       @ (case rc_transfers cfg of Some t \<Rightarrow> [''--transfers'', nat_to_string t] | None \<Rightarrow> [])
       @ (case rc_checkers cfg of Some c \<Rightarrow> [''--checkers'', nat_to_string c] | None \<Rightarrow> []),
     stall_timeout := (case rc_stall_timeout_secs cfg of Some s \<Rightarrow> s | None \<Rightarrow> stall_timeout b)\<rparr>"

definition rpath :: "rclone_backend \<Rightarrow> string \<Rightarrow> string" where
  "rpath b rel0 =
     (let root = trim_end_matches (CHR ''/'') (remote_root b); rel = trim_start_matches (CHR ''/'') rel0
      in if rel = [] then root else root @ ''/'' @ rel)"

text \<open>\<open>Unfinished\<close>: the program is still running after the events seen so far.\<close>

datatype failure = Failed sync_error | Panic | Unfinished

type_synonym ('r, 'a) rcm = "('r, failure, 'a) sem"

abbreviation fatal :: "string \<Rightarrow> failure" where
  "fatal m \<equiv> Failed (Fatal m)"

text \<open>
  The outcome of the program: it could not be started, it did not end in time,
  or it ended with an exit code (none when a signal ended it), its standard
  output and its error output.
\<close>

datatype outcome = SpawnFailed string | TimedOut | Exited "int option" bytes bytes

definition MAX_OUTPUT :: nat where
  "MAX_OUTPUT = 256 * 1024 * 1024"

definition run_exit :: "int \<Rightarrow> string \<Rightarrow> sync_error" where
  "run_exit code msg =
     (if code \<in> {3, 4} then NotFound msg
      else if code \<in> {5, 6} then Transient msg
      else if code = 8 then QuotaExceeded
      else (let low = lower msg; has = contains_str low in
        if has ''didn't match'' \<or> has ''sourcemd5'' then EtagConflict None (Some msg)
        else if has ''invalid_grant'' \<or> has ''token'' \<and> (has ''expired'' \<or> has ''revoked'') then PermissionDenied msg
        else if has ''403'' \<or> has ''permission denied'' then PermissionDenied msg
        else if has ''timeout'' \<or> has ''deadline'' \<or> has ''connection refused'' \<or> has ''dns'' then Network msg
        else if has ''doesn't exist'' \<or> has ''not found'' \<or> has ''404'' then NotFound msg
        else if has ''quota'' \<or> has ''storage full'' then QuotaExceeded
        else Fatal msg))"

text \<open>The program and the file system it runs on.\<close>

datatype event = StderrLine string | StallTick | WaitFailed string | ProcExit "int option"

record 'r host =
  exec          :: "string list \<Rightarrow> 'r \<Rightarrow> outcome \<times> 'r"
  exec_progress :: "string list \<Rightarrow> 'r \<Rightarrow> (string + event list \<times> (sync_error + bytes)) \<times> 'r"
  mkdirs        :: "path \<Rightarrow> 'r \<Rightarrow> (sync_error + unit) \<times> 'r"

definition lift_failed :: "('r \<Rightarrow> (sync_error + 'a) \<times> 'r) \<Rightarrow> ('r, 'a) rcm" where
  "lift_failed m s = (case m s of (Inl e, s') \<Rightarrow> (Inl (Failed e), s') | (Inr a, s') \<Rightarrow> (Inr a, s'))"

definition run_result :: "'f parsers \<Rightarrow> outcome \<Rightarrow> failure + bytes" where
  "run_result J out =
     (case out of
        SpawnFailed m \<Rightarrow> Inl (fatal (''failed to spawn rclone: '' @ m))
      | TimedOut \<Rightarrow> Inl (Failed (Network ''rclone timed out''))
      | Exited code stdout stderr \<Rightarrow>
          (if length stdout > MAX_OUTPUT then Inl (fatal ''rclone output exceeded 256MB limit'')
           else if code = Some 0 then Inr stdout
           else case parse_rclone_error J (lossy J stderr) of
             None \<Rightarrow> Inl Panic
           | Some msg \<Rightarrow> Inl (Failed (run_exit (case code of Some c \<Rightarrow> c | None \<Rightarrow> -1) msg))))"

definition run :: "'f parsers \<Rightarrow> 'r host \<Rightarrow> rclone_backend \<Rightarrow> string list \<Rightarrow> ('r, bytes) rcm" where
  "run J H b args s = (case exec H (args @ extra_flags b) s of (out, s') \<Rightarrow> (run_result J out, s'))"

section \<open>Transfers under the stall watchdog\<close>

text \<open>
  A transfer is the sequence of its events in the order they take effect: a line
  on the error output, the end of a waiting period of \<open>stall_timeout\<close>, the end of
  the process.  The counter of signs of life is an atomic 64-bit integer.
\<close>

record watch_state =
  w_last_bytes :: "nat option"
  w_activity   :: "64 word"
  w_last_seen  :: "64 word"
  w_stderr     :: string
  w_progress   :: "nat list"

datatype transfer_end = Ended "int option" | Stalled | WaitError string

definition on_line :: "'f parsers \<Rightarrow> string \<Rightarrow> watch_state \<Rightarrow> watch_state" where
  "on_line J line st =
     (let (alive, last') = stderr_line_shows_liveness J line (w_last_bytes st) in
      st\<lparr>w_last_bytes := last',
         w_activity := (if alive then w_activity st + 1 else w_activity st),
         w_progress := (case parse_rclone_progress_line J line of Some n \<Rightarrow> w_progress st @ [n] | None \<Rightarrow> w_progress st),
         w_stderr := w_stderr st @ line @ [CHR 0x0A]\<rparr>)"

fun drain :: "'f parsers \<Rightarrow> event list \<Rightarrow> watch_state \<Rightarrow> watch_state" where
  "drain J [] st = st"
| "drain J (e # es) st = drain J es (case e of StderrLine l \<Rightarrow> on_line J l st | _ \<Rightarrow> st)"

fun watch :: "'f parsers \<Rightarrow> event list \<Rightarrow> watch_state \<Rightarrow> transfer_end option \<times> watch_state" where
  "watch J [] st = (None, st)"
| "watch J (e # es) st =
     (case e of
        StderrLine l \<Rightarrow> watch J es (on_line J l st)
      | StallTick \<Rightarrow> (if w_activity st = w_last_seen st then (Some Stalled, st)
                      else watch J es (st\<lparr>w_last_seen := w_activity st\<rparr>))
      | WaitFailed m \<Rightarrow> (Some (WaitError m), st)
      | ProcExit c \<Rightarrow> (Some (Ended c), drain J es st))"

definition watch_start :: watch_state where
  "watch_start = \<lparr> w_last_bytes = None, w_activity = 0, w_last_seen = 0, w_stderr = [], w_progress = [] \<rparr>"

text \<open>The exit codes of a transfer, mapped by a second copy of the table.\<close>

definition progress_exit :: "int \<Rightarrow> string \<Rightarrow> sync_error" where
  "progress_exit code msg =
     (if code \<in> {3, 4} then NotFound msg
      else if code \<in> {5, 6} then Transient msg
      else if code = 8 then QuotaExceeded
      else (let low = lower msg; has = contains_str low in
        if has ''didn't match'' \<or> has ''sourcemd5'' then EtagConflict None (Some msg)
        else if has ''invalid_grant'' \<or> (has ''token'' \<and> (has ''expired'' \<or> has ''revoked'')) then PermissionDenied msg
        else if has ''403'' \<or> has ''permission denied'' then PermissionDenied msg
        else if has ''timeout'' \<or> has ''deadline'' \<or> has ''connection refused'' \<or> has ''dns'' then Network msg
        else if has ''doesn't exist'' \<or> has ''not found'' \<or> has ''404'' then NotFound msg
        else if has ''quota'' \<or> has ''storage full'' then QuotaExceeded
        else Fatal msg))"

definition transfer_result :: "'f parsers \<Rightarrow> rclone_backend \<Rightarrow> event list \<Rightarrow> sync_error + bytes \<Rightarrow> failure + bytes" where
  "transfer_result J b evs out =
     (case watch J evs watch_start of
        (None, _) \<Rightarrow> Inl Unfinished
      | (Some Stalled, _) \<Rightarrow>
          Inl (Failed (Network (''rclone stalled (no progress for '' @ nat_to_string (stall_timeout b) @ ''s)'')))
      | (Some (WaitError m), _) \<Rightarrow> Inl (fatal (''rclone wait: '' @ m))
      | (Some (Ended code), st) \<Rightarrow>
          (case out of
             Inl e \<Rightarrow> Inl (Failed e)
           | Inr stdout \<Rightarrow>
               (if length stdout > MAX_OUTPUT then Inl (fatal ''rclone output exceeded 256MB limit'')
                else if code = Some 0 then Inr stdout
                else case parse_rclone_error J (w_stderr st) of
                  None \<Rightarrow> Inl Panic
                | Some msg \<Rightarrow> Inl (Failed (progress_exit (case code of Some c \<Rightarrow> c | None \<Rightarrow> -1) msg)))))"

definition run_with_progress :: "'f parsers \<Rightarrow> 'r host \<Rightarrow> rclone_backend \<Rightarrow> string list \<Rightarrow> ('r, bytes) rcm" where
  "run_with_progress J H b args s =
     (case exec_progress H (args @ extra_flags b) s of
        (Inl m, s') \<Rightarrow> (Inl (fatal (''failed to spawn rclone: '' @ m)), s')
      | (Inr (evs, out), s') \<Rightarrow> (transfer_result J b evs out, s'))"

section \<open>Operations of the backend\<close>

definition convert :: "'f parsers \<Rightarrow> rclone_ls_json_entry \<Rightarrow> remote_metadata" where
  "convert J = remote_metadata_try_from (parse_time J)"

definition parse_lsjson :: "'f parsers \<Rightarrow> bytes \<Rightarrow> failure + remote_metadata list" where
  "parse_lsjson J bs = (case parse_lsjson_entries J bs of
      Inl m \<Rightarrow> Inl (fatal (''lsjson parse error: '' @ m)) | Inr es \<Rightarrow> Inr (map (convert J) es))"

definition check_if_match :: "'f parsers \<Rightarrow> 'r host \<Rightarrow> rclone_backend \<Rightarrow> path \<Rightarrow> string \<Rightarrow> ('r, unit) rcm" where
  "check_if_match J H b remote expected =
     bindS (attempt (run J H b [''lsjson'', ''--no-modtime=false'', ''--hash'', rpath b remote])) (\<lambda>r.
       case r of
         Inl (Failed (NotFound _)) \<Rightarrow> ret ()
       | Inl e \<Rightarrow> raise e
       | Inr bs \<Rightarrow>
           (case parse_lsjson_entries J bs of
              Inl m \<Rightarrow> raise (fatal (''lsjson parse error: '' @ m))
            | Inr [] \<Rightarrow> ret ()
            | Inr (entry # _) \<Rightarrow>
                (let hashes = (case lj_hashes entry of Some h \<Rightarrow> h | None \<Rightarrow> []);
                     meta = convert J entry;
                     matches = (if hashes = [] then (case rm_etag meta of None \<Rightarrow> True | Some x \<Rightarrow> x = expected)
                                else etag_matches_hashes (decode_base64 J) expected (map snd hashes))
                 in if matches then ret () else raise (Failed (EtagConflict (Some expected) (rm_etag meta))))))"

definition rc_stat :: "'f parsers \<Rightarrow> 'r host \<Rightarrow> rclone_backend \<Rightarrow> path \<Rightarrow> ('r, remote_metadata) rcm" where
  "rc_stat J H b p =
     bindS (run J H b [''lsjson'', ''--no-modtime=false'', ''--hash'', rpath b p]) (\<lambda>bs.
       case parse_lsjson J bs of
         Inl e \<Rightarrow> raise e
       | Inr l \<Rightarrow> if l = [] then raise (Failed (NotFound p)) else ret (last l))"

definition rc_list :: "'f parsers \<Rightarrow> 'r host \<Rightarrow> rclone_backend \<Rightarrow> path \<Rightarrow> ('r, remote_metadata list) rcm" where
  "rc_list J H b p =
     bindS (run J H b [''lsjson'', ''--hash'', rpath b p]) (\<lambda>bs.
       case parse_lsjson J bs of Inl e \<Rightarrow> raise e | Inr l \<Rightarrow> ret l)"

definition rc_list_recursive :: "'f parsers \<Rightarrow> 'r host \<Rightarrow> rclone_backend \<Rightarrow> path \<Rightarrow> ('r, remote_metadata list) rcm" where
  "rc_list_recursive J H b p =
     bindS (run J H b [''lsjson'', ''--recursive'', ''--hash'', rpath b p]) (\<lambda>bs.
       case parse_lsjson J bs of Inl e \<Rightarrow> raise e | Inr l \<Rightarrow> ret l)"

definition target_dir :: "'r host \<Rightarrow> path \<Rightarrow> ('r, unit) rcm" where
  "target_dir H local =
     (case path_parent local of
        None \<Rightarrow> raise (fatal ''download target has no parent dir'')
      | Some d \<Rightarrow> lift_failed (mkdirs H d))"

definition stats_args :: "string list" where
  "stats_args = [''--stats=1s'', ''--stats-one-line'', ''--stats-log-level=ERROR'', ''--timeout'', ''120s'', ''--contimeout'', ''60s'']"

definition rc_download :: "'f parsers \<Rightarrow> 'r host \<Rightarrow> rclone_backend \<Rightarrow> path \<Rightarrow> path \<Rightarrow> ('r, unit) rcm" where
  "rc_download J H b remote local =
     thenS (target_dir H local)
    (thenS (run J H b [''copyto'', rpath b remote, local, ''--no-traverse'']) (ret ()))"

definition rc_download_with_progress :: "'f parsers \<Rightarrow> 'r host \<Rightarrow> rclone_backend \<Rightarrow> path \<Rightarrow> path \<Rightarrow> ('r, unit) rcm" where
  "rc_download_with_progress J H b remote local =
     thenS (target_dir H local)
    (thenS (run_with_progress J H b ([''copyto'', rpath b remote, local, ''--no-traverse''] @ stats_args)) (ret ()))"

definition rc_download_range :: "'f parsers \<Rightarrow> 'r host \<Rightarrow> rclone_backend \<Rightarrow> path \<Rightarrow> nat \<Rightarrow> nat \<Rightarrow> ('r, bytes) rcm" where
  "rc_download_range J H b remote offset len =
     run_with_progress J H b
       ([''cat'', rpath b remote, ''--offset'', nat_to_string offset, ''--count'', nat_to_string len] @ stats_args)"

definition if_match_check :: "'f parsers \<Rightarrow> 'r host \<Rightarrow> rclone_backend \<Rightarrow> path \<Rightarrow> string option \<Rightarrow> ('r, unit) rcm" where
  "if_match_check J H b remote if_match =
     (case if_match of Some expected \<Rightarrow> check_if_match J H b remote expected | None \<Rightarrow> ret ())"

definition rc_upload ::
  "'f parsers \<Rightarrow> 'r host \<Rightarrow> rclone_backend \<Rightarrow> path \<Rightarrow> path \<Rightarrow> string option \<Rightarrow> ('r, remote_metadata) rcm" where
  "rc_upload J H b local remote if_match =
     thenS (if_match_check J H b remote if_match)
    (thenS (run J H b [''copyto'', local, rpath b remote, ''--checksum'']) (rc_stat J H b remote))"

definition rc_upload_with_progress ::
  "'f parsers \<Rightarrow> 'r host \<Rightarrow> rclone_backend \<Rightarrow> path \<Rightarrow> path \<Rightarrow> string option \<Rightarrow> ('r, remote_metadata) rcm" where
  "rc_upload_with_progress J H b local remote if_match =
     thenS (if_match_check J H b remote if_match)
    (thenS (run_with_progress J H b ([''copyto'', local, rpath b remote, ''--checksum''] @ stats_args))
       (rc_stat J H b remote))"

definition rc_mkdir :: "'f parsers \<Rightarrow> 'r host \<Rightarrow> rclone_backend \<Rightarrow> path \<Rightarrow> ('r, unit) rcm" where
  "rc_mkdir J H b p = thenS (run J H b [''mkdir'', rpath b p]) (ret ())"

definition rc_delete :: "'f parsers \<Rightarrow> 'r host \<Rightarrow> rclone_backend \<Rightarrow> path \<Rightarrow> ('r, unit) rcm" where
  "rc_delete J H b p = thenS (run J H b [''deletefile'', rpath b p]) (ret ())"

definition rc_rmdir :: "'f parsers \<Rightarrow> 'r host \<Rightarrow> rclone_backend \<Rightarrow> path \<Rightarrow> ('r, unit) rcm" where
  "rc_rmdir J H b p = thenS (run J H b [''purge'', rpath b p]) (ret ())"

definition rc_rename :: "'f parsers \<Rightarrow> 'r host \<Rightarrow> rclone_backend \<Rightarrow> path \<Rightarrow> path \<Rightarrow> ('r, unit) rcm" where
  "rc_rename J H b from to = thenS (run J H b [''moveto'', rpath b from, rpath b to]) (ret ())"

record remote_about =
  ab_total :: "nat option"
  ab_used  :: "nat option"
  ab_free  :: "nat option"

definition rc_about :: "'f parsers \<Rightarrow> 'r host \<Rightarrow> rclone_backend \<Rightarrow> ('r, remote_about) rcm" where
  "rc_about J H b =
     bindS (run J H b [''about'', ''--json'', remote_root b]) (\<lambda>bs.
       case parse_about J bs of
         Inl m \<Rightarrow> raise (fatal (''about parse error: '' @ m))
       | Inr (t, u, f) \<Rightarrow> ret \<lparr> ab_total = t, ab_used = u, ab_free = f \<rparr>)"

text \<open>Change detection is handed to the delta provider, when there is one.\<close>

definition rc_changes_since ::
  "(string \<Rightarrow> ('r, remote_change list \<times> string) rcm) option \<Rightarrow> string \<Rightarrow> ('r, remote_change list \<times> string) rcm" where
  "rc_changes_since provider token =
     (case provider of Some p \<Rightarrow> p token | None \<Rightarrow> raise (fatal ''delta not supported for this backend''))"

definition rc_get_start_token :: "('r, string) rcm option \<Rightarrow> ('r, string) rcm" where
  "rc_get_start_token provider =
     (case provider of Some p \<Rightarrow> p | None \<Rightarrow> raise (fatal ''delta not supported for this backend''))"

text \<open>The program: the environment variable first, then the directories of the search path.\<close>

definition which_rclone :: "(path \<Rightarrow> bool) \<Rightarrow> string option \<Rightarrow> path list \<Rightarrow> string + path" where
  "which_rclone is_file var dirs =
     (case var of
        Some p \<Rightarrow> (if is_file p then Inr p else Inl (''STRATOSYNC_RCLONE='' @ debug_str p @ '' does not point to a file''))
      | None \<Rightarrow>
          (case find is_file (map (\<lambda>d. path_join d ''rclone'') dirs) of
             Some c \<Rightarrow> Inr c
           | None \<Rightarrow> Inl (''rclone not found. Install from https://rclone.org/install/ ''
               @ ''or set STRATOSYNC_RCLONE=/path/to/rclone'')))"

end
