(* ===== verification/Rclone_Laws.thy ===== *)
theory Rclone_Laws
  imports Rclone
begin

text \<open>
  Laws of the rclone backend: both tables of exit codes agree, an upload never
  runs past a failed precondition, and the watchdog ends a transfer exactly when
  a whole waiting period passes without a sign of life.
\<close>

section \<open>Paths and exit codes\<close>

lemma progress_exit_eq: "progress_exit = run_exit"
  by (intro ext) (simp add: progress_exit_def run_exit_def Let_def)

lemma rpath_inj: "rpath b p = rpath b q \<longleftrightarrow> trim_start_matches (CHR ''/'') p = trim_start_matches (CHR ''/'') q"
  by (auto simp: rpath_def Let_def)

text \<open>
  The message of a failed run is cut after 200 bytes; when a character spans that
  place the slice panics.
\<close>

lemma long_error_line_panics:
  assumes "parse_json J = (\<lambda>_. None)"
  shows "parse_rclone_error J (replicate 199 (CHR ''x'') @ [CHR 0xC3, CHR 0xA9]) = None"
proof -
  let ?s = "replicate 199 (CHR ''x'') @ [CHR 0xC3, CHR 0xA9]"
  have lines: "str_lines ?s = [?s]" by code_simp
  have "error_line J ?s = None" using assms by (simp add: error_line_def Let_def)
  moreover have "trim_ws ?s \<noteq> []" "length ?s > 200" "\<not> is_char_boundary ?s 200" by code_simp+
  ultimately show ?thesis by (simp add: parse_rclone_error_def lines)
qed

section \<open>The upload precondition\<close>

text \<open>
  C19: when the remote file lists content hashes and none of them names the
  content the stored etag names, an upload under that etag fails with a conflict
  and runs nothing after the listing: the remote is left as the listing left it.
  The upload with progress reports behaves the same.
\<close>

theorem upload_stops_on_mismatch:
  assumes "exec H ([''lsjson'', ''--no-modtime=false'', ''--hash'', rpath b remote] @ extra_flags b) s
             = (Exited (Some 0) out err, s1)"
    and "length out \<le> MAX_OUTPUT"
    and "parse_lsjson_entries J out = Inr (entry # rest)" "lj_hashes entry = Some hs" "hs \<noteq> []"
    and "\<forall>l\<in>set hs. \<forall>x. hash_to_hex (decode_base64 J) expected = Some x \<longrightarrow> hash_to_hex (decode_base64 J) (snd l) \<noteq> Some x"
  shows "rc_upload J H b local remote (Some expected) s
           = (Inl (Failed (EtagConflict (Some expected) (rm_etag (convert J entry)))), s1)
     \<and> rc_upload_with_progress J H b local remote (Some expected) s
           = (Inl (Failed (EtagConflict (Some expected) (rm_etag (convert J entry)))), s1)"
proof -
  have "\<not> etag_matches_hashes (decode_base64 J) expected (map snd hs)"
    using assms(6) by (auto simp: etag_matches_iff)
  then have "check_if_match J H b remote expected s
      = (Inl (Failed (EtagConflict (Some expected) (rm_etag (convert J entry)))), s1)"
    using assms(1-5) by (simp add: check_if_match_def run_bind run_def run_result_def Let_def)
  then show ?thesis
    by (simp add: rc_upload_def rc_upload_with_progress_def if_match_check_def run_then)
qed

section \<open>The stall watchdog\<close>

fun no_end :: "event list \<Rightarrow> bool" where
  "no_end [] = True"
| "no_end (e # es) = (case e of WaitFailed _ \<Rightarrow> False | ProcExit _ \<Rightarrow> False | _ \<Rightarrow> no_end es)"

text \<open>The last byte count after some events.\<close>

fun bytes_after :: "'f parsers \<Rightarrow> nat option \<Rightarrow> event list \<Rightarrow> nat option" where
  "bytes_after J lb [] = lb"
| "bytes_after J lb (e # es) =
     bytes_after J (case e of StderrLine l \<Rightarrow> snd (stderr_line_shows_liveness J l lb) | _ \<Rightarrow> lb) es"

text \<open>Only lines, and none of them a sign of life.\<close>

fun silent :: "'f parsers \<Rightarrow> nat option \<Rightarrow> event list \<Rightarrow> bool" where
  "silent J lb [] = True"
| "silent J lb (e # es) =
     (case e of StderrLine l \<Rightarrow> \<not> fst (stderr_line_shows_liveness J l lb)
                                 \<and> silent J (snd (stderr_line_shows_liveness J l lb)) es
      | _ \<Rightarrow> False)"

text \<open>The watchdog without its counter: \<open>alive\<close> says whether there was a sign of life since the last tick.\<close>

fun stalls :: "'f parsers \<Rightarrow> nat option \<Rightarrow> bool \<Rightarrow> event list \<Rightarrow> bool" where
  "stalls J lb alive [] = False"
| "stalls J lb alive (e # es) =
     (case e of
        StderrLine l \<Rightarrow> stalls J (snd (stderr_line_shows_liveness J l lb))
                          (alive \<or> fst (stderr_line_shows_liveness J l lb)) es
      | StallTick \<Rightarrow> \<not> alive \<or> stalls J lb False es
      | _ \<Rightarrow> False)"

lemma on_line_fields:
  "w_last_bytes (on_line J l st) = snd (stderr_line_shows_liveness J l (w_last_bytes st))"
  "w_activity (on_line J l st) = w_activity st + (if fst (stderr_line_shows_liveness J l (w_last_bytes st)) then 1 else 0)"
  "w_last_seen (on_line J l st) = w_last_seen st"
  by (simp_all add: on_line_def Let_def split: prod.split)

lemma word_ne_add:
  assumes "n < 2 ^ 64" shows "(w + word_of_nat n = (w :: 64 word)) \<longleftrightarrow> n = 0"
proof -
  have "(word_of_nat n :: 64 word) = 0 \<longleftrightarrow> 2 ^ 64 dvd n" by (simp add: word_of_nat_eq_0_iff)
  also have "\<dots> \<longleftrightarrow> n = 0" using assms nat_dvd_not_less [of n "2 ^ 64"] by (cases "n = 0") auto
  finally show ?thesis by simp
qed

lemma watch_stalls:
  "\<lbrakk>no_end pre; n + length pre < 2 ^ 64; w_activity st = w_last_seen st + word_of_nat n\<rbrakk>
   \<Longrightarrow> fst (watch J (pre @ ProcExit c # post) st) = (if stalls J (w_last_bytes st) (n > 0) pre then Some Stalled else Some (Ended c))"
proof (induction pre arbitrary: n st)
  case (Cons e es)
  show ?case
  proof (cases e)
    case (StderrLine l)
    let ?a = "fst (stderr_line_shows_liveness J l (w_last_bytes st))"
    have "fst (watch J (es @ ProcExit c # post) (on_line J l st))
        = (if stalls J (w_last_bytes (on_line J l st)) ((if ?a then n + 1 else n) > 0) es then Some Stalled else Some (Ended c))"
      using Cons.prems StderrLine by (intro Cons.IH) (auto simp: on_line_fields)
    then show ?thesis using StderrLine by (auto simp: on_line_fields)
  next
    case StallTick
    have z: "(w_activity st = w_last_seen st) = (n = 0)"
      using Cons.prems(2,3) word_ne_add [of n "w_last_seen st"] by simp
    have "fst (watch J (es @ ProcExit c # post) (st\<lparr>w_last_seen := w_activity st\<rparr>))
        = (if stalls J (w_last_bytes st) False es then Some Stalled else Some (Ended c))"
      using Cons.prems StallTick Cons.IH [of 0 "st\<lparr>w_last_seen := w_activity st\<rparr>"] by simp
    then show ?thesis using StallTick z by simp
  qed (use Cons.prems in auto)
qed simp

text \<open>A waiting period without a sign of life, the first one or one that follows a tick.\<close>

definition silent_period :: "'f parsers \<Rightarrow> nat option \<Rightarrow> event list \<Rightarrow> bool" where
  "silent_period J lb evs \<longleftrightarrow> (\<exists>before seg after. evs = before @ seg @ StallTick # after
     \<and> (before = [] \<or> last before = StallTick) \<and> silent J (bytes_after J lb before) seg)"

lemma stalls_decompose:
  "no_end evs \<Longrightarrow> stalls J lb alive evs \<Longrightarrow>
   \<exists>before seg after. evs = before @ seg @ StallTick # after
     \<and> (if before = [] then \<not> alive else last before = StallTick) \<and> silent J (bytes_after J lb before) seg"
proof (induction evs arbitrary: lb alive)
  case (Cons e es)
  show ?case
  proof (cases e)
    case (StderrLine l)
    let ?r = "stderr_line_shows_liveness J l lb"
    from Cons.prems StderrLine obtain before seg after where
      d: "es = before @ seg @ StallTick # after" "if before = [] then \<not> (alive \<or> fst ?r) else last before = StallTick"
         "silent J (bytes_after J (snd ?r) before) seg"
      using Cons.IH [of "snd ?r" "alive \<or> fst ?r"] by auto
    show ?thesis
    proof (cases "before = []")
      case True
      with d StderrLine show ?thesis by (intro exI [of _ "[]"] exI [of _ "e # seg"] exI [of _ after]) auto
    next
      case False
      with d StderrLine show ?thesis by (intro exI [of _ "e # before"] exI [of _ seg] exI [of _ after]) auto
    qed
  next
    case StallTick
    show ?thesis
    proof (cases alive)
      case False
      with StallTick show ?thesis by (intro exI [of _ "[]"] exI [of _ es]) auto
    next
      case True
      with Cons.prems StallTick obtain before seg after where
        d: "es = before @ seg @ StallTick # after" "if before = [] then True else last before = StallTick"
           "silent J (bytes_after J lb before) seg"
        using Cons.IH [of lb False] by auto
      then show ?thesis using StallTick
        by (intro exI [of _ "e # before"] exI [of _ seg] exI [of _ after]) (auto split: if_splits)
    qed
  qed (use Cons.prems in auto)
qed simp

lemma silent_stalls: "silent J lb seg \<Longrightarrow> stalls J lb False (seg @ StallTick # after)"
  by (induction seg arbitrary: lb) (auto split: event.splits)

lemma compose_stalls:
  "\<lbrakk>no_end before; if before = [] then \<not> alive else last before = StallTick; silent J (bytes_after J lb before) seg\<rbrakk>
   \<Longrightarrow> stalls J lb alive (before @ seg @ StallTick # after)"
proof (induction before arbitrary: lb alive)
  case Nil
  then show ?case using silent_stalls by simp
next
  case (Cons e es)
  show ?case
  proof (cases e)
    case (StderrLine l)
    then have "es \<noteq> []" using Cons.prems(2) by (auto split: if_splits)
    with StderrLine Cons show ?thesis by (auto split: if_splits)
  next
    case StallTick
    with Cons.prems have "stalls J lb False (es @ seg @ StallTick # after)"
      by (intro Cons.IH) (auto split: if_splits)
    with StallTick show ?thesis by simp
  qed (use Cons.prems in auto)
qed

lemma no_end_append: "no_end (a @ b) \<longleftrightarrow> no_end a \<and> no_end b"
  by (induction a) (auto split: event.split)

lemma stalls_iff: "no_end evs \<Longrightarrow> stalls J lb False evs \<longleftrightarrow> silent_period J lb evs"
proof
  assume n: "no_end evs" and "stalls J lb False evs"
  from stalls_decompose [OF this] show "silent_period J lb evs"
    unfolding silent_period_def by (metis (full_types))
next
  assume n: "no_end evs" and "silent_period J lb evs"
  then obtain before seg after where d: "evs = before @ seg @ StallTick # after"
    "before = [] \<or> last before = StallTick" "silent J (bytes_after J lb before) seg"
    unfolding silent_period_def by blast
  with n show "stalls J lb False evs"
    using compose_stalls [of before False J lb seg after] by (auto simp: no_end_append)
qed

text \<open>
  C37: a transfer whose process ends is cut off as stalled exactly when some whole
  waiting period before its end passes without a sign of life, where a statistics
  line is one only if the byte count changed or every byte is sent; otherwise
  its own exit code is what the transfer returns, however long it takes.
\<close>

theorem watchdog_exact:
  assumes "no_end pre" "length pre < 2 ^ 64"
  shows "fst (watch J (pre @ ProcExit c # post) watch_start)
           = (if silent_period J None pre then Some Stalled else Some (Ended c))"
  using watch_stalls [OF assms(1), of 0 watch_start J c post] assms stalls_iff [OF assms(1), of J None]
  by (simp add: watch_start_def)

definition plain_parsers :: "unit parsers" where
  "plain_parsers = \<lparr> parse_json = (\<lambda>s. if s = ''{1}'' then Some (JObj [(''stats'', JObj [(''bytes'', JInt 1)])]) else None),
     parse_lsjson_entries = (\<lambda>_. Inr []), parse_about = (\<lambda>_. Inl []), parse_f64 = (\<lambda>_. None), scale_f64 = (\<lambda>_ _. 0),
     decode_base64 = (\<lambda>_ _. None), parse_time = (\<lambda>_. None), lossy = map (\<lambda>b. char_of (unat b)) \<rparr>"

theorem watchdog_exact_witness:
  "fst (watch plain_parsers [StderrLine ''{1}'', StallTick, StderrLine ''{1}'', StallTick, ProcExit (Some 0)] watch_start)
     = Some Stalled"
proof -
  let ?pre = "[StderrLine ''{1}'', StallTick, StderrLine ''{1}'', StallTick]"
  have "silent_period plain_parsers None ?pre"
    unfolding silent_period_def
    by (intro exI [of _ "[StderrLine ''{1}'', StallTick]"] exI [of _ "[StderrLine ''{1}'']"] exI [of _ "[]"])
       (simp add: stderr_line_shows_liveness_def parse_json_stats_def plain_parsers_def trim_ws_def is_space_def)
  then show ?thesis using watchdog_exact [of ?pre plain_parsers "Some 0" "[]"] by simp
qed

text \<open>A listing of one file with a hash that differs from the stored one.\<close>

definition listing_host :: "nat host" where
  "listing_host = \<lparr> exec = (\<lambda>args n. (Exited (Some 0) [] [], n + 1)), exec_progress = (\<lambda>_ n. (Inl [], n + 1)),
     mkdirs = (\<lambda>_ n. (Inr (), n)) \<rparr>"

definition listed_entry :: rclone_ls_json_entry where
  "listed_entry = \<lparr> lj_path = ''f'', lj_name = ''f'', lj_size = 1, lj_mime_type = None, lj_mod_time = [],
     lj_is_dir = False, lj_hashes = Some [(''md5'', ''ab'')], lj_id = None \<rparr>"

theorem upload_stops_on_mismatch_witness:
  "rc_upload (plain_parsers\<lparr>parse_lsjson_entries := \<lambda>_. Inr [listed_entry]\<rparr>) listing_host (with_binary ''r:'' ''rclone'')
     ''/c/f'' ''f'' (Some ''cd'') 0 = (Inl (Failed (EtagConflict (Some ''cd'') (Some ''ab''))), 1)"
proof -
  let ?J = "plain_parsers\<lparr>parse_lsjson_entries := \<lambda>_. Inr [listed_entry]\<rparr>"
  have "hash_to_hex (decode_base64 ?J) ''cd'' = Some ''cd''" "hash_to_hex (decode_base64 ?J) ''ab'' = Some ''ab''"
    by (simp_all add: hex_text_fixed hex_text_def lower_hex_def)
  moreover have "rm_etag (convert ?J listed_entry) = Some ''ab''" by (simp add: convert_def remote_metadata_try_from_def listed_entry_def preferred_hash_def or_else_def)
  ultimately show ?thesis
    using upload_stops_on_mismatch [of listing_host "with_binary ''r:'' ''rclone''" "''f''" 0 "[]" "[]" 1 ?J listed_entry "[]"
        "[(''md5'', ''ab'')]" "''cd''" "''/c/f''"]
    by (simp add: listing_host_def listed_entry_def)
qed

end
