(* ===== verification/Backend.thy ===== *)
theory Backend
  imports Base_Store
begin

text \<open>
  The contract of the \<open>Backend\<close> trait (\<open>stratosync-core/src/backend/mod.rs\<close>) as
  the code above it relies on it, and the in-memory backend of the source, which
  fulfils it.  A site is the daemon's own state with the remote it talks to.
\<close>

section \<open>The trait\<close>

record 'r site =
  sw :: world
  sr :: 'r

type_synonym ('r, 'a) bkm = "('r site, sync_error, 'a) sem"

record 'r backend =
  b_stat     :: "path \<Rightarrow> ('r, remote_metadata) bkm"
  b_download :: "path \<Rightarrow> path \<Rightarrow> ('r, unit) bkm"
  b_upload   :: "path \<Rightarrow> path \<Rightarrow> string option \<Rightarrow> ('r, remote_metadata) bkm"
  b_delete   :: "path \<Rightarrow> ('r, unit) bkm"

text \<open>
  What a client may rely on.  \<open>content\<close> observes the bytes stored at a remote
  path.  Asking for metadata changes nothing.  A download that succeeds leaves
  the remote bytes at the local path and no other existing file changed; one
  that fails may have changed the local path only.  An upload that succeeds has
  stored the local bytes at the path and changed nothing else; one that fails has
  changed at most that path.  Deleting concerns the one path.
\<close>

definition others_kept :: "path \<Rightarrow> world \<Rightarrow> world \<Rightarrow> bool" where
  "others_kept p w w' \<longleftrightarrow> wdb w' = wdb w \<and> objects w' = objects w \<and> io_fault w' = io_fault w
     \<and> (\<forall>q b. q \<noteq> p \<longrightarrow> disk w q = Some (Regular b) \<longrightarrow> disk w' q = Some (Regular b))"

locale remote_store =
  fixes B :: "'r backend" and content :: "'r \<Rightarrow> path \<Rightarrow> bytes option"
  assumes stat_pure: "snd (b_stat B p s) = s"
    and download_ok: "b_download B p l s = (Inr (), s') \<Longrightarrow>
      \<exists>b. content (sr s) p = Some b \<and> disk (sw s') l = Some (Regular b) \<and> sr s' = sr s \<and> others_kept l (sw s) (sw s')"
    and download_err: "b_download B p l s = (Inl e, s') \<Longrightarrow> sr s' = sr s \<and> others_kept l (sw s) (sw s')"
    and upload_ok: "b_upload B l p x s = (Inr m, s') \<Longrightarrow>
      \<exists>b. disk (sw s) l = Some (Regular b) \<and> content (sr s') = (content (sr s))(p \<mapsto> b) \<and> sw s' = sw s"
    and upload_err: "b_upload B l p x s = (Inl e, s') \<Longrightarrow> sw s' = sw s \<and> (\<forall>q. q \<noteq> p \<longrightarrow> content (sr s') q = content (sr s) q)"
    and delete_ok: "b_delete B p s = (Inr (), s') \<Longrightarrow> sw s' = sw s \<and> content (sr s') = (content (sr s))(p := None)"
    and delete_err: "b_delete B p s = (Inl e, s') \<Longrightarrow> sw s' = sw s \<and> (\<forall>q. q \<noteq> p \<longrightarrow> content (sr s') q = content (sr s) q)"

section \<open>Steps on a site\<close>

type_synonym ('r, 'a) sitem = "('r site, err, 'a) sem"

definition on_world :: "'a app \<Rightarrow> ('r, 'a) sitem" where
  "on_world m s = (case m (sw s) of (r, w) \<Rightarrow> (r, s\<lparr>sw := w\<rparr>))"

abbreviation on_db :: "'a dbm \<Rightarrow> ('r, 'a) sitem" where
  "on_db m \<equiv> on_world (db_op m)"

definition on_backend :: "('r, 'a) bkm \<Rightarrow> ('r, 'a) sitem" where
  "on_backend m s = (case m s of (Inl e, s') \<Rightarrow> (Inl (SyncErr e), s') | (Inr a, s') \<Rightarrow> (Inr a, s'))"

lemma on_world_run [run_simps]: "on_world m s = (fst (m (sw s)), s\<lparr>sw := snd (m (sw s))\<rparr>)"
  by (simp add: on_world_def split: prod.split)

lemma on_world_state [simp]: "sr (snd (on_world m s)) = sr s" "sw (snd (on_world m s)) = snd (m (sw s))"
  by (simp_all add: on_world_run)

lemma on_backend_state [simp]: "snd (on_backend m s) = snd (m s)"
  by (simp add: on_backend_def split: prod.split sum.split)

lemma on_backend_Inr: "on_backend m s = (Inr a, s') \<longleftrightarrow> m s = (Inr a, s')"
  by (cases "m s") (auto simp: on_backend_def split: sum.splits)

lemma on_world_Inr: "on_world m s = (Inr a, s') \<longleftrightarrow> (\<exists>w. m (sw s) = (Inr a, w) \<and> s' = s\<lparr>sw := w\<rparr>)"
  by (cases "m (sw s)") (auto simp: on_world_run)

section \<open>The in-memory backend\<close>

record mock =
  m_files              :: "(path \<times> remote_metadata \<times> bytes) list"
  m_fail_paths         :: "path list"
  m_download_not_found :: "path list"
  m_delta_enabled      :: bool
  m_pending_changes    :: "remote_change list"
  m_change_token       :: nat
  m_delta_error        :: "sync_error option"

definition mock_get :: "path \<Rightarrow> mock \<Rightarrow> (remote_metadata \<times> bytes) option" where
  "mock_get p r = map_of (m_files r) p"

definition mock_put :: "path \<Rightarrow> remote_metadata \<times> bytes \<Rightarrow> mock \<Rightarrow> mock" where
  "mock_put p f r = r\<lparr>m_files := (p, f) # filter (\<lambda>e. fst e \<noteq> p) (m_files r)\<rparr>"

definition mock_drop :: "path \<Rightarrow> mock \<Rightarrow> mock" where
  "mock_drop p r = r\<lparr>m_files := filter (\<lambda>e. fst e \<noteq> p) (m_files r)\<rparr>"

lemma map_of_filter_key: "map_of (filter (\<lambda>e. fst e \<noteq> p) xs) q = (if q = p then None else map_of xs q)"
  by (induction xs) auto

lemma mock_get_simps [simp]:
  "mock_get q (mock_put p f r) = (if q = p then Some f else mock_get q r)"
  "mock_get q (mock_drop p r) = (if q = p then None else mock_get q r)"
  by (simp_all add: mock_get_def mock_put_def mock_drop_def map_of_filter_key)

definition now_of :: "world \<Rightarrow> system_time" where
  "now_of w = from_unix (clock (wdb w))"

text \<open>The metadata the backend gives new content; \<open>file_name().unwrap()\<close> panics on a path without a last component.\<close>

definition mock_meta :: "world \<Rightarrow> path \<Rightarrow> bytes \<Rightarrow> string option \<Rightarrow> remote_metadata option" where
  "mock_meta w p b item =
     map_option (\<lambda>n. \<lparr> rm_path = p, rm_name = n, rm_size = length b, rm_mtime = now_of w, rm_is_dir = False,
         rm_etag = Some (''mock-'' @ nat_to_string (length b)), rm_checksum = None, rm_mime_type = None, rm_item_id = item \<rparr>)
       (path_file_name p)"

definition seed_file_with_id :: "world \<Rightarrow> path \<Rightarrow> bytes \<Rightarrow> string option \<Rightarrow> mock \<Rightarrow> mock option" where
  "seed_file_with_id w p b item r = map_option (\<lambda>m. mock_put p (m, b) r) (mock_meta w p b item)"

definition modify_file :: "world \<Rightarrow> path \<Rightarrow> bytes \<Rightarrow> mock \<Rightarrow> mock" where
  "modify_file w p b r = (case mock_get p r of
       None \<Rightarrow> r
     | Some (m, _) \<Rightarrow> mock_put p (m\<lparr>rm_size := length b, rm_etag := Some (''mock-'' @ nat_to_string (length b)),
                                     rm_mtime := now_of w\<rparr>, b) r)"

definition mock_stat :: "path \<Rightarrow> (mock, remote_metadata) bkm" where
  "mock_stat p s =
     (if p \<in> set (m_fail_paths (sr s)) then (Inl (Transient (''mock fail: '' @ p)), s)
      else case mock_get p (sr s) of Some (m, _) \<Rightarrow> (Inr m, s) | None \<Rightarrow> (Inl (NotFound p), s))"

definition mock_list :: "path \<Rightarrow> (mock, remote_metadata list) bkm" where
  "mock_list _ s = (Inr (map (\<lambda>(_, m, _). m) (m_files (sr s))), s)"

definition io_sync :: "'a app \<Rightarrow> ('r, 'a) bkm" where
  "io_sync m s = (case m (sw s) of (Inl _, w) \<Rightarrow> (Inl (IoError ''io error''), s\<lparr>sw := w\<rparr>) | (Inr a, w) \<Rightarrow> (Inr a, s\<lparr>sw := w\<rparr>))"

definition mock_panic :: sync_error where
  "mock_panic = OtherError ''panicked''"

definition mock_download :: "path \<Rightarrow> path \<Rightarrow> (mock, unit) bkm" where
  "mock_download remote local =
     bindS (query (\<lambda>s. (remote \<in> set (m_download_not_found (sr s)), mock_get remote (sr s)))) (\<lambda>(bad, f).
       case (bad, f) of
         (False, Some (_, d)) \<Rightarrow>
           (case path_parent local of
              None \<Rightarrow> raise mock_panic
            | Some dir \<Rightarrow> thenS (io_sync (create_dir_all dir)) (io_sync (write_file local d)))
       | _ \<Rightarrow> raise (NotFound remote))"

definition mock_download_range :: "path \<Rightarrow> nat \<Rightarrow> nat \<Rightarrow> (mock, bytes) bkm" where
  "mock_download_range remote offset len s =
     (if remote \<in> set (m_download_not_found (sr s)) then (Inl (NotFound remote), s)
      else case mock_get remote (sr s) of
        None \<Rightarrow> (Inl (NotFound remote), s)
      | Some (_, d) \<Rightarrow>
          (let start = min offset (length d); stop = min (offset + len) (length d)
           in (Inr (take (stop - start) (drop start d)), s)))"

definition mock_upload :: "path \<Rightarrow> path \<Rightarrow> string option \<Rightarrow> (mock, remote_metadata) bkm" where
  "mock_upload local remote if_match =
     bindS (io_sync (read_file local)) (\<lambda>d.
     bindS (query (\<lambda>s. mock_meta (sw s) remote d None)) (\<lambda>m.
       case m of
         None \<Rightarrow> raise mock_panic
       | Some meta \<Rightarrow> thenS (modifyS (\<lambda>s. s\<lparr>sr := mock_put remote (meta, d) (sr s)\<rparr>)) (ret meta)))"

definition mock_delete :: "path \<Rightarrow> (mock, unit) bkm" where
  "mock_delete p = modifyS (\<lambda>s. s\<lparr>sr := mock_drop p (sr s)\<rparr>)"

definition mock_rename :: "path \<Rightarrow> path \<Rightarrow> (mock, unit) bkm" where
  "mock_rename from to = modifyS (\<lambda>s. case mock_get from (sr s) of
       None \<Rightarrow> s | Some f \<Rightarrow> s\<lparr>sr := mock_put to f (mock_drop from (sr s))\<rparr>)"

definition mock_changes_since :: "string \<Rightarrow> (mock, remote_change list \<times> string) bkm" where
  "mock_changes_since _ s =
     (let r = sr s in case m_delta_error r of
        Some e \<Rightarrow> (Inl e, s\<lparr>sr := r\<lparr>m_delta_error := None\<rparr>\<rparr>)
      | None \<Rightarrow> (let n = m_change_token r + 1 in
          (Inr (m_pending_changes r, ''mock-token-'' @ nat_to_string n),
           s\<lparr>sr := r\<lparr>m_pending_changes := [], m_change_token := n\<rparr>\<rparr>)))"

definition mock_backend :: "mock backend" where
  "mock_backend = \<lparr> b_stat = mock_stat, b_download = mock_download, b_upload = mock_upload, b_delete = mock_delete \<rparr>"

definition mock_content :: "mock \<Rightarrow> path \<Rightarrow> bytes option" where
  "mock_content r p = map_option snd (mock_get p r)"

definition empty_mock :: mock where
  "empty_mock = \<lparr> m_files = [], m_fail_paths = [], m_download_not_found = [], m_delta_enabled = False,
     m_pending_changes = [], m_change_token = 0, m_delta_error = None \<rparr>"

subsection \<open>It fulfils the contract\<close>

lemma others_kept_refl [simp]: "others_kept p w w"
  by (simp add: others_kept_def)

lemma io_sync_run: "io_sync m s = (case fst (m (sw s)) of Inl _ \<Rightarrow> Inl (IoError ''io error'') | Inr a \<Rightarrow> Inr a, s\<lparr>sw := snd (m (sw s))\<rparr>)"
  by (simp add: io_sync_def split: prod.split sum.split)

lemma create_dir_kept: "others_kept p w (snd (create_dir_all d w))"
  by (auto simp: create_dir_all_def others_kept_def split: option.splits node.splits)

lemma write_file_kept: "others_kept p w (snd (write_file p b w))"
  by (auto simp: write_file_def others_kept_def)

lemma others_kept_trans: "\<lbrakk>others_kept p w w1; others_kept p w1 w2\<rbrakk> \<Longrightarrow> others_kept p w w2"
  by (simp add: others_kept_def)

lemma mock_write:
  assumes "thenS (io_sync (create_dir_all dir)) (io_sync (write_file l d)) s = (r, s')"
  shows "sr s' = sr s \<and> others_kept l (sw s) (sw s') \<and> (r = Inr () \<longrightarrow> disk (sw s') l = Some (Regular d))"
proof (cases "create_dir_all dir (sw s)")
  case (Pair c w1)
  have k: "others_kept l (sw s) w1" using create_dir_kept [of l "sw s" dir] Pair by simp
  have k2: "others_kept l w1 (snd (write_file l d w1))" by (rule write_file_kept)
  show ?thesis
  proof (cases c)
    case (Inl e)
    with assms Pair k show ?thesis by (auto simp: run_then io_sync_run)
  next
    case (Inr u)
    with assms Pair have "(r, s') = io_sync (write_file l d) (s\<lparr>sw := w1\<rparr>)" by (simp add: run_then io_sync_run)
    with others_kept_trans [OF k k2] show ?thesis
      by (auto simp: io_sync_run write_file_def split: if_splits)
  qed
qed

lemma mock_download_cases:
  assumes "mock_download p l s = (r, s')"
  shows "sr s' = sr s \<and> others_kept l (sw s) (sw s')
     \<and> (r = Inr () \<longrightarrow> (\<exists>b. mock_content (sr s) p = Some b \<and> disk (sw s') l = Some (Regular b)))"
  using assms mock_write [of _ l _ s r s']
  by (auto simp: mock_download_def run_bind mock_content_def split: bool.splits option.splits)

lemma mock_upload_cases:
  assumes "mock_upload l p x s = (r, s')"
  shows "sw s' = sw s \<and> (case r of Inl _ \<Rightarrow> sr s' = sr s
     | Inr _ \<Rightarrow> \<exists>b. disk (sw s) l = Some (Regular b) \<and> mock_content (sr s') = (mock_content (sr s))(p \<mapsto> b))"
  using assms
  by (auto simp: mock_upload_def run_bind io_sync_run read_file_def fun_eq_iff mock_content_def run_then
      split: if_splits option.splits node.splits sum.splits)

interpretation mock: remote_store mock_backend mock_content
proof unfold_locales
  show "snd (b_stat mock_backend p s) = s" for p s
    by (simp add: mock_backend_def mock_stat_def split: option.split prod.split)
  show "\<exists>b. mock_content (sr s) p = Some b \<and> disk (sw s') l = Some (Regular b) \<and> sr s' = sr s \<and> others_kept l (sw s) (sw s')"
    if "b_download mock_backend p l s = (Inr (), s')" for p l s s'
    using mock_download_cases [of p l s _ s'] that by (simp add: mock_backend_def)
  show "sr s' = sr s \<and> others_kept l (sw s) (sw s')" if "b_download mock_backend p l s = (Inl e, s')" for p l s e s'
    using mock_download_cases [of p l s _ s'] that by (simp add: mock_backend_def)
  show "\<exists>b. disk (sw s) l = Some (Regular b) \<and> mock_content (sr s') = (mock_content (sr s))(p \<mapsto> b) \<and> sw s' = sw s"
    if "b_upload mock_backend l p x s = (Inr m, s')" for l p x s m s'
    using mock_upload_cases [of l p x s _ s'] that by (simp add: mock_backend_def)
  show "sw s' = sw s \<and> (\<forall>q. q \<noteq> p \<longrightarrow> mock_content (sr s') q = mock_content (sr s) q)"
    if "b_upload mock_backend l p x s = (Inl e, s')" for l p x s e s'
    using mock_upload_cases [of l p x s _ s'] that by (simp add: mock_backend_def)
qed (auto simp: mock_backend_def mock_delete_def mock_content_def)

end
