(* ===== verification/Content.thy ===== *)
theory Content
  imports Backend Upload_Queue
begin

text \<open>
  Comparison of files by content (\<open>stratosync-core/src/content.rs\<close>) and the
  three-way merge (\<open>stratosync-core/src/merge.rs\<close>).  The program \<open>git\<close> is outside
  the source: a parameter gives its outcome.  \<open>uniq\<close> is the process id and time
  that make a temporary name unique.
\<close>

section \<open>Temporary names\<close>

text \<open>\<open>Path::with_extension\<close>: the text after the stem of the last component is replaced.\<close>

definition with_extension :: "path \<Rightarrow> string \<Rightarrow> path" where
  "with_extension p0 ext =
     (let p = trim_end_matches (CHR ''/'') p0 in
      case path_file_name p of
        None \<Rightarrow> p0
      | Some f \<Rightarrow> take (length p - length f) p @ fst (split_file_at_dot f) @ ''.'' @ ext)"

definition unique_tmp_sibling :: "string \<Rightarrow> path \<Rightarrow> string \<Rightarrow> path" where
  "unique_tmp_sibling uniq base tag = with_extension base (''stratosync-'' @ tag @ ''-'' @ uniq)"

definition unique_tmp_in :: "string \<Rightarrow> path \<Rightarrow> string \<Rightarrow> path" where
  "unique_tmp_in uniq dir tag = path_join dir (tag @ ''-'' @ uniq)"

section \<open>Comparing two local files\<close>

function equal_from :: "bytes \<Rightarrow> bytes \<Rightarrow> nat \<Rightarrow> err + bool" where
  "equal_from a b remaining =
     (if remaining = 0 then Inr True
      else let chunk = min remaining 65536 in
        if length a < chunk \<or> length b < chunk then Inl IoOther
        else if take chunk a \<noteq> take chunk b then Inr False
        else equal_from (drop chunk a) (drop chunk b) (remaining - chunk))"
  by pat_completeness auto
termination by (relation "measure (\<lambda>(a, b, n). n)") auto

declare equal_from.simps [simp del]

definition files_equal :: "path \<Rightarrow> path \<Rightarrow> nat \<Rightarrow> bool app" where
  "files_equal a b n =
     bindS (read_file a) (\<lambda>x. bindS (read_file b) (\<lambda>y.
       case equal_from x y n of Inl e \<Rightarrow> raise e | Inr r \<Rightarrow> ret r))"

text \<open>
  The comparison by chunks is the comparison of the first \<open>n\<close> bytes, and it never
  reports files equal that are shorter.
\<close>

lemma equal_from_spec:
  "\<lbrakk>n \<le> length a; n \<le> length b\<rbrakk> \<Longrightarrow> equal_from a b n = Inr (take n a = take n b)"
proof (induction a b n rule: equal_from.induct)
  case (1 a b n)
  show ?case
  proof (cases "n = 0")
    case True
    then show ?thesis by (simp add: equal_from.simps)
  next
    case False
    define c where "c = min n 65536"
    have c: "c \<le> n" "0 < c" using False by (auto simp: c_def)
    have split: "take n x = take n y \<longleftrightarrow> take c x = take c y \<and> take (n - c) (drop c x) = take (n - c) (drop c y)"
      if "n \<le> length x" "n \<le> length y" for x y :: bytes
    proof -
      have "take n z = take c z @ take (n - c) (drop c z)" for z :: bytes
        using c(1) take_add [of c "n - c" z] by simp
      then show ?thesis using that c(1) by simp
    qed
    have ih: "equal_from (drop c a) (drop c b) (n - c) = Inr (take (n - c) (drop c a) = take (n - c) (drop c b))"
      if "take c a = take c b"
      using 1(1) [OF False c_def] 1(2,3) c that by auto
    have "equal_from a b n = (if take c a \<noteq> take c b then Inr False else equal_from (drop c a) (drop c b) (n - c))"
      using False 1(2,3) c(1) by (subst equal_from.simps) (simp add: Let_def c_def)
    then show ?thesis using ih split [OF 1(2,3)] by simp
  qed
qed

lemma equal_from_True: "equal_from a b n = Inr True \<Longrightarrow> n \<le> length a \<and> n \<le> length b \<and> take n a = take n b"
proof (induction a b n rule: equal_from.induct)
  case (1 a b n)
  show ?case
  proof (cases "n = 0")
    case False
    define c where "c = min n 65536"
    have c: "c \<le> n" by (simp add: c_def)
    have unf: "equal_from a b n = (if length a < c \<or> length b < c then Inl IoOther
        else if take c a \<noteq> take c b then Inr False else equal_from (drop c a) (drop c b) (n - c))"
      using False by (subst equal_from.simps) (simp only: Let_def c_def if_False)
    from 1(2) unf have k: "\<not> (length a < c \<or> length b < c)" "take c a = take c b"
      "equal_from (drop c a) (drop c b) (n - c) = Inr True" by (auto split: if_splits)
    have "n - c \<le> length (drop c a) \<and> n - c \<le> length (drop c b) \<and> take (n - c) (drop c a) = take (n - c) (drop c b)"
      using 1(1) [OF False c_def] k by auto
    then have l: "n \<le> length a" "n \<le> length b" and t: "take (n - c) (drop c a) = take (n - c) (drop c b)"
      using k(1) by auto
    have "take n z = take c z @ take (n - c) (drop c z)" for z :: bytes
      using c take_add [of c "n - c" z] by simp
    with k(2) t l show ?thesis by metis
  qed simp
qed

section \<open>Comparing with the remote\<close>

definition backend_text :: "err \<Rightarrow> string" where
  "backend_text e = (case e of SyncErr x \<Rightarrow> show_error x | _ \<Rightarrow> [])"

definition stat_or_bail :: "'r backend \<Rightarrow> path \<Rightarrow> ('r, remote_metadata) sitem" where
  "stat_or_bail B p =
     bindS (attempt (on_backend (b_stat B p))) (\<lambda>r. case r of
        Inr m \<Rightarrow> ret m
      | Inl e \<Rightarrow> raise (Bail (''stat '' @ p @ '': '' @ backend_text e)))"

definition local_eq_remote :: "'r backend \<Rightarrow> string \<Rightarrow> path \<Rightarrow> path \<Rightarrow> ('r, bool \<times> remote_metadata) sitem" where
  "local_eq_remote B uniq local remote =
     bindS (stat_or_bail B remote) (\<lambda>meta.
     bindS (on_world (file_len local)) (\<lambda>local_size.
       if local_size \<noteq> rm_size meta then ret (False, meta)
       else
         (let tmp = unique_tmp_sibling uniq local ''eq-check'' in
          bindS (attempt (on_backend (b_download B remote tmp))) (\<lambda>r. case r of
             Inl e \<Rightarrow> thenS (attempt (on_world (remove_file tmp)))
                        (raise (Bail (''download '' @ remote @ '': '' @ backend_text e)))
           | Inr _ \<Rightarrow>
               bindS (attempt (on_world (files_equal local tmp (rm_size meta)))) (\<lambda>equal.
                 thenS (attempt (on_world (remove_file tmp)))
                   (case equal of Inl e \<Rightarrow> raise e | Inr q \<Rightarrow> ret (q, meta)))))))"

datatype stat_eq_result = Equal | Different | Unknown

definition stat_remote_eq :: "'r backend \<Rightarrow> path \<Rightarrow> path \<Rightarrow> ('r, stat_eq_result) sitem" where
  "stat_remote_eq B a b =
     bindS (stat_or_bail B a) (\<lambda>ma. bindS (stat_or_bail B b) (\<lambda>mb.
       ret (if rm_size ma \<noteq> rm_size mb then Different
            else case (rm_etag ma, rm_etag mb) of
              (Some x, Some y) \<Rightarrow> if x = y then Equal else Different
            | _ \<Rightarrow> Unknown)))"

definition remote_eq_remote :: "'r backend \<Rightarrow> string \<Rightarrow> path \<Rightarrow> path \<Rightarrow> path \<Rightarrow> ('r, bool) sitem" where
  "remote_eq_remote B uniq a b work_dir =
     bindS (stat_or_bail B a) (\<lambda>ma. bindS (stat_or_bail B b) (\<lambda>mb.
       if rm_size ma \<noteq> rm_size mb then ret False
       else
         (let ta = unique_tmp_in uniq work_dir ''eq-a''; tb = unique_tmp_in uniq work_dir ''eq-b'' in
          thenS (attempt (on_world (create_dir_all work_dir)))
         (bindS (attempt (on_backend (b_download B a ta))) (\<lambda>da.
          bindS (attempt (on_backend (b_download B b tb))) (\<lambda>db.
          bindS (case (da, db) of
                   (Inr _, Inr _) \<Rightarrow> attempt (on_world (files_equal ta tb (rm_size ma)))
                 | (Inl e, _) \<Rightarrow> ret (Inl (Bail (''download '' @ a @ '': '' @ backend_text e)))
                 | (_, Inl e) \<Rightarrow> ret (Inl (Bail (''download '' @ b @ '': '' @ backend_text e)))) (\<lambda>result.
          thenS (attempt (on_world (remove_file ta)))
         (thenS (attempt (on_world (remove_file tb)))
            (case result of Inl e \<Rightarrow> raise e | Inr q \<Rightarrow> ret q)))))))))"

section \<open>Three-way merge\<close>

datatype git_outcome = GitFailed string | GitExit "int option" bytes string

datatype merge_outcome = Clean bytes | ConflictMarkers bytes | MergeFailed string

definition int_to_string :: "int \<Rightarrow> string" where
  "int_to_string i = (if i < 0 then ''-'' @ nat_to_string (nat (- i)) else nat_to_string (nat i))"

definition try_three_way_merge :: "(path \<Rightarrow> path \<Rightarrow> path \<Rightarrow> world \<Rightarrow> git_outcome) \<Rightarrow> path \<Rightarrow> path \<Rightarrow> path \<Rightarrow> world \<Rightarrow> merge_outcome" where
  "try_three_way_merge git base local remote w =
     (case git local base remote w of
        GitFailed m \<Rightarrow> MergeFailed (''git merge-file: '' @ m)
      | GitExit None _ _ \<Rightarrow> MergeFailed ''git merge-file killed by signal''
      | GitExit (Some c) stdout stderr \<Rightarrow>
          (if c = 0 then Clean stdout
           else if c = 1 then ConflictMarkers stdout
           else MergeFailed (''git merge-file exited '' @ int_to_string c @ '': '' @ stderr)))"

end
