(* ===== verification/Conflict.thy ===== *)
theory Conflict
  imports Content Hashes
begin

unbundle bit_operations_syntax

text \<open>
  The conflict resolver (\<open>stratosync-daemon/src/sync/conflict.rs\<close>): what runs when
  an upload finds that the remote file has changed.  The remote version wins the
  path and the local one is stored under a conflict name, unless both have the
  same content or a three-way merge succeeds.  The clock text and the unique
  suffix of temporary files are parameters; the merged base, which the source
  stores on a blocking thread, is stored in line.
\<close>

section \<open>Conflict names\<close>

definition fnv1a :: "bytes \<Rightarrow> 64 word" where
  "fnv1a bs = foldl (\<lambda>h b. (h XOR ucast b) * 0x100000001b3) 0xcbf29ce484222325 bs"

fun hex_digits :: "nat \<Rightarrow> nat list" where
  "hex_digits n = (if n < 16 then [n] else hex_digits (n div 16) @ [n mod 16])"

declare hex_digits.simps [simp del]

text \<open>\<open>format!("{:08x}", n)\<close>.\<close>

definition fmt_08x :: "nat \<Rightarrow> string" where
  "fmt_08x n = (let ds = map hex_char (hex_digits n) in replicate (8 - length ds) (CHR ''0'') @ ds)"

definition file_hash_prefix :: "path \<Rightarrow> world \<Rightarrow> string" where
  "file_hash_prefix p w =
     (case fst (read_file p w) of
        Inl _ \<Rightarrow> ''00000000''
      | Inr b \<Rightarrow> fmt_08x (unat (fnv1a (take 65536 b) AND 0xffffffff)))"

definition conflict_name :: "string \<Rightarrow> string \<Rightarrow> string \<Rightarrow> string" where
  "conflict_name original ts hash =
     (let stem = (case path_file_stem original of Some s \<Rightarrow> s | None \<Rightarrow> original)
      in case path_extension original of
           Some e \<Rightarrow> stem @ ''.conflict.'' @ ts @ ''.'' @ hash @ ''.'' @ e
         | None \<Rightarrow> stem @ ''.conflict.'' @ ts @ ''.'' @ hash)"

definition make_conflict_name :: "string \<Rightarrow> string \<Rightarrow> path \<Rightarrow> world \<Rightarrow> string" where
  "make_conflict_name ts original cache_path w = conflict_name original ts (file_hash_prefix cache_path w)"

definition parent_of :: "path \<Rightarrow> path" where
  "parent_of p = (case rsplit_once (CHR ''/'') p of Some (d, _) \<Rightarrow> d | None \<Rightarrow> [])"

definition sibling_path :: "path \<Rightarrow> string \<Rightarrow> path" where
  "sibling_path p new_name = (case rsplit_once (CHR ''/'') p of Some (d, _) \<Rightarrow> d @ ''/'' @ new_name | None \<Rightarrow> new_name)"

definition conflict_remote_path :: "path \<Rightarrow> string \<Rightarrow> path" where
  "conflict_remote_path p cname =
     (if parent_of p = [] then CONFLICT_PREFIX @ cname else CONFLICT_PREFIX @ parent_of p @ ''/'' @ cname)"

section \<open>Resolution\<close>

datatype conflict_strategy = KeepBoth | Merge

record 'r resolver =
  cf_backend  :: "'r backend"
  cf_sha      :: "bytes \<Rightarrow> string"
  cf_base_dir :: path
  cf_max_size :: nat
  cf_exts     :: "string list"
  cf_strategy :: conflict_strategy
  cf_has_git  :: bool
  cf_git      :: "path \<Rightarrow> path \<Rightarrow> path \<Rightarrow> world \<Rightarrow> git_outcome"
  cf_stamp    :: "'r site \<Rightarrow> string"
  cf_uniq     :: "'r site \<Rightarrow> string"

text \<open>Both sides have the same bytes: only the etag is refreshed.\<close>

definition refresh_etag :: "file_entry \<Rightarrow> path \<Rightarrow> remote_metadata \<Rightarrow> ('r, unit) sitem" where
  "refresh_etag entry cp meta =
     bindS (on_world (file_len cp)) (\<lambda>len.
       on_db (set_cached (fe_inode entry) cp len (rm_etag meta) (rm_mtime meta) (rm_size meta)))"

definition remote_tmp :: "path \<Rightarrow> path" where
  "remote_tmp cp = with_extension cp ''stratosync-remote-tmp''"

text \<open>The merge came out clean: it is written, uploaded and becomes the new base.\<close>

definition store_merge_base :: "'r resolver \<Rightarrow> file_entry \<Rightarrow> path \<Rightarrow> ('r, unit) sitem" where
  "store_merge_base R entry cp =
     bindS (attempt (on_world (store_base (cf_sha R) (cf_base_dir R) cp))) (\<lambda>r. case r of
        Inr hash \<Rightarrow> thenS (attempt (on_db (set_base_hash (fe_inode entry) (fe_mount_id entry) hash 0))) (ret ())
      | Inl _ \<Rightarrow> ret ())"

definition finish_clean :: "'r resolver \<Rightarrow> file_entry \<Rightarrow> path \<Rightarrow> bytes \<Rightarrow> ('r, unit) sitem" where
  "finish_clean R entry cp merged =
     thenS (on_world (write_file cp merged))
    (bindS (on_backend (b_upload (cf_backend R) cp (fe_remote_path entry) None)) (\<lambda>meta.
     thenS (on_db (set_cached (fe_inode entry) cp (length merged) (rm_etag meta) (rm_mtime meta) (rm_size meta)))
    (thenS (store_merge_base R entry cp)
    (thenS (attempt (on_world (remove_file (remote_tmp cp)))) (ret ())))))"

text \<open>The merge attempt: whether it has settled the conflict.\<close>

definition merge_with :: "'r resolver \<Rightarrow> file_entry \<Rightarrow> path \<Rightarrow> path \<Rightarrow> ('r, bool) sitem" where
  "merge_with R entry cp base_path =
     bindS (attempt (on_backend (b_download (cf_backend R) (fe_remote_path entry) (remote_tmp cp)))) (\<lambda>d. case d of
        Inl _ \<Rightarrow> ret False
      | Inr _ \<Rightarrow>
          bindS (query (\<lambda>s. try_three_way_merge (cf_git R) base_path cp (remote_tmp cp) (sw s))) (\<lambda>m. case m of
             Clean merged \<Rightarrow> thenS (finish_clean R entry cp merged) (ret True)
           | ConflictMarkers merged \<Rightarrow>
               thenS (on_world (write_file cp merged))
              (thenS (attempt (on_world (remove_file (remote_tmp cp)))) (ret False))
           | MergeFailed _ \<Rightarrow> thenS (attempt (on_world (remove_file (remote_tmp cp)))) (ret False)))"

definition try_merge :: "'r resolver \<Rightarrow> file_entry \<Rightarrow> path \<Rightarrow> ('r, bool) sitem" where
  "try_merge R entry cp =
     (if cf_has_git R \<and> cf_strategy R = Merge then
        bindS (on_db (get_base_hash (fe_inode entry) (fe_mount_id entry))) (\<lambda>h. case h of
           None \<Rightarrow> ret False
         | Some hash \<Rightarrow>
             (let base_path = object_path (cf_base_dir R) hash in
              bindS (query (\<lambda>s. objects (sw s) base_path \<noteq> None
                     \<and> is_text_mergeable cp (fe_size entry) (cf_max_size R) (cf_exts R) (sw s))) (\<lambda>can.
                if can then merge_with R entry cp base_path else ret False)))
      else ret False)"

definition conflict_row :: "file_entry \<Rightarrow> string \<Rightarrow> path \<Rightarrow> nat \<Rightarrow> system_time \<Rightarrow> string option \<Rightarrow> new_file_entry" where
  "conflict_row entry cname crem sz now etag =
     \<lparr> n_mount_id = fe_mount_id entry, n_parent = fe_parent entry, n_name = cname, n_remote_path = crem, n_kind = File,
       n_size = sz, n_mtime = now, n_etag = etag, n_status = Conflict, n_cache_path = None, n_cache_size = None \<rparr>"

text \<open>The database side of keeping both: the canonical row, then a row for the conflict file.\<close>

definition record_both :: "'r resolver \<Rightarrow> file_entry \<Rightarrow> path \<Rightarrow> string \<Rightarrow> path \<Rightarrow> nat \<Rightarrow> ('r, unit) sitem" where
  "record_both R entry cp cname crem len =
     bindS (attempt (on_backend (b_stat (cf_backend R) (fe_remote_path entry)))) (\<lambda>r.
     bindS (query (\<lambda>s. case r of Inr meta \<Rightarrow> meta
         | Inl _ \<Rightarrow> \<lparr> rm_path = fe_remote_path entry, rm_name = fe_name entry, rm_size = len, rm_mtime = now_of (sw s),
                     rm_is_dir = False, rm_etag = None, rm_checksum = None, rm_mime_type = None, rm_item_id = None \<rparr>)) (\<lambda>meta.
     thenS (on_db (set_cached (fe_inode entry) cp len (rm_etag meta) (rm_mtime meta) (rm_size meta)))
    (bindS (attempt (on_backend (b_stat (cf_backend R) crem))) (\<lambda>cm.
     bindS (query (\<lambda>s. now_of (sw s))) (\<lambda>now.
     thenS (on_db (insert_file (conflict_row entry cname crem
              (case cm of Inr m \<Rightarrow> rm_size m | Inl _ \<Rightarrow> len) now (case cm of Inr m \<Rightarrow> rm_etag m | Inl _ \<Rightarrow> None))))
       (ret ()))))))"

definition keep_both_as :: "'r resolver \<Rightarrow> file_entry \<Rightarrow> path \<Rightarrow> string \<Rightarrow> path \<Rightarrow> ('r, unit) sitem" where
  "keep_both_as R entry cp cname crem =
     thenS (on_backend (b_upload (cf_backend R) cp crem None))
    (thenS (on_backend (b_download (cf_backend R) (fe_remote_path entry) cp))
    (bindS (on_world (file_len cp)) (record_both R entry cp cname crem)))"

definition keep_both :: "'r resolver \<Rightarrow> file_entry \<Rightarrow> path \<Rightarrow> ('r, unit) sitem" where
  "keep_both R entry cp =
     bindS (query (\<lambda>s. make_conflict_name (cf_stamp R s) (fe_name entry) cp (sw s))) (\<lambda>cname.
       keep_both_as R entry cp cname (conflict_remote_path (fe_remote_path entry) cname))"

definition resolve :: "'r resolver \<Rightarrow> file_entry \<Rightarrow> ('r, unit) sitem" where
  "resolve R entry =
     (case fe_cache_path entry of
        None \<Rightarrow> ret ()
      | Some cp \<Rightarrow>
          bindS (query (cf_uniq R)) (\<lambda>u.
          bindS (attempt (local_eq_remote (cf_backend R) u cp (fe_remote_path entry))) (\<lambda>r.
          case r of
            Inr (True, meta) \<Rightarrow> refresh_etag entry cp meta
          | _ \<Rightarrow> bindS (try_merge R entry cp) (\<lambda>settled.
                   if settled then ret () else keep_both R entry cp))))"

end
