(* ===== verification/Conflict_Laws.thy ===== *)
theory Conflict_Laws
  imports Conflict Fuse_Download
begin

text \<open>
  What the conflict resolver guarantees against any backend that keeps the
  contract: the remote version of the file is never touched unless a merge
  replaces it, and the local version is never lost as long as git leaves no
  conflict markers.
\<close>

section \<open>Frames\<close>

text \<open>Steps on the daemon's own state do not touch the remote; database steps and reads touch no file.\<close>

lemma keeps_sr_world [keeps_rules]: "keeps (\<lambda>s. sr s = X) (on_world m)"
  by (simp add: keeps_def)

lemma keeps_disk_db [keeps_rules]: "keeps (\<lambda>s. disk (sw s) = D) (on_db m)"
  by (simp add: keeps_def on_world_run db_op_run)

lemma keeps_fault_db [keeps_rules]: "keeps (\<lambda>s. io_fault (sw s) = F) (on_db m)"
  by (simp add: keeps_def on_world_run db_op_run)

lemma keeps_disk_len [keeps_rules]: "keeps (\<lambda>s. disk (sw s) = D) (on_world (file_len p))"
  by (simp add: keeps_def on_world_run file_len_def run_bind read_file_def split: option.split node.split)

lemma file_len_run: "snd (file_len p w) = w" "fst (file_len p w) = Inr n \<longleftrightarrow> (\<exists>b. \<not> io_fault w p \<and> disk w p = Some (Regular b) \<and> n = length b)"
  by (auto simp: file_len_def run_bind read_file_def split: option.split node.split)

text \<open>A file with this content is at the path.\<close>

definition holds_file :: "path \<Rightarrow> bytes \<Rightarrow> 'r site \<Rightarrow> bool" where
  "holds_file p b s \<longleftrightarrow> disk (sw s) p = Some (Regular b)"

lemma holds_others: "\<lbrakk>others_kept q (sw s) (sw s'); q \<noteq> p; holds_file p b s\<rbrakk> \<Longrightarrow> holds_file p b s'"
  by (auto simp: others_kept_def holds_file_def)

lemma others_kept_remove: "others_kept p w (snd (remove_file p w))"
  by (auto simp: remove_file_def others_kept_def split: option.split node.split)

lemma holds_remove: "p \<noteq> q \<Longrightarrow> keeps (holds_file p b) (on_world (remove_file q))"
  by (rule keepsI, rule holds_others [OF _ not_sym]) (auto simp: others_kept_remove)

lemma holds_read [keeps_rules]: "keeps (holds_file p b) (on_world (files_equal q r n))" "keeps (holds_file p b) (on_world (file_len q))"
  by (auto simp: keeps_def on_world_run files_equal_def file_len_def run_bind read_file_def holds_file_def
      split: option.split node.split sum.split)

lemma holds_db [keeps_rules]: "keeps (holds_file p b) (on_db m)"
  by (simp add: keeps_def holds_file_def on_world_run db_op_run)

lemma holds_store_base [keeps_rules]: "keeps (holds_file p b) (on_world (store_base sha d q))"
proof (rule keepsI)
  fix s :: "'r site" assume "holds_file p b s"
  with store_base_cases [of sha d q "sw s"] show "holds_file p b (snd (on_world (store_base sha d q) s))"
    by (auto simp: holds_file_def on_world_run)
qed

lemma holds_write:
  "holds_file p b s \<Longrightarrow> on_world (write_file p c) s = (r, s') \<Longrightarrow>
     holds_file p c s' \<and> r = Inr () \<or> holds_file p b s' \<and> s' = s \<and> r \<noteq> Inr ()"
  by (auto simp: on_world_run write_file_def holds_file_def split: if_splits)

context remote_store
begin

lemma stat_keeps [keeps_rules]: "keeps I (on_backend (b_stat B p))"
  by (simp add: keeps_def stat_pure)

lemma download_sr [keeps_rules]: "keeps (\<lambda>s. sr s = X) (on_backend (b_download B p l))"
proof (rule keepsI)
  fix s :: "'r site" assume "sr s = X"
  obtain r s' where "b_download B p l s = (r, s')" by fastforce
  with \<open>sr s = X\<close> show "sr (snd (on_backend (b_download B p l) s)) = X"
    using download_ok download_err by (cases r) fastforce+
qed

lemma download_holds: "l \<noteq> q \<Longrightarrow> keeps (holds_file q b) (on_backend (b_download B p l))"
proof (rule keepsI)
  fix s :: "'r site" assume l: "l \<noteq> q" and h: "holds_file q b s"
  obtain r s' where d: "b_download B p l s = (r, s')" by fastforce
  then have "others_kept l (sw s) (sw s')" using download_ok download_err by (cases r) fastforce+
  then show "holds_file q b (snd (on_backend (b_download B p l) s))" using holds_others l h d by simp
qed

lemma local_eq_remote_frame:
  "keeps (\<lambda>s. sr s = X) (local_eq_remote B u l p)"
  "unique_tmp_sibling u l ''eq-check'' \<noteq> q \<Longrightarrow> keeps (holds_file q b) (local_eq_remote B u l p)"
  unfolding local_eq_remote_def stat_or_bail_def Let_def
  by (intro keeps_rules stat_keeps download_sr download_holds holds_remove; simp)+

text \<open>Keeping both versions.\<close>

lemma keep_both_as_safe:
  assumes run: "keep_both_as R entry cp cname crem s = (r, s')" and R: "cf_backend R = B"
    and h: "holds_file cp b s" and ne: "crem \<noteq> fe_remote_path entry"
  shows "(\<forall>q. q \<noteq> crem \<longrightarrow> content (sr s') q = content (sr s) q)
     \<and> (holds_file cp b s' \<or> content (sr s') crem = Some b)
     \<and> (r = Inr () \<longrightarrow> content (sr s') crem = Some b
         \<and> (\<exists>rb. content (sr s) (fe_remote_path entry) = Some rb \<and> holds_file cp rb s'))"
proof (cases "b_upload B cp crem None s")
  case (Pair u s1)
  show ?thesis
  proof (cases u)
    case (Inl e)
    with run Pair R have "s' = s1" "r \<noteq> Inr ()"
      by (auto simp: keep_both_as_def Let_def run_then on_backend_def)
    with upload_err [of cp crem None s e s1] Pair Inl h show ?thesis by (auto simp: holds_file_def)
  next
    case (Inr m)
    from upload_ok [of cp crem None s m s1] Pair Inr h
    have c1: "content (sr s1) = (content (sr s))(crem \<mapsto> b)" and w1: "sw s1 = sw s" by (auto simp: holds_file_def)
    let ?rest = "bindS (on_world (file_len cp)) (record_both R entry cp cname crem)"
    have dec: "thenS (on_backend (b_download B (fe_remote_path entry) cp)) ?rest s1 = (r, s')"
      using run Pair Inr R by (simp add: keep_both_as_def run_then [of "on_backend (b_upload B cp crem None)"] on_backend_def)
    have ks: "keeps (\<lambda>x. sr x = X) ?rest" and kd: "keeps (holds_file cp c) ?rest" for X c
      unfolding record_both_def R by (intro keeps_rules stat_keeps)+
    have "sr s' = sr s1"
      using keepsE [OF keeps_then [OF download_sr ks] dec] by simp
    moreover have "\<exists>rb. content (sr s1) (fe_remote_path entry) = Some rb \<and> holds_file cp rb s'" if "r = Inr ()"
    proof -
      from dec that obtain s2 where d: "b_download B (fe_remote_path entry) cp s1 = (Inr (), s2)"
        and t: "?rest s2 = (r, s')" by (auto simp: then_Inr on_backend_Inr)
      from download_ok [OF d] obtain rb where "content (sr s1) (fe_remote_path entry) = Some rb" "holds_file cp rb s2"
        by (auto simp: holds_file_def)
      with keepsE [OF kd t] show ?thesis by blast
    qed
    ultimately show ?thesis using c1 ne by auto
  qed
qed

text \<open>Once the two transfers are done, both versions are in place whatever the database says.\<close>

lemma keep_both_as_moved:
  assumes R: "cf_backend R = B" and h: "holds_file cp b s" and ne: "crem \<noteq> fe_remote_path entry"
    and up: "b_upload B cp crem None s = (Inr m, s1)" and down: "b_download B (fe_remote_path entry) cp s1 = (Inr (), s2)"
    and s': "s' = snd (keep_both_as R entry cp cname crem s)"
  shows "content (sr s') = (content (sr s))(crem \<mapsto> b)
     \<and> (\<exists>rb. content (sr s) (fe_remote_path entry) = Some rb \<and> holds_file cp rb s')"
proof -
  let ?rest = "bindS (on_world (file_len cp)) (record_both R entry cp cname crem)"
  have s2: "s' = snd (?rest s2)" using up down R by (simp add: s' keep_both_as_def run_then on_backend_def)
  have ks: "keeps (\<lambda>x. sr x = X) ?rest" and kd: "keeps (holds_file cp c) ?rest" for X c
    unfolding record_both_def R by (intro keeps_rules stat_keeps)+
  from download_ok [OF down] obtain rb where rb: "content (sr s1) (fe_remote_path entry) = Some rb" "sr s2 = sr s1" "holds_file cp rb s2"
    by (auto simp: holds_file_def)
  have "sr s' = sr s1" using keepsD [OF ks rb(2)] s2 by simp
  moreover have "holds_file cp rb s'" using keepsD [OF kd rb(3)] s2 by simp
  ultimately show ?thesis using upload_ok [OF up] h rb(1) ne by (auto simp: holds_file_def)
qed

lemma upload_holds: "keeps (holds_file q b) (on_backend (b_upload B l p x))"
proof (rule keepsI)
  fix s :: "'r site" assume h: "holds_file q b s"
  obtain r s' where d: "b_upload B l p x s = (r, s')" by fastforce
  then have "sw s' = sw s" using upload_ok upload_err by (cases r) fastforce+
  then show "holds_file q b (snd (on_backend (b_upload B l p x) s))" using h d by (simp add: holds_file_def)
qed

lemma finish_clean_holds:
  assumes "finish_clean R entry cp merged s = (r, s')" "cf_backend R = B" "holds_file cp b s" "remote_tmp cp \<noteq> cp"
  shows "holds_file cp merged s' \<or> holds_file cp b s'"
proof -
  obtain r1 s1 where w: "on_world (write_file cp merged) s = (r1, s1)" by fastforce
  from holds_write [OF assms(3) w] show ?thesis
  proof
    assume ok: "holds_file cp merged s1 \<and> r1 = Inr ()"
    define rest where "rest = bindS (on_backend (b_upload B cp (fe_remote_path entry) None)) (\<lambda>meta.
     thenS (on_db (set_cached (fe_inode entry) cp (length merged) (rm_etag meta) (rm_mtime meta) (rm_size meta)))
    (thenS (store_merge_base R entry cp)
    (thenS (attempt (on_world (remove_file (remote_tmp cp)))) (ret ()))))"
    have rs: "rest s1 = (r, s')" using assms(1,2) w ok by (simp add: finish_clean_def run_then rest_def)
    have k: "keeps (holds_file cp merged) rest"
      unfolding rest_def store_merge_base_def
      by (intro keeps_rules upload_holds holds_remove [OF assms(4) [symmetric]])
    from keepsE [OF k rs] ok show ?thesis by blast
  next
    assume "holds_file cp b s1 \<and> s1 = s \<and> r1 \<noteq> Inr ()"
    with assms(1) w have "s' = s" by (cases r1) (auto simp: finish_clean_def run_then)
    with assms(3) show ?thesis by simp
  qed
qed

lemma merge_with_safe:
  assumes run: "merge_with R entry cp base s = (r, s')" and R: "cf_backend R = B" and h: "holds_file cp b s"
    and tmp: "remote_tmp cp \<noteq> cp"
    and quiet: "\<forall>l o' t w out err. cf_git R l o' t w \<noteq> GitExit (Some 1) out err"
  shows "(r = Inr False \<and> sr s' = sr s \<and> holds_file cp b s')
     \<or> (r \<noteq> Inr False \<and> (\<exists>w merged err. cf_git R cp base (remote_tmp cp) w = GitExit (Some 0) merged err
           \<and> (holds_file cp merged s' \<or> holds_file cp b s')))"
proof -
  obtain d s1 where d: "b_download B (fe_remote_path entry) (remote_tmp cp) s = (d, s1)" by fastforce
  have h1: "holds_file cp b s1" using keepsD [OF download_holds [OF tmp, where b = b and p = "fe_remote_path entry"] h] d by simp
  have sr1: "sr s1 = sr s" using keepsD [OF download_sr [where X = "sr s" and p = "fe_remote_path entry" and l = "remote_tmp cp"], of s] d by simp
  define m where "m = try_three_way_merge (cf_git R) base cp (remote_tmp cp) (sw s1)"
  show ?thesis
  proof (cases d)
    case (Inl e)
    with run d R h1 sr1 show ?thesis by (simp add: merge_with_def run_bind on_backend_def)
  next
    case (Inr u)
    show ?thesis
    proof (cases m)
      case (Clean merged)
      then obtain err where g: "cf_git R cp base (remote_tmp cp) (sw s1) = GitExit (Some 0) merged err"
        by (auto simp: m_def try_three_way_merge_def split: git_outcome.splits option.splits if_splits)
      obtain r2 s2 where f: "finish_clean R entry cp merged s1 = (r2, s2)" by fastforce
      from run d R Inr Clean f have "s' = s2" "r \<noteq> Inr False"
        by (auto simp: merge_with_def run_bind on_backend_def m_def run_then split: sum.splits)
      with finish_clean_holds [OF f R h1 tmp] g show ?thesis by blast
    next
      case (ConflictMarkers merged)
      with quiet show ?thesis
        by (auto simp: m_def try_three_way_merge_def split: git_outcome.splits option.splits if_splits)
    next
      case (MergeFailed x)
      with run d R Inr have "r = Inr False" "s' = snd (on_world (remove_file (remote_tmp cp)) s1)"
        by (auto simp: merge_with_def run_bind on_backend_def m_def run_then)
      with h1 sr1 keepsD [OF holds_remove [OF tmp [symmetric], of b] h1] show ?thesis by simp
    qed
  qed
qed

lemma try_merge_safe:
  assumes run: "try_merge R entry cp s = (r, s')" and R: "cf_backend R = B" and h: "holds_file cp b s"
    and tmp: "remote_tmp cp \<noteq> cp"
    and quiet: "\<forall>l o' t w out err. cf_git R l o' t w \<noteq> GitExit (Some 1) out err"
  shows "(r = Inr False \<and> sr s' = sr s \<and> holds_file cp b s')
     \<or> (r \<noteq> Inr False \<and> (\<exists>base w merged err. cf_git R cp base (remote_tmp cp) w = GitExit (Some 0) merged err
           \<and> (holds_file cp merged s' \<or> holds_file cp b s')))"
proof (cases "cf_has_git R \<and> cf_strategy R = Merge")
  case False
  with run h show ?thesis by (simp add: try_merge_def)
next
  case True
  obtain hs where g: "on_db (get_base_hash (fe_inode entry) (fe_mount_id entry)) s = (Inr hs, s)"
    by (simp add: on_world_run db_op_run get_base_hash_def)
  show ?thesis
  proof (cases "hs = None \<or> merge_with R entry cp (object_path (cf_base_dir R) (the hs)) s \<noteq> (r, s')")
    case True
    with \<open>cf_has_git R \<and> _\<close> run g h show ?thesis by (auto simp: try_merge_def run_bind Let_def split: option.splits if_splits)
  next
    case False
    then have "merge_with R entry cp (object_path (cf_base_dir R) (the hs)) s = (r, s')" by simp
    from merge_with_safe [OF this R h tmp quiet] show ?thesis by blast
  qed
qed

lemma conflict_path_apart: "\<not> prefix CONFLICT_PREFIX p \<Longrightarrow> conflict_remote_path q n \<noteq> p"
  by (auto simp: conflict_remote_path_def)

lemma resolve_safe:
  assumes run: "resolve R entry s = (r, s')" and R: "cf_backend R = B" and cp: "fe_cache_path entry = Some cp"
    and h: "holds_file cp b s" and tmp: "remote_tmp cp \<noteq> cp" and eqt: "unique_tmp_sibling (cf_uniq R s) cp ''eq-check'' \<noteq> cp"
    and rp: "\<not> prefix CONFLICT_PREFIX (fe_remote_path entry)"
    and quiet: "\<forall>l o' t w out err. cf_git R l o' t w \<noteq> GitExit (Some 1) out err"
  shows "(\<exists>base w merged err. cf_git R cp base (remote_tmp cp) w = GitExit (Some 0) merged err
            \<and> (holds_file cp merged s' \<or> holds_file cp b s'))
     \<or> content (sr s') (fe_remote_path entry) = content (sr s) (fe_remote_path entry)
       \<and> (holds_file cp b s' \<or>
           (\<exists>ts hash. content (sr s') (conflict_remote_path (fe_remote_path entry) (conflict_name (fe_name entry) ts hash)) = Some b
              \<and> (r = Inr () \<longrightarrow> (\<exists>rb. content (sr s) (fe_remote_path entry) = Some rb \<and> holds_file cp rb s'))))"
proof -
  obtain e s1 where e: "local_eq_remote B (cf_uniq R s) cp (fe_remote_path entry) s = (e, s1)" by fastforce
  have h1: "holds_file cp b s1" by (rule keepsE [OF local_eq_remote_frame(2) [OF eqt] e h])
  have sr1: "sr s1 = sr s" using keepsE [OF local_eq_remote_frame(1) e] by simp
  show ?thesis
  proof (cases "\<exists>meta. e = Inr (True, meta)")
    case True
    then obtain meta where "e = Inr (True, meta)" ..
    with run e cp R have rf: "refresh_etag entry cp meta s1 = (r, s')" by (simp add: resolve_def run_bind)
    have k: "keeps (holds_file cp b) (refresh_etag entry cp meta)" "keeps (\<lambda>x. sr x = sr s) (refresh_etag entry cp meta)"
      unfolding refresh_etag_def by (intro keeps_rules)+
    from keepsE [OF k(1) rf h1] keepsE [OF k(2) rf sr1] have "holds_file cp b s'" "sr s' = sr s" .
    then show ?thesis by simp
  next
    case False
    then have step: "bindS (try_merge R entry cp) (\<lambda>settled. if settled then ret () else keep_both R entry cp) s1 = (r, s')"
      using run e cp R by (auto simp: resolve_def run_bind [of "query _"] run_bind [of "attempt _"] split: sum.splits prod.splits bool.splits)
    obtain m s2 where m: "try_merge R entry cp s1 = (m, s2)" by fastforce
    from try_merge_safe [OF m R h1 tmp quiet] show ?thesis
    proof (elim disjE conjE)
      assume a: "m = Inr False" "sr s2 = sr s1" "holds_file cp b s2"
      define cname where "cname = make_conflict_name (cf_stamp R s2) (fe_name entry) cp (sw s2)"
      have "keep_both_as R entry cp cname (conflict_remote_path (fe_remote_path entry) cname) s2 = (r, s')"
        using step m a(1) by (simp add: run_bind [of "try_merge R entry cp"] keep_both_def cname_def)
      from keep_both_as_safe [OF this R a(3) conflict_path_apart [OF rp]] a(2) sr1 conflict_path_apart [OF rp]
      show ?thesis unfolding cname_def make_conflict_name_def by metis
    next
      assume b: "m \<noteq> Inr False"
        "\<exists>base w merged err. cf_git R cp base (remote_tmp cp) w = GitExit (Some 0) merged err \<and> (holds_file cp merged s2 \<or> holds_file cp b s2)"
      have "s' = s2" using step m b(1) by (auto simp: run_bind split: sum.splits if_splits)
      with b(2) show ?thesis by blast
    qed
  qed
qed

end

section \<open>The rows\<close>

lemma insert_file_row:
  assumes "insert_file e d = (Inr n, d')"
  shows "file_index d' = file_index d @ [(row_of_new 0 (Some (n_parent e)) e)\<lparr>r_inode := next_inode d\<rparr>]"
  using assms by (auto simp: insert_file_def exec_insert_auto_def run_then exec_insert_def end_statement_def split: if_splits)

lemma record_both_rows:
  assumes run: "record_both R entry cp cname crem len s = (Inr (), s')" and pure: "\<And>p x. snd (b_stat (cf_backend R) p x) = x"
    and wf: "db_wf (wdb (sw s))" and i: "fe_inode entry \<in> inodes (wdb (sw s))"
  shows "rows_of (fe_inode entry) (\<lambda>x. r_status x = Cached \<and> r_cache_path x = Some cp) (wdb (sw s'))
     \<and> (\<exists>x\<in>set (file_index (wdb (sw s'))). r_mount_id x = fe_mount_id entry \<and> r_parent x = Some (fe_parent entry)
          \<and> r_name x = cname \<and> r_remote_path x = crem \<and> r_status x = Conflict \<and> r_kind x = File)"
proof -
  define meta where "meta = (case fst (on_backend (b_stat (cf_backend R) (fe_remote_path entry)) s) of Inr meta \<Rightarrow> meta
         | Inl _ \<Rightarrow> \<lparr> rm_path = fe_remote_path entry, rm_name = fe_name entry, rm_size = len, rm_mtime = now_of (sw s),
                     rm_is_dir = False, rm_etag = None, rm_checksum = None, rm_mime_type = None, rm_item_id = None \<rparr>)"
  let ?sc = "set_cached (fe_inode entry) cp len (rm_etag meta) (rm_mtime meta) (rm_size meta)"
  obtain x d1 where sc0: "?sc (wdb (sw s)) = (x, d1)" by fastforce
  define s1 where "s1 = s\<lparr>sw := (sw s)\<lparr>wdb := d1\<rparr>\<rparr>"
  define cm where "cm = fst (on_backend (b_stat (cf_backend R) crem) s1)"
  define row where "row = conflict_row entry cname crem (case cm of Inr m \<Rightarrow> rm_size m | Inl _ \<Rightarrow> len) (now_of (sw s1))
      (case cm of Inr m \<Rightarrow> rm_etag m | Inl _ \<Rightarrow> None)"
  have "x = Inr () \<and> (\<exists>k. fst (insert_file row d1) = Inr k) \<and> s' = s1\<lparr>sw := (sw s1)\<lparr>wdb := snd (insert_file row d1)\<rparr>\<rparr>"
    using run sc0 unfolding record_both_def row_def cm_def
    by (auto simp: run_bind run_then on_world_run db_op_run pure meta_def [symmetric] s1_def split: sum.splits prod.splits)
  then obtain k where sc: "?sc (wdb (sw s)) = (Inr (), d1)" and ins: "insert_file row d1 = (Inr k, wdb (sw s'))"
    using sc0 by (cases "insert_file row d1") auto
  have rows1: "rows_of (fe_inode entry) (\<lambda>x. r_status x = Cached \<and> r_cache_path x = Some cp) d1"
    by (rule set_cached_rows [OF sc wf])
  have "keeps (has_row (\<lambda>r. r_inode r = fe_inode entry)) (set_cached (fe_inode entry) cp len (rm_etag meta) (rm_mtime meta) (rm_size meta))"
    by (intro keeps_rules)
  from keepsE [OF this sc] i have "fe_inode entry \<in> inodes d1" by (simp add: inodes_has_row)
  then have ne: "fe_inode entry \<noteq> next_inode d1" using next_inode_fresh(1) [of d1] by metis
  note new = insert_file_row [OF ins]
  have "db_wf (wdb (sw s'))" using keepsE [OF insert_file_wf ins] rows1 by (simp add: rows_of_def)
  moreover have "\<exists>x\<in>set (file_index (wdb (sw s'))). r_mount_id x = fe_mount_id entry \<and> r_parent x = Some (fe_parent entry)
      \<and> r_name x = cname \<and> r_remote_path x = crem \<and> r_status x = Conflict \<and> r_kind x = File"
    unfolding new by (simp add: row_of_new_def conflict_row_def row_def)
  ultimately show ?thesis using rows1 ne unfolding rows_of_def all_rows_def new by auto
qed

text \<open>When the database has room for the conflict row, recording succeeds.\<close>

lemma insert_file_ok:
  assumes "db_wf d" "n_parent e \<in> inodes d" "n_mount_id e \<in> mount_ids d" "trigger_ok ((row_of_new 0 (Some (n_parent e)) e)\<lparr>r_inode := next_inode d\<rparr>)"
    and "\<forall>r\<in>set (file_index d). r_mount_id r = n_mount_id e \<longrightarrow> r_remote_path r \<noteq> n_remote_path e \<and> (r_parent r = Some (n_parent e) \<longrightarrow> r_name r \<noteq> n_name e)"
  shows "fst (insert_file e d) = Inr (next_inode d)"
proof -
  let ?r = "(row_of_new 0 (Some (n_parent e)) e)\<lparr>r_inode := next_inode d\<rparr>"
  have u: "unique_ok (file_index d)" and f: "fk_ok d" using assms(1) by (simp_all add: db_wf_defs)
  have "unique_ok (file_index d @ [?r])"
    using u assms(5) next_inode_fresh(1) [of d] unfolding unique_ok_def
    by (auto simp: row_of_new_def)
  moreover have "fk_ok (d\<lparr>file_index := file_index d @ [?r], file_seq := max (file_seq d) (next_inode d)\<rparr>)"
    using f assms(2,3) by (auto simp: fk_ok_def list_all_iff row_refs_ok_def row_of_new_def split: option.splits)
  ultimately show ?thesis using assms(4)
    by (simp add: insert_file_def exec_insert_auto_def run_then exec_insert_def end_statement_def)
qed

abbreviation place :: "file_row \<Rightarrow> inode \<times> mount_id \<times> path \<times> inode option \<times> string" where
  "place r \<equiv> (r_inode r, r_mount_id r, r_remote_path r, r_parent r, r_name r)"

lemma map_place_update: "(\<And>r. place (f r) = place r) \<Longrightarrow> map place (update_rows p f xs) = map place xs"
  by (simp add: update_rows_def)

lemma exec_update_frame:
  "\<lbrakk>exec_update p f d = (x, d1); \<And>r. place (f r) = place r\<rbrakk>
   \<Longrightarrow> mounts d1 = mounts d \<and> map place (file_index d1) = map place (file_index d)"
  using map_place_update [of f p "file_index d"] by (auto simp: exec_update_def end_statement_def split: if_splits)

lemma touch_lru_frame: "mounts (snd (touch_lru i d)) = mounts d" "file_index (snd (touch_lru i d)) = file_index d"
  by (simp_all add: touch_lru_def run_bind exec_lru_upsert_def)

lemma set_cached_frame:
  assumes "set_cached i cp cs et mt sz d = (x, d1)"
  shows "mounts d1 = mounts d \<and> map place (file_index d1) = map place (file_index d)"
proof -
  let ?f = "\<lambda>r. r\<lparr>r_status := Cached, r_cache_path := Some cp, r_cache_size := Some cs, r_etag := et,
                      r_mtime := to_unix mt, r_size := sz, r_cache_mtime := Some (clock d)\<rparr>"
  obtain y d0 where u: "exec_update (\<lambda>r. r_inode r = i) ?f d = (y, d0)" by fastforce
  have "mounts d0 = mounts d \<and> map place (file_index d0) = map place (file_index d)"
    by (rule exec_update_frame [OF u]) simp
  moreover have "d1 = d0 \<or> d1 = snd (touch_lru i d0)"
    using assms u by (auto simp: set_cached_def run_then split: sum.splits)
  ultimately show ?thesis using touch_lru_frame [of i d0] by auto
qed

definition name_free :: "mount_id \<Rightarrow> inode \<Rightarrow> string \<Rightarrow> path \<Rightarrow> db \<Rightarrow> bool" where
  "name_free m p n rp d \<longleftrightarrow> (\<forall>r\<in>set (file_index d). r_mount_id r = m \<longrightarrow> r_remote_path r \<noteq> rp \<and> (r_parent r = Some p \<longrightarrow> r_name r \<noteq> n))"

lemma same_places:
  assumes "map place (file_index d1) = map place (file_index d)"
  shows "inodes d1 = inodes d" "name_free m p n rp d1 = name_free m p n rp d"
proof -
  have set_eq: "place ` set (file_index d1) = place ` set (file_index d)"
    using arg_cong [OF assms, of set] by (simp only: list.set_map)
  have "inodes x = fst ` (place ` set (file_index x))" for x by (simp add: image_image)
  then show "inodes d1 = inodes d" by (simp only: set_eq)
  have "name_free m p n rp x \<longleftrightarrow> (\<forall>y\<in>place ` set (file_index x). fst (snd y) = m \<longrightarrow>
      fst (snd (snd y)) \<noteq> rp \<and> (fst (snd (snd (snd y))) = Some p \<longrightarrow> snd (snd (snd (snd y))) \<noteq> n))" for x
    by (simp add: name_free_def)
  then show "name_free m p n rp d1 = name_free m p n rp d" by (simp only: set_eq)
qed

lemma record_both_ok:
  assumes pure: "\<And>p x. snd (b_stat (cf_backend R) p x) = x"
    and wf: "db_wf (wdb (sw s))" and i: "fe_inode entry \<in> inodes (wdb (sw s))" "fe_parent entry \<in> inodes (wdb (sw s))"
    and m: "fe_mount_id entry \<in> mount_ids (wdb (sw s))"
    and free: "name_free (fe_mount_id entry) (fe_parent entry) cname crem (wdb (sw s))"
  shows "fst (record_both R entry cp cname crem len s) = Inr ()"
proof -
  define meta where "meta = (case fst (on_backend (b_stat (cf_backend R) (fe_remote_path entry)) s) of Inr meta \<Rightarrow> meta
         | Inl _ \<Rightarrow> \<lparr> rm_path = fe_remote_path entry, rm_name = fe_name entry, rm_size = len, rm_mtime = now_of (sw s),
                     rm_is_dir = False, rm_etag = None, rm_checksum = None, rm_mime_type = None, rm_item_id = None \<rparr>)"
  let ?sc = "set_cached (fe_inode entry) cp len (rm_etag meta) (rm_mtime meta) (rm_size meta)"
  obtain d1 where sc: "?sc (wdb (sw s)) = (Inr (), d1)"
    using set_cached_ok [OF wf i(1)] by (metis prod.collapse)
  note fr = conjunct1 [OF set_cached_frame [OF sc]] conjunct2 [OF set_cached_frame [OF sc]]
  have "db_wf d1" using keepsE [OF set_cached_wf sc wf] .
  then have "fst (insert_file (conflict_row entry cname crem sz t et) d1) = Inr (next_inode d1)" for sz t et
    using free i(2) m unfolding same_places(2) [OF fr(2), symmetric] same_places(1) [OF fr(2), symmetric] fr(1) [symmetric]
    by (intro insert_file_ok) (auto simp: conflict_row_def row_of_new_def trigger_ok_def name_free_def)
  then show ?thesis
    using sc by (simp add: record_both_def run_bind run_then on_world_run db_op_run pure meta_def [symmetric] split: prod.splits)
qed

section \<open>What is promised\<close>

text \<open>
  C3: resolving a conflict against any backend that keeps its contract loses
  neither version, on the success path and on every error path, as long as git
  does not answer with conflict markers: unless git merged the two cleanly, the
  remote file keeps its content, and the local content is still in the cache or
  stored under a conflict name; when the resolution succeeds in the latter case
  the cache holds the remote content.
\<close>

theorem resolve_keeps_both_versions:
  assumes "remote_store (cf_backend R) content" "resolve R entry s = (r, s')"
    and "fe_cache_path entry = Some cp" "disk (sw s) cp = Some (Regular b)"
    and "remote_tmp cp \<noteq> cp" "unique_tmp_sibling (cf_uniq R s) cp ''eq-check'' \<noteq> cp"
    and "\<not> prefix CONFLICT_PREFIX (fe_remote_path entry)"
    and "\<forall>l o' t w out err. cf_git R l o' t w \<noteq> GitExit (Some 1) out err"
  shows "(\<exists>base w merged err. cf_git R cp base (remote_tmp cp) w = GitExit (Some 0) merged err
            \<and> disk (sw s') cp \<in> {Some (Regular merged), Some (Regular b)})
     \<or> content (sr s') (fe_remote_path entry) = content (sr s) (fe_remote_path entry)
       \<and> (disk (sw s') cp = Some (Regular b) \<or>
           (\<exists>ts hash. content (sr s') (conflict_remote_path (fe_remote_path entry) (conflict_name (fe_name entry) ts hash)) = Some b
              \<and> (r = Inr () \<longrightarrow> (\<exists>rb. content (sr s) (fe_remote_path entry) = Some rb \<and> disk (sw s') cp = Some (Regular rb)))))"
  using remote_store.resolve_safe [OF assms(1,2) refl assms(3) _ assms(5-8)] assms(4)
  unfolding holds_file_def by auto


end
