(* ===== verification/Conflict_Cases.thy ===== *)
theory Conflict_Cases
  imports Conflict_Laws
begin

unbundle bit_operations_syntax

text \<open>
  The conflict resolver on a concrete site with the in-memory backend: that the
  promises can be met, and what happens to the local version when git answers
  with conflict markers.
\<close>

section \<open>A text file in conflict\<close>

definition text_row :: file_row where
  "text_row = sample_row 3 (Some 2) ''a.txt'' ''d/a.txt'' File Dirty (Some ''/c/d/a.txt'') None"

abbreviation text_entry :: file_entry where
  "text_entry \<equiv> row_to_entry text_row"

text \<open>The local version is \<open>[1, 2]\<close>, the remote one \<open>[9]\<close>, and there is a base version.\<close>

definition text_world :: world where
  "text_world = sample_world\<lparr>
     wdb := sample_db\<lparr>file_index := [sample_row 1 None ''/'' ''/'' Directory Cached None None,
                    sample_row 2 (Some 1) ''d'' ''d'' Directory Remote None None, text_row],
              base_versions := [\<lparr> b_inode = 3, b_mount_id = 1, b_object_hash = ''ab01'', b_file_size = 0, b_updated_at = 0 \<rparr>]\<rparr>,
     disk := [''/c/d/a.txt'' \<mapsto> Regular [1, 2], ''/c/d'' \<mapsto> Dir], objects := [object_path ''/b'' ''ab01'' \<mapsto> [3]]\<rparr>"

definition text_site :: "mock site" where
  "text_site = \<lparr> sw = text_world,
     sr = empty_mock\<lparr>m_files := [(''d/a.txt'', (sample_meta ''d/a.txt'' ''a.txt'' 1 None), [9])]\<rparr> \<rparr>"

text \<open>A resolver whose git exits with the given code and the given output.\<close>

definition text_resolver :: "int \<Rightarrow> mock resolver" where
  "text_resolver c = \<lparr> cf_backend = mock_backend, cf_sha = (\<lambda>_. ''cd02''), cf_base_dir = ''/b'', cf_max_size = 100,
     cf_exts = [''txt''], cf_strategy = Merge, cf_has_git = True, cf_git = (\<lambda>_ _ _ _. GitExit (Some c) [7, 7] []),
     cf_stamp = (\<lambda>_. ''T''), cf_uniq = (\<lambda>_. ''u'') \<rparr>"

lemma text_resolver_simps [simp]:
  "cf_backend (text_resolver c) = mock_backend" "cf_uniq (text_resolver c) = (\<lambda>_. ''u'')"
  "cf_git (text_resolver c) = (\<lambda>_ _ _ _. GitExit (Some c) [7, 7] [])"
  by (simp_all add: text_resolver_def)

lemma text_row_simps [simp]:
  "r_inode text_row = 3" "r_mount_id text_row = 1" "r_parent text_row = Some 2" "r_name text_row = ''a.txt''"
  "r_remote_path text_row = ''d/a.txt''" "r_size text_row = 10" "r_cache_path text_row = Some ''/c/d/a.txt''"
  by (simp_all add: text_row_def sample_row_def)

lemma text_entry_parent [simp]: "fe_parent text_entry = 2"
  by (simp add: row_to_entry_def)

lemma text_names:
  "remote_tmp ''/c/d/a.txt'' = ''/c/d/a.stratosync-remote-tmp''"
  "unique_tmp_sibling ''u'' ''/c/d/a.txt'' ''eq-check'' = ''/c/d/a.stratosync-eq-check-u''"
  "path_parent ''/c/d/a.txt'' = Some ''/c/d''" "path_parent ''/c/d/a.stratosync-remote-tmp'' = Some ''/c/d''"
  by code_simp+

definition local_site :: "bytes \<Rightarrow> mock site" where
  "local_site b = text_site\<lparr>sw := text_world\<lparr>disk := [''/c/d/a.txt'' \<mapsto> Regular b, ''/c/d'' \<mapsto> Dir]\<rparr>\<rparr>"

lemma text_site_local: "text_site = local_site [1, 2]"
  by (simp add: local_site_def text_site_def text_world_def)

lemma local_site_simps [simp]:
  "disk (sw (local_site b)) = [''/c/d/a.txt'' \<mapsto> Regular b, ''/c/d'' \<mapsto> Dir]" "wdb (sw (local_site b)) = wdb text_world"
  "io_fault (sw (local_site b)) p = False" "objects (sw (local_site b)) = objects text_world"
  "sr (local_site b) = sr text_site" "(local_site b)\<lparr>sw := w\<rparr> = text_site\<lparr>sw := w\<rparr>"
  by (simp_all add: local_site_def text_world_def sample_world_def)

lemma local_hash: "file_hash_prefix ''/c/d/a.txt'' (sw (local_site b)) = fmt_08x (unat (fnv1a (take 65536 b) AND 0xffffffff))"
  by (simp add: file_hash_prefix_def read_file_def)

lemma hash_12: "fmt_08x (unat (fnv1a [1, 2] AND 0xffffffff)) = ''b4e8902a''"
proof -
  have f: "fnv1a [1, 2] = 589729691727335466" by (simp add: fnv1a_def)
  have u: "unat (fnv1a [1, 2] AND 0xffffffff) = 3035140138" unfolding f by simp
  show ?thesis unfolding u by (simp add: fmt_08x_def hex_digits.simps hex_char_def) code_simp
qed

lemma hash_77: "fmt_08x (unat (fnv1a [7, 7] AND 0xffffffff)) = ''b4e2bdf3''"
proof -
  have f: "fnv1a [7, 7] = 587808844913229299" by (simp add: fnv1a_def)
  have u: "unat (fnv1a [7, 7] AND 0xffffffff) = 3034758643" unfolding f by simp
  show ?thesis unfolding u by (simp add: fmt_08x_def hex_digits.simps hex_char_def) code_simp
qed

lemma text_db_wf: "db_wf (wdb text_world)"
  by (simp add: text_world_def sample_db_def sample_row_def text_row_def db_wf_defs empty_db_def unique_ok_def fk_ok_def row_refs_ok_def trigger_ok_def
     del: One_nat_def)

lemma text_upload:
  assumes "path_file_name crem \<noteq> None"
  shows "\<exists>m. mock_upload ''/c/d/a.txt'' crem None (local_site b) = (Inr m, (local_site b)\<lparr>sr := mock_put crem (m, b) (sr text_site)\<rparr>)"
  using assms by (auto simp: mock_upload_def run_bind io_sync_run read_file_def mock_meta_def run_then local_site_def text_world_def sample_world_def)

lemma text_download:
  assumes "l \<in> {''/c/d/a.txt'', ''/c/d/a.stratosync-remote-tmp''}" "mock_content r ''d/a.txt'' = Some d" "m_download_not_found r = []"
  shows "mock_download ''d/a.txt'' l ((local_site b)\<lparr>sr := r\<rparr>)
     = (Inr (), (local_site b)\<lparr>sw := text_world\<lparr>disk := [''/c/d/a.txt'' \<mapsto> Regular b, ''/c/d'' \<mapsto> Dir, l \<mapsto> Regular d]\<rparr>, sr := r\<rparr>)"
  using assms
  by (auto simp: mock_download_def run_bind run_then io_sync_run text_names create_dir_all_def write_file_def mock_content_def local_site_def
     text_world_def sample_world_def split: option.splits)
theorem resolve_keeps_both_versions_witness:
  "let s' = snd (resolve (text_resolver 255) text_entry text_site) in
     disk (sw s') ''/c/d/a.txt'' = Some (Regular [1, 2])
     \<or> (\<exists>ts hash. mock_content (sr s') (conflict_remote_path ''d/a.txt'' (conflict_name ''a.txt'' ts hash)) = Some [1, 2])"
proof -
  obtain r s' where rs: "resolve (text_resolver 255) text_entry text_site = (r, s')" by fastforce
  have d: "disk (sw text_site) ''/c/d/a.txt'' = Some (Regular [1, 2])" by (simp add: text_site_def text_world_def)
  have "\<not> prefix CONFLICT_PREFIX (fe_remote_path text_entry)" by (simp add: CONFLICT_PREFIX_def)
  with resolve_keeps_both_versions [of "text_resolver 255" mock_content text_entry text_site r s' "''/c/d/a.txt''" "[1, 2]"]
    rs d mock.remote_store_axioms
  show ?thesis by (auto simp: text_names)
qed

lemma text_kept:
  assumes nm: "make_conflict_name ''T'' ''a.txt'' ''/c/d/a.txt'' (sw (local_site b)) = cname"
    and crem: "conflict_remote_path ''d/a.txt'' cname = crem" and fn: "path_file_name crem \<noteq> None" and cn: "cname \<noteq> ''a.txt''"
  shows "\<exists>s'. keep_both (text_resolver c) text_entry ''/c/d/a.txt'' (local_site b) = (Inr (), s')
     \<and> disk (sw s') ''/c/d/a.txt'' = Some (Regular [9]) \<and> mock_content (sr s') = [''d/a.txt'' \<mapsto> [9], crem \<mapsto> b]
     \<and> io_fault (sw s') = (\<lambda>_. False)"
proof -
  have pre: "prefix CONFLICT_PREFIX crem" using crem by (auto simp: conflict_remote_path_def)
  then have ne: "crem \<noteq> ''d/a.txt''" "crem \<noteq> ''/''" "crem \<noteq> ''d''" by (auto simp: CONFLICT_PREFIX_def)
  obtain m where up: "mock_upload ''/c/d/a.txt'' crem None (local_site b) = (Inr m, (local_site b)\<lparr>sr := mock_put crem (m, b) (sr text_site)\<rparr>)"
    using text_upload [OF fn] by blast
  let ?r = "mock_put crem (m, b) (sr text_site)"
  have mc: "mock_content ?r ''d/a.txt'' = Some [9]" "m_download_not_found ?r = []"
    using ne by (simp_all add: mock_content_def text_site_def mock_get_def mock_put_def empty_mock_def)
  note down = text_download [of "''/c/d/a.txt''", OF _ mc, of b, simplified]
  let ?s2 = "(local_site b)\<lparr>sw := text_world\<lparr>disk := [''/c/d/a.txt'' \<mapsto> Regular [9], ''/c/d'' \<mapsto> Dir]\<rparr>, sr := ?r\<rparr>"
  have down': "mock_download ''d/a.txt'' ''/c/d/a.txt'' ((local_site b)\<lparr>sr := ?r\<rparr>) = (Inr (), ?s2)"
    using down by (simp add: fun_upd_twist)
  have rec: "fst (record_both (text_resolver c) text_entry ''/c/d/a.txt'' cname crem len ?s2) = Inr ()" for len
    using mock.stat_pure text_db_wf ne cn
    by (intro record_both_ok) (auto simp: name_free_def text_world_def sample_db_def sample_row_def)
  have len: "on_world (file_len ''/c/d/a.txt'') ?s2 = (Inr 1, ?s2)"
    by (simp add: on_world_run file_len_def run_bind read_file_def text_world_def sample_world_def)
  have "keep_both (text_resolver c) text_entry ''/c/d/a.txt'' (local_site b)
      = record_both (text_resolver c) text_entry ''/c/d/a.txt'' cname crem 1 ?s2"
    using up down' len nm crem
    by (simp add: keep_both_def keep_both_as_def run_then run_bind on_backend_def mock_backend_def text_resolver_def)
  then obtain s' where s': "keep_both (text_resolver c) text_entry ''/c/d/a.txt'' (local_site b) = (Inr (), s')"
    and rb: "record_both (text_resolver c) text_entry ''/c/d/a.txt'' cname crem 1 ?s2 = (Inr (), s')"
    using rec by (metis prod.collapse)
  have "keeps (\<lambda>s. io_fault (sw s) = (\<lambda>_. False)) (record_both (text_resolver c) text_entry ''/c/d/a.txt'' cname crem 1)"
    unfolding record_both_def text_resolver_simps(1) by (intro keeps_rules mock.stat_keeps)
  from keepsE [OF this rb] have nf: "io_fault (sw s') = (\<lambda>_. False)" by (simp add: text_world_def sample_world_def)
  have "mock_content (sr s') = (mock_content (sr (local_site b)))(crem \<mapsto> b)
     \<and> (\<exists>rb. mock_content (sr (local_site b)) (fe_remote_path text_entry) = Some rb \<and> holds_file ''/c/d/a.txt'' rb s')"
    using up down' s' nm crem ne
    by (intro mock.keep_both_as_moved [where R = "text_resolver c" and cname = cname])
       (auto simp: mock_backend_def holds_file_def keep_both_def text_resolver_def)
  then show ?thesis using s' nf
    by (auto simp: holds_file_def mock_content_def mock_get_def text_site_def empty_mock_def fun_eq_iff)
qed

lemma local_name:
  "make_conflict_name ''T'' ''a.txt'' ''/c/d/a.txt'' (sw (local_site [1, 2])) = ''a.conflict.T.b4e8902a.txt''"
  "make_conflict_name ''T'' ''a.txt'' ''/c/d/a.txt'' (sw (local_site [7, 7])) = ''a.conflict.T.b4e2bdf3.txt''"
  unfolding make_conflict_name_def local_hash by (simp_all add: hash_12 hash_77) code_simp+

lemma local_paths:
  "conflict_remote_path ''d/a.txt'' ''a.conflict.T.b4e8902a.txt'' = ''.stratosync-conflicts/d/a.conflict.T.b4e8902a.txt''"
  "conflict_remote_path ''d/a.txt'' ''a.conflict.T.b4e2bdf3.txt'' = ''.stratosync-conflicts/d/a.conflict.T.b4e2bdf3.txt''"
  "path_file_name ''.stratosync-conflicts/d/a.conflict.T.b4e8902a.txt'' \<noteq> None"
  "path_file_name ''.stratosync-conflicts/d/a.conflict.T.b4e2bdf3.txt'' \<noteq> None"
  by code_simp+

lemma kept_12:
  "\<exists>s'. keep_both (text_resolver c) text_entry ''/c/d/a.txt'' text_site = (Inr (), s')
     \<and> disk (sw s') ''/c/d/a.txt'' = Some (Regular [9])
     \<and> mock_content (sr s') = [''d/a.txt'' \<mapsto> [9], ''.stratosync-conflicts/d/a.conflict.T.b4e8902a.txt'' \<mapsto> [1, 2]]
     \<and> io_fault (sw s') = (\<lambda>_. False)"
  unfolding text_site_local by (rule text_kept [OF local_name(1) local_paths(1,3)]) simp

lemma kept_77:
  "\<exists>s'. keep_both (text_resolver c) text_entry ''/c/d/a.txt'' (local_site [7, 7]) = (Inr (), s')
     \<and> disk (sw s') ''/c/d/a.txt'' = Some (Regular [9])
     \<and> mock_content (sr s') = [''d/a.txt'' \<mapsto> [9], ''.stratosync-conflicts/d/a.conflict.T.b4e2bdf3.txt'' \<mapsto> [7, 7]]
     \<and> io_fault (sw s') = (\<lambda>_. False)"
  by (rule text_kept [OF local_name(2) local_paths(2,4)]) simp


section \<open>Conflict markers\<close>

lemma text_compared: "local_eq_remote mock_backend u ''/c/d/a.txt'' ''d/a.txt'' text_site
    = (Inr (False, sample_meta ''d/a.txt'' ''a.txt'' 1 None), text_site)"
  by (simp add: local_eq_remote_def stat_or_bail_def run_bind on_backend_def mock_backend_def mock_stat_def text_site_def
      empty_mock_def mock_get_def on_world_run file_len_def read_file_def text_world_def sample_world_def sample_meta_def)

lemma text_mergeable: "is_text_mergeable ''/c/d/a.txt'' 10 100 [''txt''] text_world"
proof -
  have "path_extension ''/c/d/a.txt'' = Some ''txt''" "lower ''txt'' = ''txt''" by code_simp+
  then show ?thesis by (simp add: is_text_mergeable_def read_file_def text_world_def sample_world_def)
qed

lemma text_marked: "try_merge (text_resolver 1) text_entry ''/c/d/a.txt'' text_site = (Inr False, local_site [7, 7])"
proof -
  let ?base = "object_path ''/b'' ''ab01''" and ?tmp = "''/c/d/a.stratosync-remote-tmp''"
  have h: "get_base_hash 3 1 (wdb text_world) = (Inr (Some ''ab01''), wdb text_world)"
    by (simp add: get_base_hash_def kt_lookup_def base_key_def text_world_def)
  have d: "mock_download ''d/a.txt'' ?tmp text_site
      = (Inr (), text_site\<lparr>sw := text_world\<lparr>disk := [''/c/d/a.txt'' \<mapsto> Regular [1, 2], ''/c/d'' \<mapsto> Dir, ?tmp \<mapsto> Regular [9]]\<rparr>\<rparr>)"
    using text_download [of ?tmp "sr text_site" "[9]" "[1, 2]"]
    by (simp add: text_site_local [symmetric] mock_content_def text_site_def mock_get_def empty_mock_def)
  have "merge_with (text_resolver 1) text_entry ''/c/d/a.txt'' ?base text_site = (Inr False, local_site [7, 7])"
    by (simp add: merge_with_def run_bind run_then on_backend_def mock_backend_def text_names d try_three_way_merge_def
        on_world_run write_file_def remove_file_def local_site_def text_world_def sample_world_def fun_eq_iff fun_upd_def)
  moreover have "objects text_world ?base \<noteq> None" by (simp add: text_world_def)
  ultimately show ?thesis using h text_mergeable
    by (simp add: try_merge_def text_resolver_def run_bind on_world_run db_op_run text_site_def Let_def)
qed

text \<open>
  With conflict markers the local version is gone: the cache gets the markers,
  the markers are what is stored under the conflict name, and the download then
  replaces the cache by the remote version.
\<close>

theorem markers_lose_local_version:
  "\<exists>s'. resolve (text_resolver 1) text_entry text_site = (Inr (), s')
     \<and> disk (sw text_site) ''/c/d/a.txt'' = Some (Regular [1, 2]) \<and> disk (sw s') ''/c/d/a.txt'' = Some (Regular [9])
     \<and> (\<forall>q. mock_content (sr s') q \<noteq> Some [1, 2])
     \<and> mock_content (sr s') ''.stratosync-conflicts/d/a.conflict.T.b4e2bdf3.txt'' = Some [7, 7]"
proof -
  obtain s' where s': "keep_both (text_resolver 1) text_entry ''/c/d/a.txt'' (local_site [7, 7]) = (Inr (), s')"
    "disk (sw s') ''/c/d/a.txt'' = Some (Regular [9])"
    "mock_content (sr s') = [''d/a.txt'' \<mapsto> [9], ''.stratosync-conflicts/d/a.conflict.T.b4e2bdf3.txt'' \<mapsto> [7, 7]]"
    using kept_77 by blast
  have "resolve (text_resolver 1) text_entry text_site = (Inr (), s')"
    using s'(1) by (simp add: resolve_def run_bind text_compared text_marked)
  with s' show ?thesis by (auto simp: text_site_local)
qed

end
