(* ===== verification/Cli_Conflicts.thy ===== *)
theory Cli_Conflicts
  imports Conflict_Cases
begin

text \<open>
  The \<open>conflicts\<close> commands (\<open>stratosync-cli/src/commands/conflicts.rs\<close>): finding
  the conflict file of a path and the path of a conflict file, and settling a
  conflict by hand.  Reading the configuration, printing, the spinner and the
  \<open>diff\<close> program are left out; a command starts from the mount id and the path
  relative to the mount.
\<close>

section \<open>Pairs of files\<close>

abbreviation conflict_mark :: string where
  "conflict_mark \<equiv> ''.conflict.''"

text \<open>The name the conflict file was made from, as the command guesses it.\<close>

definition canonical_name :: "string \<Rightarrow> string option" where
  "canonical_name name =
     (case split_once_str conflict_mark name of
        None \<Rightarrow> None
      | Some (stem, _) \<Rightarrow>
          (let ext = last (split_on (CHR ''.'') name)
           in Some (if ext = [] \<or> ends_with stem (''.'' @ ext) then stem else stem @ ''.'' @ ext)))"

definition newest_first :: "file_row list \<Rightarrow> file_row list" where
  "newest_first = sort_key (\<lambda>r. - r_mtime r)"

definition sibling_inode :: "mount_id \<Rightarrow> file_entry \<Rightarrow> inode option dbm" where
  "sibling_inode m entry =
     query (\<lambda>s. map_option r_inode
       (if contains_str (fe_name entry) conflict_mark then
          (case canonical_name (fe_name entry) of
             None \<Rightarrow> None
           | Some n \<Rightarrow> find_row (\<lambda>r. r_mount_id r = m \<and> r_parent r = Some (fe_parent entry) \<and> r_name r = n) s)
        else
          (let stem = (case path_file_stem (fe_name entry) of Some x \<Rightarrow> x | None \<Rightarrow> fe_name entry);
               rows = filter (\<lambda>r. r_mount_id r = m \<and> r_parent r = Some (fe_parent entry)
                        \<and> sql_like (stem @ ''.conflict.%'') (r_name r)) (file_index s)
           in case newest_first rows of [] \<Rightarrow> None | r # _ \<Rightarrow> Some r)))"

definition find_conflict_sibling :: "mount_id \<Rightarrow> file_entry \<Rightarrow> file_entry option dbm" where
  "find_conflict_sibling m entry =
     bindS (sibling_inode m entry) (\<lambda>i. case i of None \<Rightarrow> ret None | Some j \<Rightarrow> get_by_inode j)"

definition normalize_conflict_roles :: "mount_id \<Rightarrow> file_entry \<Rightarrow> ('r, file_entry \<times> file_entry option) sitem" where
  "normalize_conflict_roles m entry =
     bindS (on_db (find_conflict_sibling m entry)) (\<lambda>other.
       if contains_str (fe_name entry) conflict_mark then
         (case other of
            None \<Rightarrow> raise (Bail (fe_name entry @ '' looks like a conflict file but its canonical entry could not be found in the database''))
          | Some canonical \<Rightarrow> ret (canonical, Some entry))
       else ret (entry, other))"

text \<open>The lookup by path: with a leading slash, without, and by name for a conflict file.\<close>

definition lookup_path :: "mount_id \<Rightarrow> path \<Rightarrow> ('r, file_entry) sitem" where
  "lookup_path m rel0 =
     (let rel = trim_start_matches (CHR ''/'') rel0;
          missing = Bail (''file not found in database: '' @ rel) in
      bindS (on_db (get_by_remote_path m (''/'' @ rel))) (\<lambda>a. case a of
         Some e \<Rightarrow> ret e
       | None \<Rightarrow>
           bindS (on_db (get_by_remote_path m rel)) (\<lambda>b. case b of
              Some e \<Rightarrow> ret e
            | None \<Rightarrow>
                (let name = (case path_file_name rel of Some n \<Rightarrow> n | None \<Rightarrow> rel) in
                 if contains_str name conflict_mark then
                   bindS (query (\<lambda>s. map_option r_inode (find_row (\<lambda>r. r_mount_id r = m \<and> r_name r = name) (wdb (sw s))))) (\<lambda>i.
                     case i of
                       None \<Rightarrow> raise missing
                     | Some j \<Rightarrow> bindS (on_db (get_by_inode j)) (\<lambda>e. case e of Some x \<Rightarrow> ret x | None \<Rightarrow> raise missing))
                 else raise missing))))"

definition resolve_path :: "mount_id \<Rightarrow> path \<Rightarrow> ('r, file_entry \<times> file_entry option) sitem" where
  "resolve_path m rel = bindS (lookup_path m rel) (normalize_conflict_roles m)"

text \<open>The filter with a set of seen values: first occurrences only.\<close>

definition first_seen :: "'a list \<Rightarrow> 'a list" where
  "first_seen xs = rev (remdups (rev xs))"

definition collect_conflict_entries :: "mount_id \<Rightarrow> file_entry list dbm" where
  "collect_conflict_entries m =
     query (\<lambda>s. List.map_filter (\<lambda>i. map_option row_to_entry (find_row (\<lambda>r. r_inode r = i) s))
       (first_seen (map r_inode (newest_first (filter (\<lambda>r. r_mount_id r = m
          \<and> (r_status r = Conflict \<or> sql_like ''%.conflict.%'' (r_name r))) (file_index s))))))"

section \<open>Settling by hand\<close>

definition finalize_resolution :: "'r backend \<Rightarrow> file_entry \<Rightarrow> file_entry option \<Rightarrow> path \<Rightarrow> ('r, unit) sitem" where
  "finalize_resolution B entry sibling cp =
     thenS (case sibling of
              None \<Rightarrow> ret ()
            | Some sib \<Rightarrow>
                thenS (bindS (attempt (on_backend (b_delete B (fe_remote_path sib)))) (\<lambda>r. case r of
                         Inl (SyncErr (NotFound _)) \<Rightarrow> ret ()
                       | Inl e \<Rightarrow> raise (Bail (''failed to delete conflict file '' @ fe_remote_path sib @ '': '' @ backend_text e))
                       | Inr _ \<Rightarrow> ret ()))
                  (on_db (delete_entry (fe_inode sib))))
    (bindS (on_backend (b_stat B (fe_remote_path entry))) (\<lambda>meta.
       on_db (set_cached (fe_inode entry) cp (rm_size meta) (rm_etag meta) (rm_mtime meta) (rm_size meta))))"

definition keep_local_at :: "'r backend \<Rightarrow> file_entry \<Rightarrow> file_entry option \<Rightarrow> ('r, unit) sitem" where
  "keep_local_at B entry sibling =
     (case fe_cache_path entry of
        None \<Rightarrow> raise (Bail (fe_name entry @ '' is not cached locally - use keep-remote instead''))
      | Some cp \<Rightarrow>
          bindS (query (\<lambda>s. path_exists cp (sw s))) (\<lambda>ex.
            if \<not> ex then raise (Bail (''local cache file missing: '' @ cp))
            else thenS (on_backend (b_upload B cp (fe_remote_path entry) None))
                   (finalize_resolution B entry sibling cp)))"

definition keep_local :: "'r backend \<Rightarrow> mount_id \<Rightarrow> path \<Rightarrow> ('r, unit) sitem" where
  "keep_local B m rel = bindS (resolve_path m rel) (\<lambda>(entry, sibling). keep_local_at B entry sibling)"

definition keep_remote_at :: "'r backend \<Rightarrow> path \<Rightarrow> file_entry \<Rightarrow> file_entry option \<Rightarrow> ('r, unit) sitem" where
  "keep_remote_at B cache_dir entry sibling =
     (let cp = (case fe_cache_path entry of Some p \<Rightarrow> p
                | None \<Rightarrow> path_join cache_dir (trim_start_matches (CHR ''/'') (fe_remote_path entry))) in
      thenS (case path_parent cp of Some d \<Rightarrow> on_world (create_dir_all d) | None \<Rightarrow> ret ())
     (thenS (on_backend (b_download B (fe_remote_path entry) cp))
        (finalize_resolution B entry sibling cp)))"

definition keep_remote :: "'r backend \<Rightarrow> path \<Rightarrow> mount_id \<Rightarrow> path \<Rightarrow> ('r, unit) sitem" where
  "keep_remote B cache_dir m rel = bindS (resolve_path m rel) (\<lambda>(entry, sibling). keep_remote_at B cache_dir entry sibling)"

definition merge_at :: "'r resolver \<Rightarrow> mount_id \<Rightarrow> file_entry \<Rightarrow> file_entry option \<Rightarrow> ('r, unit) sitem" where
  "merge_at R m entry sibling =
     (case fe_cache_path entry of
        None \<Rightarrow> raise (Bail (fe_name entry @ '' is not cached locally - use keep-remote instead''))
      | Some cp \<Rightarrow>
          (if \<not> cf_has_git R then raise (Bail ''git is required for merge but was not found in PATH'')
           else bindS (on_db (get_base_hash (fe_inode entry) m)) (\<lambda>h. case h of
              None \<Rightarrow> raise (Bail (''no base version available for '' @ fe_name entry))
            | Some hash \<Rightarrow>
                (let base_path = object_path (cf_base_dir R) hash; tmp = with_extension cp ''stratosync-merge-remote'' in
                 bindS (query (\<lambda>s. objects (sw s) base_path \<noteq> None)) (\<lambda>ex.
                   if \<not> ex then raise (Bail (''base version file missing (hash: '' @ hash @ '')''))
                   else
                     thenS (on_backend (b_download (cf_backend R) (fe_remote_path entry) tmp))
                    (bindS (query (\<lambda>s. try_three_way_merge (cf_git R) base_path cp tmp (sw s))) (\<lambda>o'. case o' of
                       Clean merged \<Rightarrow>
                         thenS (on_world (write_file cp merged))
                        (thenS (attempt (on_world (remove_file tmp)))
                        (thenS (on_backend (b_upload (cf_backend R) cp (fe_remote_path entry) None))
                        (thenS (finalize_resolution (cf_backend R) entry sibling cp)
                           (store_merge_base R (entry\<lparr>fe_mount_id := m\<rparr>) cp))))
                     | ConflictMarkers merged \<Rightarrow>
                         thenS (on_world (write_file cp merged)) (thenS (attempt (on_world (remove_file tmp))) (ret ()))
                     | MergeFailed reason \<Rightarrow>
                         thenS (attempt (on_world (remove_file tmp))) (raise (Bail (''merge failed: '' @ reason))))))))))"

definition merge_cmd :: "'r resolver \<Rightarrow> mount_id \<Rightarrow> path \<Rightarrow> ('r, unit) sitem" where
  "merge_cmd R m rel = bindS (resolve_path m rel) (\<lambda>(entry, sibling). merge_at R m entry sibling)"

section \<open>Cleaning up\<close>

record cleanup_stats =
  cs_checked :: nat
  cs_removed :: nat
  cs_kept    :: nat
  cs_skipped :: nat

datatype cleanup_verdict = Removed | Kept | Skip

definition count_verdict :: "cleanup_verdict \<Rightarrow> cleanup_stats \<Rightarrow> cleanup_stats" where
  "count_verdict v c = (let c' = c\<lparr>cs_checked := cs_checked c + 1\<rparr> in
     case v of Removed \<Rightarrow> c'\<lparr>cs_removed := cs_removed c' + 1\<rparr>
     | Kept \<Rightarrow> c'\<lparr>cs_kept := cs_kept c' + 1\<rparr>
     | Skip \<Rightarrow> c'\<lparr>cs_skipped := cs_skipped c' + 1\<rparr>)"

text \<open>Whether the conflict file has the content of the canonical one, from metadata or byte by byte.\<close>

definition same_content :: "'r backend \<Rightarrow> string \<Rightarrow> path \<Rightarrow> file_entry \<Rightarrow> file_entry \<Rightarrow> ('r, bool) sitem" where
  "same_content B uniq work_dir canonical sibling =
     bindS (query (\<lambda>s. case fe_cache_path canonical of
         Some cp \<Rightarrow> if path_exists cp (sw s) then Some cp else None | None \<Rightarrow> None)) (\<lambda>local.
       case local of
         Some cp \<Rightarrow> bindS (local_eq_remote B uniq cp (fe_remote_path sibling)) (\<lambda>(eq, _). ret eq)
       | None \<Rightarrow> remote_eq_remote B uniq (fe_remote_path canonical) (fe_remote_path sibling) work_dir)"

definition err_display :: "err \<Rightarrow> string" where
  "err_display e = (case e of Bail m \<Rightarrow> m | _ \<Rightarrow> [])"

definition remove_orphan :: "bool \<Rightarrow> file_entry \<Rightarrow> ('r, cleanup_verdict) sitem" where
  "remove_orphan dry_run sibling =
     (if dry_run then ret Removed
      else bindS (attempt (on_db (delete_entry (fe_inode sibling)))) (\<lambda>r.
        ret (case r of Inr _ \<Rightarrow> Removed | Inl _ \<Rightarrow> Skip)))"

definition remove_spurious :: "'r backend \<Rightarrow> bool \<Rightarrow> file_entry \<Rightarrow> ('r, cleanup_verdict) sitem" where
  "remove_spurious B dry_run sibling =
     (if dry_run then ret Removed
      else bindS (attempt (on_backend (b_delete B (fe_remote_path sibling)))) (\<lambda>d.
        if (case d of Inr _ \<Rightarrow> True | Inl (SyncErr (NotFound _)) \<Rightarrow> True | Inl _ \<Rightarrow> False)
        then bindS (attempt (on_db (delete_entry (fe_inode sibling)))) (\<lambda>r.
               ret (case r of Inr _ \<Rightarrow> Removed | Inl _ \<Rightarrow> Skip))
        else ret Skip))"

definition cleanup_one :: "'r backend \<Rightarrow> string \<Rightarrow> path \<Rightarrow> bool \<Rightarrow> mount_id \<Rightarrow> file_entry \<Rightarrow> ('r, cleanup_verdict) sitem" where
  "cleanup_one B uniq work_dir dry_run m sibling =
     bindS (on_db (find_conflict_sibling m sibling)) (\<lambda>c. case c of
        None \<Rightarrow> ret Skip
      | Some canonical \<Rightarrow>
          bindS (attempt (stat_remote_eq B (fe_remote_path canonical) (fe_remote_path sibling))) (\<lambda>r. case r of
             Inr Equal \<Rightarrow> remove_spurious B dry_run sibling
           | Inr Different \<Rightarrow> ret Kept
           | Inr Unknown \<Rightarrow>
               bindS (attempt (same_content B uniq work_dir canonical sibling)) (\<lambda>q. case q of
                  Inr True \<Rightarrow> remove_spurious B dry_run sibling
                | Inr False \<Rightarrow> ret Kept
                | Inl _ \<Rightarrow> ret Skip)
           | Inl e \<Rightarrow>
               (if contains_str (err_display e) ''not found'' \<or> contains_str (err_display e) ''directory not found''
                then remove_orphan dry_run sibling else ret Skip)))"

fun cleanup_all :: "'r backend \<Rightarrow> string \<Rightarrow> path \<Rightarrow> bool \<Rightarrow> mount_id \<Rightarrow> file_entry list \<Rightarrow> cleanup_stats \<Rightarrow> ('r, cleanup_stats) sitem" where
  "cleanup_all B uniq work_dir dry_run m [] c = ret c"
| "cleanup_all B uniq work_dir dry_run m (e # es) c =
     bindS (cleanup_one B uniq work_dir dry_run m e) (\<lambda>v. cleanup_all B uniq work_dir dry_run m es (count_verdict v c))"

text \<open>The cleanup of one mount.\<close>

definition cleanup_mount :: "'r backend \<Rightarrow> string \<Rightarrow> path \<Rightarrow> bool \<Rightarrow> mount_id \<Rightarrow> cleanup_stats \<Rightarrow> ('r, cleanup_stats) sitem" where
  "cleanup_mount B uniq cache_dir dry_run m c =
     bindS (on_db (collect_conflict_entries m)) (\<lambda>entries.
       if entries = [] then ret c
       else
         (let work_dir = path_join cache_dir ''.meta/cleanup'' in
          thenS (attempt (on_world (create_dir_all work_dir)))
            (cleanup_all B uniq work_dir dry_run m entries c)))"

end
