(* ===== verification/Cli_Conflict_Laws.thy ===== *)
theory Cli_Conflict_Laws
  imports Cli_Conflicts
begin

text \<open>
  Laws of the \<open>conflicts\<close> commands: when the pairing of a conflict file with its
  canonical file works, what the commands leave behind, and that the cleanup
  deletes only what it has compared.
\<close>

section \<open>Pairing\<close>

lemma split_once_str_first:
  "\<not> sublist p (a @ butlast p) \<Longrightarrow> p \<noteq> [] \<Longrightarrow> split_once_str p (a @ p @ z) = Some (a, z)"
proof (induction a)
  case Nil
  then show ?case by (subst split_once_str.simps) simp
next
  case (Cons c a)
  have "\<not> prefix p (c # a @ p @ z)"
  proof
    assume "prefix p (c # a @ p @ z)"
    then have "p = take (length p) (c # a @ p @ z)" by (metis append_eq_conv_conj prefix_def)
    also have "\<dots> = take (length p) (c # a @ butlast p)"
    proof -
      have l: "length p \<le> length (c # a @ butlast p)" using Cons.prems(2) by (cases p rule: rev_cases) auto
      have "c # a @ p @ z = (c # a @ butlast p) @ last p # z"
        using append_butlast_last_id [OF Cons.prems(2)] by (metis append.assoc append_Cons append_Nil)
      with l show ?thesis by (metis append_Nil2 diff_is_0_eq take_append take0)
    qed
    finally have "prefix p ((c # a) @ butlast p)" by (metis append_Cons take_is_prefix)
    with Cons.prems(1) show False by (simp add: prefix_imp_sublist)
  qed
  moreover have "\<not> sublist p (a @ butlast p)"
    using Cons.prems(1) by (auto simp: sublist_Cons_right)
  ultimately show ?case using Cons by (subst split_once_str.simps) simp
qed

lemma last_split_on: "c \<notin> set e \<Longrightarrow> last (split_on c (x @ c # e)) = e"
proof (induction x)
  case Nil
  then show ?case by (simp add: split_on_none)
next
  case (Cons y x)
  obtain q qs where q: "split_on c (x @ c # e) = q # qs" by (cases "split_on c (x @ c # e)") auto
  have "qs \<noteq> [] \<or> q = e" using Cons q by auto
  moreover have "qs \<noteq> []"
  proof
    assume "qs = []"
    with q have "join_with [c] (split_on c (x @ c # e)) = q" by simp
    moreover have "c \<notin> set q" using split_on_free [of q c "x @ c # e"] q by simp
    ultimately show False by auto
  qed
  ultimately show ?case using Cons q by auto
qed

text \<open>A name with a nonempty extension that can be told from its conflict name.\<close>

definition pairable :: "string \<Rightarrow> bool" where
  "pairable name \<longleftrightarrow> path_file_name name = Some name \<and> (\<exists>stem e. path_file_stem name = Some stem \<and> path_extension name = Some e
     \<and> e \<noteq> [] \<and> \<not> ends_with stem (''.'' @ e) \<and> \<not> contains_str (stem @ ''.conflict'') conflict_mark)"

lemma canonical_name_inverse:
  assumes "pairable name"
  shows "canonical_name (conflict_name name ts hash) = Some name"
proof -
  from assms obtain stem e where fn: "path_file_name name = Some name" and st: "path_file_stem name = Some stem"
    and ex: "path_extension name = Some e" and e: "e \<noteq> []" "\<not> ends_with stem (''.'' @ e)"
      "\<not> contains_str (stem @ ''.conflict'') conflict_mark"
    by (auto simp: pairable_def)
  from fn st ex have "split_file_at_dot name = (stem, Some e)"
    by (cases "split_file_at_dot name") (simp add: path_file_stem_def path_extension_def)
  then have "rsplit_once (CHR ''.'') name = Some (stem, e)"
    by (auto simp: split_file_at_dot_def split: option.splits if_splits)
  from rsplit_once_Some [OF this] have nm: "name = stem @ ''.'' @ e" and dot: "CHR ''.'' \<notin> set e" by auto
  have cn: "conflict_name name ts hash = stem @ conflict_mark @ (ts @ ''.'' @ hash @ ''.'' @ e)"
    using st ex by (simp add: conflict_name_def Let_def)
  have "split_once_str conflict_mark (conflict_name name ts hash) = Some (stem, ts @ ''.'' @ hash @ ''.'' @ e)"
    unfolding cn using e(3) by (intro split_once_str_first) (simp_all add: contains_str_def)
  moreover have "last (split_on (CHR ''.'') (conflict_name name ts hash)) = e"
    unfolding cn using last_split_on [OF dot, of "stem @ conflict_mark @ ts @ ''.'' @ hash"] by simp
  ultimately show ?thesis using e nm by (simp add: canonical_name_def)
qed

text \<open>
  A name without an extension is not recovered: the last part of the conflict
  name is then the hash.  A doubled extension leads to another file.
\<close>

lemma canonical_name_misses:
  "canonical_name (conflict_name ''README'' ''T'' ''0a1b2c3d'') = Some ''README.0a1b2c3d''"
  "canonical_name (conflict_name ''a.txt.txt'' ''T'' ''0a1b2c3d'') = Some ''a.txt''"
  by code_simp+

lemma conflict_name_marked: "contains_str (conflict_name name ts hash) conflict_mark"
proof -
  obtain stem z where "conflict_name name ts hash = stem @ conflict_mark @ z"
    by (cases "path_extension name") (auto simp: conflict_name_def Let_def)
  then show ?thesis unfolding contains_str_def sublist_def by blast
qed

lemma like_percent: "sql_like q t \<Longrightarrow> sql_like (CHR ''%'' # q) t"
  by (cases t) auto

lemma like_any: "sql_like ''%'' z"
  by (induction z) auto

lemma like_self: "sql_like (p @ ''%'') (p @ z)"
proof (induction p)
  case Nil
  then show ?case by (simp add: like_any)
next
  case (Cons c p)
  then show ?case using like_percent [OF Cons] by simp
qed

lemma find_named:
  assumes "db_wf d" "c \<in> set (file_index d)" "r_parent c = Some p"
  shows "find_row (\<lambda>r. r_mount_id r = r_mount_id c \<and> r_parent r = Some p \<and> r_name r = r_name c) d = Some c"
proof -
  let ?P = "\<lambda>r. r_mount_id r = r_mount_id c \<and> r_parent r = Some p \<and> r_name r = r_name c"
  have u: "distinct (map name_key (filter (\<lambda>r. r_parent r \<noteq> None) (file_index d)))"
    using assms(1) by (simp add: db_wf_defs unique_ok_def)
  have "find ?P (file_index d) \<noteq> None" using assms(2,3) by (auto simp: find_None_iff)
  then obtain y where y: "find ?P (file_index d) = Some y" by blast
  then have "y \<in> set (file_index d) \<and> ?P y" by (rule find_SomeD)
  then have "y = c" using assms(2,3) by (intro distinct_map_unique [OF u]) auto
  with y show ?thesis by (simp add: find_row_def)
qed

lemma row_to_entry_parent [simp]: "r_parent r = Some p \<Longrightarrow> fe_parent (row_to_entry r) = p"
  by (simp add: row_to_entry_def)


definition paired_db :: db where
  "paired_db = sample_db\<lparr>file_index := [sample_row 1 None ''/'' ''/'' Directory Cached None None,
     sample_row 2 (Some 1) ''d'' ''d'' Directory Remote None None, text_row,
     sample_row 4 (Some 2) ''a.conflict.T.h.txt'' ''.stratosync-conflicts/d/a.conflict.T.h.txt'' File Conflict None None]\<rparr>"


section \<open>Settling by hand\<close>

lemma stat_or_bail_Inr:
  "(\<And>p x. snd (b_stat B p x) = x) \<Longrightarrow> stat_or_bail B p s = (Inr m, s') \<longleftrightarrow> b_stat B p s = (Inr m, s) \<and> s' = s"
proof -
  assume pure: "\<And>p x. snd (b_stat B p x) = x"
  obtain r where r: "b_stat B p s = (r, s)" by (metis prod.collapse pure)
  then show ?thesis by (cases r) (auto simp: stat_or_bail_def run_bind on_backend_def)
qed

context remote_store
begin

lemma finalize_frame:
  assumes "finalize_resolution B entry sib cp s = (r, s')"
  shows "holds_file p b s \<Longrightarrow> holds_file p b s'"
    and "(\<And>x. sib = Some x \<Longrightarrow> q \<noteq> fe_remote_path x) \<Longrightarrow> content (sr s') q = content (sr s) q"
proof -
  have del: "keeps (holds_file p b) (on_backend (b_delete B x))"
    "q \<noteq> x \<Longrightarrow> keeps (\<lambda>s. content (sr s) q = c) (on_backend (b_delete B x))" for x c
  proof -
    have "sw s' = sw s \<and> (\<forall>q. q \<noteq> x \<longrightarrow> content (sr s') q = content (sr s) q)" if "b_delete B x s = (r, s')" for s r s'
      using that delete_ok delete_err by (cases r) fastforce+
    then show "keeps (holds_file p b) (on_backend (b_delete B x))"
      "q \<noteq> x \<Longrightarrow> keeps (\<lambda>s. content (sr s) q = c) (on_backend (b_delete B x))"
      by (auto simp: keeps_def holds_file_def) (metis prod.collapse)+
  qed
  have wc: "keeps (\<lambda>s. content (sr s) q = c) (on_world m)" for c and m :: "'x app"
    by (simp add: keeps_def)
  have "keeps (holds_file p b) (finalize_resolution B entry sib cp)"
    unfolding finalize_resolution_def by (intro keeps_rules del stat_keeps) (auto split: err.splits sync_error.splits intro!: keeps_rules)
  with assms show "holds_file p b s \<Longrightarrow> holds_file p b s'" by (blast intro: keepsE)
  assume ne: "\<And>x. sib = Some x \<Longrightarrow> q \<noteq> fe_remote_path x"
  have "keeps (\<lambda>s. content (sr s) q = c) (finalize_resolution B entry sib cp)" for c
    unfolding finalize_resolution_def using ne
    by (intro keeps_rules del wc stat_keeps) (auto split: err.splits sync_error.splits intro!: keeps_rules)
  from keepsE [OF this assms] show "content (sr s') q = content (sr s) q" by simp
qed

lemma keep_local_at_safe:
  assumes run: "keep_local_at B entry sib s = (Inr (), s')" and cp: "fe_cache_path entry = Some cp" and h: "holds_file cp b s"
    and ne: "\<And>x. sib = Some x \<Longrightarrow> fe_remote_path entry \<noteq> fe_remote_path x"
  shows "content (sr s') (fe_remote_path entry) = Some b \<and> holds_file cp b s'
     \<and> (\<forall>q. q \<noteq> fe_remote_path entry \<longrightarrow> (\<forall>x. sib = Some x \<longrightarrow> q \<noteq> fe_remote_path x) \<longrightarrow> content (sr s') q = content (sr s) q)"
proof -
  from run cp obtain m s1 where up: "b_upload B cp (fe_remote_path entry) None s = (Inr m, s1)"
    and fin: "finalize_resolution B entry sib cp s1 = (Inr (), s')"
    by (auto simp: keep_local_at_def bind_Inr then_Inr on_backend_Inr split: if_splits)
  from upload_ok [OF up] h have c: "content (sr s1) = (content (sr s))(fe_remote_path entry \<mapsto> b)" "holds_file cp b s1"
    by (auto simp: holds_file_def)
  show ?thesis
    using finalize_frame(1) [OF fin c(2)] finalize_frame(2) [OF fin] c(1) ne by auto
qed

lemma keep_remote_at_safe:
  assumes run: "keep_remote_at B cache_dir entry sib s = (Inr (), s')" and cp: "fe_cache_path entry = Some cp"
    and ne: "\<And>x. sib = Some x \<Longrightarrow> fe_remote_path entry \<noteq> fe_remote_path x"
  shows "\<exists>b. content (sr s) (fe_remote_path entry) = Some b \<and> holds_file cp b s'
     \<and> (\<forall>q. (\<forall>x. sib = Some x \<longrightarrow> q \<noteq> fe_remote_path x) \<longrightarrow> content (sr s') q = content (sr s) q)"
proof -
  let ?mk = "case path_parent cp of Some d \<Rightarrow> on_world (create_dir_all d) | None \<Rightarrow> ret ()"
  from run cp obtain u s1 s2 where mk: "?mk s = (Inr u, s1)"
    and down: "b_download B (fe_remote_path entry) cp s1 = (Inr (), s2)"
    and fin: "finalize_resolution B entry sib cp s2 = (Inr (), s')"
    by (auto simp: keep_remote_at_def then_Inr on_backend_Inr)
  have "keeps (\<lambda>x. sr x = sr s) ?mk" by (intro keeps_rules)
  from keepsE [OF this mk] have sr1: "sr s1 = sr s" by simp
  from download_ok [OF down] obtain b where b: "content (sr s) (fe_remote_path entry) = Some b" "holds_file cp b s2" "sr s2 = sr s"
    by (auto simp: holds_file_def sr1)
  show ?thesis
    using finalize_frame(1) [OF fin b(2)] finalize_frame(2) [OF fin] b by auto
qed

text \<open>Deleting succeeded: the conflict file is gone.\<close>

lemma finalize_deletes:
  assumes "b_delete B (fe_remote_path x) s = (Inr (), s1)"
  shows "content (sr (snd (finalize_resolution B entry (Some x) cp s))) = (content (sr s))(fe_remote_path x := None)"
proof -
  let ?rest = "thenS (on_db (delete_entry (fe_inode x))) (bindS (on_backend (b_stat B (fe_remote_path entry))) (\<lambda>meta.
       on_db (set_cached (fe_inode entry) cp (rm_size meta) (rm_etag meta) (rm_mtime meta) (rm_size meta))))"
  have "snd (finalize_resolution B entry (Some x) cp s) = snd (?rest s1)"
    using assms by (auto simp: finalize_resolution_def run_then run_bind [of "attempt _"] on_backend_def split: sum.splits prod.splits)
  moreover have "keeps (\<lambda>y. sr y = sr s1) ?rest" by (intro keeps_rules stat_keeps)
  from keepsD [OF this refl] have "sr (snd (?rest s1)) = sr s1" .
  ultimately show ?thesis using delete_ok [OF assms] by simp
qed

end


lemma text_lookup: "resolve_path 1 ''d/a.txt'' text_site = (Inr (text_entry, None), text_site)"
proof -
  have c: "\<not> contains_str ''a.txt'' conflict_mark" "path_file_stem ''a.txt'' = Some ''a''"
    "trim_start_matches (CHR ''/'') ''d/a.txt'' = ''d/a.txt''"
    by code_simp+
  have l: "lookup_path 1 ''d/a.txt'' text_site = (Inr text_entry, text_site)"
    by (simp add: lookup_path_def c Let_def run_bind on_world_run db_op_run get_by_remote_path_def find_row_def text_site_def
        text_world_def sample_row_def text_row_def)
  have "find_conflict_sibling 1 text_entry (wdb text_world) = (Inr None, wdb text_world)"
    by (simp add: find_conflict_sibling_def sibling_inode_def c Let_def newest_first_def text_world_def sample_row_def run_bind)
  then have "normalize_conflict_roles 1 text_entry text_site = (Inr (text_entry, None), text_site)"
    by (simp add: normalize_conflict_roles_def c run_bind on_world_run db_op_run text_site_def)
  with l show ?thesis by (simp add: resolve_path_def run_bind)
qed


text \<open>
  After the daemon has kept both versions, the cache holds the remote version and
  the local one is in the conflict file only.  \<open>keep-local\<close> then uploads the remote
  version over itself and deletes the conflict file: the local version is gone.
\<close>

theorem keep_local_discards_local_version:
  "\<exists>s1. keep_both (text_resolver 255) text_entry ''/c/d/a.txt'' text_site = (Inr (), s1)
     \<and> mock_content (sr s1) ''.stratosync-conflicts/d/a.conflict.T.b4e8902a.txt'' = Some [1, 2]
     \<and> (let s2 = snd (keep_local_at mock_backend text_entry
              (Some (text_entry\<lparr>fe_inode := 5, fe_remote_path := ''.stratosync-conflicts/d/a.conflict.T.b4e8902a.txt''\<rparr>)) s1)
        in disk (sw s2) ''/c/d/a.txt'' = Some (Regular [9]) \<and> mock_content (sr s2) = [''d/a.txt'' \<mapsto> [9]])"
proof -
  let ?sib = "text_entry\<lparr>fe_inode := 5, fe_remote_path := ''.stratosync-conflicts/d/a.conflict.T.b4e8902a.txt''\<rparr>"
  obtain s1 where s1: "keep_both (text_resolver 255) text_entry ''/c/d/a.txt'' text_site = (Inr (), s1)"
    "disk (sw s1) ''/c/d/a.txt'' = Some (Regular [9])"
    "mock_content (sr s1) = [''d/a.txt'' \<mapsto> [9], ''.stratosync-conflicts/d/a.conflict.T.b4e8902a.txt'' \<mapsto> [1, 2]]"
    "io_fault (sw s1) = (\<lambda>_. False)"
    using kept_12 by blast
  obtain m where up: "mock_upload ''/c/d/a.txt'' ''d/a.txt'' None s1 = (Inr m, s1\<lparr>sr := mock_put ''d/a.txt'' (m, [9]) (sr s1)\<rparr>)"
  proof -
    have "path_file_name ''d/a.txt'' = Some ''a.txt''" by code_simp
    with s1(2,4) show ?thesis
      by (intro that) (simp add: mock_upload_def run_bind run_then io_sync_run read_file_def mock_meta_def)
  qed
  let ?s = "s1\<lparr>sr := mock_put ''d/a.txt'' (m, [9]) (sr s1)\<rparr>"
  let ?fin = "finalize_resolution mock_backend text_entry (Some ?sib) ''/c/d/a.txt''"
  have k: "keep_local_at mock_backend text_entry (Some ?sib) s1 = ?fin ?s"
    using up s1(2) by (simp add: keep_local_at_def path_exists_def run_then on_backend_def mock_backend_def)
  have "mock_content (sr (snd (?fin ?s))) = (mock_content (sr ?s))(fe_remote_path ?sib := None)"
    by (rule mock.finalize_deletes [where ?s1.0 = "?s\<lparr>sr := mock_drop (fe_remote_path ?sib) (sr ?s)\<rparr>"])
       (simp add: mock_backend_def mock_delete_def)
  moreover have "mock_content (sr ?s) = mock_content (sr s1)" using s1(3) by (auto simp: mock_content_def fun_eq_iff)
  moreover have "disk (sw (snd (?fin ?s))) ''/c/d/a.txt'' = Some (Regular [9])"
    using mock.finalize_frame(1) [of text_entry "Some ?sib" "''/c/d/a.txt''" ?s _ _ "''/c/d/a.txt''" "[9]"] s1(2)
    by (cases "?fin ?s") (simp add: holds_file_def)
  ultimately show ?thesis using s1 k by (auto simp: Let_def fun_eq_iff)
qed

section \<open>Cleaning up\<close>

lemma find_conflict_sibling_total: "\<exists>x. find_conflict_sibling m e d = (Inr x, d)"
  by (simp add: find_conflict_sibling_def run_bind sibling_inode_def get_by_inode_run split: option.split)

lemma files_equal_True:
  "fst (files_equal a b n w) = Inr True \<Longrightarrow>
   \<exists>x y. disk w a = Some (Regular x) \<and> disk w b = Some (Regular y) \<and> n \<le> length x \<and> n \<le> length y \<and> take n x = take n y"
  by (auto simp: files_equal_def run_bind read_file_def dest!: equal_from_True split: if_splits option.splits node.splits sum.splits)

text \<open>Two remote files agree as far as the reported size goes.\<close>

definition agree :: "nat \<Rightarrow> bytes \<Rightarrow> bytes \<Rightarrow> bool" where
  "agree n x y \<longleftrightarrow> n \<le> length x \<and> n \<le> length y \<and> take n x = take n y"

context remote_store
begin

lemma local_eq_remote_True:
  assumes run: "local_eq_remote B u l p s = (Inr (True, meta), s')" and tmp: "unique_tmp_sibling u l ''eq-check'' \<noteq> l"
  shows "\<exists>x y. disk (sw s) l = Some (Regular x) \<and> content (sr s) p = Some y
     \<and> b_stat B p s = (Inr meta, s) \<and> rm_size meta = length x \<and> agree (rm_size meta) x y"
proof -
  let ?tmp = "unique_tmp_sibling u l ''eq-check''"
  from run obtain s2 where st: "b_stat B p s = (Inr meta, s)" and len: "fst (file_len l (sw s)) = Inr (rm_size meta)"
    and d: "b_download B p ?tmp s = (Inr (), s2)" and eq: "fst (files_equal l ?tmp (rm_size meta) (sw s2)) = Inr True"
    by (auto simp: local_eq_remote_def bind_Inr stat_or_bail_Inr [OF stat_pure] on_world_Inr then_Inr Let_def on_backend_def
        on_world_run file_len_run split: if_splits sum.splits prod.splits)
  from len obtain x where x: "disk (sw s) l = Some (Regular x)" "rm_size meta = length x"
    by (auto simp: file_len_run)
  from download_ok [OF d] obtain y where y: "content (sr s) p = Some y" "disk (sw s2) ?tmp = Some (Regular y)"
    "others_kept ?tmp (sw s) (sw s2)" by auto
  have "disk (sw s2) l = Some (Regular x)" using y(3) x tmp by (auto simp: others_kept_def)
  with files_equal_True [OF eq] y(1,2) x st show ?thesis by (auto simp: agree_def)
qed

lemma remote_eq_remote_True:
  assumes run: "remote_eq_remote B u p q dir s = (Inr True, s')"
  shows "\<exists>x y ma mb. content (sr s) p = Some x \<and> content (sr s) q = Some y \<and> b_stat B p s = (Inr ma, s)
     \<and> b_stat B q s = (Inr mb, s) \<and> rm_size ma = rm_size mb \<and> agree (rm_size ma) x y"
proof -
  let ?ta = "unique_tmp_in u dir ''eq-a''" and ?tb = "unique_tmp_in u dir ''eq-b''"
  define s1 where "s1 = snd (on_world (create_dir_all dir) s :: (err + unit) \<times> 'r site)"
  have sr1: "sr s1 = sr s" by (simp add: s1_def)
  from run obtain ma mb s2 s3 where st: "b_stat B p s = (Inr ma, s)" "b_stat B q s = (Inr mb, s)" "rm_size ma = rm_size mb"
    and da: "b_download B p ?ta s1 = (Inr (), s2)" and db: "b_download B q ?tb s2 = (Inr (), s3)"
    and eq: "fst (files_equal ?ta ?tb (rm_size mb) (sw s3)) = Inr True"
    by (auto simp: remote_eq_remote_def bind_Inr stat_or_bail_Inr [OF stat_pure] then_Inr Let_def on_backend_def s1_def
        on_world_run split: if_splits sum.splits prod.splits)
  have ne: "?ta \<noteq> ?tb" by (auto simp: unique_tmp_in_def path_join_def)
  from download_ok [OF da] obtain x where x: "content (sr s) p = Some x" "disk (sw s2) ?ta = Some (Regular x)" "sr s2 = sr s"
    by (auto simp: sr1)
  from download_ok [OF db] obtain y where y: "content (sr s) q = Some y" "disk (sw s3) ?tb = Some (Regular y)"
    "others_kept ?tb (sw s2) (sw s3)" by (auto simp: x(3))
  have "disk (sw s3) ?ta = Some (Regular x)" using y(3) x(2) ne by (auto simp: others_kept_def)
  with files_equal_True [OF eq] x(1) y(1,2) st show ?thesis by (auto simp: agree_def)
qed

end

text \<open>The cleanup has read that the two remote files have the same content.\<close>

definition found_equal :: "'r backend \<Rightarrow> ('r \<Rightarrow> path \<Rightarrow> bytes option) \<Rightarrow> file_entry \<Rightarrow> file_entry \<Rightarrow> 'r site \<Rightarrow> bool" where
  "found_equal B content canonical sib s \<longleftrightarrow>
     (\<exists>ma mb. b_stat B (fe_remote_path canonical) s = (Inr ma, s) \<and> b_stat B (fe_remote_path sib) s = (Inr mb, s)
        \<and> rm_size ma = rm_size mb
        \<and> (rm_etag ma \<noteq> None \<and> rm_etag ma = rm_etag mb
           \<or> (\<exists>x y. content (sr s) (fe_remote_path sib) = Some y \<and> agree (rm_size mb) x y
                \<and> (content (sr s) (fe_remote_path canonical) = Some x
                   \<or> (\<exists>cp. fe_cache_path canonical = Some cp \<and> disk (sw s) cp = Some (Regular x))))))"

context remote_store
begin

lemma remote_kept_download: "keeps (\<lambda>x. sr x = r) (on_backend (b_download B p l))"
proof -
  have "sr (snd (b_download B p l s)) = sr s" for s
    using download_ok [of p l s "snd (b_download B p l s)"] download_err [of p l s _ "snd (b_download B p l s)"]
    by (cases "b_download B p l s"; cases "fst (b_download B p l s)") auto
  then show ?thesis by (simp add: keeps_def)
qed

lemma remote_kept_stat: "keeps (\<lambda>x. sr x = r) (stat_or_bail B p)"
  unfolding stat_or_bail_def by (intro keeps_rules stat_keeps)

lemma remote_kept_compare:
  "keeps (\<lambda>x. sr x = r) (stat_remote_eq B p q)" "keeps (\<lambda>x. sr x = r) (same_content B u dir c e)"
  unfolding stat_remote_eq_def same_content_def local_eq_remote_def remote_eq_remote_def Let_def
  by (intro keeps_rules remote_kept_stat remote_kept_download)+

lemma stat_remote_eq_run:
  assumes "stat_remote_eq B p q s = (Inr v, s')"
  shows "\<exists>ma mb. s' = s \<and> b_stat B p s = (Inr ma, s) \<and> b_stat B q s = (Inr mb, s)
     \<and> (v = Equal \<longrightarrow> rm_size ma = rm_size mb \<and> rm_etag ma \<noteq> None \<and> rm_etag ma = rm_etag mb)
     \<and> (v = Unknown \<longrightarrow> rm_size ma = rm_size mb)"
  using assms by (auto simp: stat_remote_eq_def bind_Inr stat_or_bail_Inr [OF stat_pure] split: if_splits option.splits)

lemma same_content_True:
  assumes "same_content B u dir canonical sib s = (Inr True, s')"
    and tmp: "\<And>cp. fe_cache_path canonical = Some cp \<Longrightarrow> unique_tmp_sibling u cp ''eq-check'' \<noteq> cp"
  shows "\<exists>x y mb. content (sr s) (fe_remote_path sib) = Some y \<and> b_stat B (fe_remote_path sib) s = (Inr mb, s) \<and> agree (rm_size mb) x y
     \<and> (content (sr s) (fe_remote_path canonical) = Some x
        \<or> (\<exists>cp. fe_cache_path canonical = Some cp \<and> disk (sw s) cp = Some (Regular x)))"
proof -
  from assms(1) consider (local) cp meta where "fe_cache_path canonical = Some cp"
      "local_eq_remote B u cp (fe_remote_path sib) s = (Inr (True, meta), s')"
    | (remote) "remote_eq_remote B u (fe_remote_path canonical) (fe_remote_path sib) dir s = (Inr True, s')"
    by (auto simp: same_content_def bind_Inr split: option.splits if_splits)
  then show ?thesis
  proof cases
    case local
    from local_eq_remote_True [OF local(2) tmp [OF local(1)]] local(1) show ?thesis by blast
  next
    case remote
    from remote_eq_remote_True [OF this] show ?thesis by metis
  qed
qed

lemma remove_spurious_frame:
  "content (sr (snd (remove_spurious B dry sib s))) q \<noteq> content (sr s) q \<Longrightarrow> q = fe_remote_path sib \<and> \<not> dry"
proof (rule ccontr)
  assume c: "content (sr (snd (remove_spurious B dry sib s))) q \<noteq> content (sr s) q" "\<not> (q = fe_remote_path sib \<and> \<not> dry)"
  have d: "q = fe_remote_path sib \<or> keeps (\<lambda>x. content (sr x) q = content (sr s) q) (on_backend (b_delete B (fe_remote_path sib)))"
  proof -
    have "q = p \<or> content (sr (snd (b_delete B p t))) q = content (sr t) q" for p t
      using delete_ok [of p t "snd (b_delete B p t)"] delete_err [of p t _ "snd (b_delete B p t)"]
      by (cases "b_delete B p t"; cases "fst (b_delete B p t)") auto
    then show ?thesis unfolding keeps_def on_backend_state by metis
  qed
  have w: "keeps (\<lambda>x. content (sr x) q = content (sr s) q) (on_world m)" for m :: "'x app" by (simp add: keeps_def)
  have "keeps (\<lambda>x. content (sr x) q = content (sr s) q) (remove_spurious B dry sib)"
    unfolding remove_spurious_def using c(2) d by (cases dry) (auto intro!: keeps_rules w)
  from keepsD [OF this refl] c(1) show False by simp
qed

lemma cleanup_one_frame:
  assumes run: "cleanup_one B u dir dry m sib s = (v, s')" and diff: "content (sr s') q \<noteq> content (sr s) q"
    and tmp: "\<And>c cp. fst (find_conflict_sibling m sib (wdb (sw s))) = Inr (Some c) \<Longrightarrow> fe_cache_path c = Some cp
      \<Longrightarrow> unique_tmp_sibling u cp ''eq-check'' \<noteq> cp"
  shows "q = fe_remote_path sib \<and> \<not> dry
     \<and> (\<exists>c. fst (find_conflict_sibling m sib (wdb (sw s))) = Inr (Some c) \<and> found_equal B content c sib s)"
proof -
  obtain x where x: "find_conflict_sibling m sib (wdb (sw s)) = (Inr x, wdb (sw s))"
    using find_conflict_sibling_total by blast
  then have "on_db (find_conflict_sibling m sib) s = (Inr x, s)" by (simp add: on_world_run db_op_run)
  with run diff obtain c where "x = Some c" by (cases x) (auto simp: cleanup_one_def run_bind)
  with x have c: "fst (find_conflict_sibling m sib (wdb (sw s))) = Inr (Some c)"
    and pure: "on_db (find_conflict_sibling m sib) s = (Inr (Some c), s)" by (simp_all add: on_world_run db_op_run)
  let ?st = "stat_remote_eq B (fe_remote_path c) (fe_remote_path sib)"
  have orphan: "sr (snd (remove_orphan dry sib t)) = sr t" for t :: "'r site"
  proof -
    have "keeps (\<lambda>x. sr x = sr t) (remove_orphan dry sib :: ('r, cleanup_verdict) sitem)" unfolding remove_orphan_def by (intro keeps_rules)
    from keepsD [OF this refl] show ?thesis .
  qed
  have st: "sr (snd (?st s)) = sr s" using keepsD [OF remote_kept_compare(1) refl] .
  have same: "sr (snd (same_content B u dir c sib t)) = sr t" for t using keepsD [OF remote_kept_compare(2) refl] .
  obtain r s1 where r: "?st s = (Inr r, s1)"
  proof (cases "?st s")
    case (Pair a t)
    show thesis
    proof (cases a)
      case (Inl e)
      with run Pair pure have "s' = snd (remove_orphan dry sib t) \<or> s' = t"
        by (auto simp: cleanup_one_def run_bind split: if_splits)
      with st Pair orphan have "sr s' = sr s" by auto
      with diff show thesis by simp
    qed (use Pair that in blast)
  qed
  from stat_remote_eq_run [OF r] obtain ma mb where k: "s1 = s" "b_stat B (fe_remote_path c) s = (Inr ma, s)"
    "b_stat B (fe_remote_path sib) s = (Inr mb, s)"
    "r = Equal \<Longrightarrow> rm_size ma = rm_size mb \<and> rm_etag ma \<noteq> None \<and> rm_etag ma = rm_etag mb"
    "r = Unknown \<Longrightarrow> rm_size ma = rm_size mb" by blast
  show ?thesis
  proof (cases r)
    case Equal
    then have "s' = snd (remove_spurious B dry sib s)"
      using run c r k(1) by (simp add: cleanup_one_def run_bind pure)
    with remove_spurious_frame diff have "q = fe_remote_path sib \<and> \<not> dry" by blast
    with k Equal c show ?thesis unfolding found_equal_def by blast
  next
    case Different
    with run c r k(1) diff show ?thesis by (simp add: cleanup_one_def run_bind pure)
  next
    case Unknown
    then have s': "s' = snd (bindS (attempt (same_content B u dir c sib)) (\<lambda>q. case q of
          Inr True \<Rightarrow> remove_spurious B dry sib | Inr False \<Rightarrow> ret Kept | Inl _ \<Rightarrow> ret Skip) s)"
      using run c r k(1) by (simp add: cleanup_one_def run_bind pure)
    obtain a t where a: "same_content B u dir c sib s = (a, t)" by fastforce
    with same [of s] have t: "sr t = sr s" by simp
    from s' diff a t have "a = Inr True" by (auto simp: run_bind split: sum.splits bool.splits)
    with s' a t diff remove_spurious_frame [of dry sib t q] have "q = fe_remote_path sib \<and> \<not> dry"
      by (simp add: run_bind)
    moreover from same_content_True [OF _ tmp [OF c]] a \<open>a = Inr True\<close> k Unknown
    have "found_equal B content c sib s" unfolding found_equal_def by (metis Pair_inject Inr_inject)
    ultimately show ?thesis using c by blast
  qed
qed

end

text \<open>
  C18: the cleanup deletes only duplicates: a remote file it changes is the conflict
  file itself, never in a dry run, and only after the canonical file was found
  with the same size and either the same etag or, byte by byte, the content of the
  conflict file, in its remote or its cached copy.
\<close>

theorem cleanup_deletes_duplicates_only:
  assumes "remote_store B content" "cleanup_one B uniq work_dir dry_run m sib s = (v, s')"
    and "\<forall>c cp. fst (find_conflict_sibling m sib (wdb (sw s))) = Inr (Some c) \<and> fe_cache_path c = Some cp
           \<longrightarrow> unique_tmp_sibling uniq cp ''eq-check'' \<noteq> cp"
    and "content (sr s') q \<noteq> content (sr s) q"
  shows "q = fe_remote_path sib \<and> \<not> dry_run
     \<and> (\<exists>c. fst (find_conflict_sibling m sib (wdb (sw s))) = Inr (Some c) \<and> found_equal B content c sib s)"
  using remote_store.cleanup_one_frame [OF assms(1,2,4)] assms(3) by blast

text \<open>A conflict file with the etag of the canonical file.\<close>

abbreviation twin_path :: path where
  "twin_path \<equiv> ''.stratosync-conflicts/d/a.conflict.T.h.txt''"

abbreviation twin_entry :: file_entry where
  "twin_entry \<equiv> row_to_entry (sample_row 4 (Some 2) ''a.conflict.T.h.txt'' twin_path File Conflict None None)"

definition twin_site :: "mock site" where
  "twin_site = \<lparr> sw = text_world\<lparr>wdb := paired_db\<rparr>,
     sr = empty_mock\<lparr>m_files := [(''d/a.txt'', sample_meta ''d/a.txt'' ''a.txt'' 1 None, [9]),
       (twin_path, sample_meta twin_path ''a.conflict.T.h.txt'' 1 None, [9])]\<rparr> \<rparr>"

lemma twin_found: "find_conflict_sibling 1 twin_entry paired_db = (Inr (Some text_entry), paired_db)"
proof -
  have c: "contains_str ''a.conflict.T.h.txt'' conflict_mark" "canonical_name ''a.conflict.T.h.txt'' = Some ''a.txt''"
    by code_simp+
  show ?thesis
    by (simp add: find_conflict_sibling_def sibling_inode_def c run_bind find_row_def paired_db_def sample_row_def text_row_def
        get_by_inode_run del: One_nat_def)
qed

theorem cleanup_deletes_duplicates_only_witness:
  "\<exists>v s'. cleanup_one mock_backend ''u'' ''/w'' False 1 twin_entry twin_site = (v, s')
     \<and> mock_content (sr s') twin_path = None \<and> mock_content (sr twin_site) twin_path = Some [9]
     \<and> found_equal mock_backend mock_content text_entry twin_entry twin_site"
proof -
  obtain v s' where run: "cleanup_one mock_backend ''u'' ''/w'' False 1 twin_entry twin_site = (v, s')" by fastforce
  have rp: "r_remote_path (sample_row i p n rp k st c b) = rp" for i p n rp k st c b by (simp add: sample_row_def)
  have db: "wdb (sw twin_site) = paired_db" by (simp add: twin_site_def)
  have f: "on_db (find_conflict_sibling 1 twin_entry) twin_site = (Inr (Some text_entry), twin_site)"
    using twin_found by (simp add: on_world_run db_op_run twin_site_def)
  have st: "stat_remote_eq mock_backend ''d/a.txt'' twin_path twin_site = (Inr Equal, twin_site)"
    by (simp add: stat_remote_eq_def stat_or_bail_def run_bind on_backend_def mock_backend_def mock_stat_def twin_site_def
        empty_mock_def mock_get_def sample_meta_def)
  have "mock_content (sr (snd (remove_spurious mock_backend False twin_entry twin_site))) twin_path = None"
    by (simp add: remove_spurious_def rp run_bind on_backend_def mock_backend_def mock_delete_def mock_content_def split: sum.split)
  with run f st have gone: "mock_content (sr s') twin_path = None"
    by (simp add: cleanup_one_def run_bind rp)
  have had: "mock_content (sr twin_site) twin_path = Some [9]" by (simp add: twin_site_def mock_content_def empty_mock_def mock_get_def)
  have "\<forall>c cp. fst (find_conflict_sibling 1 twin_entry (wdb (sw twin_site))) = Inr (Some c) \<and> fe_cache_path c = Some cp
          \<longrightarrow> unique_tmp_sibling ''u'' cp ''eq-check'' \<noteq> cp"
    by (auto simp: db twin_found text_names simp del: One_nat_def)
  from cleanup_deletes_duplicates_only [OF mock.remote_store_axioms run this, of twin_path] gone had
  have "found_equal mock_backend mock_content text_entry twin_entry twin_site" by (auto simp: db twin_found simp del: One_nat_def)
  with run gone had show ?thesis by blast
qed

end
