(* ===== verification/Rclone_Config.thy ===== *)
theory Rclone_Config
  imports Rclone
begin

text \<open>
  Reading the configuration of rclone (\<open>stratosync-core/src/backend/rclone_config.rs\<close>):
  the OAuth token that rclone keeps for a remote, refreshed by running rclone.
  The errors are the texts the callers print.  Running the program and parsing
  the JSON of the token are parameters.
\<close>

record oauth_token =
  access_token  :: string
  refresh_token :: string
  expiry        :: system_time
  token_type    :: string

record rclone_token_json =
  tj_access_token  :: string
  tj_refresh_token :: string
  tj_expiry        :: string
  tj_token_type    :: "string option"

text \<open>
  What is outside the source: the program run to its end (an error when it
  cannot be started), lossy decoding, the two parsers.
\<close>

record 'r config_env =
  ce_output      :: "string list \<Rightarrow> 'r \<Rightarrow> (string + int option \<times> bytes \<times> bytes) \<times> 'r"
  ce_lossy       :: "bytes \<Rightarrow> string"
  ce_token_json  :: "string \<Rightarrow> rclone_token_json option"
  ce_rfc3339     :: "string \<Rightarrow> system_time option"

type_synonym ('r, 'a) cfgm = "('r, string, 'a) sem"

definition extract_remote_name :: "string \<Rightarrow> string" where
  "extract_remote_name root = hd (split_on (CHR '':'') root)"

text \<open>One line of the section: a key and a value, both trimmed.\<close>

definition ini_pair :: "string \<Rightarrow> (string \<times> string) option" where
  "ini_pair line =
     (let trimmed = trim_ws line in
      if trimmed = [] \<or> prefix ''['' trimmed then None
      else map_option (\<lambda>(k, v). (trim_ws k, trim_ws v)) (split_once (CHR ''='') trimmed))"

definition parse_ini_section :: "string \<Rightarrow> string + (string \<rightharpoonup> string)" where
  "parse_ini_section text =
     (let pairs = List.map_filter ini_pair (str_lines text)
      in if pairs = [] then Inl ''empty or invalid rclone config output'' else Inr (map_of (rev pairs)))"

definition of_result :: "'e + 'a \<Rightarrow> ('s, 'e, 'a) sem" where
  "of_result r = (case r of Inl e \<Rightarrow> raise e | Inr a \<Rightarrow> ret a)"

definition rclone_config_show :: "'r config_env \<Rightarrow> string \<Rightarrow> ('r, string \<rightharpoonup> string) cfgm" where
  "rclone_config_show E remote_name =
     bindS (attempt (ce_output E [''config'', ''show'', remote_name])) (\<lambda>out. case out of
        Inl _ \<Rightarrow> raise ''failed to run rclone config show''
      | Inr (code, stdout, stderr) \<Rightarrow>
          (if code \<noteq> Some 0 then raise (''rclone config show failed: '' @ trim_ws (ce_lossy E stderr))
           else of_result (parse_ini_section (ce_lossy E stdout))))"

definition rclone_touch_auth :: "'r config_env \<Rightarrow> string \<Rightarrow> ('r, unit) cfgm" where
  "rclone_touch_auth E remote_name =
     bindS (attempt (ce_output E [''about'', remote_name @ '':'', ''--json''])) (\<lambda>out. case out of
        Inl _ \<Rightarrow> raise ''failed to run rclone about for token refresh''
      | Inr (code, _, stderr) \<Rightarrow>
          (if code \<noteq> Some 0 then raise (''rclone about failed (token refresh trigger): '' @ trim_ws (ce_lossy E stderr))
           else ret ()))"

definition parse_oauth_token :: "'r config_env \<Rightarrow> string \<Rightarrow> string + oauth_token" where
  "parse_oauth_token E json_str =
     (case ce_token_json E json_str of
        None \<Rightarrow> Inl ''failed to parse rclone OAuth token JSON''
      | Some raw \<Rightarrow>
          (case ce_rfc3339 E (tj_expiry raw) of
             None \<Rightarrow> Inl ''failed to parse token expiry timestamp''
           | Some t \<Rightarrow> Inr \<lparr> access_token = tj_access_token raw, refresh_token = tj_refresh_token raw, expiry = t,
               token_type = (case tj_token_type raw of Some x \<Rightarrow> x | None \<Rightarrow> ''Bearer'') \<rparr>))"

definition get_fresh_oauth_token :: "'r config_env \<Rightarrow> string \<Rightarrow> ('r, oauth_token) cfgm" where
  "get_fresh_oauth_token E remote_name =
     thenS (rclone_touch_auth E remote_name)
    (bindS (rclone_config_show E remote_name) (\<lambda>config.
       case config ''token'' of
         None \<Rightarrow> raise ''no token in rclone config after refresh''
       | Some token_json \<Rightarrow> of_result (parse_oauth_token E token_json)))"

end
