(* ===== verification/Delta.thy ===== *)
theory Delta
  imports Rclone_Config "HOL-Library.Monad_Syntax"
begin

text \<open>
  The change feeds of Google Drive and OneDrive
  (\<open>stratosync-core/src/backend/delta.rs\<close>).  The HTTP client, the JSON parser, the
  clock and the date parser are parameters, gathered in \<open>api\<close>; how a response
  becomes a struct of the source, field by field, is modelled, for objects.  The access token behind the mutex is part of the state.  A feed is read
  page by page until the server ends it, so the loop may not end: its result is
  \<open>None\<close> then.
\<close>

section \<open>Responses\<close>

datatype string_or_int = StrVal string | IntVal int

record gdrive_file =
  gf_id            :: string
  gf_name          :: string
  gf_mime_type     :: "string option"
  gf_size          :: "int option"
  gf_modified_time :: "string option"
  gf_md5_checksum  :: "string option"
  gf_trashed       :: bool
  gf_parents       :: "string list option"

record gdrive_change =
  gc_removed :: bool
  gc_file_id :: string
  gc_file    :: "gdrive_file option"

record gdrive_changes =
  gp_changes              :: "gdrive_change list"
  gp_next_page_token      :: "string option"
  gp_new_start_page_token :: "string option"

record onedrive_hashes =
  sha1_hash      :: "string option"
  quick_xor_hash :: "string option"

record onedrive_file_info =
  fi_mime_type :: "string option"
  fi_hashes    :: "onedrive_hashes option"

text \<open>The parent reference is its path, when it has one; a folder or deletion mark only counts as present.\<close>

record onedrive_item =
  oi_id               :: string
  oi_name             :: "string option"
  oi_size             :: "int option"
  oi_last_modified    :: "string option"
  oi_parent_reference :: "string option option"
  oi_folder           :: bool
  oi_file             :: "onedrive_file_info option"
  oi_deleted          :: bool

record onedrive_response =
  od_value      :: "onedrive_item list"
  od_next_link  :: "string option"
  od_delta_link :: "string option"

text \<open>\<open>str::parse::<i64>\<close>.\<close>

definition parse_i64 :: "string \<Rightarrow> int option" where
  "parse_i64 s =
     (let (neg, ds) = (case s of [] \<Rightarrow> (False, [])
            | c # r \<Rightarrow> if c = CHR ''-'' then (True, r) else if c = CHR ''+'' then (False, r) else (False, s));
          v = (if neg then - int (digits_val ds) else int (digits_val ds))
      in if ds \<noteq> [] \<and> list_all is_digit ds \<and> - (2 ^ 63) \<le> v \<and> v < 2 ^ 63 then Some v else None)"

text \<open>
  The derived deserialisers: a field of an object by its name (a repeated field is
  an error), required, optional (absent and \<open>null\<close> are \<open>None\<close>) or with a default
  for an absent one.
\<close>

definition field :: "string \<Rightarrow> (string \<times> json) list \<Rightarrow> json option option" where
  "field k kvs = (case filter (\<lambda>kv. fst kv = k) kvs of [] \<Rightarrow> Some None | [kv] \<Rightarrow> Some (Some (snd kv)) | _ \<Rightarrow> None)"

definition req_field :: "string \<Rightarrow> (json \<Rightarrow> 'a option) \<Rightarrow> (string \<times> json) list \<Rightarrow> 'a option" where
  "req_field k f kvs = (case field k kvs of Some (Some v) \<Rightarrow> f v | _ \<Rightarrow> None)"

fun nullable :: "(json \<Rightarrow> 'a option) \<Rightarrow> json \<Rightarrow> 'a option option" where
  "nullable f JNull = Some None"
| "nullable f v = map_option Some (f v)"

definition opt_field :: "string \<Rightarrow> (json \<Rightarrow> 'a option) \<Rightarrow> (string \<times> json) list \<Rightarrow> 'a option option" where
  "opt_field k f kvs = (case field k kvs of None \<Rightarrow> None | Some None \<Rightarrow> Some None | Some (Some v) \<Rightarrow> nullable f v)"

definition default_field :: "string \<Rightarrow> 'a \<Rightarrow> (json \<Rightarrow> 'a option) \<Rightarrow> (string \<times> json) list \<Rightarrow> 'a option" where
  "default_field k d f kvs = (case field k kvs of None \<Rightarrow> None | Some None \<Rightarrow> Some d | Some (Some v) \<Rightarrow> f v)"

fun as_bool :: "json \<Rightarrow> bool option" where
  "as_bool (JBool b) = Some b"
| "as_bool _ = None"

fun as_int64 :: "json \<Rightarrow> int option" where
  "as_int64 (JInt i) = (if - (2 ^ 63) \<le> i \<and> i < 2 ^ 63 then Some i else None)"
| "as_int64 _ = None"

fun all_some :: "'a option list \<Rightarrow> 'a list option" where
  "all_some [] = Some []"
| "all_some (x # xs) = do { a \<leftarrow> x; as \<leftarrow> all_some xs; Some (a # as) }"

fun as_vec :: "(json \<Rightarrow> 'a option) \<Rightarrow> json \<Rightarrow> 'a list option" where
  "as_vec f (JArr vs) = all_some (map f vs)"
| "as_vec f _ = None"

fun as_object :: "((string \<times> json) list \<Rightarrow> 'a option) \<Rightarrow> json \<Rightarrow> 'a option" where
  "as_object f (JObj kvs) = f kvs"
| "as_object f _ = None"

fun as_string_or_int :: "json \<Rightarrow> string_or_int option" where
  "as_string_or_int (JStr s) = Some (StrVal s)"
| "as_string_or_int v = map_option IntVal (as_int64 v)"

definition deserialize_optional_string_i64 :: "json \<Rightarrow> int option option" where
  "deserialize_optional_string_i64 v = do {
     opt \<leftarrow> nullable as_string_or_int v;
     case opt of
       None \<Rightarrow> Some None
     | Some (IntVal n) \<Rightarrow> Some (Some n)
     | Some (StrVal s) \<Rightarrow> map_option Some (parse_i64 s) }"

definition read_gdrive_start_token :: "json \<Rightarrow> string option" where
  "read_gdrive_start_token = as_object (req_field ''startPageToken'' as_str)"

definition read_gdrive_file :: "json \<Rightarrow> gdrive_file option" where
  "read_gdrive_file = as_object (\<lambda>kvs. do {
     i \<leftarrow> req_field ''id'' as_str kvs;
     name \<leftarrow> req_field ''name'' as_str kvs;
     mime \<leftarrow> opt_field ''mimeType'' as_str kvs;
     sz \<leftarrow> default_field ''size'' None deserialize_optional_string_i64 kvs;
     mtime \<leftarrow> opt_field ''modifiedTime'' as_str kvs;
     md5 \<leftarrow> opt_field ''md5Checksum'' as_str kvs;
     trashed \<leftarrow> default_field ''trashed'' False as_bool kvs;
     parents \<leftarrow> opt_field ''parents'' (as_vec as_str) kvs;
     Some \<lparr> gf_id = i, gf_name = name, gf_mime_type = mime, gf_size = sz, gf_modified_time = mtime,
       gf_md5_checksum = md5, gf_trashed = trashed, gf_parents = parents \<rparr> })"

definition read_gdrive_change :: "json \<Rightarrow> gdrive_change option" where
  "read_gdrive_change = as_object (\<lambda>kvs. do {
     removed \<leftarrow> default_field ''removed'' False as_bool kvs;
     i \<leftarrow> req_field ''fileId'' as_str kvs;
     f \<leftarrow> opt_field ''file'' read_gdrive_file kvs;
     Some \<lparr> gc_removed = removed, gc_file_id = i, gc_file = f \<rparr> })"

definition read_gdrive_changes :: "json \<Rightarrow> gdrive_changes option" where
  "read_gdrive_changes = as_object (\<lambda>kvs. do {
     cs \<leftarrow> default_field ''changes'' [] (as_vec read_gdrive_change) kvs;
     next \<leftarrow> opt_field ''nextPageToken'' as_str kvs;
     start \<leftarrow> opt_field ''newStartPageToken'' as_str kvs;
     Some \<lparr> gp_changes = cs, gp_next_page_token = next, gp_new_start_page_token = start \<rparr> })"

definition read_onedrive_file :: "json \<Rightarrow> onedrive_file_info option" where
  "read_onedrive_file = as_object (\<lambda>kvs. do {
     mime \<leftarrow> opt_field ''mimeType'' as_str kvs;
     hashes \<leftarrow> opt_field ''hashes'' (as_object (\<lambda>hs. do {
        sha1 \<leftarrow> opt_field ''sha1Hash'' as_str hs;
        qx \<leftarrow> opt_field ''quickXorHash'' as_str hs;
        Some \<lparr> sha1_hash = sha1, quick_xor_hash = qx \<rparr> })) kvs;
     Some \<lparr> fi_mime_type = mime, fi_hashes = hashes \<rparr> })"

definition read_onedrive_item :: "json \<Rightarrow> onedrive_item option" where
  "read_onedrive_item = as_object (\<lambda>kvs. do {
     i \<leftarrow> req_field ''id'' as_str kvs;
     name \<leftarrow> opt_field ''name'' as_str kvs;
     sz \<leftarrow> opt_field ''size'' as_int64 kvs;
     mtime \<leftarrow> opt_field ''lastModifiedDateTime'' as_str kvs;
     parent \<leftarrow> opt_field ''parentReference'' (as_object (opt_field ''path'' as_str)) kvs;
     folder \<leftarrow> opt_field ''folder'' Some kvs;
     f \<leftarrow> opt_field ''file'' read_onedrive_file kvs;
     del \<leftarrow> opt_field ''deleted'' Some kvs;
     Some \<lparr> oi_id = i, oi_name = name, oi_size = sz, oi_last_modified = mtime, oi_parent_reference = parent,
       oi_folder = folder \<noteq> None, oi_file = f, oi_deleted = del \<noteq> None \<rparr> })"

definition read_onedrive_response :: "json \<Rightarrow> onedrive_response option" where
  "read_onedrive_response = as_object (\<lambda>kvs. do {
     items \<leftarrow> default_field ''value'' [] (as_vec read_onedrive_item) kvs;
     next \<leftarrow> opt_field ''@odata.nextLink'' as_str kvs;
     delta \<leftarrow> opt_field ''@odata.deltaLink'' as_str kvs;
     Some \<lparr> od_value = items, od_next_link = next, od_delta_link = delta \<rparr> })"

text \<open>A size reported as a signed integer, cast to \<open>u64\<close>.\<close>

definition size_u64 :: "int option \<Rightarrow> nat" where
  "size_u64 sz = unat (as_u64 (case sz of Some n \<Rightarrow> n | None \<Rightarrow> 0))"

section \<open>Requests\<close>

record http_request =
  rq_url    :: string
  rq_bearer :: string
  rq_query  :: "(string \<times> string) list"

text \<open>
  An answer is an error of the connection or a status with a body that may not
  be readable.  \<open>status_text\<close> prints a status with its reason, \<open>json_error\<close> what the
  deserialiser says about a text it rejects, and \<open>quoted\<close> the debug form of the
  first 512 characters of a text.
\<close>

record 'r api =
  http_get         :: "http_request \<Rightarrow> 'r \<Rightarrow> (string + nat \<times> (string + string)) \<times> 'r"
  status_text      :: "nat \<Rightarrow> string"
  utc_now          :: "'r \<Rightarrow> system_time"
  json_of          :: "string \<Rightarrow> json option"
  json_error       :: "string \<Rightarrow> string"
  quoted           :: "string \<Rightarrow> string"
  rfc3339          :: "string \<Rightarrow> system_time option"
  b64              :: "engine \<Rightarrow> string \<Rightarrow> bytes option"
  config           :: "'r config_env"

record auth =
  au_access_token :: string
  au_expiry       :: system_time

record 'r delta_state =
  ds_auth :: auth
  ds_host :: 'r

type_synonym ('r, 'a) dm = "('r delta_state, sync_error, 'a) sem"

definition on_host :: "('r \<Rightarrow> ('e + 'a) \<times> 'r) \<Rightarrow> ('r delta_state, 'e, 'a) sem" where
  "on_host m s = (case m (ds_host s) of (r, h) \<Rightarrow> (r, s\<lparr>ds_host := h\<rparr>))"

definition refresh :: "'r api \<Rightarrow> string \<Rightarrow> ('r, string) dm" where
  "refresh A remote_name =
     bindS (attempt (on_host (get_fresh_oauth_token (config A) remote_name))) (\<lambda>r. case r of
        Inl e \<Rightarrow> raise (Transient (''token refresh: '' @ e))
      | Inr oauth \<Rightarrow>
          thenS (modifyS (\<lambda>s. s\<lparr>ds_auth := \<lparr> au_access_token = access_token oauth, au_expiry = expiry oauth \<rparr>\<rparr>))
            (ret (access_token oauth)))"

definition ensure_valid_token :: "'r api \<Rightarrow> string \<Rightarrow> ('r, string) dm" where
  "ensure_valid_token A remote_name =
     bindS (query (\<lambda>s. au_expiry (ds_auth s) \<le> utc_now A (ds_host s) + 60 * 1000000000)) (\<lambda>expired.
       if expired then refresh A remote_name else query (\<lambda>s. au_access_token (ds_auth s)))"

definition force_refresh_token :: "'r api \<Rightarrow> string \<Rightarrow> ('r, string) dm" where
  "force_refresh_token A remote_name = refresh A remote_name"

definition is_success :: "nat \<Rightarrow> bool" where
  "is_success status \<longleftrightarrow> 200 \<le> status \<and> status < 300"

definition body_or_empty :: "string + string \<Rightarrow> string" where
  "body_or_empty b = (case b of Inr t \<Rightarrow> t | Inl _ \<Rightarrow> [])"

text \<open>The body of a response as a struct: reading it and parsing it may fail.\<close>

definition read_json :: "'r api \<Rightarrow> (json \<Rightarrow> 'a option) \<Rightarrow> string + string \<Rightarrow> string + 'a" where
  "read_json A f body =
     (case body of
        Inl e \<Rightarrow> Inl e
      | Inr t \<Rightarrow> (case Option.bind (json_of A t) f of Some x \<Rightarrow> Inr x | None \<Rightarrow> Inl (json_error A t)))"

section \<open>Loops that may not end\<close>

text \<open>One iteration either ends the loop with a result or hands its variables to the next one.\<close>

partial_function (option) iterate ::
  "('c \<Rightarrow> ('s, 'e, 'c + 'a) sem) \<Rightarrow> 'c \<Rightarrow> 's \<Rightarrow> (('e + 'a) \<times> 's) option" where
  [code]: "iterate step c s =
     (case step c s of
        (Inl e, s') \<Rightarrow> Some (Inl e, s')
      | (Inr (Inr a), s') \<Rightarrow> Some (Inr a, s')
      | (Inr (Inl c'), s') \<Rightarrow> iterate step c' s')"

text \<open>What follows a loop, when the loop ends.\<close>

definition after_loop :: "(('e + 'a) \<times> 's) option \<Rightarrow> ('a \<Rightarrow> ('s, 'e, 'b) sem) \<Rightarrow> (('e + 'b) \<times> 's) option" where
  "after_loop r k = (case r of
      None \<Rightarrow> None | Some (Inl e, s) \<Rightarrow> Some (Inl e, s) | Some (Inr a, s) \<Rightarrow> Some (k a s))"

section \<open>Google Drive\<close>

record gdrive =
  root_folder_id :: string
  gd_remote_name :: string

type_synonym id_map = "string \<rightharpoonup> string \<times> string list"

definition GDRIVE_CHANGES_URL :: string where
  "GDRIVE_CHANGES_URL = ''https://www.googleapis.com/drive/v3/changes''"

definition GDRIVE_START_TOKEN_URL :: string where
  "GDRIVE_START_TOKEN_URL = ''https://www.googleapis.com/drive/v3/changes/startPageToken''"

definition GDRIVE_FILES_URL :: string where
  "GDRIVE_FILES_URL = ''https://www.googleapis.com/drive/v3/files''"

definition GDRIVE_CHANGES_FIELDS :: string where
  "GDRIVE_CHANGES_FIELDS = ''nextPageToken,newStartPageToken,changes(removed,fileId,'' @
     ''file(id,name,mimeType,size,modifiedTime,md5Checksum,trashed,parents))''"

definition map_http_error :: "'r api \<Rightarrow> nat \<Rightarrow> string \<Rightarrow> sync_error" where
  "map_http_error A status body =
     (if contains_str body ''rateLimitExceeded'' \<or> contains_str body ''RATE_LIMIT_EXCEEDED''
         \<or> contains_str body ''userRateLimitExceeded'' then Transient (''rate limited: '' @ body)
      else if status = 410 then TokenExpired
      else if status = 401 \<or> status = 403 then PermissionDenied (''HTTP '' @ status_text A status @ '': '' @ body)
      else if status = 429 then Transient (''rate limited: '' @ body)
      else if 500 \<le> status \<and> status \<le> 599 then Transient (''server error HTTP '' @ status_text A status @ '': '' @ body)
      else Fatal (''HTTP '' @ status_text A status @ '': '' @ body))"

text \<open>The walk up the parents, with the number of steps left.\<close>

fun walk_up :: "nat \<Rightarrow> string \<Rightarrow> id_map \<Rightarrow> string \<Rightarrow> string list \<Rightarrow> string option" where
  "walk_up 0 root ids current components = None"
| "walk_up (Suc n) root ids current components =
     (if current = root then Some (join_with ''/'' (rev components))
      else case ids current of
        None \<Rightarrow> None
      | Some (name, []) \<Rightarrow> None
      | Some (name, g # _) \<Rightarrow> walk_up n root ids g (components @ [name]))"

definition gd_resolve_path :: "gdrive \<Rightarrow> string \<Rightarrow> string list \<Rightarrow> id_map \<Rightarrow> string option" where
  "gd_resolve_path g file_name parents ids =
     (case parents of [] \<Rightarrow> None | p # _ \<Rightarrow> walk_up 100 (root_folder_id g) ids p [file_name])"

definition get_file_metadata :: "'r api \<Rightarrow> string \<Rightarrow> string \<Rightarrow> ('r, (string \<times> string list) option) dm" where
  "get_file_metadata A file_id token =
     bindS (attempt (on_host (http_get A \<lparr> rq_url = GDRIVE_FILES_URL @ ''/'' @ file_id, rq_bearer = token,
         rq_query = [(''fields'', ''name,parents'')] \<rparr>))) (\<lambda>r. case r of
       Inl e \<Rightarrow> raise (Network (''get file metadata: '' @ e))
     | Inr (status, body) \<Rightarrow>
         (if status = 404 then ret None
          else if \<not> is_success status then raise (map_http_error A status (body_or_empty body))
          else case read_json A read_gdrive_file body of
            Inl e \<Rightarrow> raise (Fatal (''parse file metadata: '' @ e))
          | Inr f \<Rightarrow> ret (Some (gf_name f, case gf_parents f of Some ps \<Rightarrow> ps | None \<Rightarrow> []))))"

fun gd_start_token_from :: "nat \<Rightarrow> 'r api \<Rightarrow> gdrive \<Rightarrow> string \<Rightarrow> nat \<Rightarrow> ('r, string) dm" where
  "gd_start_token_from 0 A g token tries = raise (Fatal ''start_token failed after retry'')"
| "gd_start_token_from (Suc n) A g token tries =
     bindS (attempt (on_host (http_get A \<lparr> rq_url = GDRIVE_START_TOKEN_URL, rq_bearer = token, rq_query = [] \<rparr>))) (\<lambda>r.
       case r of
         Inl e \<Rightarrow> raise (Network (''get start token: '' @ e))
       | Inr (status, body) \<Rightarrow>
           (if status = 401 \<and> tries = 0
            then bindS (force_refresh_token A (gd_remote_name g)) (\<lambda>t. gd_start_token_from n A g t (Suc tries))
            else if \<not> is_success status then raise (map_http_error A status (body_or_empty body))
            else case read_json A read_gdrive_start_token body of
              Inl e \<Rightarrow> raise (Fatal (''parse start token: '' @ e))
            | Inr t \<Rightarrow> ret t))"

definition gd_start_token :: "'r api \<Rightarrow> gdrive \<Rightarrow> ('r, string) dm" where
  "gd_start_token A g = bindS (ensure_valid_token A (gd_remote_name g)) (\<lambda>token. gd_start_token_from 2 A g token 0)"

text \<open>The variables of the loop over the pages.\<close>

record gd_loop =
  gl_access_token  :: string
  gl_current_token :: string
  gl_retried_auth  :: bool
  gl_id_map        :: id_map
  gl_raw_changes   :: "gdrive_change list"

definition changes_request :: "string \<Rightarrow> string \<Rightarrow> http_request" where
  "changes_request access current = \<lparr> rq_url = GDRIVE_CHANGES_URL, rq_bearer = access,
     rq_query = [(''pageToken'', current), (''pageSize'', ''1000''), (''fields'', GDRIVE_CHANGES_FIELDS),
       (''includeRemoved'', ''true''), (''restrictToMyDrive'', ''true'')] \<rparr>"

definition note_change :: "id_map \<Rightarrow> gdrive_change \<Rightarrow> id_map" where
  "note_change ids c = (case gc_file c of
      None \<Rightarrow> ids
    | Some f \<Rightarrow> ids(gf_id f \<mapsto> (gf_name f, case gf_parents f of Some ps \<Rightarrow> ps | None \<Rightarrow> [])))"

definition gd_step :: "'r api \<Rightarrow> gdrive \<Rightarrow> gd_loop \<Rightarrow> ('r, gd_loop + gd_loop \<times> string) dm" where
  "gd_step A g v =
     bindS (attempt (on_host (http_get A (changes_request (gl_access_token v) (gl_current_token v))))) (\<lambda>r. case r of
       Inl e \<Rightarrow> raise (Network (''changes request: '' @ e))
     | Inr (status, body) \<Rightarrow>
         (if \<not> is_success status then
            if status = 401 \<and> \<not> gl_retried_auth v
            then bindS (force_refresh_token A (gd_remote_name g)) (\<lambda>t.
                   ret (Inl (v\<lparr>gl_access_token := t, gl_retried_auth := True\<rparr>)))
            else raise (map_http_error A status (body_or_empty body))
          else case read_json A read_gdrive_changes body of
            Inl e \<Rightarrow> raise (Fatal (''parse changes: '' @ e))
          | Inr page \<Rightarrow>
              (let v' = v\<lparr>gl_id_map := foldl note_change (gl_id_map v) (gp_changes page),
                          gl_raw_changes := gl_raw_changes v @ gp_changes page\<rparr>
               in case (gp_new_start_page_token page, gp_next_page_token page) of
                    (Some nst, _) \<Rightarrow> ret (Inr (v', nst))
                  | (None, Some npt) \<Rightarrow> ret (Inl (v'\<lparr>gl_current_token := npt\<rparr>))
                  | (None, None) \<Rightarrow> raise (Fatal ''changes response has neither nextPageToken nor newStartPageToken''))))"

definition missing_parents :: "gdrive \<Rightarrow> id_map \<Rightarrow> gdrive_change list \<Rightarrow> string list" where
  "missing_parents g ids cs = remdups_adj (concat (map (\<lambda>c. case gc_file c of
      None \<Rightarrow> []
    | Some f \<Rightarrow> filter (\<lambda>p. p \<noteq> root_folder_id g \<and> ids p = None) (case gf_parents f of Some ps \<Rightarrow> ps | None \<Rightarrow> [])) cs))"

fun fetch_parents :: "'r api \<Rightarrow> string \<Rightarrow> string list \<Rightarrow> id_map \<Rightarrow> ('r, id_map) dm" where
  "fetch_parents A token [] ids = ret ids"
| "fetch_parents A token (p # ps) ids =
     bindS (attempt (get_file_metadata A p token)) (\<lambda>r.
       fetch_parents A token ps (case r of Inr (Some np) \<Rightarrow> ids(p \<mapsto> np) | _ \<Rightarrow> ids))"

definition time_or_epoch :: "'r api \<Rightarrow> string option \<Rightarrow> system_time" where
  "time_or_epoch A t = (case Option.bind t (rfc3339 A) of Some x \<Rightarrow> x | None \<Rightarrow> 0)"

definition gd_convert :: "'r api \<Rightarrow> gdrive \<Rightarrow> id_map \<Rightarrow> gdrive_change \<Rightarrow> remote_change option" where
  "gd_convert A g ids c =
     (if gc_removed c then
        (case ids (gc_file_id c) of
           None \<Rightarrow> None
         | Some (name, parents) \<Rightarrow>
             map_option (\<lambda>p. Deleted p (Some (gc_file_id c))) (gd_resolve_path g name parents ids))
      else case gc_file c of
        None \<Rightarrow> None
      | Some f \<Rightarrow>
          (let path = gd_resolve_path g (gf_name f) (case gf_parents f of Some ps \<Rightarrow> ps | None \<Rightarrow> []) ids in
           if gf_trashed f then map_option (\<lambda>p. Deleted p (Some (gf_id f))) path
           else map_option (\<lambda>p. Added \<lparr> rm_path = p, rm_name = gf_name f, rm_size = size_u64 (gf_size f),
             rm_mtime = time_or_epoch A (gf_modified_time f),
             rm_is_dir = (gf_mime_type f = Some ''application/vnd.google-apps.folder''),
             rm_etag = gf_md5_checksum f, rm_checksum = None, rm_mime_type = gf_mime_type f, rm_item_id = Some (gf_id f) \<rparr>) path))"

definition gd_changes_since ::
  "'r api \<Rightarrow> gdrive \<Rightarrow> string \<Rightarrow> 'r delta_state \<Rightarrow> ((sync_error + remote_change list \<times> string) \<times> 'r delta_state) option" where
  "gd_changes_since A g page_token s =
     (case ensure_valid_token A (gd_remote_name g) s of
        (Inl e, s') \<Rightarrow> Some (Inl e, s')
      | (Inr access, s') \<Rightarrow>
          after_loop
            (iterate (gd_step A g) \<lparr> gl_access_token = access, gl_current_token = page_token, gl_retried_auth = False,
               gl_id_map = Map.empty, gl_raw_changes = [] \<rparr> s')
            (\<lambda>(v, next_token).
               bindS (fetch_parents A (gl_access_token v) (take 50 (missing_parents g (gl_id_map v) (gl_raw_changes v))) (gl_id_map v)) (\<lambda>ids.
                 ret (List.map_filter (gd_convert A g ids) (gl_raw_changes v), next_token))))"

section \<open>OneDrive\<close>

record onedrive =
  root_path      :: string
  drive_url      :: string
  od_remote_name :: string

definition od_map_http_error :: "'r api \<Rightarrow> nat \<Rightarrow> string \<Rightarrow> sync_error" where
  "od_map_http_error A status body =
     (if status = 410 then TokenExpired
      else if status = 404 \<and> contains_str body ''resyncRequired'' then TokenExpired
      else if status = 401 \<or> status = 403 then PermissionDenied (''HTTP '' @ status_text A status @ '': '' @ body)
      else if status = 429 then Transient (''rate limited: '' @ body)
      else if 500 \<le> status \<and> status \<le> 599 then Transient (''server error HTTP '' @ status_text A status @ '': '' @ body)
      else Fatal (''HTTP '' @ status_text A status @ '': '' @ body))"

definition strip_onedrive_root_prefix :: "string \<Rightarrow> string option" where
  "strip_onedrive_root_prefix raw =
     (case strip_prefix ''/drive/root:'' raw of
        Some rest \<Rightarrow> Some rest
      | None \<Rightarrow>
          if raw = ''/drive/root'' then Some []
          else case strip_prefix ''/drives/'' raw of
            None \<Rightarrow> None
          | Some after_drives \<Rightarrow>
              (let after_id = dropWhile (\<lambda>c. c \<noteq> CHR ''/'') after_drives in
               case strip_prefix ''/root:'' after_id of
                 Some rest \<Rightarrow> Some rest
               | None \<Rightarrow> if after_id = ''/root'' then Some [] else None))"

definition resolve_item_path :: "onedrive \<Rightarrow> onedrive_item \<Rightarrow> string option" where
  "resolve_item_path od item = do {
     name \<leftarrow> oi_name item;
     ref \<leftarrow> oi_parent_reference item;
     parent_path \<leftarrow> strip_onedrive_root_prefix (case ref of Some p \<Rightarrow> p | None \<Rightarrow> []);
     let full_path = (if parent_path = [] then name else trim_start_matches (CHR ''/'') parent_path @ ''/'' @ name);
     if root_path od = [] \<or> root_path od = ''/'' then Some full_path
     else do {
       rest0 \<leftarrow> strip_prefix (trim_start_matches (CHR ''/'') (root_path od)) full_path;
       let rest = trim_start_matches (CHR ''/'') rest0;
       if rest = [] then None else Some rest } }"

definition delta_url :: "onedrive \<Rightarrow> string" where
  "delta_url od =
     (if root_path od = [] \<or> root_path od = ''/'' then drive_url od @ ''/root/delta''
      else drive_url od @ ''/root:/'' @ trim_start_matches (CHR ''/'') (root_path od) @ '':/delta'')"

text \<open>The text of a response and its struct; the message of a parse error quotes the body.\<close>

definition od_read :: "'r api \<Rightarrow> string \<Rightarrow> string + string \<Rightarrow> sync_error + onedrive_response" where
  "od_read A what body =
     (case body of
        Inl e \<Rightarrow> Inl (Network (''OneDrive delta read body: '' @ e))
      | Inr t \<Rightarrow>
          (case Option.bind (json_of A t) read_onedrive_response of
             Some page \<Rightarrow> Inr page
           | None \<Rightarrow> Inl (Fatal (''parse '' @ what @ '': '' @ json_error A t @ ''; body[..512]='' @ quoted A t))))"

fun od_start_token_from :: "nat \<Rightarrow> 'r api \<Rightarrow> onedrive \<Rightarrow> string \<Rightarrow> nat \<Rightarrow> ('r, string) dm" where
  "od_start_token_from 0 A od token tries = raise (Fatal ''start_token failed after retry'')"
| "od_start_token_from (Suc n) A od token tries =
     bindS (attempt (on_host (http_get A \<lparr> rq_url = delta_url od, rq_bearer = token, rq_query = [(''token'', ''latest'')] \<rparr>))) (\<lambda>r.
       case r of
         Inl e \<Rightarrow> raise (Network (''OneDrive get start token: '' @ e))
       | Inr (status, body) \<Rightarrow>
           (if status = 401 \<and> tries = 0
            then bindS (force_refresh_token A (od_remote_name od)) (\<lambda>t. od_start_token_from n A od t (Suc tries))
            else if \<not> is_success status then raise (od_map_http_error A status (body_or_empty body))
            else case od_read A ''OneDrive delta response'' body of
              Inl e \<Rightarrow> raise e
            | Inr page \<Rightarrow>
                (case od_delta_link page of
                   Some l \<Rightarrow> ret l
                 | None \<Rightarrow> raise (Fatal ''OneDrive delta response missing @odata.deltaLink''))))"

definition od_start_token :: "'r api \<Rightarrow> onedrive \<Rightarrow> ('r, string) dm" where
  "od_start_token A od = bindS (ensure_valid_token A (od_remote_name od)) (\<lambda>token. od_start_token_from 2 A od token 0)"

definition onedrive_content_etag :: "'r api \<Rightarrow> onedrive_hashes \<Rightarrow> string option" where
  "onedrive_content_etag A h = Option.bind (or_else (quick_xor_hash h) (sha1_hash h)) (hash_to_hex (b64 A))"

definition od_convert :: "'r api \<Rightarrow> onedrive \<Rightarrow> onedrive_item \<Rightarrow> remote_change option" where
  "od_convert A od item =
     (if oi_deleted item then map_option (\<lambda>p. Deleted p (Some (oi_id item))) (resolve_item_path od item)
      else if oi_parent_reference item = None then None
      else do {
        path \<leftarrow> resolve_item_path od item;
        name \<leftarrow> oi_name item;
        Some (Added \<lparr> rm_path = path, rm_name = name, rm_size = size_u64 (oi_size item),
          rm_mtime = time_or_epoch A (oi_last_modified item), rm_is_dir = oi_folder item,
          rm_etag = Option.bind (Option.bind (oi_file item) fi_hashes) (onedrive_content_etag A),
          rm_checksum = None, rm_mime_type = Option.bind (oi_file item) fi_mime_type, rm_item_id = Some (oi_id item) \<rparr>) })"

record od_loop =
  ol_access_token :: string
  ol_current_url  :: string
  ol_retried_auth :: bool
  ol_changes      :: "remote_change list"

definition od_step :: "'r api \<Rightarrow> onedrive \<Rightarrow> od_loop \<Rightarrow> ('r, od_loop + remote_change list \<times> string) dm" where
  "od_step A od v =
     bindS (attempt (on_host (http_get A \<lparr> rq_url = ol_current_url v, rq_bearer = ol_access_token v, rq_query = [] \<rparr>))) (\<lambda>r.
       case r of
         Inl e \<Rightarrow> raise (Network (''OneDrive delta request: '' @ e))
       | Inr (status, body) \<Rightarrow>
           (if \<not> is_success status then
              if status = 401 \<and> \<not> ol_retried_auth v
              then bindS (force_refresh_token A (od_remote_name od)) (\<lambda>t.
                     ret (Inl (v\<lparr>ol_access_token := t, ol_retried_auth := True\<rparr>)))
              else raise (od_map_http_error A status (body_or_empty body))
            else case od_read A ''OneDrive delta'' body of
              Inl e \<Rightarrow> raise e
            | Inr page \<Rightarrow>
                (let changes = ol_changes v @ List.map_filter (od_convert A od) (od_value page) in
                 case (od_delta_link page, od_next_link page) of
                   (Some dl, _) \<Rightarrow> ret (Inr (changes, dl))
                 | (None, Some next) \<Rightarrow> ret (Inl (v\<lparr>ol_changes := changes, ol_current_url := next\<rparr>))
                 | (None, None) \<Rightarrow>
                     raise (Fatal ''OneDrive delta response has neither @odata.deltaLink nor @odata.nextLink''))))"

definition od_changes_since ::
  "'r api \<Rightarrow> onedrive \<Rightarrow> string \<Rightarrow> 'r delta_state \<Rightarrow> ((sync_error + remote_change list \<times> string) \<times> 'r delta_state) option" where
  "od_changes_since A od delta_link s =
     (case ensure_valid_token A (od_remote_name od) s of
        (Inl e, s') \<Rightarrow> Some (Inl e, s')
      | (Inr access, s') \<Rightarrow>
          iterate (od_step A od) \<lparr> ol_access_token = access, ol_current_url = delta_link, ol_retried_auth = False,
            ol_changes = [] \<rparr> s')"

section \<open>Choosing a provider\<close>

datatype provider_type = GoogleDrive | OneDrive

definition detect_provider :: "string \<Rightarrow> provider_type option" where
  "detect_provider rclone_type =
     (if rclone_type = ''drive'' then Some GoogleDrive else if rclone_type = ''onedrive'' then Some OneDrive else None)"

datatype delta_provider = GoogleDriveDelta gdrive auth | OneDriveDelta onedrive auth

definition auth_of :: "oauth_token \<Rightarrow> auth" where
  "auth_of oauth = \<lparr> au_access_token = access_token oauth, au_expiry = expiry oauth \<rparr>"

definition provider_of :: "'r config_env \<Rightarrow> string \<Rightarrow> (string \<rightharpoonup> string) \<Rightarrow> delta_provider option" where
  "provider_of E root conf =
     (let remote_name = extract_remote_name root in do {
        rclone_type \<leftarrow> conf ''type'';
        ptype \<leftarrow> detect_provider rclone_type;
        token_json \<leftarrow> conf ''token'';
        oauth \<leftarrow> (case parse_oauth_token E token_json of Inr t \<Rightarrow> Some t | Inl _ \<Rightarrow> None);
        Some (case ptype of
          GoogleDrive \<Rightarrow> GoogleDriveDelta
            \<lparr> root_folder_id = (case conf ''root_folder_id'' of Some x \<Rightarrow> x | None \<Rightarrow> ''root''), gd_remote_name = remote_name \<rparr>
            (auth_of oauth)
        | OneDrive \<Rightarrow> OneDriveDelta
            \<lparr> root_path = (case split_once (CHR '':'') root of Some (_, p) \<Rightarrow> p | None \<Rightarrow> ''/''),
              drive_url = (case conf ''drive_id'' of Some i \<Rightarrow> ''https://graph.microsoft.com/v1.0/drives/'' @ i
                           | None \<Rightarrow> ''https://graph.microsoft.com/v1.0/me/drive''),
              od_remote_name = remote_name \<rparr>
            (auth_of oauth)) })"

text \<open>The delta support of a backend: \<open>None\<close> leaves the poller to full listings.\<close>

definition init_delta :: "'r config_env \<Rightarrow> rclone_backend \<Rightarrow> 'r \<Rightarrow> delta_provider option \<times> 'r" where
  "init_delta E b s =
     (case rclone_config_show E (extract_remote_name (remote_root b)) s of
        (Inl _, s') \<Rightarrow> (None, s')
      | (Inr conf, s') \<Rightarrow> (provider_of E (remote_root b) conf, s'))"

end
