(* ===== verification/Delta_Laws.thy ===== *)
theory Delta_Laws
  imports Delta
begin

text \<open>
  Laws of the change feeds.  Reading a feed page by page is one interface, that
  both providers implement: from a server that ends its feed, the loop ends with
  the items of all pages in order.  On top of it, the paths that the Google
  provider reports are the paths of the drive.
\<close>

section \<open>Paged feeds\<close>

lemma iterate_next: "step c s = (Inr (Inl c'), s') \<Longrightarrow> iterate step c s = iterate step c' s'"
  by (subst iterate.simps) simp

lemma iterate_end: "step c s = (Inr (Inr a), s') \<Longrightarrow> iterate step c s = Some (Inr a, s')"
  by (subst iterate.simps) simp

text \<open>
  A server serves at a token some items and either the token of the next page
  or the final one.  A feed from a token is the items up to the final token.
\<close>

inductive feed :: "('t \<Rightarrow> 'i list \<Rightarrow> 't + 't \<Rightarrow> bool) \<Rightarrow> 't \<Rightarrow> 'i list \<Rightarrow> 't \<Rightarrow> bool" for serves where
  feed_last: "serves t xs (Inr fin) \<Longrightarrow> feed serves t xs fin"
| feed_more: "\<lbrakk>serves t xs (Inl t'); feed serves t' ys fin\<rbrakk> \<Longrightarrow> feed serves t (xs @ ys) fin"

locale paged_feed =
  fixes step :: "'c \<Rightarrow> ('s, 'e, 'c + 'a) sem"
    and serves :: "'t \<Rightarrow> 'i list \<Rightarrow> 't + 't \<Rightarrow> bool"
    and reading :: "'t \<Rightarrow> 'i list \<Rightarrow> 'c \<Rightarrow> bool"
    and collected :: "'i list \<Rightarrow> 't \<Rightarrow> 'a \<Rightarrow> bool"
  assumes step_more: "\<lbrakk>serves t xs (Inl t'); reading t acc c\<rbrakk> \<Longrightarrow> \<exists>c'. step c s = (Inr (Inl c'), s) \<and> reading t' (acc @ xs) c'"
    and step_last: "\<lbrakk>serves t xs (Inr fin); reading t acc c\<rbrakk> \<Longrightarrow> \<exists>a. step c s = (Inr (Inr a), s) \<and> collected (acc @ xs) fin a"
begin

lemma feed_is_read:
  "feed serves t xs fin \<Longrightarrow> reading t acc c \<Longrightarrow> \<exists>a. iterate step c s = Some (Inr a, s) \<and> collected (acc @ xs) fin a"
proof (induction arbitrary: acc c rule: feed.induct)
  case (feed_last t xs fin)
  from step_last [OF this] obtain a where "step c s = (Inr (Inr a), s)" "collected (acc @ xs) fin a" by blast
  then show ?case using iterate_end by metis
next
  case (feed_more t xs t' ys fin)
  from step_more [OF feed_more(1,4)] obtain c' where c': "step c s = (Inr (Inl c'), s)" "reading t' (acc @ xs) c'" by blast
  from feed_more.IH [OF c'(2)] obtain a where "iterate step c' s = Some (Inr a, s)" "collected ((acc @ xs) @ ys) fin a" by blast
  with iterate_next [of step c s c' s, OF c'(1)] show ?case by auto
qed

end

section \<open>The providers as readers\<close>

text \<open>The server answers a request in every state, and leaves the state alone.\<close>

definition answers :: "'r api \<Rightarrow> http_request \<Rightarrow> json \<Rightarrow> bool" where
  "answers A rq j \<longleftrightarrow> (\<exists>status body. is_success status \<and> json_of A body = Some j
     \<and> (\<forall>h. http_get A rq h = (Inr (status, Inr body), h)))"

lemma on_host_pure: "m (ds_host s) = (r, ds_host s) \<Longrightarrow> on_host m s = (r, s)"
  by (simp add: on_host_def)

lemma answers_run:
  assumes "answers A rq j"
  obtains status body where "is_success status" "\<And>s. on_host (http_get A rq) s = (Inr (status, Inr body), s)"
    "json_of A body = Some j"
  using assms by (auto simp: answers_def intro: on_host_pure)

definition gd_serves :: "'r api \<Rightarrow> string \<Rightarrow> string \<Rightarrow> gdrive_change list \<Rightarrow> string + string \<Rightarrow> bool" where
  "gd_serves A access t xs nxt \<longleftrightarrow> (\<exists>j page. answers A (changes_request access t) j \<and> read_gdrive_changes j = Some page
     \<and> gp_changes page = xs
     \<and> (case nxt of Inr fin \<Rightarrow> gp_new_start_page_token page = Some fin
        | Inl t' \<Rightarrow> gp_new_start_page_token page = None \<and> gp_next_page_token page = Some t'))"

definition gd_reading :: "string \<Rightarrow> string \<Rightarrow> gdrive_change list \<Rightarrow> gd_loop \<Rightarrow> bool" where
  "gd_reading access t acc v \<longleftrightarrow> gl_access_token v = access \<and> gl_current_token v = t \<and> gl_raw_changes v = acc
     \<and> gl_id_map v = foldl note_change Map.empty acc"

definition gd_collected :: "string \<Rightarrow> gdrive_change list \<Rightarrow> string \<Rightarrow> gd_loop \<times> string \<Rightarrow> bool" where
  "gd_collected access acc fin r \<longleftrightarrow> snd r = fin \<and> gl_access_token (fst r) = access \<and> gl_raw_changes (fst r) = acc
     \<and> gl_id_map (fst r) = foldl note_change Map.empty acc"

interpretation gd_feed: paged_feed "gd_step A g" "gd_serves A access" "gd_reading access" "gd_collected access"
  for A :: "'r api" and g access
proof unfold_locales
  fix t xs t' acc v and s :: "'r delta_state"
  assume sv: "gd_serves A access t xs (Inl t')" and rd: "gd_reading access t acc v"
  from sv obtain j page where p: "answers A (changes_request access t) j" "read_gdrive_changes j = Some page" "gp_changes page = xs"
    "gp_new_start_page_token page = None" "gp_next_page_token page = Some t'" by (auto simp: gd_serves_def)
  from p(1) show "\<exists>c'. gd_step A g v s = (Inr (Inl c'), s) \<and> gd_reading access t' (acc @ xs) c'"
    by (rule answers_run) (use p rd in \<open>simp add: gd_step_def gd_reading_def run_bind read_json_def Let_def\<close>)
next
  fix t xs fin acc v and s :: "'r delta_state"
  assume sv: "gd_serves A access t xs (Inr fin)" and rd: "gd_reading access t acc v"
  from sv obtain j page where p: "answers A (changes_request access t) j" "read_gdrive_changes j = Some page" "gp_changes page = xs"
    "gp_new_start_page_token page = Some fin" by (auto simp: gd_serves_def)
  from p(1) show "\<exists>a. gd_step A g v s = (Inr (Inr a), s) \<and> gd_collected access (acc @ xs) fin a"
    by (rule answers_run) (use p rd in \<open>simp add: gd_step_def gd_reading_def gd_collected_def run_bind read_json_def Let_def\<close>)
qed

definition od_serves :: "'r api \<Rightarrow> string \<Rightarrow> string \<Rightarrow> onedrive_item list \<Rightarrow> string + string \<Rightarrow> bool" where
  "od_serves A access t xs nxt \<longleftrightarrow> (\<exists>j page. answers A \<lparr> rq_url = t, rq_bearer = access, rq_query = [] \<rparr> j
     \<and> read_onedrive_response j = Some page \<and> od_value page = xs
     \<and> (case nxt of Inr fin \<Rightarrow> od_delta_link page = Some fin
        | Inl t' \<Rightarrow> od_delta_link page = None \<and> od_next_link page = Some t'))"

definition od_reading :: "'r api \<Rightarrow> onedrive \<Rightarrow> string \<Rightarrow> string \<Rightarrow> onedrive_item list \<Rightarrow> od_loop \<Rightarrow> bool" where
  "od_reading A od access t acc v \<longleftrightarrow> ol_access_token v = access \<and> ol_current_url v = t
     \<and> ol_changes v = List.map_filter (od_convert A od) acc"

definition od_collected :: "'r api \<Rightarrow> onedrive \<Rightarrow> onedrive_item list \<Rightarrow> string \<Rightarrow> remote_change list \<times> string \<Rightarrow> bool" where
  "od_collected A od acc fin r \<longleftrightarrow> r = (List.map_filter (od_convert A od) acc, fin)"

interpretation od_feed: paged_feed "od_step A od" "od_serves A access" "od_reading A od access" "od_collected A od"
  for A :: "'r api" and od access
proof unfold_locales
  fix t xs t' acc v and s :: "'r delta_state"
  assume sv: "od_serves A access t xs (Inl t')" and rd: "od_reading A od access t acc v"
  from sv obtain j page where p: "answers A \<lparr> rq_url = t, rq_bearer = access, rq_query = [] \<rparr> j" "read_onedrive_response j = Some page"
    "od_value page = xs" "od_delta_link page = None" "od_next_link page = Some t'" by (auto simp: od_serves_def)
  from p(1) show "\<exists>c'. od_step A od v s = (Inr (Inl c'), s) \<and> od_reading A od access t' (acc @ xs) c'"
    by (rule answers_run) (use p rd in \<open>simp add: od_step_def od_reading_def run_bind od_read_def Let_def map_filter_append\<close>)
next
  fix t xs fin acc v and s :: "'r delta_state"
  assume sv: "od_serves A access t xs (Inr fin)" and rd: "od_reading A od access t acc v"
  from sv obtain j page where p: "answers A \<lparr> rq_url = t, rq_bearer = access, rq_query = [] \<rparr> j" "read_onedrive_response j = Some page"
    "od_value page = xs" "od_delta_link page = Some fin" by (auto simp: od_serves_def)
  from p(1) show "\<exists>a. od_step A od v s = (Inr (Inr a), s) \<and> od_collected A od (acc @ xs) fin a"
    by (rule answers_run) (use p rd in \<open>simp add: od_step_def od_reading_def od_collected_def run_bind od_read_def Let_def map_filter_append\<close>)
qed

section \<open>Paths of a drive\<close>

text \<open>
  The names met on the way from a folder up to the root, by first parents.
\<close>

fun leads :: "string \<Rightarrow> id_map \<Rightarrow> string \<Rightarrow> string list \<Rightarrow> bool" where
  "leads root ids i [] \<longleftrightarrow> i = root"
| "leads root ids i (n # ns) \<longleftrightarrow> i \<noteq> root \<and> (\<exists>g gs. ids i = Some (n, g # gs) \<and> leads root ids g ns)"

text \<open>The path of a file or folder of the drive, relative to the root.\<close>

definition drive_path :: "string \<Rightarrow> id_map \<Rightarrow> string \<times> string list \<Rightarrow> string \<Rightarrow> bool" where
  "drive_path root ids f p \<longleftrightarrow>
     (\<exists>q qs ns. snd f = q # qs \<and> leads root ids q ns \<and> p = join_with ''/'' (rev ns @ [fst f]))"

lemma walk_up_iff:
  "walk_up k root ids i cs = Some p \<longleftrightarrow> (\<exists>ns. leads root ids i ns \<and> length ns < k \<and> p = join_with ''/'' (rev (cs @ ns)))"
proof (induction k arbitrary: i cs)
  case (Suc k)
  show ?case
  proof (cases "i = root")
    case True
    have "leads root ids root ns \<longleftrightarrow> ns = []" for ns by (cases ns) auto
    with True show ?thesis by auto
  next
    case False
    then have l: "leads root ids i ns \<longleftrightarrow> (\<exists>n ms g gs. ns = n # ms \<and> ids i = Some (n, g # gs) \<and> leads root ids g ms)" for ns
      by (cases ns) auto
    show ?thesis
    proof (cases "\<exists>n g gs. ids i = Some (n, g # gs)")
      case True
      then obtain n g gs where i: "ids i = Some (n, g # gs)" by blast
      have "walk_up (Suc k) root ids i cs = walk_up k root ids g (cs @ [n])" using False i by simp
      moreover have "(\<exists>ns. leads root ids i ns \<and> length ns < Suc k \<and> p = join_with ''/'' (rev (cs @ ns)))
          \<longleftrightarrow> (\<exists>ms. leads root ids g ms \<and> length ms < k \<and> p = join_with ''/'' (rev ((cs @ [n]) @ ms)))"
        unfolding l by (auto simp: i)
      ultimately show ?thesis using Suc by simp
    next
      case False
      with \<open>i \<noteq> root\<close> have "walk_up (Suc k) root ids i cs = None" by (auto split: option.split list.split)
      with False l show ?thesis by auto
    qed
  qed
qed simp

lemma leads_mono: "ids \<subseteq>\<^sub>m ids' \<Longrightarrow> leads root ids i ns \<Longrightarrow> leads root ids' i ns"
proof (induction ns arbitrary: i)
  case (Cons n ns)
  then obtain g gs where "ids i = Some (n, g # gs)" "leads root ids g ns" "i \<noteq> root" by auto
  moreover from this Cons.prems(1) have "ids' i = Some (n, g # gs)" by (metis domI map_le_def)
  ultimately show ?case using Cons by auto
qed simp

lemma resolve_sound:
  "gd_resolve_path g n ps ids = Some p \<Longrightarrow> ids \<subseteq>\<^sub>m T \<Longrightarrow> drive_path (root_folder_id g) T (n, ps) p"
  using leads_mono by (auto simp: gd_resolve_path_def drive_path_def walk_up_iff split: list.splits) fastforce

lemma resolve_complete:
  assumes "ps = q # qs" "leads (root_folder_id g) ids0 q ns" "length ns < 100" "ids0 \<subseteq>\<^sub>m ids"
  shows "gd_resolve_path g n ps ids \<noteq> None"
proof -
  from leads_mono [OF assms(4,2)] assms(3) have "\<exists>p. walk_up 100 (root_folder_id g) ids q [n] = Some p"
    unfolding walk_up_iff by blast
  with assms(1) show ?thesis by (auto simp: gd_resolve_path_def)
qed

abbreviation parents_of :: "gdrive_file \<Rightarrow> string list" where
  "parents_of f \<equiv> (case gf_parents f of Some ps \<Rightarrow> ps | None \<Rightarrow> [])"

text \<open>What a feed says agrees with the drive.\<close>

definition agrees :: "id_map \<Rightarrow> gdrive_change list \<Rightarrow> bool" where
  "agrees T cs \<longleftrightarrow> (\<forall>c\<in>set cs. \<forall>f. gc_file c = Some f \<longrightarrow> T (gf_id f) = Some (gf_name f, parents_of f))"

lemma noted_le: "\<lbrakk>agrees T cs; ids \<subseteq>\<^sub>m T\<rbrakk> \<Longrightarrow> foldl note_change ids cs \<subseteq>\<^sub>m T"
proof (induction cs arbitrary: ids)
  case (Cons c cs)
  have "note_change ids c \<subseteq>\<^sub>m T"
    using Cons.prems by (auto simp: note_change_def agrees_def map_le_def split: option.splits)
  with Cons show ?case by (auto simp: agrees_def)
qed simp

lemma fetch_parents_run:
  "\<exists>ids' s'. fetch_parents A token ps ids s = (Inr ids', s')
     \<and> (\<forall>p. ids' p \<noteq> ids p \<longrightarrow> p \<in> set ps \<and> (\<exists>np t t'. ids' p = Some np \<and> get_file_metadata A p token t = (Inr (Some np), t')))"
proof (induction ps arbitrary: ids s)
  case (Cons p ps)
  obtain r s1 where r: "get_file_metadata A p token s = (r, s1)" by fastforce
  define m where "m = (case r of Inr (Some np) \<Rightarrow> ids(p \<mapsto> np) | _ \<Rightarrow> ids)"
  from Cons [of m s1] obtain ids' s' where h: "fetch_parents A token ps m s1 = (Inr ids', s')"
    "\<And>q. ids' q \<noteq> m q \<Longrightarrow> q \<in> set ps \<and> (\<exists>np t t'. ids' q = Some np \<and> get_file_metadata A q token t = (Inr (Some np), t'))" by blast
  have step: "m q \<noteq> ids q \<Longrightarrow> q = p \<and> (\<exists>np. m q = Some np \<and> r = Inr (Some np))" for q
    by (auto simp: m_def split: sum.splits option.splits if_splits)
  have "q \<in> set (p # ps) \<and> (\<exists>np t t'. ids' q = Some np \<and> get_file_metadata A q token t = (Inr (Some np), t'))"
    if "ids' q \<noteq> ids q" for q
  proof (cases "ids' q = m q")
    case True
    with that step [of q] r show ?thesis by auto
  qed (use h(2) in auto)
  moreover have "fetch_parents A token (p # ps) ids s = (Inr ids', s')"
    using h(1) r by (simp add: run_bind m_def)
  ultimately show ?case by blast
qed auto

lemma missing_unknown: "p \<in> set (missing_parents g ids cs) \<Longrightarrow> ids p = None"
  by (auto simp: missing_parents_def split: option.splits)

text \<open>The outcome of a call, for a server that ends its feed.\<close>

lemma gd_changes_run:
  assumes fd: "feed (gd_serves A access) t cs fin" and tok: "ensure_valid_token A (gd_remote_name g) s = (Inr access, s1)"
  shows "\<exists>ids s2. gd_changes_since A g t s = Some (Inr (List.map_filter (gd_convert A g ids) cs, fin), s2)
     \<and> foldl note_change Map.empty cs \<subseteq>\<^sub>m ids
     \<and> (\<forall>p np. ids p = Some np \<longrightarrow> foldl note_change Map.empty cs p = Some np
          \<or> (\<exists>st st'. get_file_metadata A p access st = (Inr (Some np), st')))"
proof -
  let ?v = "\<lparr> gl_access_token = access, gl_current_token = t, gl_retried_auth = False, gl_id_map = Map.empty, gl_raw_changes = [] \<rparr>"
  let ?ids = "foldl note_change Map.empty cs"
  have "gd_reading access t [] ?v" by (simp add: gd_reading_def)
  from gd_feed.feed_is_read [OF fd this, of g s1] obtain v where it: "iterate (gd_step A g) ?v s1 = Some (Inr (v, fin), s1)"
    and v: "gl_access_token v = access" "gl_raw_changes v = cs" "gl_id_map v = ?ids"
    by (auto simp: gd_collected_def)
  let ?ps = "take 50 (missing_parents g ?ids cs)"
  from fetch_parents_run [of A access ?ps ?ids s1] obtain ids s2 where f: "fetch_parents A access ?ps ?ids s1 = (Inr ids, s2)"
    and ids: "\<And>p. ids p \<noteq> ?ids p \<Longrightarrow> p \<in> set ?ps \<and> (\<exists>np t t'. ids p = Some np \<and> get_file_metadata A p access t = (Inr (Some np), t'))"
    by blast
  have "gd_changes_since A g t s = Some (Inr (List.map_filter (gd_convert A g ids) cs, fin), s2)"
    using tok it f v by (simp add: gd_changes_since_def after_loop_def run_bind)
  moreover have "?ids \<subseteq>\<^sub>m ids"
  proof (unfold map_le_def, intro ballI)
    fix p assume "p \<in> dom ?ids"
    then have "?ids p \<noteq> None" by auto
    then have "p \<notin> set ?ps" using missing_unknown in_set_takeD by metis
    with ids [of p] show "?ids p = ids p" by metis
  qed
  moreover have "?ids p = Some np \<or> (\<exists>st st'. get_file_metadata A p access st = (Inr (Some np), st'))" if "ids p = Some np" for p np
    using ids [of p] that by (cases "ids p = ?ids p") auto
  ultimately show ?thesis by blast
qed

lemma converted_sound:
  assumes "gd_convert A g ids c = Some x" "ids \<subseteq>\<^sub>m T" "agrees T cs" "c \<in> set cs"
  shows "\<exists>i f p. T i = Some f \<and> drive_path (root_folder_id g) T f p
     \<and> (x = Deleted p (Some i) \<or> (\<exists>meta. x = Added meta \<and> rm_path meta = p \<and> rm_item_id meta = Some i \<and> rm_name meta = fst f))"
proof (cases "gc_removed c")
  case True
  with assms(1) obtain n ps p where i: "ids (gc_file_id c) = Some (n, ps)" "gd_resolve_path g n ps ids = Some p"
    "x = Deleted p (Some (gc_file_id c))" by (auto simp: gd_convert_def split: option.splits)
  moreover have "T (gc_file_id c) = Some (n, ps)" using i(1) assms(2) by (metis domI map_le_def)
  ultimately show ?thesis using resolve_sound [OF i(2) assms(2)] by blast
next
  case False
  with assms(1) obtain f p where f: "gc_file c = Some f" "gd_resolve_path g (gf_name f) (parents_of f) ids = Some p"
    and x: "x = Deleted p (Some (gf_id f)) \<or> (\<exists>meta. x = Added meta \<and> rm_path meta = p \<and> rm_item_id meta = Some (gf_id f) \<and> rm_name meta = gf_name f)"
    by (auto simp: gd_convert_def Let_def split: option.splits if_splits)
  have "T (gf_id f) = Some (gf_name f, parents_of f)" using assms(3,4) f(1) by (auto simp: agrees_def)
  with resolve_sound [OF f(2) assms(2)] x show ?thesis by fastforce
qed

lemma converted_live:
  assumes "\<not> gc_removed c" "gc_file c = Some f" "\<not> gf_trashed f" "parents_of f = q # qs"
    "leads (root_folder_id g) ids0 q ns" "length ns < 100" "ids0 \<subseteq>\<^sub>m ids"
  shows "\<exists>meta. gd_convert A g ids c = Some (Added meta) \<and> rm_item_id meta = Some (gf_id f)"
  using resolve_complete [OF assms(4-7), of "gf_name f"] assms(1-3) by (auto simp: gd_convert_def Let_def)

text \<open>
  C4: the Google provider implements the abstract drive, a tree of ids.  From a
  server that ends its feed, in however many pages, and that tells the truth
  about the tree, it returns; every change it reports names an item of the tree
  under the item's own path below the mounted folder; and every live file of the
  feed whose folders are in the feed, less than 100 deep, is reported.
\<close>

theorem drive_feed_refines_tree:
  assumes "feed (gd_serves A access) t cs fin" "ensure_valid_token A (gd_remote_name g) s = (Inr access, s1)"
    and "agrees T cs" "\<forall>p np st st'. get_file_metadata A p access st = (Inr (Some np), st') \<longrightarrow> T p = Some np"
  shows "\<exists>out s2. gd_changes_since A g t s = Some (Inr (out, fin), s2)
     \<and> (\<forall>x\<in>set out. \<exists>i f p. T i = Some f \<and> drive_path (root_folder_id g) T f p
          \<and> (x = Deleted p (Some i) \<or> (\<exists>meta. x = Added meta \<and> rm_path meta = p \<and> rm_item_id meta = Some i \<and> rm_name meta = fst f)))
     \<and> (\<forall>c\<in>set cs. \<forall>f q qs ns. \<not> gc_removed c \<and> gc_file c = Some f \<and> \<not> gf_trashed f \<and> parents_of f = q # qs
          \<and> leads (root_folder_id g) (foldl note_change Map.empty cs) q ns \<and> length ns < 100
          \<longrightarrow> (\<exists>meta. Added meta \<in> set out \<and> rm_item_id meta = Some (gf_id f)))"
proof -
  let ?noted = "foldl note_change Map.empty cs"
  from gd_changes_run [OF assms(1,2)] obtain ids s2 where run: "gd_changes_since A g t s = Some (Inr (List.map_filter (gd_convert A g ids) cs, fin), s2)"
    and le: "?noted \<subseteq>\<^sub>m ids"
    and src: "\<And>p np. ids p = Some np \<Longrightarrow> ?noted p = Some np \<or> (\<exists>st st'. get_file_metadata A p access st = (Inr (Some np), st'))" by blast
  have noted: "?noted \<subseteq>\<^sub>m T" using assms(3) by (rule noted_le) simp
  have T: "ids \<subseteq>\<^sub>m T"
  proof (unfold map_le_def, intro ballI)
    fix p assume "p \<in> dom ids"
    then obtain np where np: "ids p = Some np" by blast
    have "?noted p = Some np \<Longrightarrow> T p = Some np" using noted unfolding map_le_def by force
    with src [OF np] assms(4) have "T p = Some np" by blast
    with np show "ids p = T p" by simp
  qed
  let ?out = "List.map_filter (gd_convert A g ids) cs"
  have "\<exists>meta. Added meta \<in> set ?out \<and> rm_item_id meta = Some (gf_id f)"
    if "c \<in> set cs" "\<not> gc_removed c" "gc_file c = Some f" "\<not> gf_trashed f" "parents_of f = q # qs"
      "leads (root_folder_id g) ?noted q ns" "length ns < 100" for c f q qs ns
    using converted_live [OF that(2-7) le, of A] that(1) by (auto simp: in_map_filter)
  moreover have "\<exists>i f p. T i = Some f \<and> drive_path (root_folder_id g) T f p
      \<and> (x = Deleted p (Some i) \<or> (\<exists>meta. x = Added meta \<and> rm_path meta = p \<and> rm_item_id meta = Some i \<and> rm_name meta = fst f))"
    if "x \<in> set ?out" for x
  proof -
    from that obtain c where c: "c \<in> set cs" "gd_convert A g ids c = Some x" by (auto simp: in_map_filter)
    show ?thesis by (rule converted_sound [OF c(2) T assms(3) c(1)])
  qed
  ultimately show ?thesis using run by (intro exI [of _ ?out] exI [of _ s2] conjI ballI allI impI) (blast+)
qed

text \<open>A drive with one folder and one file; the feed mentions the file only.\<close>

definition one_file_api :: "unit api" where
  "one_file_api = \<lparr>
     http_get = (\<lambda>rq h.
       (Inr (if rq_url rq = GDRIVE_CHANGES_URL then (200, Inr ''P'')
             else if rq_url rq = GDRIVE_FILES_URL @ ''/d1'' then (200, Inr ''F'') else (404, Inr [])), h)),
     status_text = nat_to_string, utc_now = (\<lambda>_. 0),
     json_of = [''P'' \<mapsto> JObj [(''changes'', JArr [JObj [(''fileId'', JStr ''f1''), (''file'',
           JObj [(''id'', JStr ''f1''), (''name'', JStr ''a''), (''size'', JStr ''7''), (''parents'', JArr [JStr ''d1''])])]]),
         (''newStartPageToken'', JStr ''t2'')],
       ''F'' \<mapsto> JObj [(''id'', JStr ''d1''), (''name'', JStr ''d''), (''parents'', JArr [JStr ''root''])]],
     json_error = (\<lambda>_. []), quoted = (\<lambda>t. t), rfc3339 = (\<lambda>_. None), b64 = (\<lambda>_ _. None),
     config = \<lparr> ce_output = (\<lambda>_ h. (Inl [], h)), ce_lossy = (\<lambda>_. []), ce_token_json = (\<lambda>_. None), ce_rfc3339 = (\<lambda>_. None) \<rparr> \<rparr>"

definition one_file :: gdrive_file where
  "one_file = \<lparr> gf_id = ''f1'', gf_name = ''a'', gf_mime_type = None, gf_size = Some 7, gf_modified_time = None,
     gf_md5_checksum = None, gf_trashed = False, gf_parents = Some [''d1''] \<rparr>"

definition one_change :: gdrive_change where
  "one_change = \<lparr> gc_removed = False, gc_file_id = ''f1'', gc_file = Some one_file \<rparr>"

definition one_tree :: id_map where
  "one_tree = [''f1'' \<mapsto> (''a'', [''d1'']), ''d1'' \<mapsto> (''d'', [''root''])]"

definition one_drive :: gdrive where
  "one_drive = \<lparr> root_folder_id = ''root'', gd_remote_name = ''g'' \<rparr>"

definition one_state :: "unit delta_state" where
  "one_state = \<lparr> ds_auth = \<lparr> au_access_token = ''k'', au_expiry = 100000000000 \<rparr>, ds_host = () \<rparr>"

lemma one_page: "read_gdrive_changes (the (json_of one_file_api ''P'')) =
    Some \<lparr> gp_changes = [one_change], gp_next_page_token = None, gp_new_start_page_token = Some ''t2'' \<rparr>"
  by code_simp

lemma one_folder: "read_gdrive_file (the (json_of one_file_api ''F'')) = Some \<lparr> gf_id = ''d1'', gf_name = ''d'', gf_mime_type = None,
     gf_size = None, gf_modified_time = None, gf_md5_checksum = None, gf_trashed = False, gf_parents = Some [''root''] \<rparr>"
  by code_simp

lemma one_feed: "feed (gd_serves one_file_api ''k'') ''t1'' [one_change] ''t2''"
proof (rule feed_last)
  have "answers one_file_api (changes_request ''k'' ''t1'') (the (json_of one_file_api ''P''))"
    by (auto simp: answers_def one_file_api_def changes_request_def is_success_def intro!: exI [of _ 200] exI [of _ "''P''"])
  with one_page show "gd_serves one_file_api ''k'' ''t1'' [one_change] (Inr ''t2'')"
    by (auto simp: gd_serves_def)
qed

lemma one_lookup: "get_file_metadata one_file_api p ''k'' st = (Inr (if p = ''d1'' then Some (''d'', [''root'']) else None), st)"
proof -
  have ne: "GDRIVE_FILES_URL @ x \<noteq> GDRIVE_CHANGES_URL" for x
    by (simp add: GDRIVE_FILES_URL_def GDRIVE_CHANGES_URL_def)
  have h: "on_host (http_get one_file_api \<lparr> rq_url = GDRIVE_FILES_URL @ CHR ''/'' # p, rq_bearer = ''k'', rq_query = q \<rparr>) st
      = (Inr (if p = ''d1'' then (200, Inr ''F'') else (404, Inr [])), st)" for q
    by (simp add: on_host_def one_file_api_def ne)
  have f: "json_of one_file_api ''F'' \<noteq> None" by (simp add: one_file_api_def)
  then show ?thesis
    using one_folder by (auto simp: get_file_metadata_def run_bind h is_success_def read_json_def)
qed

theorem drive_feed_refines_tree_witness:
  "\<exists>out s2. gd_changes_since one_file_api one_drive ''t1'' one_state = Some (Inr (out, ''t2''), s2)
     \<and> (\<forall>x\<in>set out. \<exists>i f p. one_tree i = Some f \<and> drive_path ''root'' one_tree f p
          \<and> (x = Deleted p (Some i) \<or> (\<exists>meta. x = Added meta \<and> rm_path meta = p \<and> rm_item_id meta = Some i \<and> rm_name meta = fst f)))"
proof -
  have t: "ensure_valid_token one_file_api (gd_remote_name one_drive) one_state = (Inr ''k'', one_state)"
    by (simp add: ensure_valid_token_def one_file_api_def one_state_def)
  have a: "agrees one_tree [one_change]" by (simp add: agrees_def one_tree_def one_change_def one_file_def)
  have l: "\<forall>p np st st'. get_file_metadata one_file_api p ''k'' st = (Inr (Some np), st') \<longrightarrow> one_tree p = Some np"
    by (auto simp: one_lookup one_tree_def)
  from drive_feed_refines_tree [OF one_feed t a l] show ?thesis by (fastforce simp: one_drive_def)
qed

section \<open>Changes that are lost\<close>

lemma field_absent: "k \<notin> fst ` set kvs \<Longrightarrow> field k kvs = Some None"
proof -
  assume "k \<notin> fst ` set kvs"
  then have "filter (\<lambda>kv. fst kv = k) kvs = []" by (auto simp: filter_empty_conv)
  then show ?thesis by (simp add: field_def)
qed

text \<open>
  The lookup of a folder asks for the fields \<open>name\<close> and \<open>parents\<close> and reads the
  answer as a struct that requires \<open>id\<close>.  When the server sends the fields it was
  asked for, no lookup succeeds.
\<close>

definition sends_requested_fields :: "'r api \<Rightarrow> bool" where
  "sends_requested_fields A \<longleftrightarrow> (\<forall>rq h status body h' kvs. rq_query rq = [(''fields'', ''name,parents'')]
     \<and> http_get A rq h = (Inr (status, Inr body), h') \<and> is_success status \<and> json_of A body = Some (JObj kvs)
     \<longrightarrow> fst ` set kvs \<subseteq> {''name'', ''parents''})"

lemma no_id_no_file: "fst ` set kvs \<subseteq> {''name'', ''parents''} \<Longrightarrow> read_gdrive_file (JObj kvs) = None"
proof -
  assume "fst ` set kvs \<subseteq> {''name'', ''parents''}"
  then have "''id'' \<notin> fst ` set kvs" by auto
  then show ?thesis by (simp add: read_gdrive_file_def req_field_def field_absent)
qed

lemma parent_lookup_fails:
  assumes "sends_requested_fields A"
  shows "get_file_metadata A p token s \<noteq> (Inr (Some np), s')"
proof
  assume "get_file_metadata A p token s = (Inr (Some np), s')"
  then obtain status body f h' where b: "http_get A \<lparr> rq_url = GDRIVE_FILES_URL @ ''/'' @ p, rq_bearer = token,
      rq_query = [(''fields'', ''name,parents'')] \<rparr> (ds_host s) = (Inr (status, body), h')" "is_success status"
    "read_json A read_gdrive_file body = Inr f"
    by (cases "http_get A \<lparr> rq_url = GDRIVE_FILES_URL @ ''/'' @ p, rq_bearer = token,
          rq_query = [(''fields'', ''name,parents'')] \<rparr> (ds_host s)")
       (auto simp: get_file_metadata_def run_bind on_host_def split: sum.splits prod.splits if_splits)
  from b(3) obtain x j where x: "body = Inr x" "json_of A x = Some j" "read_gdrive_file j = Some f"
    by (auto simp: read_json_def bind_eq_Some_conv split: sum.splits option.splits)
  from x(3) obtain kvs where j: "j = JObj kvs" by (cases j) (auto simp: read_gdrive_file_def)
  have "fst ` set kvs \<subseteq> {''name'', ''parents''}"
    using assms [unfolded sends_requested_fields_def, rule_format, of "\<lparr> rq_url = GDRIVE_FILES_URL @ ''/'' @ p, rq_bearer = token,
        rq_query = [(''fields'', ''name,parents'')] \<rparr>" "ds_host s" status x h' kvs] b(1,2) x(1,2) j by simp
  with no_id_no_file x(3) j show False by simp
qed

text \<open>
  So a change of a file below a folder that is not in the same feed is dropped,
  and the token still moves past it; and so is the removal of an item that the
  feed does not describe, which is how the server reports removals.
\<close>

theorem drive_feed_drops_changes:
  assumes "feed (gd_serves A access) t cs fin" "ensure_valid_token A (gd_remote_name g) s = (Inr access, s1)" "sends_requested_fields A"
  shows "\<exists>s2. gd_changes_since A g t s = Some (Inr (List.map_filter (gd_convert A g (foldl note_change Map.empty cs)) cs, fin), s2)"
    and "\<lbrakk>gc_file c = Some f; \<not> gc_removed c; parents_of f = q # qs; q \<noteq> root_folder_id g; foldl note_change Map.empty cs q = None\<rbrakk>
      \<Longrightarrow> gd_convert A g (foldl note_change Map.empty cs) c = None"
    and "\<lbrakk>gc_removed c; foldl note_change Map.empty cs (gc_file_id c) = None\<rbrakk>
      \<Longrightarrow> gd_convert A g (foldl note_change Map.empty cs) c = None"
proof -
  from gd_changes_run [OF assms(1,2)] obtain ids s2 where run: "gd_changes_since A g t s = Some (Inr (List.map_filter (gd_convert A g ids) cs, fin), s2)"
    and le: "foldl note_change Map.empty cs \<subseteq>\<^sub>m ids"
    and src: "\<And>p np. ids p = Some np \<Longrightarrow> foldl note_change Map.empty cs p = Some np" using parent_lookup_fails [OF assms(3)] by blast
  have "ids p = foldl note_change Map.empty cs p" for p
  proof (cases "p \<in> dom (foldl note_change Map.empty cs)")
    case True
    with le show ?thesis by (simp add: map_le_def)
  next
    case False
    then have n: "foldl note_change Map.empty cs p = None" by (metis domIff)
    with src [of p] have "ids p = None" by (cases "ids p") simp_all
    with n show ?thesis by simp
  qed
  then have "ids = foldl note_change Map.empty cs" by blast
  with run show "\<exists>s2. gd_changes_since A g t s = Some (Inr (List.map_filter (gd_convert A g (foldl note_change Map.empty cs)) cs, fin), s2)"
    by blast
next
  have w: "q \<noteq> root_folder_id g \<Longrightarrow> ids q = None \<Longrightarrow> walk_up 100 (root_folder_id g) ids q cs' = None" for q ids cs'
    by (simp add: numeral_eq_Suc)
  show "\<lbrakk>gc_file c = Some f; \<not> gc_removed c; parents_of f = q # qs; q \<noteq> root_folder_id g; foldl note_change Map.empty cs q = None\<rbrakk>
      \<Longrightarrow> gd_convert A g (foldl note_change Map.empty cs) c = None"
    by (simp add: gd_convert_def Let_def gd_resolve_path_def w)
  show "\<lbrakk>gc_removed c; foldl note_change Map.empty cs (gc_file_id c) = None\<rbrakk>
      \<Longrightarrow> gd_convert A g (foldl note_change Map.empty cs) c = None"
    by (simp add: gd_convert_def)
qed

section \<open>Paths of OneDrive\<close>

lemma strip_prefix_append [simp]: "strip_prefix p (p @ x) = Some x"
  by (simp add: strip_prefix_def)

text \<open>
  The two spellings of the parent path, with and without the id of the drive,
  give the same path.
\<close>

lemma onedrive_spellings:
  assumes "CHR ''/'' \<notin> set drive_id"
  shows "strip_onedrive_root_prefix (''/drives/'' @ drive_id @ ''/root:'' @ p) = Some p"
    and "strip_onedrive_root_prefix (''/drive/root:'' @ p) = Some p"
    and "strip_onedrive_root_prefix (''/drives/'' @ drive_id @ ''/root'') = Some []"
    and "strip_onedrive_root_prefix ''/drive/root'' = Some []"
proof -
  have d: "dropWhile (\<lambda>c. c \<noteq> CHR ''/'') (drive_id @ CHR ''/'' # x) = CHR ''/'' # x" for x
    using assms by (subst dropWhile_append2) auto
  have n: "strip_prefix ''/drive/root:'' (''/drives/'' @ x) = None" "''/drives/'' @ x \<noteq> ''/drive/root''" for x
    by (simp_all add: strip_prefix_def)
  show "strip_onedrive_root_prefix (''/drives/'' @ drive_id @ ''/root:'' @ p) = Some p"
    unfolding strip_onedrive_root_prefix_def n(1) strip_prefix_append using n(2) [of "drive_id @ ''/root:'' @ p"] d [of "''root:'' @ p"]
    by (simp add: strip_prefix_def Let_def)
  show "strip_onedrive_root_prefix (''/drives/'' @ drive_id @ ''/root'') = Some []"
    unfolding strip_onedrive_root_prefix_def n(1) strip_prefix_append using n(2) [of "drive_id @ ''/root''"] d [of "''root''"]
    by (simp add: strip_prefix_def Let_def)
  show "strip_onedrive_root_prefix (''/drive/root:'' @ p) = Some p"
    unfolding strip_onedrive_root_prefix_def strip_prefix_append by simp
  show "strip_onedrive_root_prefix ''/drive/root'' = Some []" by code_simp
qed

text \<open>The feed of OneDrive, page by page.\<close>

lemma od_changes_run:
  assumes fd: "feed (od_serves A access) t items fin" and tok: "ensure_valid_token A (od_remote_name od) s = (Inr access, s1)"
  shows "od_changes_since A od t s = Some (Inr (List.map_filter (od_convert A od) items, fin), s1)"
proof -
  let ?v = "\<lparr> ol_access_token = access, ol_current_url = t, ol_retried_auth = False, ol_changes = [] \<rparr>"
  have "od_reading A od access t [] ?v" by (simp add: od_reading_def List.map_filter_def)
  from od_feed.feed_is_read [OF fd this, of s1] tok show ?thesis
    by (auto simp: od_changes_since_def od_collected_def)
qed

text \<open>
  The mounted folder is compared as a prefix of the text, without a boundary: an
  item of another folder whose name begins with the name of the mounted one is
  reported, under a path with the rest of that name.
\<close>

definition odd_item :: onedrive_item where
  "odd_item = \<lparr> oi_id = ''i'', oi_name = Some ''x.txt'', oi_size = None, oi_last_modified = None,
     oi_parent_reference = Some (Some ''/drive/root:/Documents''), oi_folder = False, oi_file = None, oi_deleted = False \<rparr>"

theorem onedrive_root_without_boundary:
  "resolve_item_path \<lparr> root_path = ''/Doc'', drive_url = [], od_remote_name = [] \<rparr> odd_item = Some ''uments/x.txt''"
  by code_simp

end
