(* ===== verification/Settings.thy ===== *)
theory Settings
  imports Rclone Conflict
begin

text \<open>
  The configuration structs with their defaults (\<open>stratosync-core/src/config/mod.rs\<close>)
  and the validation of a loaded configuration (\<open>stratosync-cli/src/config_io.rs\<close>).
  Floating-point numbers are a type parameter; the directories of the user and
  the matcher of ignore patterns are parameters.
\<close>

section \<open>Paths of the user\<close>

record user_env =
  ue_home       :: "path option"
  ue_home_var   :: path
  ue_config_dir :: "path option"
  ue_data_dir   :: "path option"
  ue_cache_dir  :: "path option"
  ue_runtime    :: "string option"
  ue_uid        :: nat

definition dir_or_home :: "user_env \<Rightarrow> path option \<Rightarrow> path" where
  "dir_or_home U d = (case d of Some p \<Rightarrow> p | None \<Rightarrow> ue_home_var U)"

definition default_config_path :: "user_env \<Rightarrow> path" where
  "default_config_path U = path_join (path_join (dir_or_home U (ue_config_dir U)) ''stratosync'') ''config.toml''"

definition default_data_dir :: "user_env \<Rightarrow> path" where
  "default_data_dir U = path_join (dir_or_home U (ue_data_dir U)) ''stratosync''"

definition default_cache_dir :: "user_env \<Rightarrow> path" where
  "default_cache_dir U = path_join (dir_or_home U (ue_cache_dir U)) ''stratosync''"

definition expand_tilde :: "user_env \<Rightarrow> path \<Rightarrow> path" where
  "expand_tilde U p =
     (case strip_prefix ''~/'' p of
        Some rest \<Rightarrow> (case ue_home U of Some home \<Rightarrow> path_join home rest | None \<Rightarrow> p)
      | None \<Rightarrow> p)"

definition default_runtime_socket :: "user_env \<Rightarrow> path" where
  "default_runtime_socket U =
     (case ue_runtime U of
        Some rt \<Rightarrow> if rt \<noteq> [] then path_join rt ''stratosync.sock'' else ''/tmp/stratosync-'' @ nat_to_string (ue_uid U) @ ''.sock''
      | None \<Rightarrow> ''/tmp/stratosync-'' @ nat_to_string (ue_uid U) @ ''.sock'')"

section \<open>Settings of the daemon\<close>

datatype log_level = Trace | Debug | Info | Warn | Error

fun level_as_str :: "log_level \<Rightarrow> string" where
  "level_as_str Trace = ''trace''"
| "level_as_str Debug = ''debug''"
| "level_as_str Info = ''info''"
| "level_as_str Warn = ''warn''"
| "level_as_str Error = ''error''"

record fuse_config =
  fc_threads         :: nat
  fc_attr_timeout_s  :: nat
  fc_entry_timeout_s :: nat
  fc_allow_other     :: bool

definition default_fuse_config :: fuse_config where
  "default_fuse_config = \<lparr> fc_threads = 4, fc_attr_timeout_s = 60, fc_entry_timeout_s = 60, fc_allow_other = False \<rparr>"

record metrics_config =
  mt_enabled     :: bool
  mt_listen_addr :: string

definition default_metrics_config :: metrics_config where
  "default_metrics_config = \<lparr> mt_enabled = False, mt_listen_addr = ''127.0.0.1:9090'' \<rparr>"

definition DEFAULT_TEXT_EXTENSIONS :: "string list" where
  "DEFAULT_TEXT_EXTENSIONS = [''md'', ''txt'', ''rs'', ''py'', ''toml'', ''yaml'', ''yml'', ''json'', ''xml'', ''html'',
     ''css'', ''js'', ''ts'', ''sh'', ''cfg'', ''ini'', ''conf'', ''csv'', ''tex'',
     ''c'', ''cpp'', ''h'', ''hpp'', ''go'', ''java'', ''rb'', ''pl'', ''lua'', ''sql'',
     ''dockerfile'', ''makefile'', ''cmake'', ''gitignore'', ''env'', ''properties'']"

record sync_config =
  sc_max_hydration_concurrent :: nat
  sc_max_upload_concurrent    :: nat
  sc_upload_debounce_ms       :: nat
  sc_upload_close_debounce_ms :: nat
  sc_text_conflict_strategy   :: conflict_strategy
  sc_base_retention_days      :: nat
  sc_base_max_file_size       :: string
  sc_text_extensions          :: "string list"
  sc_prefetch_threshold       :: string
  sc_header_prefetch_size     :: string
  sc_auto_hydrate_max_size    :: string

definition default_sync_config :: sync_config where
  "default_sync_config = \<lparr> sc_max_hydration_concurrent = 4, sc_max_upload_concurrent = 2, sc_upload_debounce_ms = 2000,
     sc_upload_close_debounce_ms = 500, sc_text_conflict_strategy = KeepBoth, sc_base_retention_days = 30,
     sc_base_max_file_size = ''10 MB'', sc_text_extensions = DEFAULT_TEXT_EXTENSIONS, sc_prefetch_threshold = ''1 MB'',
     sc_header_prefetch_size = ''64 KB'', sc_auto_hydrate_max_size = ''100 MB'' \<rparr>"

text \<open>Sizes are read with the two floating-point operations \<open>parse_f64\<close> and \<open>scale\<close>.\<close>

definition size_or_zero :: "(string \<Rightarrow> 'f option) \<Rightarrow> ('f \<Rightarrow> nat \<Rightarrow> nat) \<Rightarrow> string \<Rightarrow> nat" where
  "size_or_zero pf sc s = (case parse_size pf sc s of Inr n \<Rightarrow> n | Inl _ \<Rightarrow> 0)"

definition prefetch_threshold_bytes :: "(string \<Rightarrow> 'f option) \<Rightarrow> ('f \<Rightarrow> nat \<Rightarrow> nat) \<Rightarrow> sync_config \<Rightarrow> nat" where
  "prefetch_threshold_bytes pf sc c = size_or_zero pf sc (sc_prefetch_threshold c)"

definition header_prefetch_size_bytes :: "(string \<Rightarrow> 'f option) \<Rightarrow> ('f \<Rightarrow> nat \<Rightarrow> nat) \<Rightarrow> sync_config \<Rightarrow> nat" where
  "header_prefetch_size_bytes pf sc c =
     (if sc_header_prefetch_size c = [] then 0 else size_or_zero pf sc (sc_header_prefetch_size c))"

definition auto_hydrate_max_size_bytes :: "(string \<Rightarrow> 'f option) \<Rightarrow> ('f \<Rightarrow> nat \<Rightarrow> nat) \<Rightarrow> sync_config \<Rightarrow> nat option" where
  "auto_hydrate_max_size_bytes pf sc c =
     (if sc_auto_hydrate_max_size c = [] then None
      else let n = size_or_zero pf sc (sc_auto_hydrate_max_size c) in if n = 0 then None else Some n)"

record daemon_config =
  dc_log_level      :: log_level
  dc_log_file       :: "path option"
  dc_pid_file       :: "path option"
  dc_socket         :: "path option"
  dc_webdav_sidecar :: bool
  dc_fuse           :: fuse_config
  dc_sync           :: sync_config
  dc_metrics        :: metrics_config

definition default_daemon_config :: daemon_config where
  "default_daemon_config = \<lparr> dc_log_level = Info, dc_log_file = None, dc_pid_file = None, dc_socket = None,
     dc_webdav_sidecar = False, dc_fuse = default_fuse_config, dc_sync = default_sync_config,
     dc_metrics = default_metrics_config \<rparr>"

section \<open>Settings of a mount\<close>

datatype eviction_policy = Lru | Lfu | SizeDesc | Never

record 'f eviction_config =
  ec_policy    :: eviction_policy
  ec_low_mark  :: 'f
  ec_high_mark :: 'f

text \<open>\<open>lit\<close> reads a floating-point literal.\<close>

definition default_eviction_config :: "(string \<Rightarrow> 'f) \<Rightarrow> 'f eviction_config" where
  "default_eviction_config lit = \<lparr> ec_policy = Lru, ec_low_mark = lit ''0.80'', ec_high_mark = lit ''0.90'' \<rparr>"

text \<open>The whole struct extends the fields that the transfer window needs.\<close>

record 'f mount_settings = mount_config +
  ms_remote            :: string
  ms_mount_path        :: path
  ms_cache_quota       :: string
  ms_poll_interval     :: string
  ms_enabled           :: bool
  ms_rclone            :: rclone_config
  ms_eviction          :: "'f eviction_config"
  ms_ignore_patterns   :: "string list"
  ms_version_retention :: nat

definition cache_quota_bytes :: "(string \<Rightarrow> 'f option) \<Rightarrow> ('f \<Rightarrow> nat \<Rightarrow> nat) \<Rightarrow> 'f mount_settings \<Rightarrow> config_error + nat" where
  "cache_quota_bytes pf sc m = parse_size pf sc (ms_cache_quota m)"

definition poll_duration :: "'f mount_settings \<Rightarrow> config_error + nat" where
  "poll_duration m = parse_duration (ms_poll_interval m)"

definition resolved_mount_path :: "user_env \<Rightarrow> 'f mount_settings \<Rightarrow> path" where
  "resolved_mount_path U m = expand_tilde U (ms_mount_path m)"

definition cache_dir_of :: "user_env \<Rightarrow> 'f mount_settings \<Rightarrow> path" where
  "cache_dir_of U m = path_join (default_cache_dir U) (mc_name m)"

text \<open>The ignore patterns as one matcher: \<open>glob\<close> compiles a pattern.\<close>

fun build_ignore_set :: "(string \<Rightarrow> string + (path \<Rightarrow> bool)) \<Rightarrow> string list \<Rightarrow> string + (path \<Rightarrow> bool)" where
  "build_ignore_set glob [] = Inr (\<lambda>_. False)"
| "build_ignore_set glob (p # ps) =
     (case glob p of
        Inl e \<Rightarrow> Inl (''invalid ignore pattern '' @ debug_str p @ '': '' @ e)
      | Inr g \<Rightarrow> (case build_ignore_set glob ps of Inl e \<Rightarrow> Inl e | Inr gs \<Rightarrow> Inr (\<lambda>q. g q \<or> gs q)))"

record 'f config_file =
  cf_daemon :: daemon_config
  cf_mounts :: "'f mount_settings list"

section \<open>Validation\<close>

datatype invalid = EmptyName | BadRemote string | BadValue config_error | PollTooShort string | DuplicateName string | DuplicatePath path

fun validate_from :: "(string \<Rightarrow> 'f option) \<Rightarrow> ('f \<Rightarrow> nat \<Rightarrow> nat) \<Rightarrow> string set \<Rightarrow> path set \<Rightarrow> 'f mount_settings list \<Rightarrow> invalid + unit" where
  "validate_from pf sc names paths [] = Inr ()"
| "validate_from pf sc names paths (m # ms) =
     (if mc_name m = [] then Inl EmptyName
      else if CHR '':'' \<notin> set (ms_remote m) then Inl (BadRemote (mc_name m))
      else case cache_quota_bytes pf sc m of
        Inl e \<Rightarrow> Inl (BadValue e)
      | Inr _ \<Rightarrow>
          (case poll_duration m of
             Inl e \<Rightarrow> Inl (BadValue e)
           | Inr poll \<Rightarrow>
               if poll < 5000 then Inl (PollTooShort (mc_name m))
               else if mc_name m \<in> names then Inl (DuplicateName (mc_name m))
               else if ms_mount_path m \<in> paths then Inl (DuplicatePath (ms_mount_path m))
               else validate_from pf sc (insert (mc_name m) names) (insert (ms_mount_path m) paths) ms))"

definition validate :: "(string \<Rightarrow> 'f option) \<Rightarrow> ('f \<Rightarrow> nat \<Rightarrow> nat) \<Rightarrow> 'f config_file \<Rightarrow> invalid + unit" where
  "validate pf sc cfg = validate_from pf sc {} {} (cf_mounts cfg)"

section \<open>Laws\<close>

text \<open>What a single mount must satisfy.\<close>

definition mount_ok :: "(string \<Rightarrow> 'f option) \<Rightarrow> ('f \<Rightarrow> nat \<Rightarrow> nat) \<Rightarrow> 'f mount_settings \<Rightarrow> bool" where
  "mount_ok pf sc m \<longleftrightarrow> mc_name m \<noteq> [] \<and> CHR '':'' \<in> set (ms_remote m) \<and> (\<exists>q. cache_quota_bytes pf sc m = Inr q)
     \<and> (\<exists>p. poll_duration m = Inr p \<and> 5000 \<le> p)"

lemma validate_from_iff:
  "validate_from pf sc ns ps ms = Inr () \<longleftrightarrow>
     (\<forall>m\<in>set ms. mount_ok pf sc m) \<and> distinct (map mc_name ms) \<and> distinct (map ms_mount_path ms)
     \<and> mc_name ` set ms \<inter> ns = {} \<and> ms_mount_path ` set ms \<inter> ps = {}"
proof (induction ms arbitrary: ns ps)
  case (Cons m ms)
  have "validate_from pf sc ns ps (m # ms) = Inr () \<longleftrightarrow> mount_ok pf sc m \<and> mc_name m \<notin> ns \<and> ms_mount_path m \<notin> ps
      \<and> validate_from pf sc (insert (mc_name m) ns) (insert (ms_mount_path m) ps) ms = Inr ()"
    by (auto simp: mount_ok_def split: sum.splits if_splits)
  then show ?case unfolding Cons by auto
qed simp

lemma ignore_set_matches:
  "build_ignore_set glob ps = Inr ig \<Longrightarrow> ig q \<longleftrightarrow> (\<exists>p\<in>set ps. \<exists>g. glob p = Inr g \<and> g q)"
  by (induction ps arbitrary: ig) (auto split: sum.splits)

text \<open>
  The mount paths are compared as written: two mounts may name the same
  directory, once with \<open>~\<close>, and pass the validation.  A mount name is joined to
  the cache directory as it is, so a name may leave it.
\<close>

definition twin_settings :: "path \<Rightarrow> string \<Rightarrow> unit mount_settings" where
  "twin_settings p n = \<lparr> mc_name = n, mc_upload_window = None, mc_transfer_window = None, mc_transfer_window_direction = Both,
     ms_remote = ''g:'', ms_mount_path = p, ms_cache_quota = ''5'', ms_poll_interval = ''60s'', ms_enabled = True,
     ms_rclone = \<lparr> rc_extra_flags = [], rc_bwlimit = None, rc_transfers = None, rc_checkers = None, rc_stall_timeout_secs = None \<rparr>,
     ms_eviction = default_eviction_config (\<lambda>_. ()), ms_ignore_patterns = [], ms_version_retention = 10 \<rparr>"

definition home_env :: user_env where
  "home_env = \<lparr> ue_home = Some ''/home/u'', ue_home_var = ''/home/u'', ue_config_dir = None, ue_data_dir = None,
     ue_cache_dir = Some ''/home/u/.cache'', ue_runtime = None, ue_uid = 0 \<rparr>"

lemma minute_poll: "parse_duration ''60s'' = Inr 60000"
proof -
  have s: "trim_ws ''60s'' = ''60s''" "strip_suffix ''ms'' ''60s'' = None" "strip_suffix ''s'' ''60s'' = Some ''60''" "trim_ws ''60'' = ''60''"
    by code_simp+
  have "parse_u64 ''60'' = Some 60"
    by (simp add: parse_u64_def is_digit_def digits_val_def digit_val_def)
  then show ?thesis by (simp add: parse_duration_def Let_def s)
qed

lemma twin_quota: "parse_size (\<lambda>_. Some ()) (\<lambda>_ _. 5) ''5'' = Inr 5"
  by code_simp

theorem validate_accepts_shared_directory:
  "validate (\<lambda>_. Some ()) (\<lambda>_ _. 5) \<lparr> cf_daemon = default_daemon_config,
     cf_mounts = [twin_settings ''~/d'' ''a'', twin_settings ''/home/u/d'' ''/x''] \<rparr> = Inr ()
   \<and> resolved_mount_path home_env (twin_settings ''~/d'' ''a'') = resolved_mount_path home_env (twin_settings ''/home/u/d'' ''/x'')
   \<and> cache_dir_of home_env (twin_settings ''/home/u/d'' ''/x'') = ''/x''"
proof -
  have "mount_ok (\<lambda>_. Some ()) (\<lambda>_ _. 5) (twin_settings p n)" if "n \<noteq> []" for p n
    using that by (simp add: mount_ok_def twin_settings_def cache_quota_bytes_def twin_quota poll_duration_def minute_poll)
  then have "validate (\<lambda>_. Some ()) (\<lambda>_ _. 5) \<lparr> cf_daemon = default_daemon_config,
      cf_mounts = [twin_settings ''~/d'' ''a'', twin_settings ''/home/u/d'' ''/x''] \<rparr> = Inr ()"
    unfolding validate_def validate_from_iff by (simp add: twin_settings_def)
  then show ?thesis
    by (simp add: resolved_mount_path_def expand_tilde_def strip_prefix_def twin_settings_def home_env_def path_join_def cache_dir_of_def)
qed

end
