(* ===== verification/Startup.thy ===== *)
theory Startup
  imports Settings Reconcile Fuse_Dir Upload_Laws
begin

text \<open>
  Starting a mount (\<open>stratosync-daemon/src/main.rs\<close>): the crash recovery of the
  database, the reconciliation of the cache directory and the uploads that are
  queued again, in the order of the source.  The database has been opened and
  migrated; starting the threads and tasks is left out.
\<close>

datatype startup_error = StartDb sql_error | StartConfig config_error | StartIgnore string | StartIo path | StartBackend string

text \<open>
  What surrounds the daemon: the user's directories, whether a backend can be
  made for a remote (the WebDAV sidecar and the \<open>rclone\<close> binary), the disk, the
  clock, float parsing and glob patterns.
\<close>

record 'f startup_env =
  su_user  :: user_env
  su_backend :: "string \<Rightarrow> bool"
  su_mkdir :: "path \<Rightarrow> bool"
  su_fault :: "path \<Rightarrow> bool"
  su_tree  :: "fs_tree option"
  su_f64   :: "string \<Rightarrow> 'f option"
  su_scale :: "'f \<Rightarrow> nat \<Rightarrow> nat"
  su_glob  :: "string \<Rightarrow> string + (path \<Rightarrow> bool)"
  su_now   :: int

record started =
  sd_mount_id        :: mount_id
  sd_removed         :: "path list"
  sd_ignore          :: "path \<Rightarrow> bool"
  sd_upload_window   :: "transfer_window option"
  sd_download_window :: "transfer_window option"
  sd_queue           :: queue_state

type_synonym 'a startm = "(db, startup_error, 'a) sem"

definition in_db :: "'a dbm \<Rightarrow> 'a startm" where
  "in_db m s = (case m s of (Inl e, s') \<Rightarrow> (Inl (StartDb e), s') | (Inr a, s') \<Rightarrow> (Inr a, s'))"

definition in_config :: "config_error + 'a \<Rightarrow> 'a startm" where
  "in_config r = (case r of Inl e \<Rightarrow> raise (StartConfig e) | Inr a \<Rightarrow> ret a)"

definition make_backend :: "'f startup_env \<Rightarrow> 'f mount_settings \<Rightarrow> unit startm" where
  "make_backend E cfg = (if su_backend E (ms_remote cfg) then ret () else raise (StartBackend (mc_name cfg)))"

definition make_dir :: "'f startup_env \<Rightarrow> path \<Rightarrow> unit startm" where
  "make_dir E p = (if su_mkdir E p then ret () else raise (StartIo p))"

text \<open>The window for each direction.\<close>

definition windows_of :: "(transfer_window \<times> transfer_direction) option \<Rightarrow> transfer_window option \<times> transfer_window option" where
  "windows_of w = (case w of
      None \<Rightarrow> (None, None)
    | Some (w, dir) \<Rightarrow> (if includes_upload dir then Some w else None, if includes_download dir then Some w else None))"

text \<open>The files found unsynced are queued with a write trigger; the debounce is the poll interval.\<close>

definition requeue :: "nat \<Rightarrow> nat \<Rightarrow> int \<Rightarrow> file_entry list \<Rightarrow> queue_state" where
  "requeue debounce close_debounce now entries =
     foldl (\<lambda>q e. on_trigger (int debounce) (int close_debounce) now (TWrite (fe_inode e)) q) empty_queue entries"

definition mount_startup :: "'f startup_env \<Rightarrow> sync_config \<Rightarrow> 'f mount_settings \<Rightarrow> started startm" where
  "mount_startup E sync cfg =
     (let cache_dir = cache_dir_of (su_user E) cfg in
      thenS (in_db reset_hydrating)
     (thenS (make_backend E cfg)
     (bindS (in_config (cache_quota_bytes (su_f64 E) (su_scale E) cfg)) (\<lambda>quota.
      bindS (in_config (poll_duration cfg)) (\<lambda>poll.
      bindS (in_db (upsert_mount (mc_name cfg) (ms_remote cfg) (ms_mount_path cfg) cache_dir quota (poll div 1000 mod 2 ^ 32))) (\<lambda>m.
      thenS (in_db (ensure_root m))
     (thenS (make_dir E cache_dir)
     (bindS (attempt (in_db (reconcile_orphans m cache_dir (su_fault E) (su_tree E)))) (\<lambda>rec.
      thenS (make_dir E (path_join (path_join cache_dir ''.bases'') ''objects''))
     (case build_ignore_set (su_glob E) (ms_ignore_patterns cfg) of
        Inl e \<Rightarrow> raise (StartIgnore e)
      | Inr ignore \<Rightarrow>
          bindS (in_config (parse_window (mount_config.truncate cfg))) (\<lambda>w.
          thenS (attempt (in_db reset_stuck_dirty_directories))
         (thenS (attempt (in_db reset_stuck_dirty_files_without_cache_path))
         (bindS (in_db (get_pending_uploads m)) (\<lambda>entries.
            ret \<lparr> sd_mount_id = m,
                  sd_removed = (case rec of Inr (_, gone) \<Rightarrow> gone | Inl _ \<Rightarrow> []),
                  sd_ignore = ignore, sd_upload_window = fst (windows_of w), sd_download_window = snd (windows_of w),
                  sd_queue = requeue poll (sc_upload_close_debounce_ms sync) (su_now E) entries \<rparr>))))))))))))))"

section \<open>Recovery after a crash\<close>

lemma reset_hydrating_run:
  assumes "db_wf d"
  shows "\<exists>n. reset_hydrating d = (Inr n, d\<lparr>file_index := update_rows (\<lambda>r. r_status r = Hydrating)
     (\<lambda>r. r\<lparr>r_status := Remote, r_cache_path := None, r_cache_size := None\<rparr>) (file_index d)\<rparr>)"
  using assms unfolding reset_hydrating_def
  by (subst exec_update_same_keys) (auto simp: same_keys_def trigger_ok_def list_ex_iff)

lemma reset_dirs_run:
  assumes "db_wf d"
  shows "\<exists>n. reset_stuck_dirty_directories d = (Inr n, d\<lparr>file_index := update_rows (\<lambda>r. r_kind r = Directory \<and> unsynced (r_status r))
     (\<lambda>r. r\<lparr>r_status := Cached\<rparr>) (file_index d)\<rparr>)"
  using assms unfolding reset_stuck_dirty_directories_def
  by (subst exec_update_same_keys) (auto simp: same_keys_def trigger_ok_def list_ex_iff)

lemma wf_trigger: "db_wf d \<Longrightarrow> r \<in> set (file_index d) \<Longrightarrow> trigger_ok r"
  by (auto simp: db_wf_def files_wf_def list_all_iff)

lemma unsynced_cached_path: "\<lbrakk>db_wf d; r \<in> set (file_index d); r_kind r = File; unsynced (r_status r)\<rbrakk> \<Longrightarrow> r_cache_path r \<noteq> None"
  using wf_trigger [of d r] by (auto simp: trigger_ok_def unsynced_def)

lemma update_rows_none: "(\<And>r. r \<in> set rows \<Longrightarrow> \<not> p r) \<Longrightarrow> update_rows p f rows = rows"
  by (simp add: update_rows_def map_idI)

lemma reset_files_run:
  assumes wf: "db_wf d"
  shows "\<exists>n. reset_stuck_dirty_files_without_cache_path d = (Inr n, d)"
proof -
  let ?stuck = "\<lambda>r. r_kind r = File \<and> unsynced (r_status r) \<and> r_cache_path r = None"
  have none: "\<not> ?stuck r" if "r \<in> set (file_index d)" for r using unsynced_cached_path [OF wf that] by blast
  then have e: "\<not> list_ex (\<lambda>r. ?stuck r \<and> P r) (file_index d)" for P by (auto simp: list_ex_iff)
  have u: "update_rows ?stuck (\<lambda>r. r\<lparr>r_status := Remote\<rparr>) (file_index d) = file_index d"
    by (rule update_rows_none) (use none in blast)
  have "State_Db.exec_update ?stuck (\<lambda>r. r\<lparr>r_status := Remote\<rparr>) d = (Inr (length (filter ?stuck (file_index d))), d)"
    using wf e by (subst exec_update_same_keys) (auto simp: same_keys_def u simp del: list_ex_iff)
  then show ?thesis
    using e by (simp add: reset_stuck_dirty_files_without_cache_path_def Let_def map_idI)
qed

lemma upsert_known_mount:
  assumes "mounts d = [mt]" "m_name mt = n"
  shows "\<exists>mt'. upsert_mount n r mp cd q p d = (Inr (m_id mt), d\<lparr>mounts := [mt']\<rparr>)"
  using assms by (auto simp: upsert_mount_def Let_def get_mount_id_def run_bind)

lemma requeued: "i \<in> fe_inode ` set es \<Longrightarrow> pending (requeue a b now es) i \<noteq> None"
proof -
  have keep: "pending q i \<noteq> None \<Longrightarrow> pending (on_trigger x y z t q) i \<noteq> None" for q x y z t
    by (auto simp: on_trigger_def Let_def split: option.splits)
  have new: "pending (on_trigger x y z (TWrite i) q) i \<noteq> None" for x y z q
    by (auto simp: on_trigger_def trigger_inode_def Let_def split: option.splits)
  have "i \<in> fe_inode ` set es \<or> pending q i \<noteq> None \<Longrightarrow>
     pending (foldl (\<lambda>q e. on_trigger (int a) (int b) now (TWrite (fe_inode e)) q) q es) i \<noteq> None" for q
  proof (induction es arbitrary: q)
    case (Cons e es)
    have "i \<in> fe_inode ` set es \<or> pending (on_trigger (int a) (int b) now (TWrite (fe_inode e)) q) i \<noteq> None"
      using Cons.prems keep new by fastforce
    from Cons.IH [OF this] show ?case by simp
  qed auto
  then show "i \<in> fe_inode ` set es \<Longrightarrow> ?thesis" by (simp add: requeue_def)
qed

text \<open>Settings under which starting the mount does not fail by itself.\<close>

definition can_start :: "'f startup_env \<Rightarrow> 'f mount_settings \<Rightarrow> bool" where
  "can_start E cfg \<longleftrightarrow> su_backend E (ms_remote cfg) \<and> (\<forall>p. su_mkdir E p) \<and> (\<exists>q. cache_quota_bytes (su_f64 E) (su_scale E) cfg = Inr q)
     \<and> (\<exists>p. poll_duration cfg = Inr p) \<and> (\<exists>w. parse_window (mount_config.truncate cfg) = Inr w)
     \<and> (\<exists>ig. build_ignore_set (su_glob E) (ms_ignore_patterns cfg) = Inr ig)"

text \<open>The database of one mount, with its root.\<close>

definition mount_db :: "mount_row \<Rightarrow> db \<Rightarrow> bool" where
  "mount_db mt d \<longleftrightarrow> db_wf d \<and> mounts d = [mt] \<and> (\<exists>r\<in>set (file_index d). root_ok (m_id mt) r)"

text \<open>What the two resets make of a row.\<close>

definition unhydrated :: "file_row \<Rightarrow> file_row" where
  "unhydrated r = (if r_status r = Hydrating then r\<lparr>r_status := Remote, r_cache_path := None, r_cache_size := None\<rparr> else r)"

definition settled_dir :: "file_row \<Rightarrow> file_row" where
  "settled_dir r = (if r_kind r = Directory \<and> unsynced (r_status r) then r\<lparr>r_status := Cached\<rparr> else r)"

lemma reset_rows:
  "set (update_rows (\<lambda>r. r_status r = Hydrating) (\<lambda>r. r\<lparr>r_status := Remote, r_cache_path := None, r_cache_size := None\<rparr>) rows)
     = unhydrated ` set rows"
  "set (update_rows (\<lambda>r. r_kind r = Directory \<and> unsynced (r_status r)) (\<lambda>r. r\<lparr>r_status := Cached\<rparr>) rows) = settled_dir ` set rows"
  by (simp_all add: update_rows_def unhydrated_def settled_dir_def cong: image_cong_simp)

lemma reset_row_facts [simp]:
  "root_ok m (unhydrated r) \<longleftrightarrow> root_ok m r" "root_ok m (settled_dir r) \<longleftrightarrow> root_ok m r"
  "r_mount_id (unhydrated r) = r_mount_id r" "r_mount_id (settled_dir r) = r_mount_id r"
  "r_status (settled_dir (unhydrated r)) \<noteq> Hydrating"
  by (auto simp: unhydrated_def settled_dir_def root_ok_def)

lemma reset_row_files:
  "\<lbrakk>r_kind r = File; unsynced (r_status r)\<rbrakk> \<Longrightarrow> unhydrated r = r \<and> settled_dir r = r"
  "\<lbrakk>unsynced (r_status (settled_dir r)); r_kind (settled_dir r) \<noteq> Symlink\<rbrakk> \<Longrightarrow> r_kind (settled_dir r) = File"
proof -
  show "\<lbrakk>r_kind r = File; unsynced (r_status r)\<rbrakk> \<Longrightarrow> unhydrated r = r \<and> settled_dir r = r"
    by (auto simp: unhydrated_def settled_dir_def)
  show "\<lbrakk>unsynced (r_status (settled_dir r)); r_kind (settled_dir r) \<noteq> Symlink\<rbrakk> \<Longrightarrow> r_kind (settled_dir r) = File"
    by (cases "r_kind r") (simp_all add: settled_dir_def split: if_splits)
qed

lemma startup_run:
  assumes db: "mount_db mt d" "m_name mt = mc_name cfg" and ok: "can_start E cfg"
  shows "\<exists>rep (d1 :: db) d2. mount_startup E sync cfg d = (Inr rep, d2)
     \<and> set (file_index d1) = unhydrated ` set (file_index d) \<and> set (file_index d2) = settled_dir ` set (file_index d1)
     \<and> db_wf d1 \<and> db_wf d2 \<and> sd_mount_id rep = m_id mt
     \<and> (\<forall>p. p \<in> set (sd_removed rep) \<longrightarrow> (\<forall>r\<in>set (file_index d1). r_mount_id r = m_id mt \<longrightarrow> r_cache_path r \<noteq> Some p)
          \<or> (\<exists>t. su_tree E = Some t \<and> p \<in> partial_files (cache_dir_of (su_user E) cfg) t))
     \<and> (\<forall>r\<in>set (file_index d2). r_mount_id r = m_id mt \<and> unsynced (r_status r) \<and> r_kind r = File
          \<longrightarrow> pending (sd_queue rep) (r_inode r) \<noteq> None)"
proof -
  let ?m = "m_id mt" and ?cd = "cache_dir_of (su_user E) cfg"
  define d0 where "d0 = d\<lparr>file_index := update_rows (\<lambda>r. r_status r = Hydrating)
      (\<lambda>r. r\<lparr>r_status := Remote, r_cache_path := None, r_cache_size := None\<rparr>) (file_index d)\<rparr>"
  from db have wf: "db_wf d" and mts: "mounts d = [mt]" and rt: "\<exists>r\<in>set (file_index d). root_ok ?m r" by (simp_all add: mount_db_def)
  from ok obtain q p w ig where cfgs: "cache_quota_bytes (su_f64 E) (su_scale E) cfg = Inr q" "poll_duration cfg = Inr p"
    "parse_window (mount_config.truncate cfg) = Inr w" "build_ignore_set (su_glob E) (ms_ignore_patterns cfg) = Inr ig" "\<And>x. su_mkdir E x" "su_backend E (ms_remote cfg)"
    by (auto simp: can_start_def)
  from reset_hydrating_run [OF wf] obtain n where h: "reset_hydrating d = (Inr n, d0)" by (auto simp: d0_def)
  from keepsE [OF reset_hydrating_wf h wf] have wf0: "db_wf d0" .
  from upsert_known_mount [of d0 mt "mc_name cfg" "ms_remote cfg" "ms_mount_path cfg" ?cd q "p div 1000 mod 2 ^ 32"] mts db(2)
  obtain mt' where up: "upsert_mount (mc_name cfg) (ms_remote cfg) (ms_mount_path cfg) ?cd q (p div 1000 mod 2 ^ 32) d0 = (Inr ?m, d0\<lparr>mounts := [mt']\<rparr>)"
    by (auto simp: d0_def)
  let ?d1 = "d0\<lparr>mounts := [mt']\<rparr>"
  from keepsE [OF upsert_mount_wf up wf0] have wf1: "db_wf ?d1" .
  have rows1: "set (file_index ?d1) = unhydrated ` set (file_index d)" by (simp add: d0_def reset_rows)
  with rt have "\<exists>r\<in>set (file_index ?d1). root_ok ?m r" by auto
  then obtain r where r: "r \<in> set (file_index ?d1)" "root_ok ?m r" by blast
  then have "find_row (\<lambda>r. r_inode r = FUSE_ROOT_INODE) ?d1 = Some r"
    using find_row_inode [OF wf1, of FUSE_ROOT_INODE r] by (simp add: root_ok_def)
  with r have er: "ensure_root ?m ?d1 = (Inr (), ?d1)" by (simp add: ensure_root_run)
  have "\<exists>st gone. reconcile_orphans ?m ?cd (su_fault E) (su_tree E) ?d1 = (Inr (st, gone), ?d1)
     \<and> (\<forall>p\<in>set gone. (\<forall>r\<in>set (file_index ?d1). r_mount_id r = ?m \<longrightarrow> r_cache_path r \<noteq> Some p)
          \<or> (\<exists>t. su_tree E = Some t \<and> p \<in> partial_files ?cd t))"
  proof (cases "su_tree E")
    case None
    then show ?thesis by (simp add: reconcile_orphans_def)
  next
    case (Some t)
    from reconcile_run [of ?m ?cd "su_fault E" t ?d1] obtain st gone where
      "reconcile_orphans ?m ?cd (su_fault E) (Some t) ?d1 = (Inr (st, gone), ?d1)"
      "set gone = {p \<in> visited ?cd ?cd t. (\<forall>r\<in>set (file_index ?d1). r_mount_id r = ?m \<longrightarrow> r_cache_path r \<noteq> Some p) \<and> \<not> su_fault E p}
         \<union> {p \<in> partial_files ?cd t. \<not> su_fault E p}" by blast
    with Some show ?thesis by (intro exI [of _ st] exI [of _ gone]) (simp, blast)
  qed
  then obtain st gone where rec: "reconcile_orphans ?m ?cd (su_fault E) (su_tree E) ?d1 = (Inr (st, gone), ?d1)"
    and gone: "\<forall>p\<in>set gone. (\<forall>r\<in>set (file_index ?d1). r_mount_id r = ?m \<longrightarrow> r_cache_path r \<noteq> Some p)
          \<or> (\<exists>t. su_tree E = Some t \<and> p \<in> partial_files ?cd t)" by blast
  let ?d2 = "?d1\<lparr>file_index := update_rows (\<lambda>r. r_kind r = Directory \<and> unsynced (r_status r)) (\<lambda>r. r\<lparr>r_status := Cached\<rparr>) (file_index ?d1)\<rparr>"
  from reset_dirs_run [OF wf1] obtain n2 where dirs: "reset_stuck_dirty_directories ?d1 = (Inr n2, ?d2)" by auto
  from keepsE [OF reset_stuck_dirs_wf dirs wf1] have wf2: "db_wf ?d2" .
  from reset_files_run [OF wf2] obtain n3 where files: "reset_stuck_dirty_files_without_cache_path ?d2 = (Inr n3, ?d2)" by auto
  let ?es = "map row_to_entry (filter (\<lambda>r. r_mount_id r = ?m \<and> unsynced (r_status r) \<and> r_kind r = File \<and> r_cache_path r \<noteq> None) (file_index ?d2))"
  have pend: "get_pending_uploads ?m ?d2 = (Inr ?es, ?d2)" by (simp add: get_pending_uploads_def)
  let ?rep = "\<lparr> sd_mount_id = ?m, sd_removed = gone, sd_ignore = ig, sd_upload_window = fst (windows_of w),
      sd_download_window = snd (windows_of w), sd_queue = requeue p (sc_upload_close_debounce_ms sync) (su_now E) ?es \<rparr>"
  note steps = h up er rec dirs files pend
  have s: "in_db reset_hydrating d = (Inr n, d0)" "in_db (ensure_root ?m) ?d1 = (Inr (), ?d1)"
    "in_db (upsert_mount (mc_name cfg) (ms_remote cfg) (ms_mount_path cfg) ?cd q (p div 1000 mod 2 ^ 32)) d0 = (Inr ?m, ?d1)"
    "in_db (reconcile_orphans ?m ?cd (su_fault E) (su_tree E)) ?d1 = (Inr (st, gone), ?d1)"
    "in_db reset_stuck_dirty_directories ?d1 = (Inr n2, ?d2)" "in_db reset_stuck_dirty_files_without_cache_path ?d2 = (Inr n3, ?d2)"
    "in_db (get_pending_uploads ?m) ?d2 = (Inr ?es, ?d2)"
    unfolding in_db_def steps by simp_all
  have run: "mount_startup E sync cfg d = (Inr ?rep, ?d2)"
    unfolding mount_startup_def Let_def
    by (simp only: run_then run_bind run_attempt in_config_def cfgs sum.case prod.case s
        run_ret make_dir_def make_backend_def if_True fst_conv snd_conv)
  have q: "pending (sd_queue ?rep) (r_inode r) \<noteq> None"
    if "r \<in> set (file_index ?d2)" "r_mount_id r = ?m \<and> unsynced (r_status r) \<and> r_kind r = File" for r
    using unsynced_cached_path [OF wf2 that(1)] that by (simp only: started.select_convs) (rule requeued, force)
  show ?thesis
    by (rule exI [of _ ?rep], rule exI [of _ ?d1], rule exI [of _ ?d2]) (use run wf1 wf2 gone q rows1 in \<open>simp add: reset_rows\<close>)
qed

text \<open>
  C2: starting a mount recovers from a crash at any point.  From every well-formed
  database of the mount the startup succeeds and leaves a well-formed database
  without a row that is still hydrating and with the root in place; every unsynced
  file keeps its row and is queued for upload, its cache file is not removed by the
  reconciliation, and no unsynced row but that of a symbolic link is left out of
  the queue.
\<close>

theorem startup_recovers:
  assumes "mount_db mt d" "m_name mt = mc_name cfg" "can_start E cfg" "\<forall>r\<in>set (file_index d). r_mount_id r = m_id mt"
  shows "\<exists>rep d'. mount_startup E sync cfg d = (Inr rep, d') \<and> db_wf d'
     \<and> (\<forall>r\<in>set (file_index d'). r_status r \<noteq> Hydrating)
     \<and> (\<exists>r\<in>set (file_index d'). root_ok (m_id mt) r)
     \<and> (\<forall>r\<in>set (file_index d). r_kind r = File \<and> unsynced (r_status r) \<longrightarrow>
          r \<in> set (file_index d') \<and> pending (sd_queue rep) (r_inode r) \<noteq> None
          \<and> (\<forall>cp. r_cache_path r = Some cp \<and> (\<forall>t. su_tree E = Some t \<longrightarrow> cp \<notin> partial_files (cache_dir_of (su_user E) cfg) t)
               \<longrightarrow> cp \<notin> set (sd_removed rep)))
     \<and> (\<forall>r\<in>set (file_index d'). unsynced (r_status r) \<and> r_kind r \<noteq> Symlink \<longrightarrow> pending (sd_queue rep) (r_inode r) \<noteq> None)"
proof -
  from startup_run [OF assms(1-3), of sync] obtain rep d2 and d1 :: db where run: "mount_startup E sync cfg d = (Inr rep, d2)" and wf: "db_wf d2"
    and rows: "set (file_index d1) = unhydrated ` set (file_index d)" "set (file_index d2) = settled_dir ` set (file_index d1)"
    and gone: "\<forall>p. p \<in> set (sd_removed rep) \<longrightarrow> (\<forall>r\<in>set (file_index d1). r_mount_id r = m_id mt \<longrightarrow> r_cache_path r \<noteq> Some p)
          \<or> (\<exists>t. su_tree E = Some t \<and> p \<in> partial_files (cache_dir_of (su_user E) cfg) t)"
    and q: "\<forall>r\<in>set (file_index d2). r_mount_id r = m_id mt \<and> unsynced (r_status r) \<and> r_kind r = File
          \<longrightarrow> pending (sd_queue rep) (r_inode r) \<noteq> None" by blast
  have kept: "r \<in> set (file_index d1)" "r \<in> set (file_index d2)" if "r \<in> set (file_index d)" "r_kind r = File" "unsynced (r_status r)" for r
    using reset_row_files(1) [OF that(2,3)] that(1) unfolding rows by (metis imageI)+
  have all: "r_status r \<noteq> Hydrating" "\<lbrakk>unsynced (r_status r); r_kind r \<noteq> Symlink\<rbrakk> \<Longrightarrow> r_kind r = File" "r_mount_id r = m_id mt" if "r \<in> set (file_index d2)" for r
    using that assms(4) reset_row_files(2) unfolding rows by auto
  have "\<exists>r\<in>set (file_index d2). root_ok (m_id mt) r" using assms(1) unfolding rows by (auto simp: mount_db_def)
  moreover have "cp \<notin> set (sd_removed rep)"
    if r: "r \<in> set (file_index d)" "r_kind r = File" "unsynced (r_status r)" and cp: "r_cache_path r = Some cp"
      "\<forall>t. su_tree E = Some t \<longrightarrow> cp \<notin> partial_files (cache_dir_of (su_user E) cfg) t" for r cp
    using gone [rule_format, of cp] kept(1) [OF r] cp assms(4) r(1) by blast
  ultimately show ?thesis
    using run wf all kept(2) q by (intro exI [of _ rep] exI [of _ d2] conjI) blast+
qed

definition plain_env :: "unit startup_env" where
  "plain_env = \<lparr> su_user = home_env, su_backend = (\<lambda>_. True), su_mkdir = (\<lambda>_. True), su_fault = (\<lambda>_. False), su_tree = None, su_f64 = (\<lambda>_. Some ()),
     su_scale = (\<lambda>_ _. 5), su_glob = (\<lambda>_. Inl []), su_now = 0 \<rparr>"

lemma plain_can_start: "can_start plain_env (twin_settings ''/mnt'' ''m'')"
  by (simp add: can_start_def plain_env_def twin_settings_def cache_quota_bytes_def twin_quota poll_duration_def minute_poll
      mount_config.truncate_def parse_window_def nonempty_def)

theorem startup_recovers_witness:
  "\<exists>rep d'. mount_startup plain_env default_sync_config (twin_settings ''/mnt'' ''m'') sample_db = (Inr rep, d')
     \<and> sample_row 4 (Some 2) ''b'' ''d/b'' File Dirty (Some ''/c/d/b'') None \<in> set (file_index d') \<and> pending (sd_queue rep) 4 \<noteq> None"
proof -
  let ?r = "sample_row 4 (Some 2) ''b'' ''d/b'' File Dirty (Some ''/c/d/b'') None"
  have db: "mount_db (hd (mounts sample_db)) sample_db"
    using sample_db_wf by (simp add: mount_db_def sample_defs root_ok_def FUSE_ROOT_INODE_def)
  have nm: "m_name (hd (mounts sample_db)) = mc_name (twin_settings ''/mnt'' ''m'')" by (simp add: sample_defs twin_settings_def)
  have all: "\<forall>r\<in>set (file_index sample_db). r_mount_id r = m_id (hd (mounts sample_db))" by (simp add: sample_defs)
  have r: "?r \<in> set (file_index sample_db)" "r_kind ?r = File" "unsynced (r_status ?r)" "r_inode ?r = 4" by (simp_all add: sample_defs)
  from startup_recovers [OF db nm plain_can_start all, of default_sync_config] r show ?thesis by metis
qed

text \<open>
  When the root inode is taken by anything but the mount's root directory, the
  startup deletes every row of the mount before it makes a new root: unsynced
  files are forgotten, and their cache files become orphans.
\<close>

theorem bad_root_discards_unsynced:
  assumes wf: "db_wf d" and m: "m \<in> mount_ids d" and rows: "\<forall>r\<in>set (file_index d). r_mount_id r = m"
    and bad: "r \<in> set (file_index d)" "r_inode r = FUSE_ROOT_INODE" "\<not> root_ok m r"
  shows "\<exists>d'. ensure_root m d = (Inr (), d') \<and> (\<forall>r\<in>set (file_index d'). r_inode r = FUSE_ROOT_INODE \<and> \<not> unsynced (r_status r))"
proof -
  let ?d = "snd (delete_mount_entries m d)"
  note del = delete_mount_entries_run [OF wf rows]
  have w: "db_wf ?d" "m \<in> mount_ids ?d" using keepsD [OF delete_mount_entries_wf wf] m del(3) by simp_all
  have "find_row (\<lambda>r. r_inode r = FUSE_ROOT_INODE) d = Some r" using find_row_inode [OF wf] bad by blast
  then have "ensure_root m d = bindS (query (\<lambda>s. from_unix (clock s))) (\<lambda>now. thenS (insert_root (root_entry m now)) (ret ())) ?d"
    using bad(3) del(1) by (cases "delete_mount_entries m d") (simp add: ensure_root_run run_then)
  moreover from insert_root_run [OF w, of "from_unix (clock ?d)"] del(2) obtain d' where
    "insert_root (root_entry m (from_unix (clock ?d))) ?d = (Inr FUSE_ROOT_INODE, d')"
    "file_index d' = [row_of_new FUSE_ROOT_INODE None (root_entry m (from_unix (clock ?d)))]"
    by (cases "insert_root (root_entry m (from_unix (clock ?d))) ?d") auto
  ultimately show ?thesis
    by (intro exI [of _ d']) (auto simp: run_then row_of_new_def root_entry_def)
qed

end
