(* ===== verification/Watcher.thy ===== *)
theory Watcher
  imports Upload_Queue
begin

text \<open>
  The watcher of the cache directory (\<open>stratosync-daemon/src/watcher/mod.rs\<close>): which
  file system events queue an upload.  The event source is outside; the matcher of
  ignored paths is a parameter.  Looking up a row never fails here.
\<close>

datatype event_kind = Create | Modify | OtherEvent

record fs_event =
  ev_kind  :: event_kind
  ev_paths :: "path list"

text \<open>\<open>Path::strip_prefix\<close>.\<close>

definition path_strip_prefix :: "path \<Rightarrow> path \<Rightarrow> path option" where
  "path_strip_prefix base p =
     (if path_starts_with p base then Some (join_with ''/'' (drop (length (path_components base)) (path_components p))) else None)"

definition path_trigger :: "(path \<Rightarrow> bool) \<Rightarrow> mount_id \<Rightarrow> path \<Rightarrow> world \<Rightarrow> path \<Rightarrow> upload_trigger option" where
  "path_trigger ignore m cache_dir w p =
     (let fname = (case path_file_name p of Some n \<Rightarrow> n | None \<Rightarrow> []) in
      if ends_with fname ''.tmp'' \<or> prefix ''.'' fname then None
      else case path_strip_prefix cache_dir p of
        None \<Rightarrow> None
      | Some remote_path \<Rightarrow>
          if ignore remote_path then None
          else case fst (get_by_remote_path m remote_path (wdb w)) of
            Inr (Some entry) \<Rightarrow>
              if fe_status entry = Conflict then None
              else if fe_status entry = Dirty then Some (TWrite (fe_inode entry)) else None
          | _ \<Rightarrow> None)"

definition handle_event :: "(path \<Rightarrow> bool) \<Rightarrow> mount_id \<Rightarrow> path \<Rightarrow> world \<Rightarrow> fs_event \<Rightarrow> upload_trigger list" where
  "handle_event ignore m cache_dir w ev =
     (if ev_kind ev \<in> {Modify, Create} then List.map_filter (path_trigger ignore m cache_dir w) (ev_paths ev) else [])"

text \<open>Only rows that are dirty are queued: the daemon's own downloads are not.\<close>

lemma path_trigger_Some:
  assumes "path_trigger ignore m cache_dir w p = Some t"
  shows "\<exists>r\<in>set (file_index (wdb w)). t = TWrite (r_inode r) \<and> r_status r = Dirty \<and> r_mount_id r = m
     \<and> path_strip_prefix cache_dir p = Some (r_remote_path r) \<and> \<not> ignore (r_remote_path r)"
proof -
  from assms obtain rp where rp: "path_strip_prefix cache_dir p = Some rp" "\<not> ignore rp"
    and e: "(case fst (get_by_remote_path m rp (wdb w)) of
        Inr (Some entry) \<Rightarrow> if fe_status entry = Conflict then None
          else if fe_status entry = Dirty then Some (TWrite (fe_inode entry)) else None | _ \<Rightarrow> None) = Some t"
    by (simp add: path_trigger_def Let_def split: if_splits option.splits)
  from e obtain r where "find (\<lambda>r. r_mount_id r = m \<and> r_remote_path r = rp) (file_index (wdb w)) = Some r"
    "r_status r = Dirty" "t = TWrite (r_inode r)"
    by (auto simp: get_by_remote_path_def find_row_def split: option.splits if_splits)
  with rp show ?thesis by (auto dest!: find_SomeD)
qed

lemma only_dirty_queued:
  "TWrite i \<in> set (handle_event ignore m cache_dir w ev) \<Longrightarrow>
   \<exists>r\<in>set (file_index (wdb w)). r_inode r = i \<and> r_status r = Dirty \<and> r_mount_id r = m \<and> \<not> ignore (r_remote_path r)"
  by (auto simp: handle_event_def in_map_filter dest!: path_trigger_Some split: if_splits)

text \<open>
  A name that begins with a dot is never queued, whatever its row says.
\<close>

lemma dotfile_not_queued:
  "path_file_name p = Some (CHR ''.'' # n) \<Longrightarrow> handle_event ignore m cache_dir w \<lparr> ev_kind = k, ev_paths = [p] \<rparr> = []"
  by (simp add: handle_event_def List.map_filter_def path_trigger_def)

end
