(* ===== verification/Cli_Files.thy ===== *)
theory Cli_Files
  imports Settings Watcher
begin

text \<open>
  The commands of the command line tool that work on the files of a mount
  (\<open>stratosync-cli/src/commands\<close>: \<open>pin.rs\<close>, \<open>push.rs\<close>, \<open>versions.rs\<close>, \<open>cache.rs\<close>).
  A command runs beside the daemon on the database and the cache directory of
  the mount its path belongs to.  Whether the database file exists, the kernel's
  way from an \<open>fsync\<close> on the mount to the daemon, and the listing that empties the
  cache of a mount without a database are parameters; printing, the question
  for confirmation and the probe of the daemon's socket are left out.
\<close>

section \<open>From a path of the user to a row\<close>

definition pick_mount :: "user_env \<Rightarrow> 'f mount_settings list \<Rightarrow> path \<Rightarrow> ('f mount_settings \<times> path) option" where
  "pick_mount U ms user_path =
     (let user_abs = expand_tilde U user_path in
      find_map (\<lambda>m. map_option (Pair m) (path_strip_prefix (expand_tilde U (resolved_mount_path U m)) user_abs)) (filter ms_enabled ms))"

definition find_entry :: "mount_id \<Rightarrow> path \<Rightarrow> ('r, file_entry) sitem" where
  "find_entry m rel0 =
     (let rel = trim_start_matches (CHR ''/'') rel0 in
      bindS (if rel = [] then on_db (get_by_remote_path m ''/'')
             else bindS (on_db (get_by_remote_path m (''/'' @ rel))) (\<lambda>a. case a of
                Some e \<Rightarrow> ret (Some e)
              | None \<Rightarrow> on_db (get_by_remote_path m rel)))
       (\<lambda>e. case e of Some x \<Rightarrow> ret x | None \<Rightarrow> raise (Bail (''file not found in database: '' @ rel))))"

definition known_mount :: "(string \<Rightarrow> bool) \<Rightarrow> string \<Rightarrow> ('r, mount_id) sitem" where
  "known_mount has_db name =
     (if \<not> has_db name then raise (Bail (''no database for mount '' @ name))
      else bindS (on_db (get_mount_id name)) (\<lambda>i. case i of
         None \<Rightarrow> raise (Bail (''mount not found in database: '' @ name))
       | Some m \<Rightarrow> ret m))"

definition resolve_file :: "user_env \<Rightarrow> (string \<Rightarrow> bool) \<Rightarrow> 'f mount_settings list \<Rightarrow> path \<Rightarrow> ('r, 'f mount_settings \<times> mount_id \<times> file_entry) sitem" where
  "resolve_file U has_db ms user_path =
     (case pick_mount U ms user_path of
        None \<Rightarrow> raise (Bail (''path is not under any configured mount: '' @ expand_tilde U user_path))
      | Some (mount, rel) \<Rightarrow>
          bindS (known_mount has_db (mc_name mount)) (\<lambda>m.
          bindS (find_entry m rel) (\<lambda>e. ret (mount, m, e))))"

text \<open>A directory stands for the files below it, as the database finds them.\<close>

definition target_files :: "mount_id \<Rightarrow> file_entry \<Rightarrow> ('r, file_entry list) sitem" where
  "target_files m e = (if fe_kind e = Directory then on_db (list_file_descendants m (fe_remote_path e)) else ret [e])"

definition synthesized_path :: "path \<Rightarrow> file_entry \<Rightarrow> path" where
  "synthesized_path cache_dir e = path_join cache_dir (trim_start_matches (CHR ''/'') (fe_remote_path e))"

definition make_parent :: "path \<Rightarrow> ('r, unit) sitem" where
  "make_parent p = (case path_parent p of Some d \<Rightarrow> on_world (create_dir_all d) | None \<Rightarrow> ret ())"

section \<open>Pinning\<close>

definition pin_single_file :: "'r backend \<Rightarrow> path \<Rightarrow> file_entry \<Rightarrow> ('r, unit) sitem" where
  "pin_single_file B cache_dir e =
     thenS (if needs_hydration (fe_status e)
            then (let cp = synthesized_path cache_dir e in
                  thenS (make_parent cp)
                 (thenS (on_backend (b_download B (fe_remote_path e) cp))
                 (bindS (on_backend (b_stat B (fe_remote_path e))) (\<lambda>meta.
                    on_db (set_cached (fe_inode e) cp (rm_size meta) (rm_etag meta) (rm_mtime meta) (rm_size meta))))))
            else ret ())
       (on_db (set_pinned (fe_inode e) True))"

text \<open>The number of files pinned; \<open>mk\<close> makes the backend of a remote.\<close>

definition pin :: "(string \<Rightarrow> 'r backend option) \<Rightarrow> user_env \<Rightarrow> (string \<Rightarrow> bool) \<Rightarrow> 'f mount_settings list \<Rightarrow> path \<Rightarrow> ('r, nat) sitem" where
  "pin mk U has_db ms user_path =
     bindS (resolve_file U has_db ms user_path) (\<lambda>(mount, m, e).
       case mk (ms_remote mount) of
         None \<Rightarrow> raise (Bail ''invalid remote'')
       | Some B \<Rightarrow>
           bindS (target_files m e) (\<lambda>es.
             thenS (each (pin_single_file B (cache_dir_of U mount)) es) (ret (length es))))"

definition unpin :: "(string \<Rightarrow> 'r backend option) \<Rightarrow> user_env \<Rightarrow> (string \<Rightarrow> bool) \<Rightarrow> 'f mount_settings list \<Rightarrow> path \<Rightarrow> ('r, nat) sitem" where
  "unpin mk U has_db ms user_path =
     bindS (resolve_file U has_db ms user_path) (\<lambda>(mount, m, e).
       case mk (ms_remote mount) of
         None \<Rightarrow> raise (Bail ''invalid remote'')
       | Some B \<Rightarrow>
           bindS (target_files m e) (\<lambda>es.
             thenS (each (\<lambda>x. on_db (set_pinned (fe_inode x) False)) es) (ret (length es))))"

section \<open>Pushing\<close>

text \<open>The reasons are shortened.\<close>

datatype push_action = PushFsync | AlreadySynced | Refuse string

fun classify_for_push :: "sync_status \<Rightarrow> push_action" where
  "classify_for_push Dirty = PushFsync"
| "classify_for_push Uploading = PushFsync"
| "classify_for_push Cached = AlreadySynced"
| "classify_for_push Remote = Refuse ''file is not downloaded locally''"
| "classify_for_push Hydrating = Refuse ''file is not downloaded locally''"
| "classify_for_push Stale = Refuse ''file is stale''"
| "classify_for_push Conflict = Refuse ''file is in conflict state''"

definition fsync_through_mount :: "(path \<Rightarrow> ('r, unit) sitem) \<Rightarrow> path \<Rightarrow> file_entry \<Rightarrow> ('r, unit) sitem" where
  "fsync_through_mount sync mount_root e = sync (path_join mount_root (trim_start_matches (CHR ''/'') (fe_remote_path e)))"

record push_report =
  pr_pushed  :: nat
  pr_skipped :: nat
  pr_refused :: "(path \<times> string) list"

fun push_all :: "(path \<Rightarrow> ('r, unit) sitem) \<Rightarrow> path \<Rightarrow> file_entry list \<Rightarrow> push_report \<Rightarrow> ('r, push_report) sitem" where
  "push_all sync root [] rep = ret rep"
| "push_all sync root (e # es) rep =
     (case classify_for_push (fe_status e) of
        PushFsync \<Rightarrow> thenS (fsync_through_mount sync root e) (push_all sync root es (rep\<lparr>pr_pushed := pr_pushed rep + 1\<rparr>))
      | AlreadySynced \<Rightarrow> push_all sync root es (rep\<lparr>pr_skipped := pr_skipped rep + 1\<rparr>)
      | Refuse why \<Rightarrow> push_all sync root es (rep\<lparr>pr_refused := pr_refused rep @ [(fe_remote_path e, why)]\<rparr>))"

definition no_push :: push_report where
  "no_push = \<lparr> pr_pushed = 0, pr_skipped = 0, pr_refused = [] \<rparr>"

definition push :: "(path \<Rightarrow> ('r, unit) sitem) \<Rightarrow> user_env \<Rightarrow> (string \<Rightarrow> bool) \<Rightarrow> 'f mount_settings list \<Rightarrow> path \<Rightarrow> ('r, push_report) sitem" where
  "push sync U has_db ms user_path =
     bindS (resolve_file U has_db ms user_path) (\<lambda>(mount, m, e).
       let root = expand_tilde U (resolved_mount_path U mount) in
       if fe_kind e = Directory then
         bindS (on_db (list_file_descendants m (fe_remote_path e))) (\<lambda>es. push_all sync root es no_push)
       else case classify_for_push (fe_status e) of
         PushFsync \<Rightarrow> thenS (fsync_through_mount sync root e) (ret (no_push\<lparr>pr_pushed := 1\<rparr>))
       | AlreadySynced \<Rightarrow> ret (no_push\<lparr>pr_skipped := 1\<rparr>)
       | Refuse why \<Rightarrow> raise (Bail (fe_name e @ '': '' @ why)))"

section \<open>Restoring a version\<close>

text \<open>\<open>Path::with_file_name\<close>.\<close>

definition with_file_name :: "path \<Rightarrow> string \<Rightarrow> path" where
  "with_file_name p n = (case path_parent p of Some d \<Rightarrow> path_join d n | None \<Rightarrow> n)"

definition restore_tmp :: "path \<Rightarrow> string \<Rightarrow> path" where
  "restore_tmp cache_path name = with_file_name cache_path (''.'' @ name @ ''.restore.tmp'')"

text \<open>\<open>fs::copy\<close> of a blob: the number of bytes written.\<close>

definition copy_blob :: "path \<Rightarrow> path \<Rightarrow> nat app" where
  "copy_blob blob tmp w =
     (if io_fault w blob then (Inl IoOther, w)
      else case objects w blob of
        None \<Rightarrow> (Inl IoNotFound, w)
      | Some b \<Rightarrow> thenS (write_file tmp b) (ret (length b)) w)"

definition install_restored_content :: "inode \<Rightarrow> path \<Rightarrow> path \<Rightarrow> nat app" where
  "install_restored_content i blob cache_path =
     (case path_file_name cache_path of
        None \<Rightarrow> raise (Bail (''cache path has no file name: '' @ cache_path))
      | Some name \<Rightarrow>
          (let tmp = restore_tmp cache_path name in
           bindS (copy_blob blob tmp) (\<lambda>written.
           bindS (attempt (db_op (set_dirty_with_cache_path i cache_path written))) (\<lambda>r. case r of
              Inl e \<Rightarrow> thenS (attempt (remove_file tmp)) (raise e)
            | Inr _ \<Rightarrow> thenS (rename_file tmp cache_path) (ret written)))))"

definition pick_or_synthesize_cache_path :: "file_entry \<Rightarrow> path \<Rightarrow> path" where
  "pick_or_synthesize_cache_path e cache_dir = (case fe_cache_path e of Some cp \<Rightarrow> cp | None \<Rightarrow> synthesized_path cache_dir e)"

definition restore_at :: "path \<Rightarrow> file_entry \<Rightarrow> nat \<Rightarrow> ('r, nat) sitem" where
  "restore_at cache_dir e index =
     bindS (on_db (list_version_history (fe_inode e))) (\<lambda>history.
       if length history \<le> index then raise (Bail (''no version at that index for '' @ fe_remote_path e))
       else (let base = path_join cache_dir ''.bases''; blob = object_path base (v_object_hash (history ! index)) in
         thenS (on_world (create_dir_all (path_join base ''objects'')))
        (bindS (query (\<lambda>s. objects (sw s) blob \<noteq> None)) (\<lambda>there.
           if \<not> there then raise (Bail ''blob is missing on disk'')
           else (let cp = pick_or_synthesize_cache_path e cache_dir in
             thenS (make_parent cp) (on_world (install_restored_content (fe_inode e) blob cp)))))))"

definition restore :: "user_env \<Rightarrow> (string \<Rightarrow> bool) \<Rightarrow> 'f mount_settings list \<Rightarrow> path \<Rightarrow> nat \<Rightarrow> ('r, nat) sitem" where
  "restore U has_db ms user_path index =
     bindS (resolve_file U has_db ms user_path) (\<lambda>(mount, m, e). restore_at (cache_dir_of U mount) e index)"

section \<open>Clearing the cache\<close>

text \<open>The directories between a cleared file and the cache root, the nearest first.\<close>

lemma path_parent_shorter: "path_parent p = Some d \<Longrightarrow> length d < length p"
  by (auto simp: path_parent_def dest!: rsplit_once_Some split: option.splits if_splits)

function parents_below :: "path \<Rightarrow> path \<Rightarrow> path list" where
  "parents_below root p =
     (case path_parent p of
        None \<Rightarrow> []
      | Some d \<Rightarrow> if d = root \<or> \<not> path_starts_with d root then [] else d # parents_below root d)"
  by pat_completeness auto
termination by (relation "measure (\<lambda>(_, p). length p)") (auto dest: path_parent_shorter)

text \<open>\<open>fs::remove_dir\<close>: \<open>occupied\<close> is the file system's answer whether a directory has entries.\<close>

definition remove_dir :: "((path \<rightharpoonup> node) \<Rightarrow> path \<Rightarrow> bool) \<Rightarrow> path \<Rightarrow> unit app" where
  "remove_dir occupied d w =
     (if io_fault w d then (Inl IoOther, w)
      else case disk w d of
        None \<Rightarrow> (Inl IoNotFound, w)
      | Some Dir \<Rightarrow> if occupied (disk w) d then (Inl IoOther, w) else (Inr (), w\<lparr>disk := (disk w)(d := None)\<rparr>)
      | Some _ \<Rightarrow> (Inl IoOther, w))"

definition prune_empty_dirs :: "((path \<rightharpoonup> node) \<Rightarrow> path \<Rightarrow> bool) \<Rightarrow> path \<Rightarrow> path list \<Rightarrow> unit app" where
  "prune_empty_dirs occupied root cleared =
     each (\<lambda>d. attempt (remove_dir occupied d))
       (rev (sort_key path_components (remdups (concat (map (parents_below root) cleared)))))"

definition unlink_cleared :: "path \<Rightarrow> unit app" where
  "unlink_cleared p = bindS (attempt (remove_file p)) (\<lambda>r. case r of
      Inr _ \<Rightarrow> ret () | Inl IoNotFound \<Rightarrow> ret () | Inl e \<Rightarrow> raise e)"

definition clear_one :: "((path \<rightharpoonup> node) \<Rightarrow> path \<Rightarrow> bool) \<Rightarrow> (path \<Rightarrow> nat app) \<Rightarrow> user_env \<Rightarrow> (string \<Rightarrow> bool) \<Rightarrow> 'f mount_settings \<Rightarrow> bool \<Rightarrow> cache_clear_report app" where
  "clear_one occupied wipe U has_db mount include_pinned =
     (let cache_dir = cache_dir_of U mount in
      if \<not> has_db (mc_name mount) then
        bindS (wipe cache_dir) (\<lambda>stray. ret \<lparr> files_cleared = 0, bytes_freed = stray, cleared_paths = [] \<rparr>)
      else
        bindS (db_op (get_mount_id (mc_name mount))) (\<lambda>i. case i of
          None \<Rightarrow> raise (Bail (''mount is in config but not in DB: '' @ mc_name mount))
        | Some m \<Rightarrow>
            bindS (db_op (clear_cache_for_mount m include_pinned)) (\<lambda>report.
              thenS (each unlink_cleared (cleared_paths report))
             (thenS (prune_empty_dirs occupied cache_dir (cleared_paths report)) (ret report)))))"

text \<open>
  Which mounts a call clears, from its flags, whether the daemon runs and the
  user's answer; \<open>None\<close> when the user declines.
\<close>

datatype clear_error = MountAndAll | NoTarget | NoSuchMount string | NothingEnabled | DaemonRunning

definition clear_targets :: "'f mount_settings list \<Rightarrow> string option \<Rightarrow> bool \<Rightarrow> bool \<Rightarrow> bool \<Rightarrow> bool \<Rightarrow> ('f mount_settings list \<Rightarrow> bool) \<Rightarrow> clear_error + 'f mount_settings list option" where
  "clear_targets ms mount_filter all running force yes confirm =
     (if mount_filter \<noteq> None \<and> all then Inl MountAndAll
      else if mount_filter = None \<and> \<not> all then Inl NoTarget
      else (let sel = (case mount_filter of
                Some name \<Rightarrow> (case find (\<lambda>m. mc_name m = name) ms of Some m \<Rightarrow> Inr [m] | None \<Rightarrow> Inl (NoSuchMount name))
              | None \<Rightarrow> Inr (filter ms_enabled ms)) in
        case sel of
          Inl e \<Rightarrow> Inl e
        | Inr chosen \<Rightarrow>
            if chosen = [] then Inl NothingEnabled
            else if running \<and> \<not> force then Inl DaemonRunning
            else if \<not> yes \<and> \<not> confirm chosen then Inr None
            else Inr (Some chosen)))"

lemma clear_targets_Some:
  "clear_targets ms f all running force yes confirm = Inr (Some chosen) \<Longrightarrow>
   chosen \<noteq> [] \<and> set chosen \<subseteq> set ms \<and> (\<not> running \<or> force) \<and> (yes \<or> confirm chosen)
   \<and> (case f of Some n \<Rightarrow> map mc_name chosen = [n] | None \<Rightarrow> all \<and> chosen = filter ms_enabled ms)"
  by (auto simp: clear_targets_def Let_def split: option.splits if_splits sum.splits dest!: find_SomeD)

section \<open>A restored version is uploaded\<close>

lemma set_dirty_run:
  assumes "db_wf d"
  shows "set_dirty_with_cache_path i cp sz d = (Inr (), d\<lparr>file_index := update_rows (\<lambda>r. r_inode r = i)
     (\<lambda>r. r\<lparr>r_status := Dirty, r_size := sz, r_cache_size := Some sz, r_cache_path := Some cp\<rparr>) (file_index d)\<rparr>)"
  using assms unfolding set_dirty_with_cache_path_def
  by (simp add: run_then, subst exec_update_same_keys) (auto simp: same_keys_def trigger_ok_def list_ex_iff)

lemma path_join_cases: "\<exists>a. path_join d x = a @ x \<and> (a = [] \<or> last a = CHR ''/'')"
  by (auto simp: path_join_def intro: exI [of _ "d @ ''/''"])

lemma file_name_join:
  assumes "CHR ''/'' \<notin> set x" "x \<notin> {[], ''.'', ''..''}"
  shows "path_file_name (path_join d x) = Some x"
proof -
  obtain a where a: "path_join d x = a @ x" "a = [] \<or> last a = CHR ''/''" using path_join_cases by blast
  show ?thesis
  proof (cases "a = []")
    case True
    with a assms show ?thesis by (simp add: path_file_name_def split_on_none)
  next
    case False
    then have "a @ x = butlast a @ CHR ''/'' # x" using a(2) append_butlast_last_id [of a] by simp
    with a(1) assms show ?thesis by (simp add: path_file_name_def split_on_append split_on_none)
  qed
qed

lemma file_name_free: "path_file_name p = Some n \<Longrightarrow> CHR ''/'' \<notin> set n"
  by (auto simp: path_file_name_def Let_def split: if_splits dest!: last_in_set dest: split_on_free)

text \<open>The temporary file is another file, and the watcher does not look at it.\<close>

lemma restore_tmp_name:
  assumes "path_file_name cp = Some n"
  shows "path_file_name (restore_tmp cp n) = Some (''.'' @ n @ ''.restore.tmp'')"
proof -
  have "CHR ''/'' \<notin> set (''.'' @ n @ ''.restore.tmp'')" using file_name_free [OF assms] by simp
  then show ?thesis unfolding restore_tmp_def with_file_name_def
    using file_name_join [of "''.'' @ n @ ''.restore.tmp''"] file_name_join [of "''.'' @ n @ ''.restore.tmp''" "[]"]
    by (simp add: path_join_def split: option.split)
qed

lemma restore_tmp_other: "path_file_name cp = Some n \<Longrightarrow> restore_tmp cp n \<noteq> cp"
  using restore_tmp_name [of cp n] by auto

lemma restore_tmp_ignored:
  "path_file_name cp = Some n \<Longrightarrow> path_trigger ignore m cache_dir w (restore_tmp cp n) = None"
  by (simp add: path_trigger_def restore_tmp_name)

definition dirtied :: "path \<Rightarrow> nat \<Rightarrow> file_row \<Rightarrow> file_row" where
  "dirtied cp sz r = r\<lparr>r_status := Dirty, r_size := sz, r_cache_size := Some sz, r_cache_path := Some cp\<rparr>"

lemma install_run:
  assumes wf: "db_wf (wdb w)" and n: "path_file_name cp = Some n" and b: "objects w blob = Some b"
    and io: "\<forall>p. \<not> io_fault w p" "disk w cp \<noteq> Some Dir" "disk w (restore_tmp cp n) \<noteq> Some Dir"
  shows "install_restored_content i blob cp w = (Inr (length b),
     w\<lparr>wdb := (wdb w)\<lparr>file_index := update_rows (\<lambda>r. r_inode r = i) (dirtied cp (length b)) (file_index (wdb w))\<rparr>,
       disk := (disk w)(restore_tmp cp n := None, cp \<mapsto> Regular b)\<rparr>)"
  using assms restore_tmp_other [OF n]
  by (simp add: install_restored_content_def Let_def copy_blob_def run_bind run_then write_file_def db_op_run
      set_dirty_run dirtied_def [abs_def] rename_file_def fun_upd_twist)

text \<open>A restore that fails has not changed the content at the cache path.\<close>

lemma failed_install_keeps_content:
  assumes "install_restored_content i blob cp w = (Inl e, w')"
  shows "disk w' cp = disk w cp \<and> objects w' = objects w"
proof (cases "path_file_name cp")
  case (Some n)
  with assms restore_tmp_other [OF Some] show ?thesis
    by (auto simp: install_restored_content_def Let_def copy_blob_def run_bind run_then write_file_def db_op_run
        rename_file_def remove_file_def split: if_splits option.splits sum.splits prod.splits node.splits)
qed (use assms in \<open>simp add: install_restored_content_def\<close>)

text \<open>The disk lets the command work: no faults, and no directory in the place of a file or the other way round.\<close>

definition can_restore :: "path \<Rightarrow> path \<Rightarrow> string \<Rightarrow> world \<Rightarrow> bool" where
  "can_restore cache_dir cp n w \<longleftrightarrow>
     (let objs = path_join (path_join cache_dir ''.bases'') ''objects'' in
      (\<forall>p. \<not> io_fault w p) \<and> disk w objs \<in> {None, Some Dir} \<and> objs \<notin> {cp, restore_tmp cp n}
      \<and> (\<forall>d. path_parent cp = Some d \<longrightarrow> disk w d \<in> {None, Some Dir} \<and> d \<noteq> restore_tmp cp n)
      \<and> disk w cp \<noteq> Some Dir \<and> disk w (restore_tmp cp n) \<noteq> Some Dir)"

lemma create_dir_run:
  assumes "\<forall>p. \<not> io_fault w p" "disk w d \<in> {None, Some Dir}"
  shows "create_dir_all d w = (Inr (), w\<lparr>disk := (disk w)(d \<mapsto> Dir)\<rparr>)"
proof -
  have "w\<lparr>disk := (disk w)(d \<mapsto> Dir)\<rparr> = w" if "disk w d = Some Dir" using that by (simp add: fun_upd_idem)
  with assms show ?thesis by (auto simp: create_dir_all_def)
qed

lemma make_parent_run:
  assumes "\<forall>p. \<not> io_fault (sw s) p" "\<forall>d. path_parent p = Some d \<longrightarrow> disk (sw s) d \<in> {None, Some Dir}"
  shows "make_parent p s = (Inr (), s\<lparr>sw := (sw s)\<lparr>disk := (case path_parent p of Some d \<Rightarrow> (disk (sw s))(d \<mapsto> Dir) | None \<Rightarrow> disk (sw s))\<rparr>\<rparr>)"
  using assms by (auto simp: make_parent_def on_world_run create_dir_run split: option.split)

lemma path_trigger_dirty:
  assumes "db_wf (wdb w)" "r \<in> set (file_index (wdb w))" "r_status r = Dirty"
    and "path_file_name cp = Some n" "path_strip_prefix cache_dir cp = Some (r_remote_path r)"
    and "\<not> prefix ''.'' n" "\<not> ends_with n ''.tmp''" "\<not> ignore (r_remote_path r)"
  shows "path_trigger ignore (r_mount_id r) cache_dir w cp = Some (TWrite (r_inode r))"
proof -
  have "find_row (\<lambda>x. r_mount_id x = r_mount_id r \<and> r_remote_path x = r_remote_path r) (wdb w) = Some r"
    using assms(1,2) by (simp add: find_row_path)
  with assms show ?thesis by (simp add: path_trigger_def get_by_remote_path_def)
qed

lemma restore_at_run:
  fixes s :: "'r site"
  assumes wf: "db_wf (wdb (sw s))" and cp: "pick_or_synthesize_cache_path e cache_dir = cp" "path_file_name cp = Some n"
    and v: "index < length (versions_newest_first (fe_inode e) (wdb (sw s)))"
      "objects (sw s) (object_path (path_join cache_dir ''.bases'') (v_object_hash (versions_newest_first (fe_inode e) (wdb (sw s)) ! index))) = Some b"
    and io: "can_restore cache_dir cp n (sw s)"
  shows "\<exists>D. restore_at cache_dir e index s = (Inr (length b), s\<lparr>sw := (sw s)\<lparr>
       wdb := (wdb (sw s))\<lparr>file_index := update_rows (\<lambda>r. r_inode r = fe_inode e) (dirtied cp (length b)) (file_index (wdb (sw s)))\<rparr>,
       disk := D(restore_tmp cp n := None, cp \<mapsto> Regular b)\<rparr>\<rparr>)
     \<and> (\<forall>q c. disk (sw s) q = Some (Regular c) \<longrightarrow> D q = Some (Regular c))"
proof -
  let ?w = "sw s" and ?objs = "path_join (path_join cache_dir ''.bases'') ''objects''"
  let ?w1 = "?w\<lparr>disk := (disk ?w)(?objs \<mapsto> Dir)\<rparr>"
  define D where "D = (case path_parent cp of Some d \<Rightarrow> (disk ?w1)(d \<mapsto> Dir) | None \<Rightarrow> disk ?w1)"
  note io' = io [unfolded can_restore_def Let_def]
  have c: "create_dir_all ?objs ?w = (Inr (), ?w1)" by (rule create_dir_run) (use io' in auto)
  have p: "make_parent cp (s\<lparr>sw := ?w1\<rparr>) = (Inr (), s\<lparr>sw := ?w1\<lparr>disk := D\<rparr>\<rparr>)"
    using io' by (subst make_parent_run) (auto simp: D_def split: option.split)
  have D: "D cp \<noteq> Some Dir" "D (restore_tmp cp n) \<noteq> Some Dir"
    using io' path_parent_shorter [of cp] by (auto simp: D_def split: option.split)
  have keep: "\<forall>q c. disk ?w q = Some (Regular c) \<longrightarrow> D q = Some (Regular c)"
    using io' by (auto simp: D_def split: option.split)
  have i: "install_restored_content (fe_inode e) blob cp (?w\<lparr>disk := D\<rparr>) = (Inr (length b), ?w\<lparr>
       wdb := (wdb ?w)\<lparr>file_index := update_rows (\<lambda>r. r_inode r = fe_inode e) (dirtied cp (length b)) (file_index (wdb ?w))\<rparr>,
       disk := D(restore_tmp cp n := None, cp \<mapsto> Regular b)\<rparr>)" if "objects ?w blob = Some b" for blob
    using install_run [of "?w\<lparr>disk := D\<rparr>" cp n blob b] that wf cp(2) io' D by simp
  have "restore_at cache_dir e index s = (Inr (length b), s\<lparr>sw := ?w\<lparr>
       wdb := (wdb ?w)\<lparr>file_index := update_rows (\<lambda>r. r_inode r = fe_inode e) (dirtied cp (length b)) (file_index (wdb ?w))\<rparr>,
       disk := D(restore_tmp cp n := None, cp \<mapsto> Regular b)\<rparr>\<rparr>)"
    using v i by (simp add: restore_at_def Let_def run_bind run_then on_world_run db_op_run list_version_history_def not_le cp c p)
  with keep show ?thesis by blast
qed

lemma restored_rows_wf:
  assumes "db_wf d"
  shows "db_wf (d\<lparr>file_index := update_rows (\<lambda>r. r_inode r = i) (dirtied cp sz) (file_index d)\<rparr>)"
  using keepsE [OF set_dirty_with_cache_path_wf set_dirty_run [OF assms] assms] by (simp add: dirtied_def [abs_def])


definition history_world :: world where
  "history_world = sample_world\<lparr>wdb := history_db, objects := [''/c/.bases/objects/bb/'' \<mapsto> [7, 8, 9]]\<rparr>"


section \<open>Pushing and pinning directories\<close>

text \<open>
  A push of a directory syncs exactly the unsynced files below it, in the order of
  their paths, and reports the rest: nothing else is sent.
\<close>

lemma push_all_run:
  assumes "\<And>p. sync p = modifyS (g p)"
  shows "\<exists>rep'. push_all sync root es rep s = (Inr rep',
       fold g (map (\<lambda>e. path_join root (trim_start_matches (CHR ''/'') (fe_remote_path e))) (filter (\<lambda>e. unsynced (fe_status e)) es)) s)
     \<and> pr_pushed rep' = pr_pushed rep + length (filter (\<lambda>e. unsynced (fe_status e)) es)
     \<and> pr_skipped rep' = pr_skipped rep + length (filter (\<lambda>e. fe_status e = Cached) es)
     \<and> map fst (pr_refused rep') = map fst (pr_refused rep)
          @ map fe_remote_path (filter (\<lambda>e. \<not> unsynced (fe_status e) \<and> fe_status e \<noteq> Cached) es)"
proof (induction es arbitrary: rep s)
  case (Cons e es)
  show ?case
    using Cons.IH [of "rep\<lparr>pr_pushed := pr_pushed rep + 1\<rparr>" "g (path_join root (trim_start_matches (CHR ''/'') (fe_remote_path e))) s"]
      Cons.IH [of "rep\<lparr>pr_skipped := pr_skipped rep + 1\<rparr>" s]
      Cons.IH [of "rep\<lparr>pr_refused := pr_refused rep @ [(fe_remote_path e, why)]\<rparr>" s for why]
    by (cases "fe_status e") (auto simp: assms fsync_through_mount_def run_then)
qed simp

text \<open>
  The mount root is stored as \<open>/\<close>, the files below it without a leading slash:
  pinning, unpinning or pushing the root finds no file and reports success.
\<close>

lemma ascii_lower_slash: "ascii_lower (CHR ''/'') = ascii_lower c \<longleftrightarrow> c = CHR ''/''"
proof -
  have s: "ascii_lower (CHR ''/'') = CHR ''/''" by code_simp
  have "ascii_lower c \<noteq> CHR ''/''" if "65 \<le> (of_char c :: nat)" "(of_char c :: nat) \<le> 90"
  proof
    assume "ascii_lower c = CHR ''/''"
    then have "of_char (char_of (of_char c + 32 :: nat) :: char) = (of_char (CHR ''/'') :: nat)" using that by (simp add: ascii_lower_def Let_def)
    then show False using that by (simp add: of_char_of)
  qed
  then show ?thesis unfolding s by (auto simp: ascii_lower_def Let_def split: if_splits)
qed

lemma root_has_no_descendants:
  assumes "\<forall>r\<in>set (file_index d). r_kind r = File \<longrightarrow> \<not> prefix ''/'' (r_remote_path r)"
  shows "list_file_descendants m ''/'' d = (Inr [], d)"
proof -
  have pat: "trim_end_matches (CHR ''/'') ''/'' @ ''/'' @ ''%'' = ''/%''" by code_simp
  have "\<not> sql_like ''/%'' (r_remote_path r)" if "r \<in> set (file_index d)" "r_kind r = File" for r
  proof (cases "r_remote_path r")
    case (Cons c cs)
    with assms that have "c \<noteq> CHR ''/''" by auto
    then show ?thesis using Cons ascii_lower_slash [of c] by simp
  qed simp
  then have none: "filter (\<lambda>r. r_mount_id r = m \<and> sql_like ''/%'' (r_remote_path r) \<and> r_kind r = File) (file_index d) = []"
    by (auto simp: filter_empty_conv)
  show ?thesis unfolding list_file_descendants_def Let_def pat by (simp add: none)
qed

theorem pinning_the_root_pins_nothing:
  assumes m: "pick_mount U ms p = Some (mount, [])" "has_db (mc_name mount)" "get_mount_id (mc_name mount) (wdb (sw s)) = (Inr (Some m), wdb (sw s))"
    and B: "mk (ms_remote mount) = Some B" and wf: "db_wf (wdb (sw s))"
    and root: "r \<in> set (file_index (wdb (sw s)))" "path_key r = (m, ''/'')" "r_kind r = Directory"
    and files: "\<forall>r\<in>set (file_index (wdb (sw s))). r_kind r = File \<longrightarrow> \<not> prefix ''/'' (r_remote_path r)"
  shows "pin mk U has_db ms p s = (Inr 0, s)"
proof -
  have "find_row (\<lambda>x. r_mount_id x = m \<and> r_remote_path x = ''/'') (wdb (sw s)) = Some r"
    using find_row_path [OF wf] root by blast
  then have f: "find_entry m [] s = (Inr (row_to_entry r), s)"
    by (simp add: find_entry_def Let_def trim_start_matches_def run_bind on_world_run db_op_run get_by_remote_path_def)
  have k: "known_mount has_db (mc_name mount) s = (Inr m, s)"
    using m(2,3) by (simp add: known_mount_def run_bind on_world_run db_op_run)
  have "target_files m (row_to_entry r) s = (Inr [], s)"
    using root(2,3) root_has_no_descendants [OF files] by (simp add: target_files_def on_world_run db_op_run)
  then show ?thesis by (simp add: pin_def resolve_file_def m(1) k f B run_bind run_then)
qed

text \<open>An underscore in the name of a directory matches any character: the files of another directory are taken too.\<close>

lemma descendants_of_other_directory:
  "\<exists>e. e \<in> set (projr (fst (list_file_descendants 1 ''a_b''
      (empty_db\<lparr>file_index := [sample_row 3 (Some 2) ''f'' ''axb/f'' File Remote None None]\<rparr>))))"
proof -
  have "sql_like (trim_end_matches (CHR ''/'') ''a_b'' @ ''/'' @ ''%'') ''axb/f''" by code_simp
  then show ?thesis by (simp add: list_file_descendants_def empty_db_def sample_row_def)
qed

section \<open>What clearing keeps\<close>

text \<open>The file at \<open>q\<close> and the database, untouched.\<close>

definition kept_at :: "path \<Rightarrow> node option \<Rightarrow> db \<Rightarrow> world \<Rightarrow> bool" where
  "kept_at q n d w \<longleftrightarrow> disk w q = n \<and> wdb w = d"

lemma kept_at_unlink: "q \<noteq> p \<Longrightarrow> keeps (kept_at q n d) (unlink_cleared p)"
  by (auto simp: keeps_def kept_at_def unlink_cleared_def run_bind remove_file_def split: option.split node.split)

lemma kept_at_remove_dir: "n \<noteq> Some Dir \<Longrightarrow> keeps (kept_at q n d) (remove_dir occupied p)"
  by (auto simp: keeps_def kept_at_def remove_dir_def split: option.split node.split)

lemma kept_at_prune: "n \<noteq> Some Dir \<Longrightarrow> keeps (kept_at q n d) (prune_empty_dirs occupied root ps)"
  unfolding prune_empty_dirs_def by (intro keeps_each keeps_attempt kept_at_remove_dir)

text \<open>
  Whatever happens, clearing the cache keeps the rows of unsynced files and the
  cache files that belong to no cleared row.
\<close>

theorem clear_keeps_unsynced_content:
  assumes wf: "db_wf (wdb w)" and db: "has_db (mc_name mount)"
    and r: "r \<in> set (file_index (wdb w))" "unsynced (r_status r)" "r_cache_path r = Some cp"
    and own: "\<forall>x\<in>set (file_index (wdb w)). r_cache_path x = Some cp \<longrightarrow> x = r" and b: "disk w cp = Some (Regular b)"
  shows "r \<in> set (file_index (wdb (snd (clear_one occupied wipe U has_db mount pins w))))
     \<and> disk (snd (clear_one occupied wipe U has_db mount pins w)) cp = Some (Regular b)"
proof (cases "find (\<lambda>x. m_name x = mc_name mount) (mounts (wdb w))")
  case None
  with db r b show ?thesis by (simp add: clear_one_def Let_def run_bind db_op_run get_mount_id_def)
next
  case (Some mt)
  from clear_cache_accounts_for_bytes [OF wf, of "m_id mt" pins] obtain rep d' where
    c: "clear_cache_for_mount (m_id mt) pins (wdb w) = (Inr rep, d')"
    and ps: "set (cleared_paths rep) = {p. \<exists>r\<in>set (file_index (wdb w)). clearable (m_id mt) pins (wdb w) r \<and> r_cache_path r = Some p}"
    and rows: "file_index d' = map (\<lambda>r. if clearable (m_id mt) pins (wdb w) r then detach_cache r else r) (file_index (wdb w))" by blast
  have nc: "\<not> clearable (m_id mt) pins (wdb w) r" using r(2) by (auto simp: clearable_def)
  then have cp: "cp \<notin> set (cleared_paths rep)" using own by (auto simp: ps)
  let ?rest = "thenS (each unlink_cleared (cleared_paths rep))
     (thenS (prune_empty_dirs occupied (cache_dir_of U mount) (cleared_paths rep)) (ret rep)) :: cache_clear_report app"
  have "keeps (kept_at cp (Some (Regular b)) d') ?rest"
    using cp by (intro keeps_then keeps_each_in kept_at_unlink kept_at_prune keeps_ret) auto
  from keepsD [OF this, of "w\<lparr>wdb := d'\<rparr>"] b
  have k: "disk (snd (?rest (w\<lparr>wdb := d'\<rparr>))) cp = Some (Regular b) \<and> wdb (snd (?rest (w\<lparr>wdb := d'\<rparr>))) = d'" by (simp add: kept_at_def)
  have "clear_one occupied wipe U has_db mount pins w = ?rest (w\<lparr>wdb := d'\<rparr>)"
    using Some db c by (simp add: clear_one_def Let_def run_bind db_op_run get_mount_id_def)
  moreover have "r \<in> set (file_index d')" using r(1) nc by (auto simp: rows image_iff)
  ultimately show ?thesis using k by simp
qed

section \<open>A pinned file is there\<close>

lemma set_pinned_run:
  assumes "set_pinned i True d = (Inr (), d')"
  shows "is_pinned_in d' i \<and> file_index d' = file_index d"
proof -
  let ?new = "\<lparr> l_inode = i, l_last_access = clock d, l_pinned = True \<rparr>"
  let ?upd = "\<lambda>l :: lru_row. if l_inode l = i then l\<lparr>l_pinned := True\<rparr> else l"
  from assms have d': "d' = d\<lparr>cache_lru := kt_upsert l_inode i ?new (\<lambda>l. l\<lparr>l_pinned := True\<rparr>) (cache_lru d)\<rparr>"
    by (simp add: set_pinned_def exec_lru_upsert_def split: if_splits)
  have "\<exists>l\<in>set (kt_upsert l_inode i ?new (\<lambda>l. l\<lparr>l_pinned := True\<rparr>) t). l_inode l = i \<and> l_pinned l" for t
  proof (cases "i \<in> l_inode ` set t")
    case True
    then obtain l where "l \<in> set t" "l_inode l = i" by blast
    then show ?thesis by (intro bexI [of _ "?upd l"]) (auto simp: kt_upsert_def list_ex_iff image_iff intro: bexI [of _ l])
  qed (auto simp: kt_upsert_def list_ex_iff)
  then show ?thesis by (simp add: d' is_pinned_in_def list_ex_iff)
qed

context remote_store
begin

text \<open>Pinning a file that is not downloaded leaves the remote bytes at its cache path; every pinned file is marked.\<close>

lemma pin_single_available:
  assumes "pin_single_file B cache_dir e s = (Inr (), s')"
  shows "is_pinned_in (wdb (sw s')) (fe_inode e) \<and> sr s' = sr s
     \<and> (needs_hydration (fe_status e) \<longrightarrow> (\<exists>b. content (sr s) (fe_remote_path e) = Some b
          \<and> disk (sw s') (synthesized_path cache_dir e) = Some (Regular b)))"
proof (cases "needs_hydration (fe_status e)")
  case False
  with assms show ?thesis
    by (auto simp: pin_single_file_def then_Inr on_world_Inr db_op_Inr dest!: set_pinned_run)
next
  case True
  let ?cp = "synthesized_path cache_dir e"
  from assms True obtain s1 s2 meta s3 d3 d4 where p: "make_parent ?cp s = (Inr (), s1)"
    and d: "b_download B (fe_remote_path e) ?cp s1 = (Inr (), s2)" and st: "b_stat B (fe_remote_path e) s2 = (Inr meta, s3)"
    and u: "s' = s3\<lparr>sw := (sw s3)\<lparr>wdb := d4\<rparr>\<rparr>" "set_pinned (fe_inode e) True d3 = (Inr (), d4)"
    by (auto simp: pin_single_file_def Let_def then_Inr bind_Inr on_backend_Inr on_world_Inr db_op_Inr)
  have "sr s1 = sr s" using p by (auto simp: make_parent_def on_world_Inr split: option.splits)
  moreover have "s3 = s2" using stat_pure [of "fe_remote_path e" s2] st by simp
  ultimately show ?thesis using download_ok [OF d] set_pinned_run [OF u(2)] u(1) by auto
qed

end

end
