(* ===== verification/Webdav.thy ===== *)
theory Webdav
  imports Backend Config
begin

text \<open>
  The WebDAV backend (\<open>stratosync-core/src/backend/webdav.rs\<close>), which talks to a
  local \<open>rclone serve webdav\<close>.  The server, the percent encoding of the
  \<open>urlencoding\<close> package and the date parsers of \<open>chrono\<close> are parameters; texts
  are sequences of bytes.
\<close>

section \<open>Requests\<close>

record http_request =
  rq_method  :: string
  rq_url     :: string
  rq_headers :: "(string \<times> string) list"
  rq_body    :: bytes

record http_response =
  rs_status :: nat
  rs_etag   :: "string option"
  rs_body   :: bytes

text \<open>The server with its state; \<open>Inl\<close> is an error of the connection.\<close>

type_synonym 'r server = "http_request \<Rightarrow> 'r \<Rightarrow> (string + http_response) \<times> 'r"

record 'r webdav =
  dv_http     :: "'r server"
  dv_base_url :: string
  dv_encode   :: "string \<Rightarrow> string"
  dv_decode   :: "string \<Rightarrow> string option"
  dv_rfc2822  :: "string \<Rightarrow> system_time option"
  dv_rfc3339  :: "string \<Rightarrow> system_time option"

definition webdav_new :: "'r webdav \<Rightarrow> string \<Rightarrow> 'r webdav" where
  "webdav_new V base_url = V\<lparr>dv_base_url := trim_end_matches (CHR ''/'') base_url\<rparr>"

definition dav_url :: "'r webdav \<Rightarrow> path \<Rightarrow> string" where
  "dav_url V path0 =
     (let path = trim_start_matches (CHR ''/'') path0 in
      if path = [] then dv_base_url V
      else dv_base_url V @ ''/'' @ join_with ''/'' (map (dv_encode V) (split_on (CHR ''/'') path)))"

definition text_of :: "bytes \<Rightarrow> string" where
  "text_of = map (\<lambda>b. char_of (unat b))"

definition propfind_body :: bytes where
  "propfind_body = map (\<lambda>c. of_char c) (''<?xml version='' @ [CHR 0x22] @ ''1.0'' @ [CHR 0x22] @ ''?><propfind xmlns='' @ [CHR 0x22] @ ''DAV:'' @ [CHR 0x22]
     @ ''><allprop/></propfind>'')"

definition is_success :: "nat \<Rightarrow> bool" where
  "is_success st \<longleftrightarrow> 200 \<le> st \<and> st < 300"

definition send :: "'r webdav \<Rightarrow> string \<Rightarrow> string \<Rightarrow> (string \<times> string) list \<Rightarrow> bytes \<Rightarrow> ('r, http_response) bkm" where
  "send V method url headers body s =
     (case dv_http V \<lparr> rq_method = method, rq_url = url, rq_headers = headers, rq_body = body \<rparr> (sr s) of
        (Inl e, r) \<Rightarrow> (Inl (Network e), s\<lparr>sr := r\<rparr>)
      | (Inr a, r) \<Rightarrow> (Inr a, s\<lparr>sr := r\<rparr>))"

definition status_error :: "string \<Rightarrow> path \<Rightarrow> nat \<Rightarrow> sync_error" where
  "status_error method path st = Fatal (method @ '' '' @ path @ '': '' @ nat_to_string st)"

section \<open>Reading the answers\<close>

definition extract_with :: "string \<Rightarrow> string \<Rightarrow> string \<Rightarrow> string option" where
  "extract_with xml tag pre =
     (case split_once_str (''<'' @ pre @ tag @ ''>'') xml of
        None \<Rightarrow> None
      | Some (_, after) \<Rightarrow>
          (case split_once_str (''</'' @ pre @ tag @ ''>'') after of
             None \<Rightarrow> None
           | Some (inner, _) \<Rightarrow> if trim_ws inner = [] then None else Some (trim_ws inner)))"

definition extract_xml_value :: "string \<Rightarrow> string \<Rightarrow> string option" where
  "extract_xml_value xml tag =
     or_else (extract_with xml tag ''D:'') (or_else (extract_with xml tag ''d:'') (extract_with xml tag []))"

definition parse_http_date :: "'r webdav \<Rightarrow> string \<Rightarrow> system_time option" where
  "parse_http_date V s = or_else (dv_rfc2822 V s) (dv_rfc3339 V s)"

definition is_collection :: "string \<Rightarrow> bool" where
  "is_collection xml \<longleftrightarrow> contains_str xml ''<D:collection'' \<or> contains_str xml ''<d:collection'' \<or> contains_str xml ''DAV:collection''"

text \<open>The properties of one resource; \<open>UNIX_EPOCH\<close> is 0.\<close>

definition dav_meta :: "'r webdav \<Rightarrow> string \<Rightarrow> path \<Rightarrow> string \<Rightarrow> remote_metadata" where
  "dav_meta V xml path name =
     \<lparr> rm_path = path, rm_name = name,
       rm_size = (case Option.bind (extract_xml_value xml ''getcontentlength'') parse_u64 of Some n \<Rightarrow> n | None \<Rightarrow> 0),
       rm_mtime = (case Option.bind (extract_xml_value xml ''getlastmodified'') (parse_http_date V) of Some t \<Rightarrow> t | None \<Rightarrow> 0),
       rm_is_dir = is_collection xml, rm_etag = extract_xml_value xml ''getetag'', rm_checksum = None,
       rm_mime_type = extract_xml_value xml ''getcontenttype'', rm_item_id = None \<rparr>"

definition name_or_self :: "path \<Rightarrow> string" where
  "name_or_self p = (case path_file_name p of Some n \<Rightarrow> n | None \<Rightarrow> p)"

definition parse_propfind_single :: "'r webdav \<Rightarrow> path \<Rightarrow> string \<Rightarrow> remote_metadata" where
  "parse_propfind_single V path xml = dav_meta V xml path (name_or_self path)"

text \<open>\<open>str::split\<close> with a text that is not empty.\<close>

lemma split_once_str_shorter:
  "split_once_str pat s = Some (a, b) \<Longrightarrow> pat \<noteq> [] \<Longrightarrow> length b < length s"
proof (induction s arbitrary: a b)
  case Nil
  have "split_once_str pat [] = None" by (subst split_once_str.simps) (simp add: Nil)
  with Nil show ?case by simp
next
  case (Cons c s)
  have "split_once_str pat (c # s) = (if prefix pat (c # s) then Some ([], drop (length pat) (c # s))
      else map_option (\<lambda>(a, b). (c # a, b)) (split_once_str pat s))" by (subst split_once_str.simps) simp
  then consider "b = drop (length pat) (c # s)" | a' where "split_once_str pat s = Some (a', b)"
    using Cons.prems(1) by (cases "split_once_str pat s") (auto split: if_splits prod.splits)
  then show ?case
  proof cases
    case 1
    then show ?thesis using Cons.prems(2) by (cases pat) auto
  next
    case 2
    then show ?thesis using Cons.IH Cons.prems(2) by fastforce
  qed
qed

function str_split :: "string \<Rightarrow> string \<Rightarrow> string list" where
  "str_split pat s =
     (if pat = [] then [s]
      else case split_once_str pat s of None \<Rightarrow> [s] | Some (a, b) \<Rightarrow> a # str_split pat b)"
  by pat_completeness auto
termination
  by (relation "measure (\<lambda>(_, s). length s)") (auto dest!: split_once_str_shorter)

declare str_split.simps [simp del]

definition response_tag :: "string \<Rightarrow> string option" where
  "response_tag xml =
     (if contains_str xml ''<D:response>'' then Some ''<D:response>''
      else if contains_str xml ''<d:response>'' then Some ''<d:response>'' else None)"

definition end_tag :: "string \<Rightarrow> string" where
  "end_tag tag = ''</'' @ drop 1 tag"

definition href_name :: "'r webdav \<Rightarrow> string \<Rightarrow> string" where
  "href_name V chunk =
     (let href = (case extract_xml_value chunk ''href'' of Some h \<Rightarrow> h | None \<Rightarrow> []);
          decoded = (case dv_decode V href of Some d \<Rightarrow> d | None \<Rightarrow> [])
      in last (split_on (CHR ''/'') (trim_end_matches (CHR ''/'') decoded)))"

text \<open>One response; \<open>None\<close> when it is skipped.\<close>

definition parse_chunk :: "'r webdav \<Rightarrow> path \<Rightarrow> string \<Rightarrow> remote_metadata option" where
  "parse_chunk V parent_path chunk =
     (let name = href_name V chunk;
          parent_name = (case path_file_name parent_path of Some n \<Rightarrow> n | None \<Rightarrow> []) in
      if name = [] \<or> name = parent_name \<and> parent_path \<noteq> ''/'' then None
      else Some (dav_meta V chunk (if ends_with parent_path ''/'' then parent_path @ name else parent_path @ ''/'' @ name) name))"

definition parse_propfind_list :: "'r webdav \<Rightarrow> path \<Rightarrow> string \<Rightarrow> remote_metadata list" where
  "parse_propfind_list V parent_path xml =
     (case response_tag xml of
        None \<Rightarrow> []
      | Some tag \<Rightarrow> List.map_filter (\<lambda>chunk. parse_chunk V parent_path (hd (str_split (end_tag tag) chunk))) (tl (str_split tag xml)))"

section \<open>Operations\<close>

definition dav_headers :: "string \<Rightarrow> (string \<times> string) list" where
  "dav_headers depth = [(''Depth'', depth), (''Content-Type'', ''application/xml'')]"

definition dav_stat :: "'r webdav \<Rightarrow> path \<Rightarrow> ('r, remote_metadata) bkm" where
  "dav_stat V path =
     bindS (send V ''PROPFIND'' (dav_url V path) (dav_headers ''0'') propfind_body) (\<lambda>resp.
       if rs_status resp = 404 then raise (NotFound path)
       else if \<not> is_success (rs_status resp) \<and> rs_status resp \<noteq> 207 then raise (status_error ''PROPFIND'' path (rs_status resp))
       else ret (parse_propfind_single V path (text_of (rs_body resp))))"

definition dav_list :: "'r webdav \<Rightarrow> path \<Rightarrow> ('r, remote_metadata list) bkm" where
  "dav_list V path =
     bindS (send V ''PROPFIND'' (dav_url V path) (dav_headers ''1'') propfind_body) (\<lambda>resp.
       if \<not> is_success (rs_status resp) \<and> rs_status resp \<noteq> 207 then raise (status_error ''PROPFIND'' path (rs_status resp))
       else ret (parse_propfind_list V path (text_of (rs_body resp))))"

definition dav_list_recursive :: "'r webdav \<Rightarrow> path \<Rightarrow> ('r, remote_metadata list) bkm" where
  "dav_list_recursive V path = dav_list V path"

definition dav_download :: "'r webdav \<Rightarrow> path \<Rightarrow> path \<Rightarrow> ('r, unit) bkm" where
  "dav_download V remote local =
     bindS (send V ''GET'' (dav_url V remote) [] []) (\<lambda>resp.
       if rs_status resp = 404 then raise (NotFound remote)
       else if \<not> is_success (rs_status resp) then raise (status_error ''GET'' remote (rs_status resp))
       else thenS (case path_parent local of Some d \<Rightarrow> io_sync (create_dir_all d) | None \<Rightarrow> ret ())
              (io_sync (write_file local (rs_body resp))))"

text \<open>The last byte of the range is \<open>offset + len - 1\<close> in \<open>u64\<close>; overflow panics in debug builds and wraps in release builds.\<close>

definition range_end :: "64 word \<Rightarrow> 64 word \<Rightarrow> 64 word" where
  "range_end offset len = offset + len - 1"

definition dav_download_range :: "'r webdav \<Rightarrow> path \<Rightarrow> 64 word \<Rightarrow> 64 word \<Rightarrow> ('r, bytes) bkm" where
  "dav_download_range V remote offset len =
     (let range = ''bytes='' @ nat_to_string (unat offset) @ ''-'' @ nat_to_string (unat (range_end offset len)) in
      bindS (send V ''GET'' (dav_url V remote) [(''Range'', range)] []) (\<lambda>resp.
       if rs_status resp = 404 then raise (NotFound remote)
       else if \<not> is_success (rs_status resp) then raise (status_error ''GET range'' remote (rs_status resp))
       else ret (rs_body resp)))"

definition dav_upload :: "'r webdav \<Rightarrow> path \<Rightarrow> path \<Rightarrow> string option \<Rightarrow> ('r, remote_metadata) bkm" where
  "dav_upload V local remote if_match =
     bindS (io_sync (read_file local)) (\<lambda>data.
     bindS (send V ''PUT'' (dav_url V remote) [] data) (\<lambda>resp.
       if \<not> is_success (rs_status resp) then raise (status_error ''PUT'' remote (rs_status resp))
       else bindS (query (\<lambda>s. now_of (sw s))) (\<lambda>now.
         ret \<lparr> rm_path = remote, rm_name = name_or_self remote, rm_size = length data, rm_mtime = now, rm_is_dir = False,
               rm_etag = rs_etag resp, rm_checksum = None, rm_mime_type = None, rm_item_id = None \<rparr>)))"

definition dav_mkdir :: "'r webdav \<Rightarrow> path \<Rightarrow> ('r, unit) bkm" where
  "dav_mkdir V path =
     bindS (send V ''MKCOL'' (dav_url V path) [] []) (\<lambda>resp.
       if \<not> is_success (rs_status resp) \<and> rs_status resp \<noteq> 405 then raise (status_error ''MKCOL'' path (rs_status resp))
       else ret ())"

definition dav_delete :: "'r webdav \<Rightarrow> path \<Rightarrow> ('r, unit) bkm" where
  "dav_delete V path =
     bindS (send V ''DELETE'' (dav_url V path) [] []) (\<lambda>resp.
       if rs_status resp = 404 then ret ()
       else if \<not> is_success (rs_status resp) then raise (status_error ''DELETE'' path (rs_status resp))
       else ret ())"

definition dav_rmdir :: "'r webdav \<Rightarrow> path \<Rightarrow> ('r, unit) bkm" where
  "dav_rmdir V path = dav_delete V path"

definition dav_rename :: "'r webdav \<Rightarrow> path \<Rightarrow> path \<Rightarrow> ('r, unit) bkm" where
  "dav_rename V from to =
     bindS (send V ''MOVE'' (dav_url V from) [(''Destination'', dav_url V to), (''Overwrite'', ''T'')] []) (\<lambda>resp.
       if \<not> is_success (rs_status resp) then raise (status_error ''MOVE'' from (rs_status resp)) else ret ())"

text \<open>There is no delta feed.\<close>

definition dav_changes_since :: "string \<Rightarrow> ('r, remote_change list \<times> string) bkm" where
  "dav_changes_since token = raise NotSupported"

definition dav_get_start_token :: "('r, string) bkm" where
  "dav_get_start_token = raise NotSupported"

definition webdav_backend :: "'r webdav \<Rightarrow> 'r backend" where
  "webdav_backend V = \<lparr> b_stat = dav_stat V, b_download = dav_download V, b_upload = dav_upload V, b_delete = dav_delete V \<rparr>"

section \<open>Laws\<close>

text \<open>
  What the backend relies on of a WebDAV server (RFC 4918): \<open>served\<close> is the content
  behind a URL.  Reading changes nothing, a \<open>GET\<close> that succeeds answers with the
  content, a \<open>PUT\<close> that succeeds stores its body, a \<open>DELETE\<close> that succeeds or finds
  nothing leaves nothing, and each concerns its own URL only.
\<close>

definition dav_server :: "'r server \<Rightarrow> ('r \<Rightarrow> string \<Rightarrow> bytes option) \<Rightarrow> bool" where
  "dav_server h served \<longleftrightarrow> (\<forall>rq r.
     (rq_method rq \<in> {''GET'', ''PROPFIND''} \<longrightarrow> snd (h rq r) = r)
   \<and> (rq_method rq = ''GET'' \<and> rq_headers rq = [] \<longrightarrow> (\<forall>a. fst (h rq r) = Inr a \<and> is_success (rs_status a) \<longrightarrow> served r (rq_url rq) = Some (rs_body a)))
   \<and> (rq_method rq = ''PUT'' \<longrightarrow> (\<forall>u. u \<noteq> rq_url rq \<longrightarrow> served (snd (h rq r)) u = served r u)
        \<and> (\<forall>a. fst (h rq r) = Inr a \<and> is_success (rs_status a) \<longrightarrow> served (snd (h rq r)) (rq_url rq) = Some (rq_body rq)))
   \<and> (rq_method rq = ''DELETE'' \<longrightarrow> (\<forall>u. u \<noteq> rq_url rq \<longrightarrow> served (snd (h rq r)) u = served r u)
        \<and> (\<forall>a. fst (h rq r) = Inr a \<and> (is_success (rs_status a) \<or> rs_status a = 404) \<longrightarrow> served (snd (h rq r)) (rq_url rq) = None)))"

text \<open>The encoding keeps segments apart and never yields a slash.\<close>

definition segment_encoding :: "(string \<Rightarrow> string) \<Rightarrow> bool" where
  "segment_encoding enc \<longleftrightarrow> inj enc \<and> (\<forall>x. CHR ''/'' \<notin> set (enc x))"

lemma send_run:
  "send V meth url hs bd s = (let x = dv_http V \<lparr> rq_method = meth, rq_url = url, rq_headers = hs, rq_body = bd \<rparr> (sr s) in
     (case fst x of Inl e \<Rightarrow> Inl (Network e) | Inr a \<Rightarrow> Inr a, s\<lparr>sr := snd x\<rparr>))"
  by (simp add: send_def split: prod.split sum.split)

lemma split_join: "\<forall>x\<in>set xs. c \<notin> set x \<Longrightarrow> xs \<noteq> [] \<Longrightarrow> split_on c (join_with [c] xs) = xs"
proof (induction xs rule: induct_list012)
  case (2 x)
  then show ?case by (simp add: split_on_none)
next
  case (3 x y zs)
  have "join_with [c] (x # y # zs) = x @ c # join_with [c] (y # zs)" by simp
  then show ?case using 3 by (simp only: split_on_append) (simp add: split_on_none)
qed simp

text \<open>Two paths have the same URL exactly when they differ in leading slashes only.\<close>

lemma dav_url_eq_iff:
  assumes "segment_encoding (dv_encode V)"
  shows "dav_url V p = dav_url V q \<longleftrightarrow> trim_start_matches (CHR ''/'') p = trim_start_matches (CHR ''/'') q"
proof -
  let ?enc = "\<lambda>x. join_with ''/'' (map (dv_encode V) (split_on (CHR ''/'') x))"
  have inj: "?enc x = ?enc y \<longleftrightarrow> x = y" for x y
  proof
    assume that: "?enc x = ?enc y"
    have "split_on (CHR ''/'') (?enc z) = map (dv_encode V) (split_on (CHR ''/'') z)" for z
      using assms by (intro split_join) (auto simp: segment_encoding_def)
    with that have "map (dv_encode V) (split_on (CHR ''/'') x) = map (dv_encode V) (split_on (CHR ''/'') y)" by metis
    then have "split_on (CHR ''/'') x = split_on (CHR ''/'') y"
      using assms by (simp add: segment_encoding_def inj_map_eq_map)
    then show "x = y" by (metis join_split_on)
  qed simp
  show ?thesis by (simp add: dav_url_def Let_def inj)
qed

lemma server_read:
  assumes "dav_server (dv_http V) served"
  shows "snd (send V ''GET'' u hs b s) = s" "snd (send V ''PROPFIND'' u hs b s) = s"
  using assms [unfolded dav_server_def, rule_format, of "\<lparr> rq_method = ''GET'', rq_url = u, rq_headers = hs, rq_body = b \<rparr>" "sr s"]
    assms [unfolded dav_server_def, rule_format, of "\<lparr> rq_method = ''PROPFIND'', rq_url = u, rq_headers = hs, rq_body = b \<rparr>" "sr s"]
  by (simp_all add: send_run Let_def)

lemma bind_snd_pure: "snd (m s) = s \<Longrightarrow> (\<And>a. snd (f a s) = s) \<Longrightarrow> snd (bindS m f s) = s"
  by (cases "m s") (auto simp: run_bind split: sum.split)

lemma dav_reads_pure:
  assumes "dav_server (dv_http V) served"
  shows "snd (dav_stat V p s) = s" "snd (dav_list V p s) = s" "snd (dav_download_range V p off len s) = s"
  unfolding dav_stat_def dav_list_def dav_download_range_def Let_def
  by (rule bind_snd_pure, simp add: server_read [OF assms], simp)+

lemma dav_write:
  assumes "thenS (case path_parent l of Some d \<Rightarrow> io_sync (create_dir_all d) | None \<Rightarrow> ret ()) (io_sync (write_file l b)) s = (r, s')"
  shows "sr s' = sr s \<and> others_kept l (sw s) (sw s') \<and> (r = Inr () \<longrightarrow> disk (sw s') l = Some (Regular b))"
proof (cases "path_parent l")
  case None
  with assms write_file_kept [of l "sw s" b] show ?thesis
    by (auto simp: run_then io_sync_run write_file_def split: if_splits)
next
  case (Some d)
  with assms show ?thesis using mock_write [of d l b s r s'] by simp
qed

lemma dav_download_cases:
  assumes sv: "dav_server (dv_http V) served" and run: "dav_download V p l s = (r, s')"
  shows "sr s' = sr s \<and> others_kept l (sw s) (sw s')
     \<and> (r = Inr () \<longrightarrow> (\<exists>b. served (sr s) (dav_url V p) = Some b \<and> disk (sw s') l = Some (Regular b)))"
proof -
  let ?rq = "\<lparr> rq_method = ''GET'', rq_url = dav_url V p, rq_headers = [], rq_body = [] \<rparr>"
  obtain x r1 where h: "dv_http V ?rq (sr s) = (x, r1)" by (cases "dv_http V ?rq (sr s)")
  have law: "snd (dv_http V ?rq (sr s)) = sr s"
    "\<forall>a. fst (dv_http V ?rq (sr s)) = Inr a \<and> is_success (rs_status a) \<longrightarrow> served (sr s) (dav_url V p) = Some (rs_body a)"
    using sv [unfolded dav_server_def, rule_format, of ?rq "sr s"] by simp_all
  with h have r1: "s\<lparr>sr := r1\<rparr> = s" by simp
  show ?thesis
  proof (cases "\<exists>a. x = Inr a \<and> is_success (rs_status a) \<and> rs_status a \<noteq> 404")
    case True
    then obtain a where a: "x = Inr a" "is_success (rs_status a)" "rs_status a \<noteq> 404" by blast
    with run h r1 have "thenS (case path_parent l of Some d \<Rightarrow> io_sync (create_dir_all d) | None \<Rightarrow> ret ()) (io_sync (write_file l (rs_body a))) s = (r, s')"
      by (simp add: dav_download_def run_bind send_run Let_def)
    from dav_write [OF this] law(2) h a show ?thesis by auto
  next
    case False
    with run h r1 show ?thesis by (cases x) (auto simp: dav_download_def run_bind send_run Let_def split: if_splits)
  qed
qed

lemma dav_upload_cases:
  assumes sv: "dav_server (dv_http V) served" and run: "dav_upload V l p x s = (r, s')"
  shows "sw s' = sw s \<and> (\<forall>u. u \<noteq> dav_url V p \<longrightarrow> served (sr s') u = served (sr s) u)
     \<and> (\<forall>m. r = Inr m \<longrightarrow> (\<exists>b. disk (sw s) l = Some (Regular b) \<and> rm_size m = length b \<and> served (sr s') (dav_url V p) = Some b))"
proof (cases "fst (read_file l (sw s))")
  case (Inl e)
  have "snd (read_file l (sw s)) = sw s" by (auto simp: read_file_def split: option.splits node.splits)
  with Inl run show ?thesis by (auto simp: dav_upload_def run_bind io_sync_run)
next
  case (Inr b)
  then have b: "read_file l (sw s) = (Inr b, sw s)" "disk (sw s) l = Some (Regular b)"
    by (auto simp: read_file_def split: if_splits option.splits node.splits)
  let ?rq = "\<lparr> rq_method = ''PUT'', rq_url = dav_url V p, rq_headers = [], rq_body = b \<rparr>"
  have law: "\<forall>u. u \<noteq> dav_url V p \<longrightarrow> served (snd (dv_http V ?rq (sr s))) u = served (sr s) u"
    "\<forall>a. fst (dv_http V ?rq (sr s)) = Inr a \<and> is_success (rs_status a) \<longrightarrow> served (snd (dv_http V ?rq (sr s))) (dav_url V p) = Some b"
    using sv [unfolded dav_server_def, rule_format, of ?rq "sr s"] by simp_all
  with run b show ?thesis
    by (auto simp: dav_upload_def run_bind io_sync_run send_run Let_def split: sum.splits if_splits)
qed

text \<open>
  C39: what the WebDAV backend has uploaded it downloads again: after an upload to
  \<open>p\<close> a download of any path \<open>q\<close> yields the uploaded bytes when both name the same
  file, which is when they differ in leading slashes only, and otherwise what
  the server held for \<open>q\<close> before; neither touches another local file.
\<close>

theorem webdav_round_trip:
  assumes sv: "dav_server (dv_http V) served" and enc: "segment_encoding (dv_encode V)"
    and up: "b_upload (webdav_backend V) l p x s = (Inr m, s1)"
    and down: "b_download (webdav_backend V) q l' (s1\<lparr>sw := w\<rparr>) = (Inr (), s2)"
  shows "\<exists>b c. disk (sw s) l = Some (Regular b) \<and> rm_size m = length b \<and> sw s1 = sw s
     \<and> c = (if trim_start_matches (CHR ''/'') q = trim_start_matches (CHR ''/'') p then Some b else served (sr s) (dav_url V q))
     \<and> c \<noteq> None \<and> disk (sw s2) l' = map_option Regular c \<and> others_kept l' w (sw s2)"
proof -
  from up have "dav_upload V l p x s = (Inr m, s1)" by (simp add: webdav_backend_def)
  from dav_upload_cases [OF sv this] obtain b where b: "disk (sw s) l = Some (Regular b)" "rm_size m = length b"
    "served (sr s1) (dav_url V p) = Some b" "sw s1 = sw s" "\<forall>u. u \<noteq> dav_url V p \<longrightarrow> served (sr s1) u = served (sr s) u" by blast
  from down have "dav_download V q l' (s1\<lparr>sw := w\<rparr>) = (Inr (), s2)" by (simp add: webdav_backend_def)
  from dav_download_cases [OF sv this] obtain c where c: "served (sr s1) (dav_url V q) = Some c" "disk (sw s2) l' = Some (Regular c)"
    "others_kept l' w (sw s2)" by auto
  have e: "Some c = (if trim_start_matches (CHR ''/'') q = trim_start_matches (CHR ''/'') p then Some b else served (sr s) (dav_url V q))"
    using b(3,5) c(1) dav_url_eq_iff [OF enc, of q p] by auto
  show ?thesis by (intro exI [of _ b] exI [of _ "Some c"] conjI) (rule b e c | simp add: c(2))+
qed

text \<open>A server in memory and a percent encoding.\<close>

definition mem_server :: "(string \<rightharpoonup> bytes) server" where
  "mem_server rq r =
     (let answer = (\<lambda>st b. Inr \<lparr> rs_status = st, rs_etag = None, rs_body = b \<rparr>) in
      if rq_method rq = ''GET'' then (case r (rq_url rq) of Some b \<Rightarrow> (answer 200 b, r) | None \<Rightarrow> (answer 404 [], r))
      else if rq_method rq = ''PUT'' then (answer 201 [], r(rq_url rq \<mapsto> rq_body rq))
      else if rq_method rq = ''DELETE'' then (answer 204 [], r(rq_url rq := None))
      else (answer 501 [], r))"

lemma mem_server_ok: "dav_server mem_server (\<lambda>r. r)"
  by (auto simp: dav_server_def mem_server_def Let_def is_success_def split: option.splits if_splits)

definition percent_char :: "char \<Rightarrow> string" where
  "percent_char c = (if c = CHR ''/'' then ''%2F'' else if c = CHR ''%'' then ''%25'' else [c])"

definition percent_encode :: "string \<Rightarrow> string" where
  "percent_encode s = concat (map percent_char s)"

lemma percent_encoding: "segment_encoding percent_encode"
proof -
  have "inj percent_encode"
  proof (rule injI)
    show "percent_encode x = percent_encode y \<Longrightarrow> x = y" for x y
  proof (induction x arbitrary: y)
    case Nil
    then show ?case by (cases y) (auto simp: percent_encode_def percent_char_def split: if_splits)
  next
    case (Cons c x)
    then show ?case by (cases y) (auto simp: percent_encode_def percent_char_def split: if_splits)
  qed
  qed
  then show ?thesis by (auto simp: segment_encoding_def percent_encode_def percent_char_def)
qed

definition mem_dav :: "(string \<rightharpoonup> bytes) webdav" where
  "mem_dav = \<lparr> dv_http = mem_server, dv_base_url = ''http://h'', dv_encode = percent_encode, dv_decode = Some,
     dv_rfc2822 = (\<lambda>_. None), dv_rfc3339 = (\<lambda>_. None) \<rparr>"

theorem webdav_round_trip_witness:
  "\<exists>m s1 s2. b_upload (webdav_backend mem_dav) ''/c/d/a'' ''d/x'' None \<lparr> sw = sample_world, sr = Map.empty \<rparr> = (Inr m, s1)
     \<and> b_download (webdav_backend mem_dav) ''/d/x'' ''/t'' (s1\<lparr>sw := empty_world\<rparr>) = (Inr (), s2)
     \<and> rm_size m = 2 \<and> disk (sw s2) ''/t'' = Some (Regular [1, 2])"
proof -
  let ?s = "\<lparr> sw = sample_world, sr = Map.empty \<rparr>" and ?u = "dav_url mem_dav ''d/x''"
  have u: "dav_url mem_dav ''/d/x'' = ?u" by (simp add: dav_url_def trim_start_matches_def)
  have trim: "trim_start_matches (CHR ''/'') ''/d/x'' = trim_start_matches (CHR ''/'') ''d/x''" by (simp add: trim_start_matches_def)
  have http: "dv_http mem_dav = mem_server" "dv_encode mem_dav = percent_encode" by (simp_all add: mem_dav_def)
  obtain m s1 where up: "b_upload (webdav_backend mem_dav) ''/c/d/a'' ''d/x'' None ?s = (Inr m, s1)" "sr s1 = [?u \<mapsto> [1, 2]]"
    by (simp add: webdav_backend_def dav_upload_def run_bind io_sync_run read_file_def sample_world_def send_run
        http mem_server_def Let_def is_success_def)
  obtain s2 where down: "b_download (webdav_backend mem_dav) ''/d/x'' ''/t'' (s1\<lparr>sw := empty_world\<rparr>) = (Inr (), s2)"
    using up(2) by (simp add: webdav_backend_def dav_download_def u run_bind run_then io_sync_run send_run path_parent_def rsplit_once_def
        create_dir_all_def write_file_def empty_world_def mem_server_def http Let_def is_success_def)
  from webdav_round_trip [OF _ _ up(1) down, of "\<lambda>r. r"] mem_server_ok percent_encoding trim up(1) down show ?thesis
    by (auto simp: http sample_world_def)
qed

section \<open>Listings and preconditions\<close>

lemma href_name_free: "CHR ''/'' \<notin> set (href_name V chunk)"
  unfolding href_name_def Let_def by (rule split_on_free [OF last_in_set]) simp

text \<open>The recursive listing lists one directory: no entry of a directory below it is ever returned.\<close>

theorem recursive_listing_is_flat:
  assumes "dav_list_recursive V path s = (Inr es, s')" "e \<in> set es"
  shows "\<exists>n. n \<noteq> [] \<and> CHR ''/'' \<notin> set n \<and> rm_path e = (if ends_with path ''/'' then path @ n else path @ ''/'' @ n)"
proof -
  have "\<exists>xml. es = parse_propfind_list V path xml"
    using assms(1) by (fastforce simp: dav_list_recursive_def dav_list_def bind_Inr split: if_splits)
  with assms(2) obtain chunk where "parse_chunk V path chunk = Some e"
    by (auto simp: parse_propfind_list_def in_map_filter split: option.splits)
  then show ?thesis using href_name_free [of V chunk]
    by (intro exI [of _ "href_name V chunk"]) (auto simp: parse_chunk_def Let_def dav_meta_def split: if_splits)
qed

text \<open>An entry with the name of the directory that is listed is taken for the directory itself.\<close>

lemma same_named_child_dropped:
  "path_file_name path = Some (href_name V chunk) \<Longrightarrow> path \<noteq> ''/'' \<Longrightarrow> parse_chunk V path chunk = None"
  by (simp add: parse_chunk_def)

text \<open>The precondition of an upload is not looked at.\<close>

lemma upload_ignores_precondition: "b_upload (webdav_backend V) l p (Some etag) = b_upload (webdav_backend V) l p None"
  by (simp add: webdav_backend_def dav_upload_def)

end
