(* ===== verification/Status.thy ===== *)
theory Status
  imports Fuse_Base Poller Content
begin

text \<open>
  What the daemon reports about itself: the status structs
  (\<open>stratosync-core/src/ipc.rs\<close>), the snapshot over the mounts
  (\<open>stratosync-daemon/src/state.rs\<close>, \<open>build_queue_snapshot\<close> of the upload queue),
  the request dispatch (\<open>server.rs\<close>) and the metrics page (\<open>metrics.rs\<close>).  Sockets,
  JSON and timers are outside; a queue that does not answer in time is \<open>None\<close>.
\<close>

section \<open>The status structs\<close>

record cache_status =
  ca_used_bytes   :: nat
  ca_quota_bytes  :: nat
  ca_pinned_count :: nat

record active_upload =
  au_inode         :: inode
  au_path          :: path
  au_size          :: nat
  au_started       :: int
  au_first_started :: int
  au_attempt       :: nat
  au_uploaded      :: "nat option"

record queue_status =
  qs_pending              :: nat
  qs_in_flight            :: "active_upload list"
  qs_consecutive_failures :: nat
  qs_last_error           :: "string option"
  qs_last_failure_unix    :: "int option"
  qs_busy                 :: bool

text \<open>The downloads in flight come in no particular order.\<close>

record hydration_status =
  hs_active               :: nat
  hs_waiters              :: nat
  hs_consecutive_failures :: nat
  hs_last_error           :: "string option"
  hs_last_failure_unix    :: "int option"
  hs_in_flight            :: "active_hydration set"

record mount_status =
  st_name       :: string
  st_remote     :: string
  st_mount_path :: string
  st_cache      :: cache_status
  st_queue      :: queue_status
  st_poller     :: poller_status
  st_hydration  :: hydration_status
  st_conflicts  :: nat

record daemon_status =
  ds_version     :: string
  ds_pid         :: nat
  ds_uptime_secs :: nat
  ds_mounts      :: "mount_status list"

definition default_queue_status :: queue_status where
  "default_queue_status = \<lparr> qs_pending = 0, qs_in_flight = [], qs_consecutive_failures = 0, qs_last_error = None,
     qs_last_failure_unix = None, qs_busy = False \<rparr>"

section \<open>Taking a snapshot\<close>

text \<open>One upload in flight; instants are in milliseconds, \<open>elapsed().as_secs()\<close> rounds down.\<close>

definition active_upload_of :: "int \<Rightarrow> int \<Rightarrow> db \<Rightarrow> queue_state \<Rightarrow> inode \<Rightarrow> int \<Rightarrow> active_upload" where
  "active_upload_of now_unix now d q i started =
     (let e = (case fst (get_by_inode i d) of Inr (Some e) \<Rightarrow> (fe_remote_path e, fe_size e) | _ \<Rightarrow> (''(unknown)'', 0));
          elapsed = (now - started) div 1000;
          first_elapsed = (case first_started_at q i of Some t \<Rightarrow> (now - t) div 1000 | None \<Rightarrow> elapsed)
      in \<lparr> au_inode = i, au_path = fst e, au_size = snd e, au_started = now_unix - elapsed, au_first_started = now_unix - first_elapsed,
           au_attempt = (case attempts q i of Some n \<Rightarrow> n | None \<Rightarrow> 1), au_uploaded = progress q i \<rparr>)"

definition build_queue_snapshot :: "int \<Rightarrow> int \<Rightarrow> db \<Rightarrow> queue_state \<Rightarrow> queue_status" where
  "build_queue_snapshot now_unix now d q = default_queue_status\<lparr>
     qs_pending := card (dom (pending q)),
     qs_in_flight := List.map_filter (\<lambda>i. map_option (active_upload_of now_unix now d q i) (started_at q i)) (in_flight q)\<rparr>"

definition queue_snapshot_or_busy :: "queue_status option \<Rightarrow> queue_status" where
  "queue_snapshot_or_busy answer = (case answer of Some s \<Rightarrow> s | None \<Rightarrow> default_queue_status\<lparr>qs_busy := True\<rparr>)"

record mount_handle =
  mh_name        :: string
  mh_remote      :: string
  mh_mount_path  :: string
  mh_quota_bytes :: nat
  mh_mount_id    :: mount_id
  mh_db          :: db
  mh_poller      :: poller_status
  mh_waiters     :: "inode \<rightharpoonup> nat list"
  mh_tracker     :: hydration_tracker

definition or_default :: "'a \<Rightarrow> 'e + 'a \<Rightarrow> 'a" where
  "or_default a r = (case r of Inr x \<Rightarrow> x | Inl _ \<Rightarrow> a)"

definition collect_mount_status :: "mount_handle \<Rightarrow> queue_status \<Rightarrow> mount_status" where
  "collect_mount_status h queue =
     (let d = mh_db h; m = mh_mount_id h; health = or_default (no_health m) (fst (get_mount_health m d)) in
      \<lparr> st_name = mh_name h, st_remote = mh_remote h, st_mount_path = mh_mount_path h,
        st_cache = \<lparr> ca_used_bytes = or_default 0 (fst (total_cache_bytes m d)), ca_quota_bytes = mh_quota_bytes h,
                     ca_pinned_count = or_default 0 (fst (pinned_count m d)) \<rparr>,
        st_queue = queue\<lparr>qs_consecutive_failures := h_upload_failures health, qs_last_error := h_upload_error health,
                         qs_last_failure_unix := h_upload_unix health\<rparr>,
        st_poller = mh_poller h,
        st_hydration = \<lparr> hs_active = or_default 0 (fst (count_by_status m Hydrating d)),
                         hs_waiters = (\<Sum>i\<in>dom (mh_waiters h). length (the (mh_waiters h i))),
                         hs_consecutive_failures = h_hydration_failures health, hs_last_error = h_hydration_error health,
                         hs_last_failure_unix = h_hydration_unix health, hs_in_flight = ran (ht_in_flight (mh_tracker h)) \<rparr>,
        st_conflicts = or_default 0 (fst (count_conflicts m d)) \<rparr>)"

definition daemon_snapshot :: "string \<Rightarrow> nat \<Rightarrow> nat \<Rightarrow> mount_handle list \<Rightarrow> queue_status option list \<Rightarrow> daemon_status" where
  "daemon_snapshot version pid uptime hs answers =
     \<lparr> ds_version = version, ds_pid = pid, ds_uptime_secs = uptime,
       ds_mounts = map (\<lambda>(h, a). collect_mount_status h (queue_snapshot_or_busy a)) (zip hs answers) \<rparr>"

text \<open>A request on the socket: the answer or an error text.\<close>

definition dispatch :: "string \<Rightarrow> daemon_status \<Rightarrow> string + daemon_status" where
  "dispatch op snap = (if op = ''status'' then Inr snap else Inl (''unknown op: '' @ op))"

section \<open>The metrics page\<close>

definition newline :: char where
  "newline = CHR 0x0A"

definition quote :: char where
  "quote = CHR 0x22"

definition backslash :: char where
  "backslash = CHR 0x5C"

definition escape_char :: "char \<Rightarrow> string" where
  "escape_char c = (if c = backslash then [backslash, backslash] else if c = quote then [backslash, quote]
     else if c = newline then [backslash, CHR ''n''] else [c])"

definition escape_label :: "string \<Rightarrow> string" where
  "escape_label s = concat (map escape_char s)"

definition escape_help :: "string \<Rightarrow> string" where
  "escape_help s = concat (map (\<lambda>c. if c = backslash then [backslash, backslash] else if c = newline then [backslash, CHR ''n''] else [c]) s)"

text \<open>The lines of the page; each is written with \<open>writeln!\<close>.\<close>

definition metric_help :: "string \<Rightarrow> string \<Rightarrow> string" where
  "metric_help name help = ''# HELP '' @ name @ '' '' @ escape_help help"

definition metric_type :: "string \<Rightarrow> string \<Rightarrow> string" where
  "metric_type name ty = ''# TYPE '' @ name @ '' '' @ ty"

definition mount_sample :: "string \<Rightarrow> string \<Rightarrow> string \<Rightarrow> string" where
  "mount_sample name mount v = name @ ''{mount='' @ [quote] @ escape_label mount @ [quote] @ ''} '' @ v"

definition emit_mount_gauge :: "daemon_status \<Rightarrow> string \<times> string \<times> (mount_status \<Rightarrow> nat) \<Rightarrow> string list" where
  "emit_mount_gauge s g = (case g of (name, help, f) \<Rightarrow>
     [metric_help name help, metric_type name ''gauge'']
     @ map (\<lambda>m. mount_sample name (st_name m) (nat_to_string (f m))) (ds_mounts s))"

definition mount_gauges :: "(string \<times> string \<times> (mount_status \<Rightarrow> nat)) list" where
  "mount_gauges = [
    (''stratosync_mount_cache_used_bytes'', ''Bytes currently held in the local cache for this mount.'', \<lambda>m. ca_used_bytes (st_cache m)),
    (''stratosync_mount_cache_quota_bytes'', ''Configured cache quota for this mount in bytes.'', \<lambda>m. ca_quota_bytes (st_cache m)),
    (''stratosync_mount_pinned_files'', ''Number of files pinned for offline availability.'', \<lambda>m. ca_pinned_count (st_cache m)),
    (''stratosync_mount_upload_queue_pending'', ''Files waiting to be uploaded.'', \<lambda>m. qs_pending (st_queue m)),
    (''stratosync_mount_upload_queue_in_flight'', ''Files currently being uploaded.'', \<lambda>m. length (qs_in_flight (st_queue m))),
    (''stratosync_mount_upload_queue_busy'',
      ''1 when the upload loop did not answer the status snapshot in time; pending/in_flight are then unknown, not zero.'',
      \<lambda>m. of_bool (qs_busy (st_queue m))),
    (''stratosync_mount_upload_consecutive_failures'', ''Upload failures since the last success. Non-zero means uploads are stalling.'',
      \<lambda>m. qs_consecutive_failures (st_queue m)),
    (''stratosync_mount_hydration_active'', ''Files currently downloading from the remote.'', \<lambda>m. hs_active (st_hydration m)),
    (''stratosync_mount_hydration_waiters'', ''Total open() callers blocked on a hydration.'', \<lambda>m. hs_waiters (st_hydration m)),
    (''stratosync_mount_hydration_consecutive_failures'', ''Hydration failures since the last success. Non-zero means downloads are stalling.'',
      \<lambda>m. hs_consecutive_failures (st_hydration m)),
    (''stratosync_mount_conflicts'', ''Number of conflict files present for this mount.'', \<lambda>m. st_conflicts m),
    (''stratosync_mount_poller_consecutive_failures'', ''Poll failures since the last success. Zero means the last poll succeeded.'',
      \<lambda>m. ps_consecutive_failures (st_poller m)),
    (''stratosync_mount_poller_interval_seconds'', ''Current polling interval. May exceed the configured value during backoff.'',
      \<lambda>m. ps_current_interval_secs (st_poller m))]"

abbreviation last_poll_metric :: string where
  "last_poll_metric \<equiv> ''stratosync_mount_poller_last_poll_timestamp_seconds''"

definition daemon_gauge :: "string \<Rightarrow> string \<Rightarrow> string \<Rightarrow> string list" where
  "daemon_gauge name help sample = [metric_help name help, metric_type name ''gauge'', name @ sample]"

definition metric_lines :: "daemon_status \<Rightarrow> string list" where
  "metric_lines s =
     daemon_gauge ''stratosync_build_info'' ''Build information about the daemon. Always 1.''
       (''{version='' @ [quote] @ escape_label (ds_version s) @ [quote] @ ''} 1'')
     @ daemon_gauge ''stratosync_daemon_uptime_seconds'' ''Seconds since the daemon started.'' ('' '' @ nat_to_string (ds_uptime_secs s))
     @ daemon_gauge ''stratosync_daemon_pid'' ''Process ID of the daemon.'' ('' '' @ nat_to_string (ds_pid s))
     @ daemon_gauge ''stratosync_mounts_total'' ''Number of configured mounts in the daemon.'' ('' '' @ nat_to_string (length (ds_mounts s)))
     @ concat (map (emit_mount_gauge s) mount_gauges)
     @ [metric_help last_poll_metric ''Unix timestamp of the most recent successful poll. Absent if the mount has not polled yet.'',
        metric_type last_poll_metric ''gauge'']
     @ List.map_filter (\<lambda>m. map_option (\<lambda>ts. mount_sample last_poll_metric (st_name m) (int_to_string ts)) (ps_last_poll_unix (st_poller m))) (ds_mounts s)"

definition render_prometheus :: "daemon_status \<Rightarrow> string" where
  "render_prometheus s = concat (map (\<lambda>l. l @ [newline]) (metric_lines s))"

text \<open>\<open>METHOD PATH VERSION\<close>, separated by white space.\<close>

definition str_words :: "string \<Rightarrow> string list" where
  "str_words s = filter (\<lambda>w. w \<noteq> []) (split_on (CHR '' '') (map (\<lambda>c. if is_space c then CHR '' '' else c) s))"

definition parse_request_line :: "string \<Rightarrow> (string \<times> string) option" where
  "parse_request_line line = (case str_words line of meth # path # ver # _ \<Rightarrow> Some (meth, path) | _ \<Rightarrow> None)"

text \<open>Status, body and content type of the answer.\<close>

definition answer_request :: "string \<Rightarrow> daemon_status \<Rightarrow> nat \<times> string \<times> string" where
  "answer_request first snap =
     (case parse_request_line first of
        Some (meth, path) \<Rightarrow>
          (if meth = ''GET'' \<and> path = ''/metrics'' then (200, render_prometheus snap, ''text/plain; version=0.0.4; charset=utf-8'')
           else if meth = ''GET'' \<and> path = ''/'' then (200, ''stratosync metrics - try /metrics'' @ [newline], ''text/plain; charset=utf-8'')
           else (404, ''not found'' @ [newline], ''text/plain; charset=utf-8''))
      | None \<Rightarrow> (400, ''bad request'' @ [newline], ''text/plain; charset=utf-8''))"

section \<open>A scraper reads back what was reported\<close>

text \<open>The reader of a sample line with the label \<open>mount\<close>, after the text format of Prometheus.\<close>

fun read_label :: "string \<Rightarrow> (string \<times> string) option" where
  "read_label [] = None"
| "read_label (c # cs) =
     (if c = quote then Some ([], cs)
      else if c = backslash then
        (case cs of [] \<Rightarrow> None
         | e # r \<Rightarrow> map_option (\<lambda>(l, t). ((if e = CHR ''n'' then newline else e) # l, t)) (read_label r))
      else map_option (\<lambda>(l, t). (c # l, t)) (read_label cs))"

definition parse_sample :: "string \<Rightarrow> (string \<times> string \<times> string) option" where
  "parse_sample line =
     (case strip_prefix (''{mount='' @ [quote]) (dropWhile (\<lambda>c. c \<noteq> CHR ''{'') line) of
        None \<Rightarrow> None
      | Some r \<Rightarrow> (case read_label r of
          None \<Rightarrow> None
        | Some (mount, t) \<Rightarrow> map_option (\<lambda>v. (takeWhile (\<lambda>c. c \<noteq> CHR ''{'') line, mount, v)) (strip_prefix ''} '' t)))"

definition scrape :: "string \<Rightarrow> (string \<times> string \<times> string) list" where
  "scrape page = List.map_filter parse_sample (split_on newline page)"

definition reported :: "daemon_status \<Rightarrow> (string \<times> string \<times> string) list" where
  "reported s = concat (map (\<lambda>(name, _, f). map (\<lambda>m. (name, st_name m, nat_to_string (f m))) (ds_mounts s)) mount_gauges)
     @ List.map_filter (\<lambda>m. map_option (\<lambda>ts. (last_poll_metric, st_name m, int_to_string ts)) (ps_last_poll_unix (st_poller m))) (ds_mounts s)"

lemmas char_defs = newline_def quote_def backslash_def

lemma read_escaped: "read_label (escape_label l @ quote # t) = Some (l, t)"
  by (induction l) (auto simp: escape_label_def escape_char_def char_defs)

lemma escape_label_lines: "newline \<notin> set (escape_label l)"
  by (auto simp: escape_label_def escape_char_def char_defs)

lemma escape_help_lines: "newline \<notin> set (escape_help l)"
  by (auto simp: escape_help_def char_defs)

lemma parse_mount_sample: "CHR ''{'' \<notin> set name \<Longrightarrow> parse_sample (mount_sample name mount v) = Some (name, mount, v)"
  by (simp add: parse_sample_def mount_sample_def strip_prefix_def read_escaped dropWhile_append takeWhile_append)

text \<open>A page of lines without line breaks splits into these lines.\<close>

lemma split_page:
  "\<forall>l\<in>set ls. newline \<notin> set l \<Longrightarrow> split_on newline (concat (map (\<lambda>l. l @ [newline]) ls)) = ls @ [[]]"
  by (induction ls) (simp_all add: split_on_append split_on_none)

lemma escape_help_set: "CHR ''{'' \<notin> set help \<Longrightarrow> CHR ''{'' \<notin> set (escape_help help)"
  by (auto simp: escape_help_def char_defs split: if_splits)

lemma parse_no_brace: "CHR ''{'' \<notin> set l \<Longrightarrow> parse_sample l = None"
proof -
  assume "CHR ''{'' \<notin> set l"
  then have d: "dropWhile (\<lambda>c. c \<noteq> CHR ''{'') l = []" unfolding dropWhile_eq_Nil_conv by blast
  show ?thesis unfolding parse_sample_def d by (simp add: strip_prefix_def)
qed

lemma digits_plain: "newline \<notin> set (nat_to_string n)" "CHR ''{'' \<notin> set (nat_to_string n)" "newline \<notin> set (int_to_string i)"
proof -
  show "newline \<notin> set (nat_to_string n)" for n using nat_to_string_digits [of newline n] by (auto simp: is_digit_def newline_def)
  then show "newline \<notin> set (int_to_string i)" by (simp add: int_to_string_def) (simp add: newline_def)
  show "CHR ''{'' \<notin> set (nat_to_string n)" using nat_to_string_digits [of "CHR ''{''" n] by (auto simp: is_digit_def)
qed

text \<open>The names and help texts are plain.\<close>

definition plain :: "string \<Rightarrow> bool" where
  "plain t \<longleftrightarrow> newline \<notin> set t \<and> CHR ''{'' \<notin> set t"

lemma gauges_plain: "(name, help, f) \<in> set mount_gauges \<Longrightarrow> plain name \<and> plain help"
  by (auto simp: mount_gauges_def plain_def newline_def)

lemma header_lines:
  assumes "plain name" "plain h"
  shows "newline \<notin> set (metric_help name h)" "parse_sample (metric_help name h) = None"
    "newline \<notin> set (metric_type name ''gauge'')" "parse_sample (metric_type name ''gauge'') = None"
  using assms escape_help_lines [of h] escape_help_set [of h]
  by (auto simp: metric_help_def metric_type_def plain_def newline_def intro!: parse_no_brace)

lemma sample_lines: "plain name \<Longrightarrow> newline \<notin> set v \<Longrightarrow> newline \<notin> set (mount_sample name mount v)"
  using escape_label_lines [of mount] by (auto simp: mount_sample_def plain_def char_defs)

lemma gauge_scrape:
  assumes "(name, help, f) \<in> set mount_gauges"
  shows "List.map_filter parse_sample (emit_mount_gauge s (name, help, f)) = map (\<lambda>m. (name, st_name m, nat_to_string (f m))) (ds_mounts s)"
    and "l \<in> set (emit_mount_gauge s (name, help, f)) \<Longrightarrow> newline \<notin> set l"
proof -
  have p: "plain name" "plain help" using gauges_plain [OF assms] by simp_all
  have "List.map_filter parse_sample (map (\<lambda>m. mount_sample name (st_name m) (nat_to_string (f m))) ms) = map (\<lambda>m. (name, st_name m, nat_to_string (f m))) ms" for ms
    using p by (induction ms) (simp_all add: List.map_filter_def parse_mount_sample plain_def)
  then show "List.map_filter parse_sample (emit_mount_gauge s (name, help, f)) = map (\<lambda>m. (name, st_name m, nat_to_string (f m))) (ds_mounts s)"
    using header_lines [OF p] by (simp add: emit_mount_gauge_def map_filter_append List.map_filter_def)
  show "l \<in> set (emit_mount_gauge s (name, help, f)) \<Longrightarrow> newline \<notin> set l"
    using header_lines [OF p] sample_lines [OF p(1)] digits_plain by (auto simp: emit_mount_gauge_def)
qed

lemma daemon_gauge_scrape:
  assumes "plain name" "plain h" "newline \<notin> set sample" "parse_sample (name @ sample) = None"
  shows "List.map_filter parse_sample (daemon_gauge name h sample) = []" "l \<in> set (daemon_gauge name h sample) \<Longrightarrow> newline \<notin> set l"
  using assms header_lines [OF assms(1,2)] by (auto simp: daemon_gauge_def List.map_filter_def plain_def)

lemma gauges_scrape:
  "set gs \<subseteq> set mount_gauges \<Longrightarrow> List.map_filter parse_sample (concat (map (emit_mount_gauge s) gs))
     = concat (map (\<lambda>(name, _, f). map (\<lambda>m. (name, st_name m, nat_to_string (f m))) (ds_mounts s)) gs)"
proof (induction gs)
  case (Cons g gs)
  obtain name h f where g: "g = (name, h, f)" by (cases g)
  show ?case using Cons gauge_scrape(1) [of name h f s] by (simp add: map_filter_append g)
qed (simp add: List.map_filter_def)

lemma last_poll_scrape:
  "List.map_filter parse_sample (List.map_filter (\<lambda>m. map_option (\<lambda>ts. mount_sample last_poll_metric (st_name m) (int_to_string ts)) (ps_last_poll_unix (st_poller m))) ms)
     = List.map_filter (\<lambda>m. map_option (\<lambda>ts. (last_poll_metric, st_name m, int_to_string ts)) (ps_last_poll_unix (st_poller m))) ms"
  by (induction ms) (auto simp: List.map_filter_simps parse_mount_sample split: option.split)

lemma plain_daemon:
  "plain ''stratosync_build_info''" "plain ''Build information about the daemon. Always 1.''"
  "plain ''stratosync_daemon_uptime_seconds''" "plain ''Seconds since the daemon started.''"
  "plain ''stratosync_daemon_pid''" "plain ''Process ID of the daemon.''"
  "plain ''stratosync_mounts_total''" "plain ''Number of configured mounts in the daemon.''"
  "plain last_poll_metric" "plain ''Unix timestamp of the most recent successful poll. Absent if the mount has not polled yet.''"
  by (simp_all add: plain_def newline_def)

lemma version_sample: "parse_sample (''stratosync_build_info'' @ ''{version='' @ x) = None"
  by (simp add: parse_sample_def strip_prefix_def)

lemma number_sample: "plain name \<Longrightarrow> parse_sample (name @ '' '' @ nat_to_string n) = None"
  using digits_plain(2) [of n] by (intro parse_no_brace) (simp add: plain_def)

text \<open>
  C40: whatever the mounts are called, a scraper that reads the metrics page gets
  exactly the reported values of every mount, in order: no name of a mount and no
  version can break a line or a label.
\<close>

theorem metrics_scrape_round_trip: "scrape (render_prometheus s) = reported s"
proof -
  let ?v = "''{version='' @ [quote] @ escape_label (ds_version s) @ [quote] @ ''} 1''"
  have v: "newline \<notin> set ?v" using escape_label_lines by (auto simp: char_defs)
  have num: "newline \<notin> set ('' '' @ nat_to_string n)" for n using digits_plain(1) [of n] by (simp add: newline_def)
  note d = daemon_gauge_scrape [OF plain_daemon(1,2) v version_sample]
    daemon_gauge_scrape [OF plain_daemon(3,4) num number_sample [OF plain_daemon(3)]]
    daemon_gauge_scrape [OF plain_daemon(5,6) num number_sample [OF plain_daemon(5)]]
    daemon_gauge_scrape [OF plain_daemon(7,8) num number_sample [OF plain_daemon(7)]]
    header_lines [OF plain_daemon(9,10)]
  have "newline \<notin> set l" if "l \<in> set (metric_lines s)" for l
  proof -
    have "newline \<notin> set l" if "l \<in> set (concat (map (emit_mount_gauge s) mount_gauges))"
      using that gauge_scrape(2) by fastforce
    moreover have "newline \<notin> set (mount_sample last_poll_metric n (int_to_string ts))" for n ts
      by (rule sample_lines [OF plain_daemon(9) digits_plain(3)])
    ultimately show ?thesis using that d unfolding metric_lines_def by (auto simp: in_map_filter simp del: set_concat)
  qed
  then have "scrape (render_prometheus s) = List.map_filter parse_sample (metric_lines s @ [[]])"
    unfolding scrape_def render_prometheus_def by (subst split_page) auto
  also have "\<dots> = reported s"
    unfolding metric_lines_def reported_def map_filter_append gauges_scrape [OF order_refl] last_poll_scrape d(1,3,5,7)
    using parse_no_brace [of "[]"] by (simp add: List.map_filter_simps header_lines [OF plain_daemon(9,10)])
  finally show ?thesis .
qed

text \<open>A failed poll sets the time that the page shows as that of the last successful poll.\<close>

lemma failed_poll_counts_as_poll: "ps_last_poll_unix (update_state now False err interval failures st) = Some now"
  by (simp add: update_state_def)

text \<open>A queue that does not answer is reported as busy, with the upload health of the database.\<close>

lemma unanswered_queue_is_busy:
  "qs_busy (st_queue (collect_mount_status h (queue_snapshot_or_busy None)))"
  by (simp add: collect_mount_status_def queue_snapshot_or_busy_def Let_def)

end
