(* ===== verification/Tray.thy ===== *)
theory Tray
  imports Status Settings
begin

text \<open>
  The tray indicator (\<open>stratosync-tray/src/main.rs\<close>): it reads the databases of the
  mounts with queries of its own and shows an icon, a text and a menu.  The text
  of \<open>/proc/mounts\<close> and the existence of a database file are parameters; the desktop
  protocol is outside.  The last section holds the cells of the terminal dashboard
  (\<open>stratosync-cli/src/commands/dashboard.rs\<close>) that decide or compute something.
\<close>

section \<open>Status of a mount\<close>

definition HYDRATION_DEGRADED_THRESHOLD :: nat where
  "HYDRATION_DEGRADED_THRESHOLD = 3"

definition UPLOAD_DEGRADED_THRESHOLD :: nat where
  "UPLOAD_DEGRADED_THRESHOLD = 3"

record tray_mount =
  tm_name        :: string
  tm_enabled     :: bool
  tm_cache_used  :: nat
  tm_cache_quota :: nat
  tm_syncing     :: nat
  tm_conflicts   :: nat
  tm_pinned      :: nat
  tm_mounted     :: bool
  tm_hydration_failures :: nat
  tm_hydration_error    :: "string option"
  tm_upload_failures    :: nat
  tm_upload_error       :: "string option"

definition is_hydration_degraded :: "tray_mount \<Rightarrow> bool" where
  "is_hydration_degraded m \<longleftrightarrow> HYDRATION_DEGRADED_THRESHOLD \<le> tm_hydration_failures m"

definition is_upload_degraded :: "tray_mount \<Rightarrow> bool" where
  "is_upload_degraded m \<longleftrightarrow> UPLOAD_DEGRADED_THRESHOLD \<le> tm_upload_failures m"

definition is_degraded :: "tray_mount \<Rightarrow> bool" where
  "is_degraded m \<longleftrightarrow> is_hydration_degraded m \<or> is_upload_degraded m"

definition icon_name :: "tray_mount list \<Rightarrow> string" where
  "icon_name ms =
     (if list_ex (\<lambda>m. tm_conflicts m > 0) ms then ''dialog-warning''
      else if list_ex is_degraded ms then ''dialog-warning''
      else if list_ex (\<lambda>m. tm_syncing m > 0) ms then ''sync-synchronizing''
      else if list_ex tm_mounted ms then ''folder-cloud''
      else ''cloud-offline'')"

text \<open>What is stalled on one mount; \<open>None\<close> is the branch marked \<open>unreachable!\<close>.\<close>

definition stalled_side :: "tray_mount \<Rightarrow> (string \<times> nat) option" where
  "stalled_side m = (case (is_upload_degraded m, is_hydration_degraded m) of
       (True, True) \<Rightarrow> Some (''transfers'', max (tm_upload_failures m) (tm_hydration_failures m))
     | (True, False) \<Rightarrow> Some (''upload'', tm_upload_failures m)
     | (False, True) \<Rightarrow> Some (''download'', tm_hydration_failures m)
     | (False, False) \<Rightarrow> None)"

definition tooltip :: "tray_mount list \<Rightarrow> string option" where
  "tooltip ms =
     (let syncing = sum_list (map tm_syncing ms); conflicts = sum_list (map tm_conflicts ms); stalled = filter is_degraded ms in
      if conflicts > 0 then Some (''stratosync: '' @ nat_to_string conflicts @ '' conflict(s)'')
      else case stalled of
        [m] \<Rightarrow> map_option (\<lambda>(side, n). ''stratosync: '' @ side @ '' stalled on '' @ tm_name m @ '' ('' @ nat_to_string n @ '' fail(s))'') (stalled_side m)
      | _ # _ \<Rightarrow> Some (''stratosync: transfers stalled on '' @ nat_to_string (length stalled) @ '' mount(s)'')
      | [] \<Rightarrow> Some (if syncing > 0 then ''stratosync: syncing '' @ nat_to_string syncing @ '' file(s)'' else ''stratosync: idle''))"

text \<open>The lines of the menu above the separator; \<open>fmt\<close> prints a number of bytes.\<close>

definition menu_lines :: "(nat \<Rightarrow> string) \<Rightarrow> tray_mount \<Rightarrow> string list" where
  "menu_lines fmt m =
     (let err = (\<lambda>e. take 80 (case e of Some x \<Rightarrow> x | None \<Rightarrow> ''(unknown error)'')) in
      [tm_name m @ '': '' @ fmt (tm_cache_used m) @ '' cached'' @
        (if tm_syncing m > 0 then '', '' @ nat_to_string (tm_syncing m) @ '' syncing'' else [])]
      @ (if tm_conflicts m > 0 then [''  '' @ nat_to_string (tm_conflicts m) @ '' conflict(s)''] else [])
      @ (if is_hydration_degraded m
         then [''  download stalled ('' @ nat_to_string (tm_hydration_failures m) @ '' fail(s)): '' @ err (tm_hydration_error m)] else [])
      @ (if is_upload_degraded m
         then [''  upload stalled ('' @ nat_to_string (tm_upload_failures m) @ '' fail(s)): '' @ err (tm_upload_error m)] else [])
      @ (if tm_pinned m > 0 then [''  '' @ nat_to_string (tm_pinned m) @ '' pinned''] else []))"

section \<open>Polling\<close>

definition is_fuse_mounted :: "string option \<Rightarrow> path \<Rightarrow> bool" where
  "is_fuse_mounted proc_mounts path = (case proc_mounts of
     None \<Rightarrow> False
   | Some content \<Rightarrow> list_ex (\<lambda>line. contains_str line ''fuse'' \<and> contains_str line path) (str_lines content))"

text \<open>\<open>None\<close> for the database: there is no file, or it cannot be opened.\<close>

definition poll_mount :: "(string \<Rightarrow> 'f option) \<Rightarrow> ('f \<Rightarrow> nat \<Rightarrow> nat) \<Rightarrow> user_env \<Rightarrow> string option \<Rightarrow> db option \<Rightarrow> 'f mount_settings \<Rightarrow> tray_mount" where
  "poll_mount pf sc U proc_mounts database mount =
     (let ms = \<lparr> tm_name = mc_name mount, tm_enabled = ms_enabled mount, tm_cache_used = 0,
            tm_cache_quota = (case cache_quota_bytes pf sc mount of Inr q \<Rightarrow> q | Inl _ \<Rightarrow> 0),
            tm_syncing = 0, tm_conflicts = 0, tm_pinned = 0,
            tm_mounted = is_fuse_mounted proc_mounts (expand_tilde U (resolved_mount_path U mount)),
            tm_hydration_failures = 0, tm_hydration_error = None, tm_upload_failures = 0, tm_upload_error = None \<rparr> in
      case database of
        None \<Rightarrow> ms
      | Some d \<Rightarrow>
          (case find (\<lambda>x. m_name x = mc_name mount) (mounts d) of
             None \<Rightarrow> ms
           | Some mt \<Rightarrow>
               if m_id mt = 0 then ms
               else (let m = m_id mt; rows = filter (\<lambda>r. r_mount_id r = m) (file_index d);
                         ms1 = ms\<lparr>tm_cache_used := sum_list (List.map_filter r_cache_size rows),
                                  tm_syncing := length (filter (\<lambda>r. r_status r \<in> {Dirty, Uploading}) rows),
                                  tm_conflicts := length (filter (\<lambda>r. r_status r = Conflict \<or> sql_like ''%.conflict.%'' (r_name r)) rows),
                                  tm_pinned := length [(l, r). l \<leftarrow> cache_lru d, r \<leftarrow> file_index d, l_inode l = r_inode r, r_mount_id r = m \<and> l_pinned l]\<rparr>
                     in case kt_lookup h_mount_id m (mount_health d) of
                          None \<Rightarrow> ms1
                        | Some h \<Rightarrow> ms1\<lparr>tm_hydration_failures := h_hydration_failures h, tm_hydration_error := h_hydration_error h,
                                        tm_upload_failures := h_upload_failures h, tm_upload_error := h_upload_error h\<rparr>)))"

definition poll_status :: "('f mount_settings \<Rightarrow> tray_mount) \<Rightarrow> 'f mount_settings list option \<Rightarrow> tray_mount list" where
  "poll_status poll cfg = (case cfg of None \<Rightarrow> [] | Some ms \<Rightarrow> map poll (filter ms_enabled ms))"

section \<open>Laws\<close>

text \<open>The branch marked \<open>unreachable!\<close> is not reached: the text is always there.\<close>

lemma tooltip_total: "tooltip ms \<noteq> None"
proof (cases "filter is_degraded ms")
  case (Cons m rest)
  have "is_degraded m" using Cons filter_set [of is_degraded ms] by (metis filter_eq_ConsD)
  then have "stalled_side m \<noteq> None" by (auto simp: stalled_side_def is_degraded_def split: bool.split)
  then show ?thesis using Cons by (cases rest) (auto simp: tooltip_def Let_def)
qed (simp add: tooltip_def Let_def)

text \<open>The icon warns exactly when the text speaks of conflicts or stalled transfers.\<close>

lemma icon_warns_iff:
  "icon_name ms = ''dialog-warning'' \<longleftrightarrow> sum_list (map tm_conflicts ms) > 0 \<or> filter is_degraded ms \<noteq> []"
proof -
  have "list_ex (\<lambda>m. tm_conflicts m > 0) ms \<longleftrightarrow> sum_list (map tm_conflicts ms) > 0" by (induction ms) auto
  moreover have "list_ex is_degraded ms \<longleftrightarrow> filter is_degraded ms \<noteq> []" by (induction ms) auto
  ultimately show ?thesis unfolding icon_name_def by simp
qed

text \<open>
  The tray asks the database itself; on a well-formed database its numbers are
  those that the daemon reports.
\<close>

lemma sum_known: "sum_list (List.map_filter f xs) = sum_list (map (\<lambda>x. case f x of None \<Rightarrow> 0 | Some n \<Rightarrow> (n :: nat)) xs)"
  by (induction xs) (auto simp: List.map_filter_simps split: option.split)

lemma joined_pairs:
  assumes "distinct (map k rows)"
  shows "length [(l, r). l \<leftarrow> ls, r \<leftarrow> rows, j l = k r, P l r] = length (filter (\<lambda>l. \<exists>r\<in>set rows. k r = j l \<and> P l r) ls)"
proof (induction ls)
  case (Cons l ls)
  have "length (concat (map (\<lambda>r. if j l = k r then if P l r then [(l, r)] else [] else []) rows)) = length (filter (\<lambda>r. k r = j l \<and> P l r) rows)"
    by (induction rows) auto
  also have "\<dots> = (if \<exists>r\<in>set rows. k r = j l \<and> P l r then 1 else 0)"
  proof (cases "\<exists>r\<in>set rows. k r = j l \<and> P l r")
    case True
    then obtain r where r: "r \<in> set rows" "k r = j l" "P l r" by blast
    have "filter (\<lambda>x. k x = k r) rows = [r]" by (rule filter_key_single [OF assms r(1)])
    then have "filter (\<lambda>x. P l x) (filter (\<lambda>x. k x = k r) rows) = [r]" using r(3) by simp
    then have "filter (\<lambda>x. k x = j l \<and> P l x) rows = [r]" using r(2) by (simp add: conj_commute)
    then show ?thesis using True by simp
  next
    case False
    then show ?thesis by (auto simp: filter_empty_conv)
  qed
  finally show ?case using Cons by simp
qed simp

theorem tray_agrees_with_daemon:
  assumes wf: "db_wf d" and mt: "find (\<lambda>x. m_name x = mc_name mount) (mounts d) = Some mt" "m_id mt \<noteq> 0"
    and h: "mh_db h = d" "mh_mount_id h = m_id mt"
    and t: "t = poll_mount pf sc U proc_mounts (Some d) mount" and st: "st = collect_mount_status h q"
  shows "tm_cache_used t = ca_used_bytes (st_cache st)" "tm_conflicts t = st_conflicts st" "tm_pinned t = ca_pinned_count (st_cache st)"
    "tm_hydration_failures t = hs_consecutive_failures (st_hydration st)" "tm_upload_failures t = qs_consecutive_failures (st_queue st)"
proof -
  have "length [(l, r). l \<leftarrow> cache_lru d, r \<leftarrow> file_index d, l_inode l = r_inode r, r_mount_id r = m_id mt \<and> l_pinned l]
      = length (filter (\<lambda>l. \<exists>r\<in>set (file_index d). r_inode r = l_inode l \<and> r_mount_id r = m_id mt \<and> l_pinned l) (cache_lru d))"
    by (rule joined_pairs) (use wf in \<open>simp add: db_wf_def files_wf_def unique_ok_def\<close>)
  also have "\<dots> = length (filter (\<lambda>l. l_pinned l \<and> list_ex (\<lambda>r. r_inode r = l_inode l \<and> r_mount_id r = m_id mt) (file_index d)) (cache_lru d))"
    by (rule arg_cong [where f = length], rule filter_cong) (auto simp: list_ex_iff)
  finally show "tm_pinned t = ca_pinned_count (st_cache st)"
    using mt by (simp add: t st h poll_mount_def collect_mount_status_def pinned_count_def or_default_def Let_def split: option.split)
  show "tm_cache_used t = ca_used_bytes (st_cache st)"
    using mt by (simp add: t st h poll_mount_def collect_mount_status_def total_cache_bytes_def or_default_def Let_def sum_known split: option.split)
  show "tm_conflicts t = st_conflicts st"
    using mt by (simp add: t st h poll_mount_def collect_mount_status_def count_conflicts_def or_default_def Let_def conj_commute split: option.split)
  show "tm_hydration_failures t = hs_consecutive_failures (st_hydration st)" "tm_upload_failures t = qs_consecutive_failures (st_queue st)"
    using mt by (simp_all add: t st h poll_mount_def collect_mount_status_def get_mount_health_def no_health_def or_default_def Let_def split: option.split)
qed

text \<open>The mount is looked for as a part of a line: another mount whose path continues it counts.\<close>

lemma other_mount_counts_as_mounted: "is_fuse_mounted (Some ''stratosync /home/u/docs fuse rw 0 0'') ''/home/u/d''"
  by code_simp

section \<open>Cells of the dashboard\<close>

datatype mount_label = LabelOk | LabelRetry | LabelHalt

definition status_label :: "mount_status \<Rightarrow> mount_label" where
  "status_label m =
     (let worst = max (max (ps_consecutive_failures (st_poller m)) (hs_consecutive_failures (st_hydration m))) (qs_consecutive_failures (st_queue m))
      in if worst = 0 then LabelOk else if worst \<le> 9 then LabelRetry else LabelHalt)"

definition fmt_duration :: "nat \<Rightarrow> string" where
  "fmt_duration secs =
     (let h = secs div 3600; m = secs mod 3600 div 60; s = secs mod 60 in
      if h > 0 then nat_to_string h @ ''h '' @ nat_to_string m @ ''m''
      else if m > 0 then nat_to_string m @ ''m '' @ nat_to_string s @ ''s''
      else nat_to_string s @ ''s'')"

text \<open>The last \<open>lim - 1\<close> bytes after an ellipsis; \<open>None\<close> is the panic of a slice inside a character.\<close>

definition truncate_path :: "string \<Rightarrow> nat \<Rightarrow> string option" where
  "truncate_path s lim =
     (if length s \<le> lim then Some s
      else (let start = length s - (lim - 1) in
        if is_char_boundary s start then Some ([CHR 0xE2, CHR 0x80, CHR 0xA6] @ drop start s) else None))"

lemma label_ok_iff:
  "status_label m = LabelOk \<longleftrightarrow> ps_consecutive_failures (st_poller m) = 0 \<and> hs_consecutive_failures (st_hydration m) = 0
     \<and> qs_consecutive_failures (st_queue m) = 0"
  by (auto simp: status_label_def Let_def)

text \<open>A shortened path keeps its last bytes and is at most two bytes longer than asked for.\<close>

lemma truncate_length:
  "truncate_path s lim = Some t \<Longrightarrow> 0 < lim \<Longrightarrow> length t \<le> lim + 2 \<and> suffix (drop (length s - (lim - 1)) s) t"
  by (auto simp: truncate_path_def Let_def suffix_drop intro: suffix_ConsI split: if_splits)

text \<open>An accented letter at the cut makes the dashboard panic.\<close>

lemma truncate_panics: "truncate_path (''x'' @ [CHR 0xC3, CHR 0xA9] @ replicate 38 (CHR ''a'')) 40 = None"
  by code_simp

end
