(* ===== verification/Spec2Isabelle.thy ===== *)
theory Spec2Isabelle
  imports Reconcile Cache_Manager Upload_Run Poller_Work Fuse_Dir Rclone_Laws Cli_Conflict_Laws Delta_Laws Startup Cli_Files Webdav Tray
begin

text \<open>
  A verification of stratosync, a FUSE daemon that shows a cloud storage as a local
  file system.  This theory gathers the others; the properties stand in the
  theories of the components they are about.

  \<^bold>\<open>The program.\<close>  Per mount the daemon keeps one SQLite database
  (\<open>stratosync-core/src/state\<close>) with a row per file, a cache directory with the
  contents that have been downloaded or written, and a store of base versions
  below it.  A row goes through the states remote, hydrating, cached, stale, dirty,
  uploading and conflict.  The file system callbacks (\<open>daemon/src/fuse\<close>) read and
  change rows and cache files and hand downloads, remote changes and uploads to
  background tasks.  The upload queue (\<open>daemon/src/sync/upload_queue.rs\<close>) collects
  triggers, waits out a debounce time and uploads dirty files; an upload that
  meets a changed remote goes to the conflict resolver (\<open>sync/conflict.rs\<close>).  The
  poller (\<open>sync/poller.rs\<close>) brings remote changes into the database, from full
  listings or from a change feed (\<open>core/src/backend/delta.rs\<close>).  The cache manager
  (\<open>daemon/src/cache\<close>) evicts cached files, the reconciler removes orphans at the
  start, the watcher turns changes of the cache directory into upload triggers.
  The command line tool works beside the daemon on the same database and cache.
  All remote access goes through the \<open>Backend\<close> trait.

  \<^bold>\<open>Shape of the model.\<close>  A fallible operation is a function from a state to an
  error or a result together with the state it leaves (\<open>Prelude\<close>): effects that
  precede an error stay.  \<open>keeps I m\<close> says that \<open>m\<close> keeps \<open>I\<close> on success and on every
  error path; the collection \<open>keeps_rules\<close> carries these facts through the code.
  The states grow by layers: the database \<open>db\<close>, the \<open>world\<close> (database, files, blobs,
  faults), the \<open>site\<close> (a world with a remote) and \<open>fs\<close> (a world with handles, tasks
  and the bookkeeping of downloads).  Concurrency is an interleaving of whole
  operations where the code holds the database lock, and explicit steps where it
  awaits in between; the theorems about races name the two halves.

  \<^bold>\<open>Theories and sources.\<close>

  \<^item> \<open>Prelude\<close>, \<open>Keyed_Table\<close>: the monad, strings and paths of the Rust library, and
    lists as tables with a key.  The locale of keyed tables states what lookup gives
    after an upsert or a removal; it is interpreted on the list tables and used
    for the tables of the database.
  \<^item> \<open>Sync_Types\<close>: \<open>core/src/types\<close>.  \<open>Hashes\<close>: \<open>core/src/hashes.rs\<close>.
  \<^item> \<open>State_Db\<close>, \<open>State_Files\<close>, \<open>State_Aux\<close>: the tables with their keys, foreign keys
    and triggers, and every query and update of \<open>core/src/state/mod.rs\<close>.
    \<open>State_Laws\<close> shows that all operations keep the database well-formed,
    \<open>State_Safety\<close> that remote-driven deletions spare unsynced rows, \<open>State_Tables\<close>
    treats versions, tombstones, cache accounting and renames during uploads.
  \<^item> \<open>World\<close>, \<open>Base_Store\<close>: files and blobs; \<open>core/src/base_store.rs\<close> and
    \<open>daemon/src/sync/versioning.rs\<close>, with the life of blobs that rows refer to.
  \<^item> \<open>Cache_Manager\<close>, \<open>Reconcile\<close>, \<open>Header_Cache\<close>: eviction (it ends, reaches its
    target and spares pinned and unsynced files), removal of orphans (exactly
    these), and the cache of file headers.
  \<^item> \<open>Config\<close>, \<open>Settings\<close>: transfer windows, sizes, durations, the configuration
    structs with defaults and the validation of the command line tool.
  \<^item> \<open>Upload_Queue\<close>, \<open>Upload_Laws\<close>, \<open>Upload_Run\<close>: the queue as a step function with
    its invariant (nothing triggered is lost, the limit holds, an fsync stays
    urgent) and one upload attempt on every outcome.
  \<^item> \<open>Poller\<close>, \<open>Poller_Laws\<close>, \<open>Poller_Sweep\<close>, \<open>Poller_Delta\<close>, \<open>Poller_Work\<close>: full and
    delta polls, what they index, what they remove and what they must not touch,
    and the loop with its back-off.
  \<^item> \<open>Fuse_Base\<close>, \<open>Fuse_Ops\<close>, \<open>Fuse_Hydrate\<close>, \<open>Fuse_Read\<close>, \<open>Fuse_Download\<close>,
    \<open>Fuse_Effects\<close>, \<open>Fuse_Tree\<close>, \<open>Fuse_Laws\<close>, \<open>Fuse_Dir\<close>: the file system callbacks,
    downloads with their waiters and tracker, the background tasks; that writes
    are stored and marked, that downloads settle, that every reachable state is a
    tree, and that directories are listed completely.
  \<^item> \<open>Backend\<close>: the contract of the \<open>Backend\<close> trait as the locale \<open>remote_store\<close>,
    interpreted on the in-memory backend of the source; the resolver and the
    commands are proved against it.  \<open>Rclone\<close>, \<open>Rclone_Laws\<close>, \<open>Rclone_Config\<close>:
    the rclone backend, its watchdog, error texts and preconditions.  \<open>Webdav\<close>: the
    WebDAV backend over a server that is a parameter.
  \<^item> \<open>Delta\<close>, \<open>Delta_Laws\<close>: the Google Drive and OneDrive change feeds.  The locale
    of paged feeds collects the pages of both providers; the Google provider
    refines the abstract tree of the drive.
  \<^item> \<open>Content\<close>, \<open>Conflict\<close>, \<open>Conflict_Laws\<close>, \<open>Conflict_Cases\<close>: comparison, merge and
    the conflict resolver, which loses neither version.
  \<^item> \<open>Cli_Conflicts\<close>, \<open>Cli_Conflict_Laws\<close>, \<open>Cli_Files\<close>: the commands on conflicts, and
    pin, push, restore and cache clear; a restored version is picked up by
    \<open>Watcher\<close> (\<open>daemon/src/watcher\<close>).
  \<^item> \<open>Startup\<close>: the start of a mount in \<open>daemon/src/main.rs\<close>, which recovers from a
    crash.  \<open>Status\<close>: the status snapshot and the metrics page, which is read back
    whatever the mounts are called.  \<open>Tray\<close>: the tray indicator, whose own queries
    agree with the daemon's numbers, and cells of the dashboard.

  \<^bold>\<open>Parameters.\<close>  What is not in the repository is an argument: the rclone process
  and its output, HTTP servers, the encoding and date packages, SHA-256, \<open>git
  merge-file\<close>, JSON and glob parsing, floating point, the directories of the user,
  and the file system's answers where the model does not determine them.  The
  hypotheses on them are named definitions or locale assumptions, and each theorem
  that has one comes with an instance in which it holds.

  \<^bold>\<open>Bounds.\<close>  Loops are recursions with termination proofs.  The walk up the parents
  in the delta provider stops after 100 steps because the code does; reading pages
  of a feed, which may never end, is a partial function into \<open>option\<close>, and the
  theorems state that it returns for a feed that ends.  Times are integers in
  milliseconds or seconds, as in the code.  Sizes that the code stores in 64 bits
  are natural numbers where no overflow is possible at sizes of files, and words
  where the code casts between signed and unsigned.

  \<^bold>\<open>Not modelled.\<close>  The drawing of the terminal dashboard, the desktop protocol of the
  tray and the printing commands have no state of their own; argument parsing, TOML, JSON, logging, sockets and the
  control of processes (\<open>daemon/src/webdav.rs\<close>, \<open>systemctl\<close>) are calls of libraries and
  of the system.  Of the file system, \<open>statfs\<close>, the mounting itself, the notifier of
  the kernel cache, byte progress and semaphores are left out; of the cache clear, the removal of stray files of a mount without a database; of the
  startup, threads and shutdown.
\<close>

end
